(* ===== verification/Saga_Prelude.thy ===== *)
theory Saga_Prelude
  imports Main
begin

text \<open>
  Shared vocabulary of the development: the named collections of rewrite and introduction
  rules the component theories extend, and the generic facts about association-free row
  lists (the model of a database table), sums (the model of Go's \<open>(T, error)\<close> results) and
  options (the model of Go's \<open>error\<close> results, \<open>None\<close> standing for \<open>nil\<close>).
\<close>

named_theorems run_simps \<open>evaluation of programs in the sequential semantics\<close>
named_theorems safe_intros \<open>every atomic action of a program respects a relation\<close>
named_theorems status_simps \<open>the string constants of the domain package are distinct\<close>

section \<open>Row lists\<close>

text \<open>
  A table is a list of rows. \<open>update_rows p f\<close> is an SQL \<open>UPDATE ... SET f WHERE p\<close>.
\<close>

definition update_rows :: "('r \<Rightarrow> bool) \<Rightarrow> ('r \<Rightarrow> 'r) \<Rightarrow> 'r list \<Rightarrow> 'r list" where
  "update_rows p f rows = map (\<lambda>r. if p r then f r else r) rows"

lemma update_rows_Nil [simp]: "update_rows p f [] = []"
  by (simp add: update_rows_def)

lemma update_rows_Cons [simp]:
  "update_rows p f (r # rs) = (if p r then f r else r) # update_rows p f rs"
  by (simp add: update_rows_def)

lemma length_update_rows [simp]: "length (update_rows p f rs) = length rs"
  by (simp add: update_rows_def)

lemma update_rows_append [simp]:
  "update_rows p f (xs @ ys) = update_rows p f xs @ update_rows p f ys"
  by (simp add: update_rows_def)

lemma map_update_rows:
  assumes "\<And>r. p r \<Longrightarrow> g (f r) = g r"
  shows "map g (update_rows p f rs) = map g rs"
  using assms by (induction rs) auto

lemma set_update_rows:
  "set (update_rows p f rs) = {f r |r. r \<in> set rs \<and> p r} \<union> {r \<in> set rs. \<not> p r}"
  by (induction rs) auto

lemma update_rows_none: "(\<And>r. r \<in> set rs \<Longrightarrow> \<not> p r) \<Longrightarrow> update_rows p f rs = rs"
  by (induction rs) auto

lemma update_rows_idem:
  "(\<And>r. r \<in> set rs \<Longrightarrow> p r \<Longrightarrow> f r = r) \<Longrightarrow> update_rows p f rs = rs"
  by (induction rs) auto

text \<open>
  Looking a row up by a key the update keeps: the row found is the updated one.
\<close>

lemma find_update_rows:
  assumes "\<And>r. q (if p r then f r else r) = q r"
  shows "find q (update_rows p f rs) = map_option (\<lambda>r. if p r then f r else r) (find q rs)"
  using assms by (induction rs) auto

lemma filter_update_rows:
  assumes "\<And>r. q (if p r then f r else r) = q r"
  shows "filter q (update_rows p f rs) = update_rows p f (filter q rs)"
  using assms by (induction rs) auto

lemma find_append:
  "find p (xs @ ys) = (case find p xs of None \<Rightarrow> find p ys | Some x \<Rightarrow> Some x)"
  by (induction xs) auto

lemma find_Some_in: "find p xs = Some x \<Longrightarrow> x \<in> set xs \<and> p x"
  by (induction xs) (auto split: if_splits)

lemma find_None_all: "find p xs = None \<longleftrightarrow> (\<forall>x \<in> set xs. \<not> p x)"
  by (induction xs) auto

lemma find_unique_key:
  assumes "distinct (map k xs)" and "x \<in> set xs"
  shows "find (\<lambda>y. k y = k x) xs = Some x"
  using assms by (induction xs) (auto simp: image_iff)

section \<open>Results\<close>

text \<open>\<open>error + 'a\<close> is Go's \<open>(T, error)\<close>: \<open>Inl\<close> a non-nil error, \<open>Inr\<close> the value.\<close>

definition is_ok :: "'e + 'a \<Rightarrow> bool" where
  "is_ok r = (case r of Inl _ \<Rightarrow> False | Inr _ \<Rightarrow> True)"

lemma is_ok_simps [simp]: "is_ok (Inr x)" "\<not> is_ok (Inl e)"
  by (simp_all add: is_ok_def)

definition err_of :: "'e + 'a \<Rightarrow> 'e option" where
  "err_of r = (case r of Inl e \<Rightarrow> Some e | Inr _ \<Rightarrow> None)"

lemma err_of_simps [simp]: "err_of (Inr x) = None" "err_of (Inl e) = Some e"
  by (simp_all add: err_of_def)

section \<open>Counting\<close>

lemma count_filter_append [simp]:
  "length (filter p (xs @ ys)) = length (filter p xs) + length (filter p ys)"
  by simp

end
