(* ===== verification/Effects.thy ===== *)
theory Effects
  imports Saga_Prelude
begin

text \<open>
  The programs of the model. A Go function that talks to the outside (a database statement, a
  broker write, an RPC, a metric, a goroutine start) is a value of type \<open>('w, 'a) prog\<close>: a tree
  whose inner nodes are atomic actions on the world \<open>'w\<close> and whose leaves are results. The same
  tree has two semantics: \<open>run\<close> executes it alone, from start to end, and a scheduler (theory
  \<open>Interleaving\<close>) executes one action of one of many programs at a time, which is how the
  service's consumer workers, goroutines and RPC handlers really run. \<open>safe R p\<close> says that
  every atomic action of \<open>p\<close>, from whatever world it is started in, moves the world along
  \<open>R\<close>; it holds of a composed program when it holds of its parts, and then of every
  interleaving.
\<close>

section \<open>Programs\<close>

datatype (dead 'w, 'a) prog = Ret 'a | Act "'w \<Rightarrow> ('w, 'a) prog \<times> 'w"

primrec bind :: "('w, 'a) prog \<Rightarrow> ('a \<Rightarrow> ('w, 'b) prog) \<Rightarrow> ('w, 'b) prog" where
  "bind (Ret x) k = k x"
| "bind (Act f) k = Act (\<lambda>w. map_prod (\<lambda>p. bind p k) id (f w))"

text \<open>\<open>call f\<close>: one atomic action that returns a value.\<close>

definition call :: "('w \<Rightarrow> 'a \<times> 'w) \<Rightarrow> ('w, 'a) prog" where
  "call f = Act (\<lambda>w. map_prod Ret id (f w))"

text \<open>
  \<open>on_err p h k\<close> is \<open>if err := p; err != nil { h }; k\<close>, and \<open>unwrap p h k\<close> is
  \<open>x, err := p; if err != nil { h }; k x\<close>.
\<close>

definition on_err ::
  "('w, 'e option) prog \<Rightarrow> ('e \<Rightarrow> ('w, 'b) prog) \<Rightarrow> ('w, 'b) prog \<Rightarrow> ('w, 'b) prog" where
  "on_err p h k = bind p (\<lambda>r. case r of Some e \<Rightarrow> h e | None \<Rightarrow> k)"

definition unwrap ::
  "('w, 'e + 'a) prog \<Rightarrow> ('e \<Rightarrow> ('w, 'b) prog) \<Rightarrow> ('a \<Rightarrow> ('w, 'b) prog) \<Rightarrow> ('w, 'b) prog" where
  "unwrap p h k = bind p (\<lambda>r. case r of Inl e \<Rightarrow> h e | Inr x \<Rightarrow> k x)"

text \<open>\<open>seq p q\<close>: run \<open>p\<close>, drop its result (Go's \<open>_ = p\<close>), go on with \<open>q\<close>.\<close>

definition seq :: "('w, 'a) prog \<Rightarrow> ('w, 'b) prog \<Rightarrow> ('w, 'b) prog" where
  "seq p q = bind p (\<lambda>_. q)"

lemma bind_Ret [simp]: "bind p Ret = p"
proof (induction p)
  case (Act f)
  have "map_prod (\<lambda>p. bind p Ret) id (f w) = f w" for w
  proof (cases "f w")
    case (Pair q w')
    then have "bind q Ret = q" by (intro Act.IH [of "f w" q]) (auto simp: image_iff intro: exI [of _ w])
    with Pair show ?thesis by simp
  qed
  then show ?case by simp
qed simp

lemma bind_assoc: "bind (bind p k) l = bind p (\<lambda>x. bind (k x) l)"
proof (induction p)
  case (Act f)
  have "map_prod (\<lambda>q. bind (bind q k) l) id (f w) = map_prod (\<lambda>q. bind q (\<lambda>x. bind (k x) l)) id (f w)" for w
  proof (cases "f w")
    case (Pair q w')
    then have "bind (bind q k) l = bind q (\<lambda>x. bind (k x) l)"
      by (intro Act.IH [of "f w" q]) (auto simp: image_iff intro: exI [of _ w])
    with Pair show ?thesis by simp
  qed
  then show ?case by (simp add: prod.map_comp comp_def id_def)
qed simp

section \<open>Sequential execution\<close>

primrec run :: "('w, 'a) prog \<Rightarrow> 'w \<Rightarrow> 'a \<times> 'w" where
  "run (Ret x) = (\<lambda>w. (x, w))"
| "run (Act f) = (\<lambda>w. case map_prod run id (f w) of (r, w') \<Rightarrow> r w')"

lemma run_Ret [run_simps, simp]: "run (Ret x) w = (x, w)"
  by simp

lemma run_Act: "run (Act f) w = (case f w of (p, w') \<Rightarrow> run p w')"
  by (cases "f w") simp

lemma run_call [run_simps, simp]: "run (call f) w = f w"
  by (cases "f w") (simp add: call_def)

declare run.simps [simp del]

lemma run_bind [run_simps]:
  "run (bind p k) w = (case run p w of (x, w') \<Rightarrow> run (k x) w')"
proof (induction p arbitrary: w)
  case (Ret x)
  then show ?case by simp
next
  case (Act f)
  obtain q w' where fw: "f w = (q, w')" by (cases "f w")
  then have "run (bind q k) w' = (case run q w' of (x, w'') \<Rightarrow> run (k x) w'')"
    by (intro Act.IH [of "f w" q]) (auto simp: image_iff intro: exI [of _ w])
  with fw show ?case by (simp add: run_Act)
qed

lemma run_on_err [run_simps]:
  "run (on_err p h k) w =
     (case run p w of (r, w') \<Rightarrow> (case r of Some e \<Rightarrow> run (h e) w' | None \<Rightarrow> run k w'))"
  by (auto simp: on_err_def run_bind split: prod.splits option.splits)

lemma run_unwrap [run_simps]:
  "run (unwrap p h k) w =
     (case run p w of (r, w') \<Rightarrow> (case r of Inl e \<Rightarrow> run (h e) w' | Inr x \<Rightarrow> run (k x) w'))"
  by (auto simp: unwrap_def run_bind split: prod.splits sum.splits)

lemma run_seq [run_simps]:
  "run (seq p q) w = run q (snd (run p w))"
  by (simp add: seq_def run_bind split: prod.splits)

section \<open>Every atomic action respects a relation\<close>

inductive safe :: "('w \<Rightarrow> 'w \<Rightarrow> bool) \<Rightarrow> ('w, 'a) prog \<Rightarrow> bool" for R where
  safe_Ret: "safe R (Ret x)"
| safe_Act: "(\<And>w. R w (snd (f w))) \<Longrightarrow> (\<And>w. safe R (fst (f w))) \<Longrightarrow> safe R (Act f)"

inductive_simps safe_Ret_iff [simp]: "safe R (Ret x)"
inductive_simps safe_Act_iff: "safe R (Act f)"

declare safe_Ret [safe_intros]

lemma safe_call [safe_intros]: "(\<And>w. R w (snd (f w))) \<Longrightarrow> safe R (call f)"
  by (auto simp: call_def intro: safe_Act)

lemma safe_call_iff: "safe R (call f) \<longleftrightarrow> (\<forall>w. R w (snd (f w)))"
  by (auto simp: call_def safe_Act_iff)

lemma safe_bind [safe_intros]:
  assumes "safe R p" and "\<And>x. safe R (k x)"
  shows "safe R (bind p k)"
  using assms(1)
proof (induction rule: safe.induct)
  case (safe_Ret x)
  then show ?case using assms(2) by simp
next
  case (safe_Act f)
  then show ?case by (auto intro!: safe.safe_Act)
qed

lemma safe_on_err [safe_intros]:
  assumes "safe R p" and "\<And>e. safe R (h e)" and "safe R k"
  shows "safe R (on_err p h k)"
  unfolding on_err_def using assms by (intro safe_bind) (auto split: option.splits)

lemma safe_unwrap [safe_intros]:
  assumes "safe R p" and "\<And>e. safe R (h e)" and "\<And>x. safe R (k x)"
  shows "safe R (unwrap p h k)"
  unfolding unwrap_def using assms by (intro safe_bind) (auto split: sum.splits)

lemma safe_seq [safe_intros]: "safe R p \<Longrightarrow> safe R q \<Longrightarrow> safe R (seq p q)"
  unfolding seq_def by (rule safe_bind)

lemma safe_if [safe_intros]:
  "(b \<Longrightarrow> safe R p) \<Longrightarrow> (\<not> b \<Longrightarrow> safe R q) \<Longrightarrow> safe R (if b then p else q)"
  by simp

lemma safe_mono: "safe R p \<Longrightarrow> (\<And>v w. R v w \<Longrightarrow> S v w) \<Longrightarrow> safe S p"
  by (induction rule: safe.induct) (auto intro: safe.intros)

lemma safe_run:
  assumes "safe R p" and refl: "\<And>w. R w w" and trans: "\<And>u v w. R u v \<Longrightarrow> R v w \<Longrightarrow> R u w"
  shows "R w (snd (run p w))"
  using assms(1)
proof (induction arbitrary: w rule: safe.induct)
  case (safe_Ret x)
  then show ?case by (simp add: refl)
next
  case (safe_Act f)
  obtain p' w' where fw: "f w = (p', w')" by (cases "f w")
  from safe_Act.IH [of w' w] fw have "R w' (snd (run p' w'))" by simp
  moreover from safe_Act.hyps(1) [of w] fw have "R w w'" by simp
  ultimately show ?case using fw by (auto simp: run_Act intro: trans)
qed

text \<open>The special case of an invariant kept by every action.\<close>

definition keeps :: "('w \<Rightarrow> bool) \<Rightarrow> ('w, 'a) prog \<Rightarrow> bool" where
  "keeps I p \<longleftrightarrow> safe (\<lambda>v w. I v \<longrightarrow> I w) p"

lemma keeps_run: "keeps I p \<Longrightarrow> I w \<Longrightarrow> I (snd (run p w))"
  unfolding keeps_def by (drule safe_run [where w = w]) auto

end
