(* ===== verification/Knowledge.thy ===== *)
theory Knowledge
  imports Effects
begin

text \<open>
  What a program knows while others run. \<open>learns R I Q P p\<close>: started in any world where the
  fact \<open>P\<close> holds, every action of \<open>p\<close> moves the world along \<open>R\<close>, keeps the invariant \<open>I\<close>, and
  leaves \<open>p\<close> with a new fact; when it returns \<open>x\<close>, the fact \<open>Q x\<close> holds. Facts have to be
  stable, kept by every step along \<open>R\<close>, so they survive whatever runs between two actions: from a
  fact learned in one action (an answer recorded in a trace that only grows, a row that is never
  removed) the program may conclude in a later one.
\<close>

definition stable :: "('w \<Rightarrow> 'w \<Rightarrow> bool) \<Rightarrow> ('w \<Rightarrow> bool) \<Rightarrow> bool" where
  "stable R P \<longleftrightarrow> (\<forall>v w. P v \<longrightarrow> R v w \<longrightarrow> P w)"

lemma stableD: "stable R P \<Longrightarrow> P v \<Longrightarrow> R v w \<Longrightarrow> P w"
  by (auto simp: stable_def)

lemma stable_simps [simp]: "stable R (\<lambda>_. b)"
  by (simp add: stable_def)

lemma stable_conj: "stable R P \<Longrightarrow> stable R Q \<Longrightarrow> stable R (\<lambda>w. P w \<and> Q w)"
  by (auto simp: stable_def)

lemma stable_imp: "(b \<Longrightarrow> stable R P) \<Longrightarrow> stable R (\<lambda>w. b \<longrightarrow> P w)"
  by (auto simp: stable_def)

inductive learns ::
  "('w \<Rightarrow> 'w \<Rightarrow> bool) \<Rightarrow> ('w \<Rightarrow> bool) \<Rightarrow> ('a \<Rightarrow> 'w \<Rightarrow> bool) \<Rightarrow> ('w \<Rightarrow> bool) \<Rightarrow> ('w, 'a) prog \<Rightarrow> bool"
  for R I Q where
  learns_Ret: "(\<And>w. I w \<Longrightarrow> P w \<Longrightarrow> Q x w) \<Longrightarrow> learns R I Q P (Ret x)"
| learns_Act: "(\<And>w. I w \<Longrightarrow> P w \<Longrightarrow> R w (snd (f w)) \<and> I (snd (f w))
        \<and> (\<exists>P'. stable R P' \<and> P' (snd (f w)) \<and> learns R I Q P' (fst (f w))))
     \<Longrightarrow> learns R I Q P (Act f)"

inductive_simps learns_Ret_iff: "learns R I Q P (Ret x)"
inductive_simps learns_Act_iff: "learns R I Q P (Act f)"

lemma learns_call:
  assumes "\<And>w. I w \<Longrightarrow> P w \<Longrightarrow> R w (snd (f w)) \<and> I (snd (f w)) \<and> Q (fst (f w)) (snd (f w))"
    and "\<And>x. stable R (Q x)"
  shows "learns R I Q P (call f)"
  unfolding call_def
proof (rule learns_Act)
  fix w assume "I w" "P w"
  with assms show "R w (snd (map_prod Ret id (f w))) \<and> I (snd (map_prod Ret id (f w)))
      \<and> (\<exists>P'. stable R P' \<and> P' (snd (map_prod Ret id (f w)))
         \<and> learns R I Q P' (fst (map_prod Ret id (f w))))"
    by (auto intro!: exI [of _ "Q (fst (f w))"] learns_Ret)
qed

lemma learns_weaken:
  assumes "learns R I Q P p" and "\<And>w. I w \<Longrightarrow> P' w \<Longrightarrow> P w" and "\<And>x w. I w \<Longrightarrow> Q x w \<Longrightarrow> Q' x w"
  shows "learns R I Q' P' p"
  using assms(1,2)
proof (induction arbitrary: P' rule: learns.induct)
  case (learns_Ret P x)
  then show ?case by (intro learns.learns_Ret assms(3)) blast+
next
  case (learns_Act P f)
  show ?case
  proof (rule learns.learns_Act)
    fix w assume "I w" "P' w"
    with learns_Act show "R w (snd (f w)) \<and> I (snd (f w))
        \<and> (\<exists>P'. stable R P' \<and> P' (snd (f w)) \<and> learns R I Q' P' (fst (f w)))"
      by (metis (full_types))
  qed
qed

lemma learns_bind:
  assumes "learns R I S P p" and "\<And>x. learns R I Q (S x) (k x)"
  shows "learns R I Q P (bind p k)"
  using assms(1)
proof (induction rule: learns.induct)
  case (learns_Ret P x)
  then show ?case by (auto intro: learns_weaken [OF assms(2)])
next
  case (learns_Act P f)
  show ?case
    unfolding bind.simps
  proof (rule learns.learns_Act)
    fix w assume "I w" "P w"
    with learns_Act show "R w (snd (map_prod (\<lambda>p. bind p k) id (f w)))
        \<and> I (snd (map_prod (\<lambda>p. bind p k) id (f w)))
        \<and> (\<exists>P'. stable R P' \<and> P' (snd (map_prod (\<lambda>p. bind p k) id (f w)))
           \<and> learns R I Q P' (fst (map_prod (\<lambda>p. bind p k) id (f w))))"
      by auto
  qed
qed

lemma learns_on_err:
  assumes "learns R I S P p" and "\<And>e. learns R I Q (S (Some e)) (h e)" and "learns R I Q (S None) k"
  shows "learns R I Q P (on_err p h k)"
  unfolding on_err_def by (rule learns_bind [OF assms(1)]) (simp add: assms(2,3) split: option.split)

lemma learns_unwrap:
  assumes "learns R I S P p" and "\<And>e. learns R I Q (S (Inl e)) (h e)"
    and "\<And>x. learns R I Q (S (Inr x)) (k x)"
  shows "learns R I Q P (unwrap p h k)"
  unfolding unwrap_def by (rule learns_bind [OF assms(1)]) (simp add: assms(2,3) split: sum.split)

lemma learns_seq:
  assumes "learns R I S P p" and "\<And>x. learns R I Q (S x) q"
  shows "learns R I Q P (seq p q)"
  unfolding seq_def by (rule learns_bind [OF assms])

lemma learns_if:
  "(b \<Longrightarrow> learns R I Q P p) \<Longrightarrow> (\<not> b \<Longrightarrow> learns R I Q P q) \<Longrightarrow> learns R I Q P (if b then p else q)"
  by simp

text \<open>A program about which nothing more is known keeps the facts it started with.\<close>

lemma safe_learns:
  assumes "safe (\<lambda>v w. I v \<longrightarrow> R v w \<and> I w) p" and "stable R P"
  shows "learns R I (\<lambda>_. P) P p"
  using assms(1)
proof (induction rule: safe.induct)
  case (safe_Act f)
  show ?case
  proof (rule learns.learns_Act)
    fix w assume w: "I w" "P w"
    with safe_Act have "R w (snd (f w)) \<and> I (snd (f w))" by blast
    moreover from this w assms(2) have "P (snd (f w))" by (blast dest: stableD)
    ultimately show "R w (snd (f w)) \<and> I (snd (f w))
        \<and> (\<exists>P'. stable R P' \<and> P' (snd (f w)) \<and> learns R I (\<lambda>_. P) P' (fst (f w)))"
      using assms(2) safe_Act.IH by blast
  qed
qed (simp add: learns_Ret_iff)

lemma safe_learns_q:
  assumes "safe (\<lambda>v w. I v \<longrightarrow> R v w \<and> I w) p" and "stable R P" and "\<And>x w. I w \<Longrightarrow> P w \<Longrightarrow> Q x w"
  shows "learns R I Q P p"
  by (rule learns_weaken [OF safe_learns [OF assms(1,2)]]) (use assms(3) in auto)

end
