(* ===== verification/Go_Strings.thy ===== *)
theory Go_Strings
  imports Saga_Prelude "HOL-Library.Sublist"
begin

text \<open>
  What the service uses of Go's \<open>strings\<close> and \<open>strconv\<close> packages. A Go string (and a
  \<open>[]byte\<close>) is a list of bytes, \<open>char\<close> being a byte, so \<open>length\<close> is Go's \<open>len\<close>. White space
  is what \<open>unicode.IsSpace\<close> accepts, given by the UTF-8 encodings of those runes.
\<close>

type_synonym bytes = string

section \<open>strings.TrimSpace\<close>

definition space_encodings :: "bytes list" where
  "space_encodings =
     [[CHR 0x20], [CHR 0x09], [CHR 0x0A], [CHR 0x0B], [CHR 0x0C], [CHR 0x0D],
      [CHR 0xC2, CHR 0x85], [CHR 0xC2, CHR 0xA0], [CHR 0xE1, CHR 0x9A, CHR 0x80]]
     @ map (\<lambda>b. [CHR 0xE2, CHR 0x80, b])
         [CHR 0x80, CHR 0x81, CHR 0x82, CHR 0x83, CHR 0x84, CHR 0x85, CHR 0x86, CHR 0x87,
          CHR 0x88, CHR 0x89, CHR 0x8A, CHR 0xA8, CHR 0xA9, CHR 0xAF]
     @ [[CHR 0xE2, CHR 0x81, CHR 0x9F], [CHR 0xE3, CHR 0x80, CHR 0x80]]"

text \<open>The encoding \<open>s\<close> starts with, if any.\<close>

fun leading :: "bytes list \<Rightarrow> bytes \<Rightarrow> bytes option" where
  "leading [] s = None"
| "leading (e # es) s = (if e \<noteq> [] \<and> take (length e) s = e then Some e else leading es s)"

lemma leading_Some:
  "leading es s = Some e \<Longrightarrow> e \<in> set es \<and> e \<noteq> [] \<and> (\<exists>r. s = e @ r)"
  by (induction es) (auto split: if_splits intro: append_take_drop_id [symmetric], metis append_take_drop_id)

lemma leading_None: "leading es s = None \<longleftrightarrow> (\<forall>e \<in> set es. e \<noteq> [] \<longrightarrow> \<not> prefix e s)"
  by (induction es) (auto simp: prefix_def, metis append_take_drop_id)

function trim_leading :: "bytes list \<Rightarrow> bytes \<Rightarrow> bytes" where
  "trim_leading es s =
     (case leading es s of None \<Rightarrow> s | Some e \<Rightarrow> trim_leading es (drop (length e) s))"
  by pat_completeness auto
termination
proof (relation "measure (\<lambda>(es, s). length s)", goal_cases)
  case 1
  show ?case by simp
next
  case (2 es s e)
  then have "e \<noteq> []" and "\<exists>r. s = e @ r" using leading_Some by blast+
  then show ?case by (auto simp: neq_Nil_conv)
qed

declare trim_leading.simps [simp del]

definition TrimSpace :: "bytes \<Rightarrow> bytes" where
  "TrimSpace s = rev (trim_leading (map rev space_encodings) (rev (trim_leading space_encodings s)))"

lemma trim_leading_fix: "leading es s = None \<Longrightarrow> trim_leading es s = s"
  by (simp add: trim_leading.simps)

lemma trim_leading_done: "leading es (trim_leading es s) = None"
proof (induction es s rule: trim_leading.induct)
  case (1 es s)
  then show ?case by (cases "leading es s") (simp_all add: trim_leading.simps [of es s])
qed

lemma trim_leading_suffix: "suffix (trim_leading es s) s"
proof (induction es s rule: trim_leading.induct)
  case (1 es s)
  show ?case
  proof (cases "leading es s")
    case (Some e)
    then have "suffix (trim_leading es (drop (length e) s)) (drop (length e) s)" by (rule 1)
    also have "suffix (drop (length e) s) s" by (rule suffix_drop)
    finally show ?thesis using Some by (simp add: trim_leading.simps [of es s])
  qed (simp add: trim_leading.simps)
qed

lemma trim_leading_idem: "trim_leading es (trim_leading es s) = trim_leading es s"
  by (rule trim_leading_fix) (rule trim_leading_done)

text \<open>The trimmed string neither starts nor ends with white space.\<close>

lemma TrimSpace_leading: "leading space_encodings (TrimSpace s) = None"
proof -
  let ?l = "trim_leading space_encodings s"
  have "suffix (trim_leading (map rev space_encodings) (rev ?l)) (rev ?l)"
    by (rule trim_leading_suffix)
  then have "prefix (TrimSpace s) ?l"
    by (simp add: TrimSpace_def suffix_to_prefix)
  then show ?thesis
    using trim_leading_done [of space_encodings s]
    by (auto simp: leading_None intro: prefix_order.trans)
qed

lemma TrimSpace_trailing: "leading (map rev space_encodings) (rev (TrimSpace s)) = None"
  by (simp add: TrimSpace_def trim_leading_done)

lemma TrimSpace_idem [simp]: "TrimSpace (TrimSpace s) = TrimSpace s"
proof -
  have "trim_leading space_encodings (TrimSpace s) = TrimSpace s"
    by (rule trim_leading_fix) (rule TrimSpace_leading)
  then show ?thesis
    by (simp add: TrimSpace_def [of "TrimSpace s"] trim_leading_fix [OF TrimSpace_trailing])
qed

lemma TrimSpace_fix:
  assumes "leading space_encodings s = None"
    and "leading (map rev space_encodings) (rev s) = None"
  shows "TrimSpace s = s"
  using assms by (simp add: TrimSpace_def trim_leading_fix)

lemma TrimSpace_Nil [simp]: "TrimSpace [] = []"
  by (rule TrimSpace_fix) (simp_all add: space_encodings_def)

lemma TrimSpace_sublist: "length (TrimSpace s) \<le> length s"
proof -
  have "length (TrimSpace s) \<le> length (trim_leading space_encodings s)"
    using trim_leading_suffix by (metis TrimSpace_def length_rev suffix_length_le)
  also have "\<dots> \<le> length s" by (rule suffix_length_le) (rule trim_leading_suffix)
  finally show ?thesis .
qed

section \<open>strings.HasPrefix, strings.EqualFold\<close>

definition HasPrefix :: "bytes \<Rightarrow> bytes \<Rightarrow> bool" where
  "HasPrefix s p \<longleftrightarrow> take (length p) s = p"

lemma HasPrefix_append [simp]: "HasPrefix (p @ s) p"
  by (simp add: HasPrefix_def)

lemma HasPrefix_iff: "HasPrefix s p \<longleftrightarrow> (\<exists>r. s = p @ r)"
  by (auto simp: HasPrefix_def, metis append_take_drop_id)

text \<open>
  Simple case folding towards ASCII: the upper-case ASCII letters, and the two non-ASCII runes
  whose folding orbit reaches ASCII, U+017F (long s) and U+212A (Kelvin sign). Every other rune
  is unequal, under folding, to every ASCII rune, which is all \<open>EqualFold\<close> and \<open>encoding/json\<close>
  need of it here, one side being an ASCII literal.
\<close>

definition lower_byte :: "char \<Rightarrow> char" where
  "lower_byte c = (let n = of_char c :: nat in if 65 \<le> n \<and> n \<le> 90 then char_of (n + 32) else c)"

fun fold_ascii :: "bytes \<Rightarrow> bytes" where
  "fold_ascii [] = []"
| "fold_ascii (a # s) =
     (case s of
        b # s' \<Rightarrow>
          if a = CHR 0xC5 \<and> b = CHR 0xBF then CHR ''s'' # fold_ascii s'
          else (case s' of
                  c # s'' \<Rightarrow>
                    if a = CHR 0xE2 \<and> b = CHR 0x84 \<and> c = CHR 0xAA then CHR ''k'' # fold_ascii s''
                    else lower_byte a # fold_ascii s
                | [] \<Rightarrow> lower_byte a # fold_ascii s)
      | [] \<Rightarrow> [lower_byte a])"

definition EqualFold :: "bytes \<Rightarrow> bytes \<Rightarrow> bool" where
  "EqualFold s t \<longleftrightarrow> fold_ascii s = fold_ascii t"

section \<open>strconv.Atoi\<close>

definition digit_val :: "char \<Rightarrow> int option" where
  "digit_val c = (let n = of_char c :: nat in if 48 \<le> n \<and> n \<le> 57 then Some (int n - 48) else None)"

fun digits_val :: "int \<Rightarrow> bytes \<Rightarrow> int option" where
  "digits_val acc [] = Some acc"
| "digits_val acc (c # cs) =
     (case digit_val c of None \<Rightarrow> None | Some d \<Rightarrow> digits_val (10 * acc + d) cs)"

text \<open>\<open>None\<close> is a non-nil error: bad syntax, or out of the range of a 64-bit \<open>int\<close>.\<close>

definition Atoi :: "bytes \<Rightarrow> int option" where
  "Atoi s =
     (let (neg, ds) = (case s of c # cs \<Rightarrow> if c = CHR ''-'' then (True, cs)
                                           else if c = CHR ''+'' then (False, cs) else (False, s)
                               | [] \<Rightarrow> (False, []))
      in if ds = [] then None
         else case digits_val 0 ds of
                None \<Rightarrow> None
              | Some v \<Rightarrow> (let n = (if neg then - v else v)
                          in if - (2 ^ 63) \<le> n \<and> n < 2 ^ 63 then Some n else None))"

lemma Atoi_range: "Atoi s = Some n \<Longrightarrow> - (2 ^ 63) \<le> n \<and> n < 2 ^ 63"
  by (auto simp: Atoi_def Let_def split: prod.splits if_splits option.splits)

lemma Atoi_examples:
  "Atoi ''3'' = Some 3" "Atoi ''-7'' = Some (- 7)" "Atoi ''x1'' = None" "Atoi [] = None"
  by (simp_all add: Atoi_def digit_val_def)

end
