(* ===== verification/Domain.thy ===== *)
theory Domain
  imports Effects Go_Strings
begin

text \<open>
  The domain package (internal/domain/session.go, internal/domain/error.go): the status and
  step-key constants, the session and step rows, the parameter and result structs of the use
  cases, and the errors. Constants are strings as in the code, because the database columns
  hold strings; \<open>status_simps\<close> says that they differ from one another.
\<close>

section \<open>Constants\<close>

subsection \<open>Session statuses\<close>

definition SessionStatusStarted :: string where
  "SessionStatusStarted = ''started''"

definition SessionStatusInProgress :: string where
  "SessionStatusInProgress = ''in_progress''"

definition SessionStatusCodeSent :: string where
  "SessionStatusCodeSent = ''code_sent''"

definition SessionStatusVerifyingEmail :: string where
  "SessionStatusVerifyingEmail = ''verifying_email''"

definition SessionStatusActivatingUser :: string where
  "SessionStatusActivatingUser = ''activating_user''"

definition SessionStatusCompleted :: string where
  "SessionStatusCompleted = ''completed''"

definition SessionStatusTokensClaimed :: string where
  "SessionStatusTokensClaimed = ''tokens_claimed''"

definition SessionStatusFailed :: string where
  "SessionStatusFailed = ''failed''"

lemma session_status_distinct [status_simps, simp]:
  "SessionStatusStarted \<noteq> SessionStatusInProgress"
  "SessionStatusStarted \<noteq> SessionStatusCodeSent"
  "SessionStatusStarted \<noteq> SessionStatusVerifyingEmail"
  "SessionStatusStarted \<noteq> SessionStatusActivatingUser"
  "SessionStatusStarted \<noteq> SessionStatusCompleted"
  "SessionStatusStarted \<noteq> SessionStatusTokensClaimed"
  "SessionStatusStarted \<noteq> SessionStatusFailed"
  "SessionStatusInProgress \<noteq> SessionStatusStarted"
  "SessionStatusInProgress \<noteq> SessionStatusCodeSent"
  "SessionStatusInProgress \<noteq> SessionStatusVerifyingEmail"
  "SessionStatusInProgress \<noteq> SessionStatusActivatingUser"
  "SessionStatusInProgress \<noteq> SessionStatusCompleted"
  "SessionStatusInProgress \<noteq> SessionStatusTokensClaimed"
  "SessionStatusInProgress \<noteq> SessionStatusFailed"
  "SessionStatusCodeSent \<noteq> SessionStatusStarted"
  "SessionStatusCodeSent \<noteq> SessionStatusInProgress"
  "SessionStatusCodeSent \<noteq> SessionStatusVerifyingEmail"
  "SessionStatusCodeSent \<noteq> SessionStatusActivatingUser"
  "SessionStatusCodeSent \<noteq> SessionStatusCompleted"
  "SessionStatusCodeSent \<noteq> SessionStatusTokensClaimed"
  "SessionStatusCodeSent \<noteq> SessionStatusFailed"
  "SessionStatusVerifyingEmail \<noteq> SessionStatusStarted"
  "SessionStatusVerifyingEmail \<noteq> SessionStatusInProgress"
  "SessionStatusVerifyingEmail \<noteq> SessionStatusCodeSent"
  "SessionStatusVerifyingEmail \<noteq> SessionStatusActivatingUser"
  "SessionStatusVerifyingEmail \<noteq> SessionStatusCompleted"
  "SessionStatusVerifyingEmail \<noteq> SessionStatusTokensClaimed"
  "SessionStatusVerifyingEmail \<noteq> SessionStatusFailed"
  "SessionStatusActivatingUser \<noteq> SessionStatusStarted"
  "SessionStatusActivatingUser \<noteq> SessionStatusInProgress"
  "SessionStatusActivatingUser \<noteq> SessionStatusCodeSent"
  "SessionStatusActivatingUser \<noteq> SessionStatusVerifyingEmail"
  "SessionStatusActivatingUser \<noteq> SessionStatusCompleted"
  "SessionStatusActivatingUser \<noteq> SessionStatusTokensClaimed"
  "SessionStatusActivatingUser \<noteq> SessionStatusFailed"
  "SessionStatusCompleted \<noteq> SessionStatusStarted"
  "SessionStatusCompleted \<noteq> SessionStatusInProgress"
  "SessionStatusCompleted \<noteq> SessionStatusCodeSent"
  "SessionStatusCompleted \<noteq> SessionStatusVerifyingEmail"
  "SessionStatusCompleted \<noteq> SessionStatusActivatingUser"
  "SessionStatusCompleted \<noteq> SessionStatusTokensClaimed"
  "SessionStatusCompleted \<noteq> SessionStatusFailed"
  "SessionStatusTokensClaimed \<noteq> SessionStatusStarted"
  "SessionStatusTokensClaimed \<noteq> SessionStatusInProgress"
  "SessionStatusTokensClaimed \<noteq> SessionStatusCodeSent"
  "SessionStatusTokensClaimed \<noteq> SessionStatusVerifyingEmail"
  "SessionStatusTokensClaimed \<noteq> SessionStatusActivatingUser"
  "SessionStatusTokensClaimed \<noteq> SessionStatusCompleted"
  "SessionStatusTokensClaimed \<noteq> SessionStatusFailed"
  "SessionStatusFailed \<noteq> SessionStatusStarted"
  "SessionStatusFailed \<noteq> SessionStatusInProgress"
  "SessionStatusFailed \<noteq> SessionStatusCodeSent"
  "SessionStatusFailed \<noteq> SessionStatusVerifyingEmail"
  "SessionStatusFailed \<noteq> SessionStatusActivatingUser"
  "SessionStatusFailed \<noteq> SessionStatusCompleted"
  "SessionStatusFailed \<noteq> SessionStatusTokensClaimed"
  by (simp_all add: SessionStatusStarted_def SessionStatusInProgress_def SessionStatusCodeSent_def SessionStatusVerifyingEmail_def SessionStatusActivatingUser_def SessionStatusCompleted_def SessionStatusTokensClaimed_def SessionStatusFailed_def)

lemma session_status_nonempty [status_simps, simp]:
  "SessionStatusStarted \<noteq> []"
  "SessionStatusInProgress \<noteq> []"
  "SessionStatusCodeSent \<noteq> []"
  "SessionStatusVerifyingEmail \<noteq> []"
  "SessionStatusActivatingUser \<noteq> []"
  "SessionStatusCompleted \<noteq> []"
  "SessionStatusTokensClaimed \<noteq> []"
  "SessionStatusFailed \<noteq> []"
  by (simp_all add: SessionStatusStarted_def SessionStatusInProgress_def SessionStatusCodeSent_def SessionStatusVerifyingEmail_def SessionStatusActivatingUser_def SessionStatusCompleted_def SessionStatusTokensClaimed_def SessionStatusFailed_def)

subsection \<open>Availability states\<close>

definition AvailabilityStateNotFound :: string where
  "AvailabilityStateNotFound = ''not_found''"

definition AvailabilityStateIncomplete :: string where
  "AvailabilityStateIncomplete = ''found_incomplete''"

definition AvailabilityStateCompleted :: string where
  "AvailabilityStateCompleted = ''found_completed''"

lemma availability_distinct [status_simps, simp]:
  "AvailabilityStateNotFound \<noteq> AvailabilityStateIncomplete"
  "AvailabilityStateNotFound \<noteq> AvailabilityStateCompleted"
  "AvailabilityStateIncomplete \<noteq> AvailabilityStateNotFound"
  "AvailabilityStateIncomplete \<noteq> AvailabilityStateCompleted"
  "AvailabilityStateCompleted \<noteq> AvailabilityStateNotFound"
  "AvailabilityStateCompleted \<noteq> AvailabilityStateIncomplete"
  by (simp_all add: AvailabilityStateNotFound_def AvailabilityStateIncomplete_def AvailabilityStateCompleted_def)

subsection \<open>Step statuses\<close>

definition StepStatusPending :: string where
  "StepStatusPending = ''pending''"

definition StepStatusInProgress :: string where
  "StepStatusInProgress = ''in_progress''"

definition StepStatusCompleted :: string where
  "StepStatusCompleted = ''completed''"

definition StepStatusFailed :: string where
  "StepStatusFailed = ''failed''"

lemma step_status_distinct [status_simps, simp]:
  "StepStatusPending \<noteq> StepStatusInProgress"
  "StepStatusPending \<noteq> StepStatusCompleted"
  "StepStatusPending \<noteq> StepStatusFailed"
  "StepStatusInProgress \<noteq> StepStatusPending"
  "StepStatusInProgress \<noteq> StepStatusCompleted"
  "StepStatusInProgress \<noteq> StepStatusFailed"
  "StepStatusCompleted \<noteq> StepStatusPending"
  "StepStatusCompleted \<noteq> StepStatusInProgress"
  "StepStatusCompleted \<noteq> StepStatusFailed"
  "StepStatusFailed \<noteq> StepStatusPending"
  "StepStatusFailed \<noteq> StepStatusInProgress"
  "StepStatusFailed \<noteq> StepStatusCompleted"
  by (simp_all add: StepStatusPending_def StepStatusInProgress_def StepStatusCompleted_def StepStatusFailed_def)

subsection \<open>Step keys\<close>

definition StepKeyUserCreateProfile :: string where
  "StepKeyUserCreateProfile = ''user.create_profile''"

definition StepKeyAuthCreatePending :: string where
  "StepKeyAuthCreatePending = ''auth.create_pending_registration''"

definition StepKeyMailSendVerificationCode :: string where
  "StepKeyMailSendVerificationCode = ''mail.send_verification_code''"

definition StepKeyVerifyEmailCode :: string where
  "StepKeyVerifyEmailCode = ''auth.verify_email_code''"

definition StepKeyActivateUser :: string where
  "StepKeyActivateUser = ''user.activate_profile''"

lemma step_key_distinct [status_simps, simp]:
  "StepKeyUserCreateProfile \<noteq> StepKeyAuthCreatePending"
  "StepKeyUserCreateProfile \<noteq> StepKeyMailSendVerificationCode"
  "StepKeyUserCreateProfile \<noteq> StepKeyVerifyEmailCode"
  "StepKeyUserCreateProfile \<noteq> StepKeyActivateUser"
  "StepKeyAuthCreatePending \<noteq> StepKeyUserCreateProfile"
  "StepKeyAuthCreatePending \<noteq> StepKeyMailSendVerificationCode"
  "StepKeyAuthCreatePending \<noteq> StepKeyVerifyEmailCode"
  "StepKeyAuthCreatePending \<noteq> StepKeyActivateUser"
  "StepKeyMailSendVerificationCode \<noteq> StepKeyUserCreateProfile"
  "StepKeyMailSendVerificationCode \<noteq> StepKeyAuthCreatePending"
  "StepKeyMailSendVerificationCode \<noteq> StepKeyVerifyEmailCode"
  "StepKeyMailSendVerificationCode \<noteq> StepKeyActivateUser"
  "StepKeyVerifyEmailCode \<noteq> StepKeyUserCreateProfile"
  "StepKeyVerifyEmailCode \<noteq> StepKeyAuthCreatePending"
  "StepKeyVerifyEmailCode \<noteq> StepKeyMailSendVerificationCode"
  "StepKeyVerifyEmailCode \<noteq> StepKeyActivateUser"
  "StepKeyActivateUser \<noteq> StepKeyUserCreateProfile"
  "StepKeyActivateUser \<noteq> StepKeyAuthCreatePending"
  "StepKeyActivateUser \<noteq> StepKeyMailSendVerificationCode"
  "StepKeyActivateUser \<noteq> StepKeyVerifyEmailCode"
  by (simp_all add: StepKeyUserCreateProfile_def StepKeyAuthCreatePending_def StepKeyMailSendVerificationCode_def StepKeyVerifyEmailCode_def StepKeyActivateUser_def)
section \<open>Structs\<close>

text \<open>Timestamps are nanoseconds since the epoch.\<close>

record Session =
  s_SessionID :: string
  s_ClientID :: string
  s_UserID :: string
  s_Email :: string
  s_Username :: string
  s_Status :: string
  s_CreatedAt :: int
  s_UpdatedAt :: int

record Step =
  st_SessionID :: string
  st_StepKey :: string
  st_Status :: string
  st_CreatedAt :: int
  st_UpdatedAt :: int

record StartRegistrationParams =
  sp_SessionID :: string
  sp_ClientID :: string
  sp_UserID :: string
  sp_Email :: string
  sp_Username :: string
  sp_Password :: string
  sp_FirstName :: string
  sp_Surname :: string

record StartRegistrationResult =
  sr_SessionID :: string
  sr_ClientID :: string
  sr_UserID :: string
  sr_Status :: string
  sr_ConflictState :: string
  sr_UsernameTaken :: bool
  sr_EmailTaken :: bool

record VerifyEmailParams =
  vp_SessionID :: string
  vp_ClientID :: string
  vp_Code :: string

record VerifyEmailResult =
  vr_SessionID :: string
  vr_ClientID :: string
  vr_Status :: string

record RegistrationStatus =
  rs_SessionID :: string
  rs_ClientID :: string
  rs_UserID :: string
  rs_Status :: string

section \<open>Errors\<close>

text \<open>
  A Go \<open>error\<close>: a sentinel of the domain or application package, a unique-constraint violation
  reported by PostgreSQL, an error of code outside the repository with its text, or an error
  wrapped by \<open>fmt.Errorf("prefix: %w", err)\<close>.
\<close>

datatype domain_error =
    ErrInvalidSessionID | ErrInvalidClientID | ErrInvalidUserID | ErrInvalidEmail
  | ErrInvalidUsername | ErrInvalidPassword | ErrInvalidVerificationCode | ErrClientMismatch
  | ErrInvalidStatus | ErrInvalidStepKey | ErrSessionNotFound | ErrStepNotFound

datatype app_error =
    ErrNilSessionRepository | ErrNilStepRepository | ErrNilEventBroker | ErrNilLogger
  | ErrNilEmailChecker | ErrNilUsernameChecker | ErrHashPassword | ErrPublishUserCreateCommand
  | ErrPublishAuthCreateCommand | ErrPublishCodeSentEvent | ErrPublishRegistrationCompletedEvent
  | ErrPublishRegistrationFailedEvent

datatype error =
    DomainErr domain_error | AppErr app_error
  | UniqueViolation string \<comment> \<open>the violated constraint\<close>
  | ExtErr string \<comment> \<open>an error of a library, a service or the database, with its text\<close>
  | Wrapped string error

fun domain_error_text :: "domain_error \<Rightarrow> string" where
  "domain_error_text ErrInvalidSessionID = ''invalid session id''"
| "domain_error_text ErrInvalidClientID = ''invalid client id''"
| "domain_error_text ErrInvalidUserID = ''invalid user id''"
| "domain_error_text ErrInvalidEmail = ''invalid email''"
| "domain_error_text ErrInvalidUsername = ''invalid username''"
| "domain_error_text ErrInvalidPassword = ''invalid password''"
| "domain_error_text ErrInvalidVerificationCode = ''invalid verification code''"
| "domain_error_text ErrClientMismatch = ''registration client mismatch''"
| "domain_error_text ErrInvalidStatus = ''invalid status''"
| "domain_error_text ErrInvalidStepKey = ''invalid step key''"
| "domain_error_text ErrSessionNotFound = ''registration session not found''"
| "domain_error_text ErrStepNotFound = ''registration step not found''"

fun app_error_text :: "app_error \<Rightarrow> string" where
  "app_error_text ErrNilSessionRepository = ''session repository is nil''"
| "app_error_text ErrNilStepRepository = ''step repository is nil''"
| "app_error_text ErrNilEventBroker = ''event broker is nil''"
| "app_error_text ErrNilLogger = ''logger is nil''"
| "app_error_text ErrNilEmailChecker = ''email availability checker is nil''"
| "app_error_text ErrNilUsernameChecker = ''username availability checker is nil''"
| "app_error_text ErrHashPassword = ''hash password failed''"
| "app_error_text ErrPublishUserCreateCommand = ''publish user create command failed''"
| "app_error_text ErrPublishAuthCreateCommand = ''publish auth create pending registration command failed''"
| "app_error_text ErrPublishCodeSentEvent = ''publish registration code sent event failed''"
| "app_error_text ErrPublishRegistrationCompletedEvent = ''publish registration completed event failed''"
| "app_error_text ErrPublishRegistrationFailedEvent = ''publish registration failed event failed''"

text \<open>\<open>err.Error()\<close>.\<close>

fun Error :: "error \<Rightarrow> string" where
  "Error (DomainErr e) = domain_error_text e"
| "Error (AppErr e) = app_error_text e"
| "Error (UniqueViolation c) =
     ''ERROR: duplicate key value violates unique constraint '' @ [CHR 0x22] @ c @ [CHR 0x22]
       @ '' (SQLSTATE 23505)''"
| "Error (ExtErr s) = s"
| "Error (Wrapped p e) = p @ Error e"

text \<open>\<open>errors.Is(err, target)\<close> for a target that is not itself a wrapper.\<close>

fun errors_Is :: "error \<Rightarrow> error \<Rightarrow> bool" where
  "errors_Is (Wrapped p e) t = (Wrapped p e = t \<or> errors_Is e t)"
| "errors_Is e t = (e = t)"

lemma errors_Is_refl [simp]: "errors_Is e e"
  by (cases e) simp_all

end
