(* ===== verification/Config.thy ===== *)
theory Config
  imports Go_Strings
begin

text \<open>
  The config package: one record per configuration struct, field by field, and the value
  \<open>Load\<close> gives when no environment variable is set (the \<open>envDefault\<close> tags; a field without
  one is its zero value). Durations are nanoseconds. Reading the environment is the business
  of the library \<open>caarlos0/env\<close> and is not modelled.
\<close>

record AppConfig =
  app_Env :: "string"
  app_LogLevel :: "string"
  app_ObservabilityMode :: "string"

definition AppConfig_default :: AppConfig where
  "AppConfig_default = \<lparr>
     app_Env = ''local'',
     app_LogLevel = ''info'',
     app_ObservabilityMode = ''production''\<rparr>"

record AuthServiceConfig =
  asvc_Address :: "string"

definition AuthServiceConfig_default :: AuthServiceConfig where
  "AuthServiceConfig_default = \<lparr>
     asvc_Address = ''127.0.0.1:9501''\<rparr>"

record UserServiceConfig =
  usvc_Address :: "string"

definition UserServiceConfig_default :: UserServiceConfig where
  "UserServiceConfig_default = \<lparr>
     usvc_Address = ''127.0.0.1:9502''\<rparr>"

record GRPCConfig =
  grpc_Host :: "string"
  grpc_Port :: "int"

definition GRPCConfig_default :: GRPCConfig where
  "GRPCConfig_default = \<lparr>
     grpc_Host = ''0.0.0.0'',
     grpc_Port = 9500\<rparr>"

record MetricsConfig =
  met_Enabled :: "bool"
  met_Host :: "string"
  met_Port :: "int"
  met_Path :: "string"

definition MetricsConfig_default :: MetricsConfig where
  "MetricsConfig_default = \<lparr>
     met_Enabled = True,
     met_Host = ''0.0.0.0'',
     met_Port = 9600,
     met_Path = ''/metrics''\<rparr>"

record DBConfig =
  db_Host :: "string"
  db_Port :: "int"
  db_User :: "string"
  db_Password :: "string"
  db_Name :: "string"
  db_SSLMode :: "string"
  db_MigrationsPath :: "string"
  db_MigrationsTable :: "string"
  db_MaxOpenConns :: "int"
  db_MaxIdleConns :: "int"
  db_ConnMaxLifetime :: "int"

definition DBConfig_default :: DBConfig where
  "DBConfig_default = \<lparr>
     db_Host = ''127.0.0.1'',
     db_Port = 5442,
     db_User = ''admin'',
     db_Password = ''admin'',
     db_Name = ''registration_saga'',
     db_SSLMode = ''disable'',
     db_MigrationsPath = ''file://migration/postgres'',
     db_MigrationsTable = ''schema_migrations_registration_saga'',
     db_MaxOpenConns = 20,
     db_MaxIdleConns = 10,
     db_ConnMaxLifetime = 300000000000\<rparr>"

record NATSConfig =
  nc_URL :: "string"
  nc_User :: "string"
  nc_Password :: "string"
  nc_RegistrationEventsStream :: "string"
  nc_UserEventsStream :: "string"
  nc_AuthEventsStream :: "string"
  nc_MailEventsStream :: "string"
  nc_RegistrationCodeSentSubject :: "string"
  nc_RegistrationCompletedSubject :: "string"
  nc_RegistrationFailedSubject :: "string"
  nc_UserCreateSubject :: "string"
  nc_UserCreateResultSubject :: "string"
  nc_AuthCreatePendingSubject :: "string"
  nc_AuthCreatePendingResultSubject :: "string"
  nc_MailSendResultSubject :: "string"
  nc_UserCreateResultDurable :: "string"
  nc_AuthCreatePendingResultDurable :: "string"
  nc_MailSendResultDurable :: "string"
  nc_ResultBatchSize :: "int"
  nc_ResultMaxWait :: "int"
  nc_ResultWorkers :: "int"
  nc_ResultQueueSize :: "int"
  nc_ResultAckWait :: "int"
  nc_ResultMaxDeliver :: "int"
  nc_ResultAdaptiveEnabled :: "bool"
  nc_ResultAdaptiveCheckInterval :: "int"
  nc_ResultAdaptiveMediumPending :: "int"
  nc_ResultAdaptiveHighPending :: "int"
  nc_ResultAdaptiveLowBatchSize :: "int"
  nc_ResultAdaptiveLowMaxWait :: "int"
  nc_ResultAdaptiveMediumBatchSize :: "int"
  nc_ResultAdaptiveMediumMaxWait :: "int"
  nc_ResultAdaptiveHighBatchSize :: "int"
  nc_ResultAdaptiveHighMaxWait :: "int"

definition NATSConfig_default :: NATSConfig where
  "NATSConfig_default = \<lparr>
     nc_URL = [],
     nc_User = [],
     nc_Password = [],
     nc_RegistrationEventsStream = ''REGISTRATION_EVENTS'',
     nc_UserEventsStream = ''USER_EVENTS'',
     nc_AuthEventsStream = ''AUTH_EVENTS'',
     nc_MailEventsStream = ''MAIL_EVENTS'',
     nc_RegistrationCodeSentSubject = ''registration.code.sent'',
     nc_RegistrationCompletedSubject = ''registration.completed'',
     nc_RegistrationFailedSubject = ''registration.failed'',
     nc_UserCreateSubject = ''saga.user.create'',
     nc_UserCreateResultSubject = ''saga.user.create.result'',
     nc_AuthCreatePendingSubject = ''saga.auth.create_pending_registration'',
     nc_AuthCreatePendingResultSubject = ''saga.auth.create_pending_registration.result'',
     nc_MailSendResultSubject = ''mail.send.result'',
     nc_UserCreateResultDurable = ''registration_saga_user_create_result'',
     nc_AuthCreatePendingResultDurable = ''registration_saga_auth_create_pending_result'',
     nc_MailSendResultDurable = ''registration_saga_mail_send_result'',
     nc_ResultBatchSize = 32,
     nc_ResultMaxWait = 10000000,
     nc_ResultWorkers = 8,
     nc_ResultQueueSize = 500,
     nc_ResultAckWait = 30000000000,
     nc_ResultMaxDeliver = 5,
     nc_ResultAdaptiveEnabled = False,
     nc_ResultAdaptiveCheckInterval = 2000000000,
     nc_ResultAdaptiveMediumPending = 200,
     nc_ResultAdaptiveHighPending = 1000,
     nc_ResultAdaptiveLowBatchSize = 8,
     nc_ResultAdaptiveLowMaxWait = 25000000,
     nc_ResultAdaptiveMediumBatchSize = 32,
     nc_ResultAdaptiveMediumMaxWait = 10000000,
     nc_ResultAdaptiveHighBatchSize = 128,
     nc_ResultAdaptiveHighMaxWait = 2000000\<rparr>"

record KafkaConfig =
  kc_URL :: "string"
  kc_User :: "string"
  kc_Password :: "string"
  kc_Brokers :: "string list"
  kc_GroupID :: "string"
  kc_RecoveryTopic :: "string"
  kc_RecoveryGroup :: "string"
  kc_RecoveryCompletedTopic :: "string"
  kc_UserResultTopic :: "string"
  kc_AuthResultTopic :: "string"
  kc_MailResultTopic :: "string"
  kc_RegistrationEventsStream :: "string"
  kc_UserEventsStream :: "string"
  kc_AuthEventsStream :: "string"
  kc_MailEventsStream :: "string"
  kc_RegistrationCodeSentSubject :: "string"
  kc_RegistrationCompletedSubject :: "string"
  kc_RegistrationFailedSubject :: "string"
  kc_UserCreateSubject :: "string"
  kc_UserCreateResultSubject :: "string"
  kc_AuthCreatePendingSubject :: "string"
  kc_AuthCreatePendingResultSubject :: "string"
  kc_MailSendResultSubject :: "string"
  kc_UserCreateResultDurable :: "string"
  kc_AuthCreatePendingResultDurable :: "string"
  kc_MailSendResultDurable :: "string"
  kc_ResultBatchSize :: "int"
  kc_ResultMaxWait :: "int"
  kc_ResultWorkers :: "int"
  kc_ResultQueueSize :: "int"
  kc_ResultAckWait :: "int"
  kc_ResultMaxDeliver :: "int"
  kc_ResultAdaptiveEnabled :: "bool"
  kc_ResultAdaptiveCheckInterval :: "int"
  kc_ResultAdaptiveMediumPending :: "int"
  kc_ResultAdaptiveHighPending :: "int"
  kc_ResultAdaptiveLowBatchSize :: "int"
  kc_ResultAdaptiveLowMaxWait :: "int"
  kc_ResultAdaptiveMediumBatchSize :: "int"
  kc_ResultAdaptiveMediumMaxWait :: "int"
  kc_ResultAdaptiveHighBatchSize :: "int"
  kc_ResultAdaptiveHighMaxWait :: "int"

definition KafkaConfig_default :: KafkaConfig where
  "KafkaConfig_default = \<lparr>
     kc_URL = [],
     kc_User = [],
     kc_Password = [],
     kc_Brokers = [''127.0.0.1:9092''],
     kc_GroupID = ''registration-saga-service'',
     kc_RecoveryTopic = ''migration.recovery.commands.registration'',
     kc_RecoveryGroup = ''registration-saga-service-recovery'',
     kc_RecoveryCompletedTopic = ''migration.recovery.completed'',
     kc_UserResultTopic = ''saga.user.create.result'',
     kc_AuthResultTopic = ''saga.auth.create_pending_registration.result'',
     kc_MailResultTopic = ''mail.send.result'',
     kc_RegistrationEventsStream = ''REGISTRATION_EVENTS'',
     kc_UserEventsStream = ''USER_EVENTS'',
     kc_AuthEventsStream = ''AUTH_EVENTS'',
     kc_MailEventsStream = ''MAIL_EVENTS'',
     kc_RegistrationCodeSentSubject = ''migration.registration.code.sent'',
     kc_RegistrationCompletedSubject = ''migration.registration.completed'',
     kc_RegistrationFailedSubject = ''migration.registration.failed'',
     kc_UserCreateSubject = ''saga.user.create'',
     kc_UserCreateResultSubject = ''saga.user.create.result'',
     kc_AuthCreatePendingSubject = ''saga.auth.create_pending_registration'',
     kc_AuthCreatePendingResultSubject = ''saga.auth.create_pending_registration.result'',
     kc_MailSendResultSubject = ''mail.send.result'',
     kc_UserCreateResultDurable = ''registration_saga_user_create_result'',
     kc_AuthCreatePendingResultDurable = ''registration_saga_auth_create_pending_result'',
     kc_MailSendResultDurable = ''registration_saga_mail_send_result'',
     kc_ResultBatchSize = 32,
     kc_ResultMaxWait = 10000000,
     kc_ResultWorkers = 8,
     kc_ResultQueueSize = 500,
     kc_ResultAckWait = 30000000000,
     kc_ResultMaxDeliver = 5,
     kc_ResultAdaptiveEnabled = False,
     kc_ResultAdaptiveCheckInterval = 2000000000,
     kc_ResultAdaptiveMediumPending = 200,
     kc_ResultAdaptiveHighPending = 1000,
     kc_ResultAdaptiveLowBatchSize = 8,
     kc_ResultAdaptiveLowMaxWait = 25000000,
     kc_ResultAdaptiveMediumBatchSize = 32,
     kc_ResultAdaptiveMediumMaxWait = 10000000,
     kc_ResultAdaptiveHighBatchSize = 128,
     kc_ResultAdaptiveHighMaxWait = 2000000\<rparr>"

record PullAdaptiveConfig =
  pa_Enabled :: "bool"
  pa_CheckInterval :: "int"
  pa_MediumPending :: "int"
  pa_HighPending :: "int"
  pa_LowBatchSize :: "int"
  pa_LowMaxWait :: "int"
  pa_MediumBatchSize :: "int"
  pa_MediumMaxWait :: "int"
  pa_HighBatchSize :: "int"
  pa_HighMaxWait :: "int"

record PullConsumerConfig =
  pc_GroupID :: string
  pc_Stream :: string
  pc_Subject :: string
  pc_Durable :: string
  pc_BatchSize :: int
  pc_MaxWait :: int
  pc_Workers :: int
  pc_QueueSize :: int
  pc_AckWait :: int
  pc_MaxDeliver :: int
  pc_Adaptive :: PullAdaptiveConfig

text \<open>The zero values, for Go's partially filled struct literals.\<close>

definition PullAdaptiveConfig_zero :: PullAdaptiveConfig where
  "PullAdaptiveConfig_zero = \<lparr>
     pa_Enabled = False, pa_CheckInterval = 0, pa_MediumPending = 0, pa_HighPending = 0,
     pa_LowBatchSize = 0, pa_LowMaxWait = 0, pa_MediumBatchSize = 0, pa_MediumMaxWait = 0,
     pa_HighBatchSize = 0, pa_HighMaxWait = 0\<rparr>"

definition PullConsumerConfig_zero :: PullConsumerConfig where
  "PullConsumerConfig_zero = \<lparr>
     pc_GroupID = [], pc_Stream = [], pc_Subject = [], pc_Durable = [], pc_BatchSize = 0,
     pc_MaxWait = 0, pc_Workers = 0, pc_QueueSize = 0, pc_AckWait = 0, pc_MaxDeliver = 0,
     pc_Adaptive = PullAdaptiveConfig_zero\<rparr>"

end
