(* ===== verification/Go_Json_Parse.thy ===== *)
theory Go_Json_Parse
  imports Go_Json
begin

text \<open>
  The parsing half of the \<open>encoding/json\<close> model: string literals with their escapes, values,
  and the decoding of an object into a struct of string fields.
\<close>

section \<open>String literals\<close>

definition hex_val :: "char \<Rightarrow> nat option" where
  "hex_val c =
     (let n = byte c in
      if 48 \<le> n \<and> n \<le> 57 then Some (n - 48)
      else if 97 \<le> n \<and> n \<le> 102 then Some (n - 87)
      else if 65 \<le> n \<and> n \<le> 70 then Some (n - 55) else None)"

fun getu4 :: "bytes \<Rightarrow> (nat \<times> bytes) option" where
  "getu4 (a # b # c # d # r) =
     (case (hex_val a, hex_val b, hex_val c, hex_val d) of
        (Some i, Some j, Some k, Some l) \<Rightarrow> Some (4096 * i + 256 * j + 16 * k + l, r)
      | _ \<Rightarrow> None)"
| "getu4 _ = None"

text \<open>
  \<open>\uXXXX\<close>, with a surrogate pair read as one rune and a lone surrogate as U+FFFD.
\<close>

definition unescape_u :: "bytes \<Rightarrow> (bytes \<times> bytes) option" where
  "unescape_u r =
     (case getu4 r of
        None \<Rightarrow> None
      | Some (h, r1) \<Rightarrow>
          if 0xD800 \<le> h \<and> h < 0xE000 then
            (case (if take 2 r1 = [bslash, CHR ''u''] then getu4 (drop 2 r1) else None) of
               Some (l, r2) \<Rightarrow>
                 if h < 0xDC00 \<and> 0xDC00 \<le> l \<and> l < 0xE000
                 then Some (encode_rune (0x10000 + (h - 0xD800) * 1024 + (l - 0xDC00)), r2)
                 else Some (replacement, r1)
             | None \<Rightarrow> Some (replacement, r1))
          else Some (encode_rune h, r1))"

text \<open>The escape after a backslash: what it stands for and what is left.\<close>

definition unescape :: "bytes \<Rightarrow> (bytes \<times> bytes) option" where
  "unescape s =
     (case s of
        [] \<Rightarrow> None
      | e # r \<Rightarrow>
          if e = dquote \<or> e = bslash \<or> e = CHR ''/'' then Some ([e], r)
          else if e = CHR ''b'' then Some ([CHR 0x08], r)
          else if e = CHR ''f'' then Some ([CHR 0x0C], r)
          else if e = CHR ''n'' then Some ([CHR 0x0A], r)
          else if e = CHR ''r'' then Some ([CHR 0x0D], r)
          else if e = CHR ''t'' then Some ([CHR 0x09], r)
          else if e = CHR ''u'' then unescape_u r
          else None)"

lemma getu4_length: "getu4 r = Some (n, r') \<Longrightarrow> length r = length r' + 4"
  by (cases r rule: getu4.cases) (auto split: option.splits)

lemma unescape_u_length: "unescape_u r = Some (v, r') \<Longrightarrow> length r' < length r"
  by (auto simp: unescape_u_def dest!: getu4_length split: option.splits if_splits)

lemma unescape_length: "unescape s = Some (v, r) \<Longrightarrow> length r < length s"
  by (auto simp: unescape_def split: list.splits if_splits dest: unescape_u_length)

definition emit :: "bytes \<Rightarrow> (bytes \<times> bytes) option \<Rightarrow> (bytes \<times> bytes) option" where
  "emit out res = map_option (\<lambda>(s, r). (out @ s, r)) res"

lemma emit_Some [simp]: "emit out (Some (s, r)) = Some (out @ s, r)"
  by (simp add: emit_def)

lemma emit_eq_Some: "emit out res = Some (t, r) \<longleftrightarrow> (\<exists>s. res = Some (s, r) \<and> t = out @ s)"
  by (cases res) (auto simp: emit_def)

text \<open>The literal after its opening quote: its value and what follows the closing quote.\<close>

function parse_str :: "bytes \<Rightarrow> (bytes \<times> bytes) option" where
  "parse_str s =
     (case s of
        [] \<Rightarrow> None
      | c # r \<Rightarrow>
          if c = dquote then Some ([], r)
          else if c = bslash then
            (case unescape r of None \<Rightarrow> None | Some (out, r') \<Rightarrow> emit out (parse_str r'))
          else if byte c < 0x20 then None
          else if rune_width s = 0 then emit replacement (parse_str r)
          else emit (take (rune_width s) s) (parse_str (drop (rune_width s) s)))"
  by pat_completeness auto
termination
  by (relation "measure length") (auto dest: unescape_length)

declare parse_str.simps [simp del]

lemma parse_str_Nil [simp]: "parse_str [] = None"
  by (subst parse_str.simps) simp

lemma parse_str_Cons:
  "parse_str (c # t) =
     (if c = dquote then Some ([], t)
      else if c = bslash then
        (case unescape t of None \<Rightarrow> None | Some (out, r') \<Rightarrow> emit out (parse_str r'))
      else if byte c < 0x20 then None
      else if rune_width (c # t) = 0 then emit replacement (parse_str t)
      else emit (take (rune_width (c # t)) (c # t)) (parse_str (drop (rune_width (c # t)) (c # t))))"
  by (subst parse_str.simps) (simp del: drop_Cons take_Cons)

lemma parse_str_dquote [simp]: "parse_str (dquote # t) = Some ([], t)"
  by (subst parse_str_Cons) simp

lemma parse_str_bslash:
  "parse_str (bslash # t) =
     (case unescape t of None \<Rightarrow> None | Some (out, r') \<Rightarrow> emit out (parse_str r'))"
  by (subst parse_str_Cons) simp

lemma parse_str_length: "parse_str s = Some (v, r) \<Longrightarrow> length r < length s"
proof (induction s arbitrary: v rule: length_induct)
  case (1 s)
  then obtain c t where s: "s = c # t" by (cases s) auto
  have IH: "parse_str u = Some (w, r) \<Longrightarrow> length u < length s \<Longrightarrow> length r < length u" for u w
    using 1 by blast
  let ?n = "rune_width s"
  consider "c = dquote" | o' r' where "c = bslash" "unescape t = Some (o', r')" "\<exists>w. parse_str r' = Some (w, r)"
    | "\<exists>w. parse_str t = Some (w, r)" | "?n \<noteq> 0" "\<exists>w. parse_str (drop ?n s) = Some (w, r)"
    using "1.prems" unfolding s parse_str_Cons
    by (auto simp: emit_eq_Some simp del: drop_Cons take_Cons split: if_splits option.splits)
  then show ?case
  proof cases
    case 1
    with "1.prems" s show ?thesis by (simp add: parse_str_Cons)
  next
    case 2
    then have "length r' < length s" using unescape_length s by fastforce
    with 2 IH show ?thesis by fastforce
  next
    case 3
    with IH [of t] s show ?thesis by auto
  next
    case 4
    then have "length (drop ?n s) < length s" using s by simp
    with 4 IH show ?thesis by fastforce
  qed
qed

section \<open>The string round trip\<close>

lemma hex_val_digit: "n < 16 \<Longrightarrow> hex_val (hex_digit n) = Some n"
  by (auto simp: hex_val_def hex_digit_def Let_def)

lemma byte_eqs:
  "byte c = 8 \<longleftrightarrow> c = CHR 0x08" "byte c = 9 \<longleftrightarrow> c = CHR 0x09"
  "byte c = 10 \<longleftrightarrow> c = CHR 0x0A" "byte c = 12 \<longleftrightarrow> c = CHR 0x0C"
  "byte c = 13 \<longleftrightarrow> c = CHR 0x0D"
proof -
  have "byte c = byte d \<longleftrightarrow> c = d" for d by simp
  from this [of "CHR 0x08"] this [of "CHR 0x09"] this [of "CHR 0x0A"] this [of "CHR 0x0C"]
    this [of "CHR 0x0D"]
  show "byte c = 8 \<longleftrightarrow> c = CHR 0x08" "byte c = 9 \<longleftrightarrow> c = CHR 0x09"
    "byte c = 10 \<longleftrightarrow> c = CHR 0x0A" "byte c = 12 \<longleftrightarrow> c = CHR 0x0C"
    "byte c = 13 \<longleftrightarrow> c = CHR 0x0D"
    by (simp_all only: of_char_Char) simp_all
qed

lemma parse_escape_byte:
  assumes "byte c < 0x80"
  shows "parse_str (escape_byte c @ t) = emit [c] (parse_str t)"
proof -
  consider (q) "c = dquote \<or> c = bslash"
    | (ctl) "byte c \<in> {8, 9, 10, 12, 13}" "c \<noteq> dquote" "c \<noteq> bslash"
    | (u) "byte c \<notin> {8, 9, 10, 12, 13}" "c \<noteq> dquote" "c \<noteq> bslash"
          "byte c < 0x20 \<or> c = CHR ''<'' \<or> c = CHR ''>'' \<or> c = CHR ''&''"
    | (plain) "\<not> byte c < 0x20" "c \<noteq> dquote" "c \<noteq> bslash"
          "c \<noteq> CHR ''<''" "c \<noteq> CHR ''>''" "c \<noteq> CHR ''&''"
    by auto
  then show ?thesis
  proof cases
    case q
    then have "escape_byte c = [bslash, c]" and "unescape (c # t) = Some ([c], t)"
      by (auto simp: escape_byte_def unescape_def)
    then show ?thesis by (simp add: parse_str_bslash)
  next
    case ctl
    then have "c \<in> {CHR 0x08, CHR 0x09, CHR 0x0A, CHR 0x0C, CHR 0x0D}"
      by (auto simp: byte_eqs)
    then have "\<exists>d. escape_byte c = [bslash, d] \<and> unescape (d # t) = Some ([c], t)"
      by (elim insertE emptyE) (simp_all add: escape_byte_def unescape_def)
    then show ?thesis by (auto simp: parse_str_bslash)
  next
    case u
    let ?u = "CHR ''u'' # CHR ''0'' # CHR ''0'' # hex_digit (byte c div 16) # hex_digit (byte c mod 16) # t"
    have "byte c div 16 < 16" "byte c mod 16 < 16" using assms by simp_all
    moreover have "hex_val CHR ''0'' = Some 0" by (simp add: hex_val_def)
    ultimately have "getu4 (tl ?u) = Some (byte c, t)"
      by (simp add: hex_val_digit)
    then have "unescape ?u = Some ([c], t)"
      using assms by (simp add: unescape_def unescape_u_def encode_rune_def)
    moreover have "escape_byte c = [bslash, CHR ''u'', CHR ''0'', CHR ''0'',
        hex_digit (byte c div 16), hex_digit (byte c mod 16)]"
      using u by (simp add: escape_byte_def)
    ultimately show ?thesis by (simp add: parse_str_bslash)
  next
    case plain
    then have "escape_byte c = [c]" by (auto simp: escape_byte_def)
    moreover have "rune_width (c # t) = 1" using assms by (simp add: rune_width_Suc0)
    ultimately show ?thesis using plain
      by (simp add: parse_str_Cons [of c t])
  qed
qed

text \<open>
  What a consumer reads back from a marshalled string is the string with invalid UTF-8
  replaced, so every valid string comes back as it was.
\<close>

lemma escape_Nil [simp]: "escape [] = []"
  by (simp add: escape.simps)

lemma char_of_values:
  "char_of (239::nat) = CHR 0xEF" "char_of (191::nat) = CHR 0xBF" "char_of (189::nat) = CHR 0xBD"
  "char_of (226::nat) = CHR 0xE2" "char_of (128::nat) = CHR 0x80" "char_of (168::nat) = CHR 0xA8"
  "char_of (169::nat) = CHR 0xA9"
  by code_simp+

lemma unescape_constants:
  "unescape (''ufffd'' @ t) = Some (replacement, t)"
  "unescape (''u2028'' @ t) = Some ([CHR 0xE2, CHR 0x80, CHR 0xA8], t)"
  "unescape (''u2029'' @ t) = Some ([CHR 0xE2, CHR 0x80, CHR 0xA9], t)"
  by (simp_all add: unescape_def unescape_u_def hex_val_def encode_rune_def replacement_def
      char_of_values)

lemma rune_width_separators:
  "rune_width (CHR 0xE2 # CHR 0x80 # CHR 0xA8 # t) = 3"
  "rune_width (CHR 0xE2 # CHR 0x80 # CHR 0xA9 # t) = 3"
  by (simp_all add: rune_width_4 enc2_def enc3_def between_def cont_def)

lemma take3_eq: "take 3 s = [a, b, c] \<longleftrightarrow> (\<exists>t. s = a # b # c # t)"
  by (cases s; cases "tl s"; cases "tl (tl s)") auto

text \<open>A multi-byte rune is copied.\<close>

lemma parse_str_rune:
  assumes "s \<noteq> []" and "0x80 \<le> byte (hd s)" and "0 < rune_width s"
  shows "parse_str (take (rune_width s) s @ r) = emit (take (rune_width s) s) (parse_str r)"
proof -
  define w where "w = rune_width s"
  define x where "x = take w s"
  have len: "length x = w" using rune_width_le [of s] by (simp add: x_def w_def)
  have wd: "rune_width (x @ r) = w"
    using assms(3) by (simp add: x_def w_def rune_width_take_append)
  obtain c t where x: "x = c # t"
    using assms by (cases s; cases w) (auto simp: x_def w_def)
  have "c = hd s" using x assms by (cases s; cases w) (auto simp: x_def w_def)
  with assms(2) have "c \<noteq> dquote" "c \<noteq> bslash" "\<not> byte c < 0x20" by auto
  moreover have "take w (x @ r) = x" "drop w (x @ r) = r" using len by simp_all
  moreover have "w \<noteq> 0" using assms(3) by (simp add: w_def)
  ultimately have "parse_str (x @ r) = emit x (parse_str r)"
    using parse_str_Cons [of c "t @ r"] wd unfolding x append_Cons by simp
  then show ?thesis by (simp add: x_def w_def)
qed

lemma parse_str_escape: "parse_str (escape s @ dquote # rest) = Some (valid_utf8 s, rest)"
proof (induction s rule: escape.induct)
  case (1 s)
  let ?w = "rune_width s"
  consider (nil) "s = []"
    | (bad) "s \<noteq> []" "?w = 0"
    | (one) "s \<noteq> []" "?w = 1"
    | (ls) t where "s = CHR 0xE2 # CHR 0x80 # CHR 0xA8 # t"
    | (ps) t where "s = CHR 0xE2 # CHR 0x80 # CHR 0xA9 # t"
    | (many) "s \<noteq> []" "?w \<noteq> 0" "?w \<noteq> 1" "take 3 s \<noteq> [CHR 0xE2, CHR 0x80, CHR 0xA8]"
        "take 3 s \<noteq> [CHR 0xE2, CHR 0x80, CHR 0xA9]"
    by (metis take3_eq)
  then show ?case
  proof cases
    case nil
    then show ?thesis by simp
  next
    case bad
    with 1(1) have "parse_str (escape (tl s) @ dquote # rest) = Some (valid_utf8 (tl s), rest)" by simp
    with bad show ?thesis
      using unescape_constants(1) [of "escape (tl s) @ dquote # rest"]
      by (simp add: escape.simps [of s] valid_utf8.simps [of s] parse_str_bslash)
  next
    case one
    then obtain c t where s: "s = c # t" by (cases s) auto
    with one have c: "byte c < 0x80" by (simp add: rune_width_Suc0)
    from 1(2) one s have "parse_str (escape t @ dquote # rest) = Some (valid_utf8 t, rest)" by simp
    then show ?thesis
      using one s c by (simp add: escape.simps [of "c # t"] valid_utf8.simps [of "c # t"] parse_escape_byte)
  next
    case (ls t)
    then have w: "?w = 3" by (simp add: rune_width_separators)
    with 1(3) ls have "parse_str (escape t @ dquote # rest) = Some (valid_utf8 t, rest)" by simp
    then show ?thesis
      using ls w unescape_constants(2) [of "escape t @ dquote # rest"]
      by (simp add: escape.simps [of "CHR 0xE2 # CHR 0x80 # CHR 0xA8 # t"]
          valid_utf8.simps [of "CHR 0xE2 # CHR 0x80 # CHR 0xA8 # t"] parse_str_bslash)
  next
    case (ps t)
    then have w: "?w = 3" by (simp add: rune_width_separators)
    with 1(4) ps have "parse_str (escape t @ dquote # rest) = Some (valid_utf8 t, rest)" by simp
    then show ?thesis
      using ps w unescape_constants(3) [of "escape t @ dquote # rest"]
      by (simp add: escape.simps [of "CHR 0xE2 # CHR 0x80 # CHR 0xA9 # t"]
          valid_utf8.simps [of "CHR 0xE2 # CHR 0x80 # CHR 0xA9 # t"] parse_str_bslash)
  next
    case many
    let ?r = "escape (drop ?w s) @ dquote # rest"
    from many 1(5) have IH: "parse_str ?r = Some (valid_utf8 (drop ?w s), rest)" by simp
    from many obtain c t where s: "s = c # t" by (cases s) auto
    with many have hi: "0x80 \<le> byte c" using rune_width_high [of c t] by simp
    with s many have "parse_str (take ?w s @ ?r) = emit (take ?w s) (parse_str ?r)"
      by (intro parse_str_rune) simp_all
    with IH many show ?thesis
      by (simp add: escape.simps [of s] valid_utf8.simps [of s])
  qed
qed

end
