(* ===== verification/Go_Json_Decode.thy ===== *)
theory Go_Json_Decode
  imports Go_Json_Parse
begin

text \<open>
  Values, the round trip \<open>json_parse (render j)\<close>, and \<open>Unmarshal\<close> into a struct whose fields
  are strings.
\<close>

section \<open>Values\<close>

definition is_ws :: "char \<Rightarrow> bool" where
  "is_ws c \<longleftrightarrow> c \<in> {CHR 0x20, CHR 0x09, CHR 0x0A, CHR 0x0D}"

definition skip :: "bytes \<Rightarrow> bytes" where
  "skip s = dropWhile is_ws s"

lemma skip_length: "length (skip s) \<le> length s"
  by (simp add: skip_def length_dropWhile_le)

lemma skip_Cons: "\<not> is_ws c \<Longrightarrow> skip (c # s) = c # s"
  by (simp add: skip_def)

definition is_digit :: "char \<Rightarrow> bool" where
  "is_digit c \<longleftrightarrow> 48 \<le> byte c \<and> byte c \<le> 57"

text \<open>
  A number: \<open>-?(0|[1-9][0-9]*)(.[0-9]+)?([eE][+-]?[0-9]+)?\<close>, read as far as it goes.
\<close>

definition digits1 :: "bytes \<Rightarrow> (bytes \<times> bytes) option" where
  "digits1 s = (let d = takeWhile is_digit s in
     if d = [] then None else Some (d, dropWhile is_digit s))"

definition int_part :: "bytes \<Rightarrow> (bytes \<times> bytes) option" where
  "int_part s = (case s of c # r \<Rightarrow> if c = CHR ''0'' then Some ([c], r) else digits1 s
                         | [] \<Rightarrow> None)"

definition frac_part :: "bytes \<Rightarrow> (bytes \<times> bytes) option" where
  "frac_part s = (case s of c # r \<Rightarrow>
       if c = CHR ''.'' then map_option (\<lambda>(d, r'). (c # d, r')) (digits1 r) else Some ([], s)
     | [] \<Rightarrow> Some ([], []))"

definition exp_part :: "bytes \<Rightarrow> (bytes \<times> bytes) option" where
  "exp_part s = (case s of c # r \<Rightarrow>
       if c = CHR ''e'' \<or> c = CHR ''E'' then
         (case r of g # r' \<Rightarrow>
            if g = CHR ''+'' \<or> g = CHR ''-'' then map_option (\<lambda>(d, r''). (c # g # d, r'')) (digits1 r')
            else map_option (\<lambda>(d, r''). (c # d, r'')) (digits1 r)
          | [] \<Rightarrow> None)
       else Some ([], s)
     | [] \<Rightarrow> Some ([], []))"

definition sign_part :: "bytes \<Rightarrow> bytes \<times> bytes" where
  "sign_part s = (case s of c # r \<Rightarrow> if c = CHR ''-'' then ([c], r) else ([], s) | [] \<Rightarrow> ([], []))"

definition parse_num :: "bytes \<Rightarrow> (bytes \<times> bytes) option" where
  "parse_num s =
     (let (sgn, s0) = sign_part s in
      case int_part s0 of None \<Rightarrow> None | Some (i, s1) \<Rightarrow>
      (case frac_part s1 of None \<Rightarrow> None | Some (f, s2) \<Rightarrow>
      (case exp_part s2 of None \<Rightarrow> None | Some (e, s3) \<Rightarrow> Some (sgn @ i @ f @ e, s3))))"

definition parse_lit :: "bytes \<Rightarrow> json \<Rightarrow> bytes \<Rightarrow> (json \<times> bytes) option" where
  "parse_lit l j s = (if take (length l) s = l then Some (j, drop (length l) s) else None)"

fun parse_value :: "nat \<Rightarrow> bytes \<Rightarrow> (json \<times> bytes) option"
  and parse_elems :: "nat \<Rightarrow> bytes \<Rightarrow> (json list \<times> bytes) option"
  and parse_members :: "nat \<Rightarrow> bytes \<Rightarrow> ((bytes \<times> json) list \<times> bytes) option" where
  "parse_value 0 s = None"
| "parse_value (Suc n) s =
     (case skip s of
        [] \<Rightarrow> None
      | c # r \<Rightarrow>
          if c = dquote then map_option (\<lambda>(v, r'). (JStr v, r')) (parse_str r)
          else if c = CHR ''{'' then
            (case skip r of
               [] \<Rightarrow> None
             | d # r' \<Rightarrow> if d = CHR ''}'' then Some (JObj [], r')
                         else map_option (\<lambda>(kvs, r''). (JObj kvs, r'')) (parse_members n r))
          else if c = CHR ''['' then
            (case skip r of
               [] \<Rightarrow> None
             | d # r' \<Rightarrow> if d = CHR '']'' then Some (JArr [], r')
                         else map_option (\<lambda>(xs, r''). (JArr xs, r'')) (parse_elems n r))
          else if c = CHR ''t'' then parse_lit ''true'' (JBool True) (c # r)
          else if c = CHR ''f'' then parse_lit ''false'' (JBool False) (c # r)
          else if c = CHR ''n'' then parse_lit ''null'' JNull (c # r)
          else map_option (\<lambda>(d, r'). (JNum d, r')) (parse_num (c # r)))"
| "parse_elems 0 s = None"
| "parse_elems (Suc n) s =
     (case parse_value n s of
        None \<Rightarrow> None
      | Some (v, r) \<Rightarrow>
          (case skip r of
             [] \<Rightarrow> None
           | c # r' \<Rightarrow>
               if c = CHR '','' then map_option (\<lambda>(vs, r''). (v # vs, r'')) (parse_elems n r')
               else if c = CHR '']'' then Some ([v], r')
               else None))"
| "parse_members 0 s = None"
| "parse_members (Suc n) s =
     (case skip s of
        [] \<Rightarrow> None
      | q # r \<Rightarrow>
          if q \<noteq> dquote then None
          else (case parse_str r of
             None \<Rightarrow> None
           | Some (k, r1) \<Rightarrow>
               (case skip r1 of
                  [] \<Rightarrow> None
                | c # r2 \<Rightarrow>
                    if c \<noteq> CHR '':'' then None
                    else (case parse_value n r2 of
                       None \<Rightarrow> None
                     | Some (v, r3) \<Rightarrow>
                         (case skip r3 of
                            [] \<Rightarrow> None
                          | e # r4 \<Rightarrow>
                              if e = CHR '','' then
                                map_option (\<lambda>(kvs, r5). ((k, v) # kvs, r5)) (parse_members n r4)
                              else if e = CHR ''}'' then Some ([(k, v)], r4)
                              else None)))))"

definition json_parse :: "bytes \<Rightarrow> json option" where
  "json_parse s =
     (case parse_value (2 * length s + 2) s of
        Some (j, r) \<Rightarrow> if skip r = [] then Some j else None
      | None \<Rightarrow> None)"

section \<open>The round trip\<close>

text \<open>
  Values without numbers (the service marshals only strings and booleans), and the value a
  reader gets: the same with invalid UTF-8 replaced.
\<close>

fun plain :: "json \<Rightarrow> bool" where
  "plain JNull = True"
| "plain (JBool b) = True"
| "plain (JNum n) = False"
| "plain (JStr s) = True"
| "plain (JArr xs) = list_all plain xs"
| "plain (JObj kvs) = list_all (\<lambda>(k, v). plain v) kvs"

fun norm :: "json \<Rightarrow> json" where
  "norm (JStr s) = JStr (valid_utf8 s)"
| "norm (JArr xs) = JArr (map norm xs)"
| "norm (JObj kvs) = JObj (map (\<lambda>(k, v). (valid_utf8 k, norm v)) kvs)"
| "norm j = j"

lemma render_head:
  "plain j \<Longrightarrow> \<exists>c r. render j = c # r \<and> \<not> is_ws c \<and> c \<noteq> CHR '']''"
  by (cases j) (auto simp: quote_def is_ws_def)

lemma join_Cons: "xs \<noteq> [] \<Longrightarrow> join (x # xs) = x @ CHR '','' # join xs"
  by (cases xs) (simp_all add: join_def)

lemma join_single [simp]: "join [x] = x"
  by (simp add: join_def)

lemma join_Nil [simp]: "join [] = []"
  by (simp add: join_def)

definition reads_back :: "json \<Rightarrow> bool" where
  "reads_back j \<longleftrightarrow>
     (\<forall>n rest. 2 * length (render j) < n \<longrightarrow>
        parse_value n (render j @ rest) = Some (norm j, rest))"

lemma parse_elems_render:
  assumes "xs \<noteq> []" and "\<And>x. x \<in> set xs \<Longrightarrow> reads_back x"
    and "2 * length (join (map render xs)) + 1 < n"
  shows "parse_elems n (join (map render xs) @ CHR '']'' # rest) = Some (map norm xs, rest)"
  using assms
proof (induction xs arbitrary: n)
  case (Cons x xs)
  from Cons.prems(3) obtain m where n: "n = Suc m" by (cases n) auto
  show ?case
  proof (cases "xs = []")
    case True
    with Cons.prems n show ?thesis
      by (auto simp: reads_back_def skip_Cons is_ws_def)
  next
    case False
    then have j: "join (map render (x # xs)) = render x @ CHR '','' # join (map render xs)"
      by (simp add: join_Cons)
    have "parse_value m (render x @ CHR '','' # join (map render xs) @ CHR '']'' # rest)
          = Some (norm x, CHR '','' # join (map render xs) @ CHR '']'' # rest)"
      using Cons.prems(2,3) n unfolding j by (auto simp: reads_back_def)
    moreover have "parse_elems m (join (map render xs) @ CHR '']'' # rest) = Some (map norm xs, rest)"
      using Cons.prems(2,3) n False unfolding j by (intro Cons.IH) auto
    ultimately show ?thesis unfolding j n by (simp add: skip_Cons is_ws_def)
  qed
qed simp

abbreviation member :: "bytes \<times> json \<Rightarrow> bytes" where
  "member \<equiv> \<lambda>(k, v). quote k @ [CHR '':''] @ render v"

lemma parse_members_render:
  assumes "kvs \<noteq> []" and "\<And>k v. (k, v) \<in> set kvs \<Longrightarrow> reads_back v"
    and "2 * length (join (map member kvs)) + 1 < n"
  shows "parse_members n (join (map member kvs) @ CHR ''}'' # rest)
    = Some (map (\<lambda>(k, v). (valid_utf8 k, norm v)) kvs, rest)"
  using assms
proof (induction kvs arbitrary: n)
  case (Cons kv kvs)
  obtain k v where kv: "kv = (k, v)" by (cases kv)
  from Cons.prems(3) obtain m where n: "n = Suc m" by (cases n) auto
  have rb: "2 * length (render v) < m \<Longrightarrow> parse_value m (render v @ t) = Some (norm v, t)" for t
    using Cons.prems(2) kv by (auto simp: reads_back_def)
  show ?case
  proof (cases "kvs = []")
    case True
    with Cons.prems(3) n kv rb show ?thesis
      by (simp add: quote_def skip_Cons is_ws_def parse_str_escape)
  next
    case False
    then have j: "join (map member (kv # kvs))
        = dquote # escape k @ dquote # CHR '':'' # render v @ CHR '','' # join (map member kvs)"
      by (simp add: join_Cons kv quote_def)
    have "parse_members m (join (map member kvs) @ CHR ''}'' # rest)
        = Some (map (\<lambda>(k, v). (valid_utf8 k, norm v)) kvs, rest)"
      using Cons.prems(2,3) n False unfolding j by (intro Cons.IH) auto
    with Cons.prems(3) rb show ?thesis unfolding j n
      by (simp add: skip_Cons is_ws_def parse_str_escape kv)
  qed
qed simp

lemma reads_backI:
  assumes "\<And>m rest. 2 * length (render j) < Suc m \<Longrightarrow>
      parse_value (Suc m) (render j @ rest) = Some (norm j, rest)"
  shows "reads_back j"
  unfolding reads_back_def
proof (intro allI impI)
  fix n rest assume "2 * length (render j) < n"
  with assms show "parse_value n (render j @ rest) = Some (norm j, rest)" by (cases n) auto
qed

lemma plain_reads_back: "plain j \<Longrightarrow> reads_back j"
proof (induction j)
  case (JArr xs)
  show ?case
  proof (rule reads_backI)
    fix m rest assume m: "2 * length (render (JArr xs)) < Suc m"
    show "parse_value (Suc m) (render (JArr xs) @ rest) = Some (norm (JArr xs), rest)"
    proof (cases xs)
      case (Cons x ys)
      with JArr.prems obtain c r where c: "render x = c # r" "\<not> is_ws c" "c \<noteq> CHR '']''"
        using render_head [of x] by auto
      obtain t where t: "join (map render xs) = c # t"
        using Cons c by (simp add: join_def)
      have "parse_elems m (join (map render xs) @ CHR '']'' # rest) = Some (map norm xs, rest)"
        using JArr m Cons by (intro parse_elems_render) (auto simp: list_all_iff)
      with c t show ?thesis by (simp add: skip_Cons is_ws_def)
    qed (simp add: skip_Cons is_ws_def)
  qed
next
  case (JObj kvs)
  show ?case
  proof (rule reads_backI)
    fix m rest assume m: "2 * length (render (JObj kvs)) < Suc m"
    show "parse_value (Suc m) (render (JObj kvs) @ rest) = Some (norm (JObj kvs), rest)"
    proof (cases kvs)
      case (Cons kv ys)
      obtain t where t: "join (map member kvs) = dquote # t"
        using Cons by (cases kv) (simp add: join_def quote_def)
      have "parse_members m (join (map member kvs) @ CHR ''}'' # rest)
          = Some (map (\<lambda>(k, v). (valid_utf8 k, norm v)) kvs, rest)"
        using JObj m Cons by (intro parse_members_render) (fastforce simp: list_all_iff)+
      with t show ?thesis by (simp add: skip_Cons is_ws_def)
    qed (simp add: skip_Cons is_ws_def)
  qed
qed (auto intro!: reads_backI simp: quote_def skip_Cons is_ws_def parse_str_escape parse_lit_def)

theorem parse_render: "plain j \<Longrightarrow> json_parse (render j) = Some (norm j)"
proof -
  assume "plain j"
  then have "parse_value (2 * length (render j) + 2) (render j @ []) = Some (norm j, [])"
    using plain_reads_back unfolding reads_back_def by (metis less_add_same_cancel1 zero_less_numeral)
  then show ?thesis by (simp only: json_parse_def append_Nil2) (simp add: skip_def)
qed

section \<open>The fuel is enough\<close>

lemma digits1_length: "digits1 s = Some (d, r) \<Longrightarrow> length r < length s"
proof -
  assume a: "digits1 s = Some (d, r)"
  then have "takeWhile is_digit s \<noteq> []" and r: "r = dropWhile is_digit s"
    by (auto simp: digits1_def Let_def split: if_splits)
  moreover have "length s = length (takeWhile is_digit s) + length (dropWhile is_digit s)"
    by (metis length_append takeWhile_dropWhile_id)
  ultimately show ?thesis by (cases "takeWhile is_digit s") auto
qed

lemma parse_num_length: "parse_num s = Some (d, r) \<Longrightarrow> length r < length s"
proof -
  assume a: "parse_num s = Some (d, r)"
  have i: "int_part t = Some (x, u) \<Longrightarrow> length u < length t" for t x u
    by (auto simp: int_part_def dest: digits1_length split: list.splits if_splits)
  have f: "frac_part t = Some (x, u) \<Longrightarrow> length u \<le> length t" for t x u
    by (fastforce simp: frac_part_def dest: digits1_length split: list.splits if_splits)
  have e: "exp_part t = Some (x, u) \<Longrightarrow> length u \<le> length t" for t x u
    by (fastforce simp: exp_part_def dest: digits1_length split: list.splits if_splits)
  obtain sg s0 where sg: "sign_part s = (sg, s0)" by (cases "sign_part s")
  then have "length s0 \<le> length s" by (auto simp: sign_part_def split: list.splits if_splits)
  moreover from a sg obtain i' s1 f' s2 e' where
    "int_part s0 = Some (i', s1)" "frac_part s1 = Some (f', s2)" "exp_part s2 = Some (e', r)"
    by (auto simp: parse_num_def split: option.splits)
  ultimately show ?thesis using i [of s0 i' s1] f [of s1 f' s2] e [of s2 e' r] by simp
qed

lemma parse_lit_length: "parse_lit l j s = Some (v, r) \<Longrightarrow> l \<noteq> [] \<Longrightarrow> length r < length s"
  by (cases s) (auto simp: parse_lit_def split: if_splits)

lemma skip_eq_length: "skip s = c # r \<Longrightarrow> length r < length s"
  using skip_length [of s] by simp

lemma parse_consumes:
  "parse_value n s = Some (v, r) \<Longrightarrow> length r < length s"
  "parse_elems n s = Some (vs, r) \<Longrightarrow> length r < length s"
  "parse_members n s = Some (kvs, r) \<Longrightarrow> length r < length s"
proof (induction n s and n s and n s arbitrary: v r and vs r and kvs r
    rule: parse_value_parse_elems_parse_members.induct)
  case (2 n s)
  then obtain c t where s: "skip s = c # t" by (auto split: list.splits)
  note sl = skip_eq_length [OF s]
  show ?case
    using 2 s sl
    by (fastforce split: if_splits list.splits
        dest: parse_str_length parse_lit_length parse_num_length skip_eq_length)
next
  case (4 n s)
  then show ?case
    by (fastforce split: if_splits list.splits option.splits dest: skip_eq_length)
next
  case (6 n s)
  then show ?case
    by (fastforce split: if_splits list.splits option.splits dest: skip_eq_length parse_str_length)
qed simp_all

text \<open>
  A value of \<open>n\<close> bytes is parsed with \<open>2 n + 1\<close> units of fuel, so \<open>json_parse\<close> fails on bad
  syntax only, never for want of fuel.
\<close>

lemma parse_fuel:
  "2 * length s + 1 \<le> n \<Longrightarrow> parse_value (Suc n) s = parse_value n s"
  "2 * length s + 2 \<le> n \<Longrightarrow> parse_elems (Suc n) s = parse_elems n s"
  "2 * length s + 2 \<le> n \<Longrightarrow> parse_members (Suc n) s = parse_members n s"
proof (induction n s and n s and n s rule: parse_value_parse_elems_parse_members.induct)
  case (2 n s)
  show ?case
  proof (cases "skip s")
    case Nil
    then show ?thesis by simp
  next
    case (Cons c t)
    then have "length t < length s" by (rule skip_eq_length)
    with 2 Cons show ?thesis
      by (auto split: list.splits simp del: parse_elems.simps parse_members.simps)
  qed
next
  case (4 n s)
  then have "parse_value (Suc n) s = parse_value n s" by simp
  moreover have "parse_elems (Suc n) r' = parse_elems n r'"
    if "parse_value n s = Some (v, r)" "skip r = CHR '','' # r'" for v r r'
    using that 4 parse_consumes(1) [OF that(1)] skip_eq_length [OF that(2)] by auto
  ultimately show ?case
    by (auto split: list.splits option.splits simp del: parse_value.simps)
next
  case (6 n s)
  show ?case
  proof (cases "\<exists>r k r1 r2. skip s = dquote # r \<and> parse_str r = Some (k, r1) \<and> skip r1 = CHR '':'' # r2")
    case True
    then obtain r k r1 r2 where
      eqs: "skip s = dquote # r" "parse_str r = Some (k, r1)" "skip r1 = CHR '':'' # r2" by blast
    then have l: "length r2 + 2 < length s"
      using skip_eq_length [OF eqs(1)] parse_str_length [OF eqs(2)] skip_eq_length [OF eqs(3)] by simp
    then have "parse_value (Suc n) r2 = parse_value n r2"
      using 6 eqs by simp
    moreover have "parse_members (Suc n) r4 = parse_members n r4"
      if "parse_value n r2 = Some (v, r3)" "skip r3 = CHR '','' # r4" for v r3 r4
      using that 6 eqs l parse_consumes(1) [OF that(1)] skip_eq_length [OF that(2)] by auto
    ultimately show ?thesis using eqs
      by (auto split: list.splits option.splits simp del: parse_value.simps)
  next
    case False
    have "parse_members (Suc m) s = None" for m
    proof (cases "skip s")
      case (Cons q r)
      show ?thesis
      proof (cases "q = dquote \<and> parse_str r \<noteq> None")
        case True
        then obtain k r1 where p: "q = dquote" "parse_str r = Some (k, r1)" by auto
        with False Cons have "skip r1 \<noteq> CHR '':'' # r2" for r2 by blast
        with Cons p show ?thesis by (cases "skip r1") auto
      qed (use Cons in \<open>auto split: option.split\<close>)
    qed simp
    then show ?thesis by (simp del: parse_members.simps)
  qed
qed simp_all

theorem parse_value_enough:
  assumes "2 * length s + 1 \<le> n"
  shows "parse_value n s = parse_value (2 * length s + 1) s"
  using assms
proof (induction n rule: dec_induct)
  case (step m)
  then show ?case by (simp add: parse_fuel(1) del: parse_value.simps)
qed simp

section \<open>Unmarshal into a struct of strings\<close>

text \<open>
  The field a member's key selects: the exact name, else the first that is equal under folding.
\<close>

definition resolve :: "bytes list \<Rightarrow> bytes \<Rightarrow> bytes option" where
  "resolve names k =
     (if k \<in> set names then Some k else find (\<lambda>n. fold_ascii n = fold_ascii k) names)"

text \<open>
  \<open>None\<close> is a non-nil error: bad syntax, no object, or a field that is neither a string nor
  \<open>null\<close>. Otherwise the fields' values, absent ones being the zero value.
\<close>

fun set_members :: "bytes list \<Rightarrow> (bytes \<Rightarrow> bytes) \<Rightarrow> (bytes \<times> json) list \<Rightarrow> (bytes \<Rightarrow> bytes) option" where
  "set_members names vals [] = Some vals"
| "set_members names vals ((k, v) # kvs) =
     (case resolve names k of
        None \<Rightarrow> set_members names vals kvs
      | Some n \<Rightarrow>
          (case v of
             JStr s \<Rightarrow> set_members names (vals(n := s)) kvs
           | JNull \<Rightarrow> set_members names vals kvs
           | _ \<Rightarrow> None))"

definition unmarshal_struct :: "bytes list \<Rightarrow> bytes \<Rightarrow> (bytes \<Rightarrow> bytes) option" where
  "unmarshal_struct names payload =
     (case json_parse payload of
        None \<Rightarrow> None
      | Some JNull \<Rightarrow> Some (\<lambda>_. [])
      | Some (JObj kvs) \<Rightarrow> set_members names (\<lambda>_. []) kvs
      | Some _ \<Rightarrow> None)"

text \<open>Reading back a marshalled struct of strings whose fields have the expected names.\<close>

definition struct_json :: "(bytes \<times> bytes) list \<Rightarrow> json" where
  "struct_json fs = JObj (map (\<lambda>(k, v). (k, JStr v)) fs)"

definition read_fields :: "(bytes \<times> bytes) list \<Rightarrow> (bytes \<Rightarrow> bytes) \<Rightarrow> bytes \<Rightarrow> bytes" where
  "read_fields fs dflt k = (case map_of fs k of Some v \<Rightarrow> v | None \<Rightarrow> dflt k)"

lemma set_members_strings:
  assumes "distinct (map fst fs)" and "set (map fst fs) \<subseteq> set names"
  shows "set_members names vals (map (\<lambda>(k, v). (k, JStr v)) fs) = Some (read_fields fs vals)"
  using assms
proof (induction fs arbitrary: vals)
  case Nil
  then show ?case by (simp add: read_fields_def)
next
  case (Cons f fs)
  obtain k v where f: "f = (k, v)" by (cases f)
  have "map_of fs k = None" using Cons.prems f by (simp add: map_of_eq_None_iff)
  then have "read_fields fs (vals(k := v)) = read_fields (f # fs) vals"
    using f by (intro ext) (auto simp: read_fields_def split: option.split)
  moreover have "resolve names k = Some k" using Cons.prems f by (simp add: resolve_def)
  ultimately show ?case using f Cons by simp
qed

lemma map_fst_snd: "map fst (map (\<lambda>(k, v). (k, h v)) fs) = map fst fs"
  by (induction fs) auto

theorem unmarshal_struct_json:
  assumes "distinct (map fst fs)" and "set (map fst fs) \<subseteq> set names"
    and "\<And>k. k \<in> fst ` set fs \<Longrightarrow> ascii k"
  shows "unmarshal_struct names (render (struct_json fs))
    = Some (read_fields (map (\<lambda>(k, v). (k, valid_utf8 v)) fs) (\<lambda>_. []))"
proof -
  let ?fs = "map (\<lambda>(k, v). (k, valid_utf8 v)) fs"
  have "plain (struct_json fs)" by (auto simp: struct_json_def list_all_iff)
  then have "json_parse (render (struct_json fs)) = Some (norm (struct_json fs))"
    by (rule parse_render)
  moreover have "norm (struct_json fs) = JObj (map (\<lambda>(k, v). (k, JStr v)) ?fs)"
    using assms(3) by (force simp: struct_json_def valid_utf8_ascii)
  moreover have "set_members names (\<lambda>_. []) (map (\<lambda>(k, v). (k, JStr v)) ?fs)
      = Some (read_fields ?fs (\<lambda>_. []))"
    by (rule set_members_strings) (use assms(1,2) in \<open>simp_all only: map_fst_snd\<close>)
  ultimately show ?thesis by (simp add: unmarshal_struct_def)
qed

end
