(* ===== verification/Go_Time.thy ===== *)
theory Go_Time
  imports Go_Strings
begin

text \<open>
  \<open>t.UTC().Format(time.RFC3339Nano)\<close>, for an instant given in nanoseconds since the epoch (years
  0 to 9999): the civil date of a day number in the proleptic Gregorian calendar, and the
  fractional seconds without trailing zeros.
\<close>

definition civil_from_days :: "int \<Rightarrow> int \<times> int \<times> int" where
  "civil_from_days days =
     (let z = days + 719468;
          era = z div 146097;
          doe = z mod 146097;
          yoe = (doe - doe div 1460 + doe div 36524 - doe div 146096) div 365;
          doy = doe - (365 * yoe + yoe div 4 - yoe div 100);
          mp = (5 * doy + 2) div 153;
          d = doy - (153 * mp + 2) div 5 + 1;
          m = (if mp < 10 then mp + 3 else mp - 9);
          y = yoe + era * 400
      in (if m \<le> 2 then y + 1 else y, m, d))"

definition digit :: "int \<Rightarrow> char" where
  "digit n = char_of (48 + nat (n mod 10))"

fun pad :: "nat \<Rightarrow> int \<Rightarrow> bytes" where
  "pad 0 n = []"
| "pad (Suc w) n = pad w (n div 10) @ [digit n]"

lemma length_pad [simp]: "length (pad w n) = w"
  by (induction w arbitrary: n) auto

definition fraction :: "int \<Rightarrow> bytes" where
  "fraction ns = (if ns = 0 then []
     else CHR ''.'' # rev (dropWhile (\<lambda>c. c = CHR ''0'') (rev (pad 9 ns))))"

definition RFC3339Nano :: "int \<Rightarrow> bytes" where
  "RFC3339Nano t =
     (let secs = t div 1000000000;
          ns = t mod 1000000000;
          sod = secs mod 86400;
          (y, m, d) = civil_from_days (secs div 86400)
      in pad 4 y @ ''-'' @ pad 2 m @ ''-'' @ pad 2 d @ ''T''
         @ pad 2 (sod div 3600) @ '':'' @ pad 2 (sod div 60 mod 60) @ '':'' @ pad 2 (sod mod 60)
         @ fraction ns @ ''Z'')"

lemma RFC3339Nano_examples:
  "RFC3339Nano 0 = ''1970-01-01T00:00:00Z''"
  "RFC3339Nano 1709208000120000000 = ''2024-02-29T12:00:00.12Z''"
  by code_simp+

end
