(* ===== verification/Messages.thy ===== *)
theory Messages
  imports Domain Config Go_Json_Decode Go_Time
begin

text \<open>
  The messages of the application package (internal/application/type.go) and the translation of
  saga state into payloads and conflict results (internal/application/mapper.go). A mapper method
  takes the package variable \<open>jsonMarshal\<close>, which the tests replace, and the instant
  \<open>time.Now()\<close> returns, as arguments; the production value of the first is
  \<open>json_Marshal\<close>.
\<close>

section \<open>Commands and results\<close>

record UserCreateCommand =
  ucc_SessionID :: string
  ucc_UserID :: string
  ucc_Username :: string
  ucc_FirstName :: string
  ucc_LastName :: string

record UserCreateResult =
  ucr_SessionID :: string
  ucr_UserID :: string
  ucr_Status :: string
  ucr_Error :: string
  ucr_Timestamp :: string

record AuthCreatePendingCommand =
  acc_SessionID :: string
  acc_ClientID :: string
  acc_UserID :: string
  acc_Email :: string
  acc_Username :: string
  acc_PasswordHash :: string

record AuthCreatePendingResult =
  acr_SessionID :: string
  acr_ClientID :: string
  acr_UserID :: string
  acr_Status :: string
  acr_Error :: string
  acr_Timestamp :: string

record MailSendResult =
  msr_SessionID :: string
  msr_ClientID :: string
  msr_UserID :: string
  msr_RequestID :: string
  msr_CorrelationID :: string
  msr_MessageType :: string
  msr_To :: string
  msr_Status :: string
  msr_Error :: string
  msr_Timestamp :: string

text \<open>Their JSON form, from the struct tags.\<close>

definition str_fields :: "(bytes \<times> bytes) list \<Rightarrow> (bytes \<times> json) list" where
  "str_fields fs = map (\<lambda>(k, v). (k, JStr v)) fs"

definition UserCreateCommand_fields :: "UserCreateCommand \<Rightarrow> (bytes \<times> bytes) list" where
  "UserCreateCommand_fields c =
     [(''session_id'', ucc_SessionID c), (''user_id'', ucc_UserID c), (''username'', ucc_Username c)]
     @ (if ucc_FirstName c = [] then [] else [(''first_name'', ucc_FirstName c)])
     @ (if ucc_LastName c = [] then [] else [(''last_name'', ucc_LastName c)])"

definition AuthCreatePendingCommand_fields :: "AuthCreatePendingCommand \<Rightarrow> (bytes \<times> bytes) list" where
  "AuthCreatePendingCommand_fields c =
     [(''session_id'', acc_SessionID c), (''client_id'', acc_ClientID c), (''user_id'', acc_UserID c),
      (''email'', acc_Email c), (''username'', acc_Username c),
      (''password_hash'', acc_PasswordHash c)]"

section \<open>The mapper\<close>

type_synonym marshaller = "json \<Rightarrow> error + bytes"

definition json_Marshal :: marshaller where
  "json_Marshal j = Inr (render j)"

text \<open>\<open>payload, err := jsonMarshal(v); if err != nil { return nil, e }; return payload, nil\<close>\<close>

definition marshal_or :: "marshaller \<Rightarrow> app_error \<Rightarrow> (bytes \<times> bytes) list \<Rightarrow> error + bytes" where
  "marshal_or jm e fs =
     (case jm (struct_json fs) of Inl _ \<Rightarrow> Inl (AppErr e) | Inr payload \<Rightarrow> Inr payload)"

definition ToUserCreateCommandPayload ::
  "marshaller \<Rightarrow> Session \<Rightarrow> string \<Rightarrow> string \<Rightarrow> error + bytes" where
  "ToUserCreateCommandPayload jm session firstName surname =
     marshal_or jm ErrPublishUserCreateCommand (UserCreateCommand_fields
       \<lparr>ucc_SessionID = s_SessionID session, ucc_UserID = s_UserID session,
        ucc_Username = s_Username session, ucc_FirstName = firstName, ucc_LastName = surname\<rparr>)"

definition ToAuthCreatePendingCommandPayload ::
  "marshaller \<Rightarrow> Session \<Rightarrow> string \<Rightarrow> string \<Rightarrow> error + bytes" where
  "ToAuthCreatePendingCommandPayload jm session email passwordHash =
     marshal_or jm ErrPublishAuthCreateCommand (AuthCreatePendingCommand_fields
       \<lparr>acc_SessionID = s_SessionID session, acc_ClientID = s_ClientID session,
        acc_UserID = s_UserID session, acc_Email = email, acc_Username = s_Username session,
        acc_PasswordHash = passwordHash\<rparr>)"

definition ToCodeSentEventPayload :: "marshaller \<Rightarrow> int \<Rightarrow> MailSendResult \<Rightarrow> error + bytes" where
  "ToCodeSentEventPayload jm now result =
     marshal_or jm ErrPublishCodeSentEvent
       [(''session_id'', msr_SessionID result), (''client_id'', msr_ClientID result),
        (''user_id'', msr_UserID result), (''status'', SessionStatusCodeSent),
        (''timestamp'', RFC3339Nano now)]"

definition ToRegistrationCompletedEventPayload ::
  "marshaller \<Rightarrow> int \<Rightarrow> Session \<Rightarrow> error + bytes" where
  "ToRegistrationCompletedEventPayload jm now session =
     marshal_or jm ErrPublishRegistrationCompletedEvent
       [(''session_id'', s_SessionID session), (''client_id'', s_ClientID session),
        (''user_id'', s_UserID session), (''status'', SessionStatusCompleted),
        (''timestamp'', RFC3339Nano now)]"

definition ToRegistrationFailedEventPayload ::
  "marshaller \<Rightarrow> int \<Rightarrow> Session \<Rightarrow> string \<Rightarrow> error + bytes" where
  "ToRegistrationFailedEventPayload jm now session reason =
     marshal_or jm ErrPublishRegistrationFailedEvent
       [(''session_id'', s_SessionID session), (''client_id'', s_ClientID session),
        (''user_id'', s_UserID session), (''status'', SessionStatusFailed),
        (''error'', reason), (''timestamp'', RFC3339Nano now)]"

text \<open>
  The result of a conflicting start request. \<open>None\<close> is the nil pointer: no conflict.
\<close>

definition taken :: "Session option \<Rightarrow> bool" where
  "taken s = (case s of None \<Rightarrow> False
     | Some x \<Rightarrow> s_Status x \<noteq> SessionStatusFailed \<and> s_Status x \<noteq> SessionStatusCompleted)"

definition conflict_result :: "string \<Rightarrow> bool \<Rightarrow> bool \<Rightarrow> StartRegistrationResult" where
  "conflict_result state usernameTaken emailTaken =
     \<lparr>sr_SessionID = [], sr_ClientID = [], sr_UserID = [], sr_Status = ''conflict'',
      sr_ConflictState = state, sr_UsernameTaken = usernameTaken, sr_EmailTaken = emailTaken\<rparr>"

definition ToIncompleteConflictResult ::
  "Session option \<Rightarrow> Session option \<Rightarrow> StartRegistrationResult option" where
  "ToIncompleteConflictResult emailSession usernameSession =
     (let emailTaken = taken emailSession; usernameTaken = taken usernameSession in
      if \<not> emailTaken \<and> \<not> usernameTaken then None
      else Some (conflict_result AvailabilityStateIncomplete usernameTaken emailTaken))"

definition ToCompletedConflictResult :: "bool \<Rightarrow> bool \<Rightarrow> StartRegistrationResult option" where
  "ToCompletedConflictResult emailTaken usernameTaken =
     (if \<not> emailTaken \<and> \<not> usernameTaken then None
      else Some (conflict_result AvailabilityStateCompleted usernameTaken emailTaken))"

section \<open>Reading the payloads back\<close>

lemma plain_struct [simp]: "plain (struct_json fs)"
  by (auto simp: struct_json_def list_all_iff)

lemma ascii_simps [simp]: "ascii []" "ascii (c # s) \<longleftrightarrow> byte c < 0x80 \<and> ascii s"
  by (simp_all add: ascii_def)

lemma marshal_or_json [simp]: "marshal_or json_Marshal e fs = Inr (render (struct_json fs))"
  by (simp add: marshal_or_def json_Marshal_def)

lemma marshal_or_err: "marshal_or jm e fs = Inl err \<Longrightarrow> err = AppErr e"
  by (auto simp: marshal_or_def split: sum.splits)

lemma ToIncompleteConflictResult_None:
  "ToIncompleteConflictResult e u = None \<longleftrightarrow> \<not> taken e \<and> \<not> taken u"
  by (simp add: ToIncompleteConflictResult_def Let_def)

lemma ToCompletedConflictResult_None:
  "ToCompletedConflictResult e u = None \<longleftrightarrow> \<not> e \<and> \<not> u"
  by (simp add: ToCompletedConflictResult_def)

end
