(* ===== verification/Service_Types.thy ===== *)
theory Service_Types
  imports Messages
begin

text \<open>
  The interfaces the application service is written against (internal/application/type.go,
  internal/domain/session.go, internal/presentation/event_broker/type.go) and its constructor
  (internal/application/service.go, \<open>New\<close>). A Go interface value is a record of operations,
  each a program over the world \<open>'w\<close>; an optional capability found by a type assertion
  (\<open>ReconcileStatus\<close> of the session repository, \<open>PublishRealtime\<close> of the broker) is an
  \<open>option\<close> field. Handlers are therefore defined for every implementation; theory
  \<open>Postgres_Repository\<close> and theory \<open>Saga_World\<close> give the production one.
\<close>

section \<open>Runtime and libraries\<close>

text \<open>Goroutines started by the service, with the values they capture.\<close>

record startInput =
  si_sessionID :: string
  si_email :: string
  si_username :: string
  si_password :: string
  si_clientID :: string
  si_userID :: string
  si_firstName :: string
  si_surname :: string

datatype goroutine =
    DispatchStartCommands Session startInput string
  | CompleteEmailVerification Session string

text \<open>Calls of the process metrics, all for the saga named "registration".\<close>

datatype metric =
    ObserveSagaStep string string
  | IncSagaStarted | IncSagaCompleted | IncSagaFailed
  | IncSagaCompensationStarted | IncSagaCompensationCompleted | IncSagaCompensationFailed
  | SetSagaActiveSessions int

text \<open>
  A realtime notification: the arguments of the library call \<open>realtime.WithOutcome\<close> in order,
  and the two fields the service overwrites in its result.
\<close>

datatype realtime_status = StatusAccepted | StatusCompleted | StatusFailed

record notification =
  nt_eventType :: string
  nt_source :: string
  nt_ids :: "string list"
  nt_status :: realtime_status
  nt_errorCode :: string
  nt_retryable :: "bool option"
  nt_payload :: bytes
  nt_DeliveryScope :: string
  nt_UserID :: string

text \<open>
  What the service takes from the Go runtime, the standard library and third-party packages:
  the clock, UUIDs, goroutines, the metrics recorder, the \<open>sync.Map\<close> of notified sessions
  (\<open>LoadOrStore\<close> returns whether the key was there), JSON marshalling, address syntax
  (\<open>net/mail.ParseAddress\<close> succeeds), bcrypt, and the encoding of a notification.
\<close>

record 'w Runtime =
  rt_now :: "('w, int) prog"
  rt_uuid :: "('w, string) prog"
  rt_go :: "goroutine \<Rightarrow> ('w, unit) prog"
  rt_metric :: "metric \<Rightarrow> ('w, unit) prog"
  rt_LoadOrStore :: "string \<Rightarrow> ('w, bool) prog"
  rt_jsonMarshal :: marshaller
  rt_ParseAddress :: "string \<Rightarrow> bool"
  rt_bcrypt :: "string \<Rightarrow> ('w, error + string) prog"
  rt_marshalNotification :: "notification \<Rightarrow> error + bytes"

section \<open>Interfaces\<close>

record 'w SessionRepository =
  sess_Create :: "Session \<Rightarrow> ('w, error + Session) prog"
  sess_GetByID :: "string \<Rightarrow> ('w, error + Session) prog"
  sess_GetByEmail :: "string \<Rightarrow> ('w, error + Session) prog"
  sess_GetByUsername :: "string \<Rightarrow> ('w, error + Session) prog"
  sess_UpdateStatus :: "string \<Rightarrow> string \<Rightarrow> ('w, error option) prog"
  sess_ClaimCompleted :: "string \<Rightarrow> ('w, error + bool) prog"
  sess_ReconcileStatus :: "(string \<Rightarrow> ('w, error + string) prog) option"

record 'w StepRepository =
  step_Create :: "Step \<Rightarrow> ('w, error + Step) prog"
  step_GetByKey :: "string \<Rightarrow> string \<Rightarrow> ('w, error + Step) prog"
  step_ListBySessionID :: "string \<Rightarrow> ('w, error + Step list) prog"
  step_UpdateStatus :: "string \<Rightarrow> string \<Rightarrow> string \<Rightarrow> ('w, error option) prog"

record 'w EventBroker =
  eb_Publish :: "string \<Rightarrow> bytes \<Rightarrow> ('w, error option) prog"
  eb_PublishRealtime :: "(bytes \<Rightarrow> ('w, error option) prog) option"

record 'w EmailAvailabilityChecker =
  em_ExistsByEmail :: "string \<Rightarrow> ('w, error + bool) prog"
  em_VerifyRegistrationEmail :: "string \<Rightarrow> string \<Rightarrow> ('w, error option) prog"
  em_DeactivateRegistrationAuth :: "string \<Rightarrow> ('w, error option) prog"

record 'w UsernameAvailabilityChecker =
  un_ExistsByUsername :: "string \<Rightarrow> ('w, error + bool) prog"
  un_ActivateUser :: "string \<Rightarrow> ('w, error option) prog"
  un_DeactivateUser :: "string \<Rightarrow> ('w, error option) prog"

section \<open>The service\<close>

record 'w registrationService =
  sv_sessions :: "'w SessionRepository"
  sv_steps :: "'w StepRepository"
  sv_broker :: "'w EventBroker"
  sv_realtime :: "(bytes \<Rightarrow> ('w, error option) prog) option"
  sv_emailChecker :: "'w EmailAvailabilityChecker"
  sv_usernameChecker :: "'w UsernameAvailabilityChecker"
  sv_cfg :: NATSConfig
  sv_rt :: "'w Runtime"

text \<open>
  The constructor: a nil dependency is \<open>None\<close>; the flag says whether a logger was given.
\<close>

definition New ::
  "'w SessionRepository option \<Rightarrow> 'w StepRepository option \<Rightarrow> 'w EventBroker option
   \<Rightarrow> 'w EmailAvailabilityChecker option \<Rightarrow> 'w UsernameAvailabilityChecker option
   \<Rightarrow> NATSConfig \<Rightarrow> bool \<Rightarrow> 'w Runtime \<Rightarrow> app_error + 'w registrationService" where
  "New sessions steps broker emailChecker usernameChecker cfg log rt =
     (case sessions of None \<Rightarrow> Inl ErrNilSessionRepository | Some sessions' \<Rightarrow>
     (case steps of None \<Rightarrow> Inl ErrNilStepRepository | Some steps' \<Rightarrow>
     (case broker of None \<Rightarrow> Inl ErrNilEventBroker | Some broker' \<Rightarrow>
     (case emailChecker of None \<Rightarrow> Inl ErrNilEmailChecker | Some emailChecker' \<Rightarrow>
     (case usernameChecker of None \<Rightarrow> Inl ErrNilUsernameChecker | Some usernameChecker' \<Rightarrow>
      if \<not> log then Inl ErrNilLogger
      else Inr \<lparr>sv_sessions = sessions', sv_steps = steps', sv_broker = broker',
                sv_realtime = eb_PublishRealtime broker', sv_emailChecker = emailChecker',
                sv_usernameChecker = usernameChecker', sv_cfg = cfg, sv_rt = rt\<rparr>)))))"

lemma New_Inr:
  "New ss ts b e u cfg log rt = Inr s \<longleftrightarrow>
     log \<and> ss = Some (sv_sessions s) \<and> ts = Some (sv_steps s) \<and> b = Some (sv_broker s)
     \<and> e = Some (sv_emailChecker s) \<and> u = Some (sv_usernameChecker s) \<and> cfg = sv_cfg s
     \<and> rt = sv_rt s \<and> sv_realtime s = eb_PublishRealtime (sv_broker s)"
  by (cases s) (auto simp: New_def split: option.splits)

text \<open>
  The deferred \<open>ObserveSagaStep\<close> of a handler: the body returns the metric status it left in the
  captured variable together with its result.
\<close>

definition observed :: "'w Runtime \<Rightarrow> string \<Rightarrow> ('w, string \<times> 'a) prog \<Rightarrow> ('w, 'a) prog" where
  "observed rt stepName body =
     bind body (\<lambda>(status, result). seq (rt_metric rt (ObserveSagaStep stepName status)) (Ret result))"

abbreviation metric :: "'w registrationService \<Rightarrow> metric \<Rightarrow> ('w, unit) prog" where
  "metric s m \<equiv> rt_metric (sv_rt s) m"

definition m_success :: string where
  "m_success = ''success''"

definition m_error :: string where
  "m_error = ''error''"

end
