(* ===== verification/Saga_Service.thy ===== *)
theory Saga_Service
  imports Service_Types
begin

text \<open>
  The registration use cases of internal/application: realtime.go, start.go, start_dispatch.go
  and service.go. Logging is left out; every other call is an action of the program, in the
  order of the code.
\<close>

section \<open>realtime.go\<close>

definition registrationErrorCode :: "string \<Rightarrow> string" where
  "registrationErrorCode reason = ''registration_failed''"

definition registration_notification ::
  "Session \<Rightarrow> string \<Rightarrow> realtime_status \<Rightarrow> string \<Rightarrow> bool option \<Rightarrow> bytes \<Rightarrow> notification" where
  "registration_notification session eventType status errorCode retryable payload =
     \<lparr>nt_eventType = eventType, nt_source = ''registration'',
      nt_ids = [s_SessionID session, s_UserID session, s_SessionID session, s_SessionID session],
      nt_status = status, nt_errorCode = errorCode, nt_retryable = retryable,
      nt_payload = payload, nt_DeliveryScope = ''registration'', nt_UserID = []\<rparr>"

definition publishRegistrationNotification ::
  "'w registrationService \<Rightarrow> Session \<Rightarrow> string \<Rightarrow> realtime_status \<Rightarrow> string \<Rightarrow> bool option
   \<Rightarrow> bytes \<Rightarrow> ('w, unit) prog" where
  "publishRegistrationNotification s session eventType status errorCode retryable payload =
     (case sv_realtime s of
        None \<Rightarrow> Ret ()
      | Some publish \<Rightarrow>
          (case rt_marshalNotification (sv_rt s)
                  (registration_notification session eventType status errorCode retryable payload) of
             Inl _ \<Rightarrow> Ret ()
           | Inr body \<Rightarrow> seq (publish body) (Ret ())))"

section \<open>service.go: compensation and reconciliation\<close>

text \<open>
  Once the session is marked failed: deactivate the user and the auth record, publish the failed
  event, notify. A failing call is counted and the next one is made all the same.
\<close>

definition compensation_effects ::
  "'w registrationService \<Rightarrow> Session \<Rightarrow> string \<Rightarrow> string \<Rightarrow> ('w, error option) prog" where
  "compensation_effects s session userID reason =
     seq
       (if userID \<noteq> [] then
          seq (on_err (un_DeactivateUser (sv_usernameChecker s) userID)
                 (\<lambda>_. metric s IncSagaCompensationFailed) (Ret ()))
              (on_err (em_DeactivateRegistrationAuth (sv_emailChecker s) userID)
                 (\<lambda>_. metric s IncSagaCompensationFailed) (Ret ()))
        else Ret ())
     (bind (rt_now (sv_rt s)) (\<lambda>now.
        case ToRegistrationFailedEventPayload (rt_jsonMarshal (sv_rt s)) now session reason of
          Inl _ \<Rightarrow> seq (metric s IncSagaCompensationFailed) (Ret None)
        | Inr payload \<Rightarrow>
            seq (on_err (eb_Publish (sv_broker s) (nc_RegistrationFailedSubject (sv_cfg s)) payload)
                   (\<lambda>_. metric s IncSagaCompensationFailed) (Ret ()))
            (seq (publishRegistrationNotification s session ''registration.failed'' StatusFailed
                    (registrationErrorCode reason) (Some True) payload)
            (seq (metric s IncSagaFailed)
            (seq (metric s IncSagaCompensationCompleted)
            (seq (metric s (SetSagaActiveSessions 0))
            (Ret None)))))))"

definition compensateRegistrationFailure ::
  "'w registrationService \<Rightarrow> string \<Rightarrow> string \<Rightarrow> string \<Rightarrow> ('w, error option) prog" where
  "compensateRegistrationFailure s sessionID userID reason =
     seq (metric s IncSagaCompensationStarted)
     (unwrap (sess_GetByID (sv_sessions s) sessionID)
        (\<lambda>err. seq (metric s IncSagaCompensationFailed) (Ret (Some err)))
     (\<lambda>session.
        let userID = (if userID = [] then s_UserID session else userID) in
        on_err (sess_UpdateStatus (sv_sessions s) sessionID SessionStatusFailed)
          (\<lambda>err. seq (metric s IncSagaCompensationFailed) (Ret (Some err)))
        (compensation_effects s session userID reason)))"

text \<open>
  The loop over the steps: \<open>None\<close> as soon as one has failed, otherwise whether all are
  completed. The same loop is in \<open>syncSessionStatus\<close> and in the repository's
  \<open>ReconcileStatus\<close>.
\<close>

fun scan_steps :: "bool \<Rightarrow> Step list \<Rightarrow> bool option" where
  "scan_steps allCompleted [] = Some allCompleted"
| "scan_steps allCompleted (step # steps) =
     (if st_Status step = StepStatusFailed then None
      else scan_steps (if st_Status step \<noteq> StepStatusCompleted then False else allCompleted) steps)"

text \<open>
  The retry loop for a session repository without \<open>ReconcileStatus\<close>; \<open>n\<close> attempts are left.
  \<open>Inl r\<close> is a \<open>return r\<close> inside the loop, \<open>Inr ()\<close> its \<open>break\<close>. Sleeping between attempts
  is no action: other programs can run between any two actions anyway.
\<close>

fun sync_attempts ::
  "'w registrationService \<Rightarrow> string \<Rightarrow> nat \<Rightarrow> ('w, error option + unit) prog" where
  "sync_attempts s sessionID 0 = Ret (Inr ())"
| "sync_attempts s sessionID (Suc n) =
     unwrap (step_ListBySessionID (sv_steps s) sessionID) (\<lambda>err. Ret (Inl (Some err)))
     (\<lambda>steps.
        case scan_steps True steps of
          None \<Rightarrow>
            bind (compensateRegistrationFailure s sessionID [] ''registration step failed'')
              (\<lambda>r. Ret (Inl r))
        | Some allCompleted \<Rightarrow>
            if allCompleted then Ret (Inr ())
            else if n = 0 then Ret (Inl None)
            else sync_attempts s sessionID n)"

definition syncSessionStatus :: "'w registrationService \<Rightarrow> string \<Rightarrow> ('w, error option) prog" where
  "syncSessionStatus s sessionID =
     (case sess_ReconcileStatus (sv_sessions s) of
        Some reconcile \<Rightarrow>
          unwrap (reconcile sessionID) (\<lambda>err. Ret (Some err))
          (\<lambda>status.
             if status = SessionStatusFailed
             then compensateRegistrationFailure s sessionID [] ''registration step failed''
             else Ret None)
      | None \<Rightarrow>
          unwrap (sync_attempts s sessionID 3) Ret
          (\<lambda>_. on_err (sess_UpdateStatus (sv_sessions s) sessionID SessionStatusCodeSent)
                 (\<lambda>err. Ret (Some err))
               (seq (metric s IncSagaCompleted)
               (seq (metric s (SetSagaActiveSessions 0))
               (Ret None)))))"

definition publishCodeSentIfReady ::
  "'w registrationService \<Rightarrow> string \<Rightarrow> bytes \<Rightarrow> ('w, error option) prog" where
  "publishCodeSentIfReady s sessionID payload =
     (if sv_realtime s = None then Ret None
      else unwrap (sess_GetByID (sv_sessions s) sessionID) (\<lambda>err. Ret (Some err))
           (\<lambda>session.
              if s_Status session \<noteq> SessionStatusCodeSent then Ret None
              else bind (rt_LoadOrStore (sv_rt s) sessionID) (\<lambda>loaded.
                if loaded then Ret None
                else seq (publishRegistrationNotification s session ''registration.code_sent''
                            StatusAccepted [] None payload)
                     (Ret None))))"

section \<open>service.go: conflicts\<close>

text \<open>A session, or the nil pointer when there is none.\<close>

definition not_found_ok :: "error + Session \<Rightarrow> error + Session option" where
  "not_found_ok r = (case r of
       Inl e \<Rightarrow> if e = DomainErr ErrSessionNotFound then Inr None else Inl e
     | Inr x \<Rightarrow> Inr (Some x))"

definition lookupIncompleteConflict ::
  "'w registrationService \<Rightarrow> string \<Rightarrow> string \<Rightarrow> ('w, error + StartRegistrationResult option) prog" where
  "lookupIncompleteConflict s email username =
     bind (sess_GetByEmail (sv_sessions s) email) (\<lambda>r.
       case not_found_ok r of
         Inl err \<Rightarrow> Ret (Inl err)
       | Inr emailSession \<Rightarrow>
           bind (sess_GetByUsername (sv_sessions s) username) (\<lambda>r'.
             case not_found_ok r' of
               Inl err \<Rightarrow> Ret (Inl err)
             | Inr usernameSession \<Rightarrow>
                 Ret (Inr (ToIncompleteConflictResult emailSession usernameSession))))"

definition lookupCompletedConflict ::
  "'w registrationService \<Rightarrow> string \<Rightarrow> string \<Rightarrow> ('w, error + StartRegistrationResult option) prog" where
  "lookupCompletedConflict s email username =
     unwrap (em_ExistsByEmail (sv_emailChecker s) email) (\<lambda>err. Ret (Inl err))
     (\<lambda>emailTaken.
        unwrap (un_ExistsByUsername (sv_usernameChecker s) username) (\<lambda>err. Ret (Inl err))
        (\<lambda>usernameTaken. Ret (Inr (ToCompletedConflictResult emailTaken usernameTaken))))"

section \<open>start.go\<close>

definition normalizeStartInput ::
  "'w Runtime \<Rightarrow> StartRegistrationParams \<Rightarrow> ('w, error + startInput) prog" where
  "normalizeStartInput rt params =
     (let input = \<lparr>si_sessionID = TrimSpace (sp_SessionID params),
                   si_email = TrimSpace (sp_Email params),
                   si_username = TrimSpace (sp_Username params),
                   si_password = TrimSpace (sp_Password params),
                   si_clientID = TrimSpace (sp_ClientID params),
                   si_userID = TrimSpace (sp_UserID params),
                   si_firstName = TrimSpace (sp_FirstName params),
                   si_surname = TrimSpace (sp_Surname params)\<rparr> in
      if \<not> rt_ParseAddress rt (si_email input) then Ret (Inl (DomainErr ErrInvalidEmail))
      else if si_username input = [] then Ret (Inl (DomainErr ErrInvalidUsername))
      else if length (si_password input) < 8 then Ret (Inl (DomainErr ErrInvalidPassword))
      else if si_clientID input = []
           then bind (rt_uuid rt) (\<lambda>id. Ret (Inr (input\<lparr>si_clientID := id\<rparr>)))
      else Ret (Inr input))"

definition lookupStartConflict ::
  "'w registrationService \<Rightarrow> string \<Rightarrow> string \<Rightarrow> ('w, error + StartRegistrationResult option) prog" where
  "lookupStartConflict s email username =
     unwrap (lookupIncompleteConflict s email username) (\<lambda>err. Ret (Inl err))
     (\<lambda>incompleteConflict.
        if incompleteConflict \<noteq> None then Ret (Inr incompleteConflict)
        else lookupCompletedConflict s email username)"

text \<open>A generated id where the input has none.\<close>

definition or_uuid :: "'w Runtime \<Rightarrow> string \<Rightarrow> ('w, string) prog" where
  "or_uuid rt given = (if given = [] then rt_uuid rt else Ret given)"

definition createStartSession ::
  "'w registrationService \<Rightarrow> startInput \<Rightarrow> ('w, error + Session) prog" where
  "createStartSession s input =
     bind (or_uuid (sv_rt s) (si_sessionID input)) (\<lambda>sessionID.
     bind (or_uuid (sv_rt s) (si_userID input)) (\<lambda>userID.
       sess_Create (sv_sessions s)
         \<lparr>s_SessionID = sessionID, s_ClientID = si_clientID input, s_UserID = userID,
          s_Email = si_email input, s_Username = si_username input,
          s_Status = SessionStatusStarted, s_CreatedAt = 0, s_UpdatedAt = 0\<rparr>))"

definition pending_step :: "string \<Rightarrow> string \<Rightarrow> Step" where
  "pending_step sessionID key =
     \<lparr>st_SessionID = sessionID, st_StepKey = key, st_Status = StepStatusPending,
      st_CreatedAt = 0, st_UpdatedAt = 0\<rparr>"

fun create_steps :: "'w registrationService \<Rightarrow> Step list \<Rightarrow> ('w, error option) prog" where
  "create_steps s [] = Ret None"
| "create_steps s (step # steps) =
     unwrap (step_Create (sv_steps s) step) (\<lambda>err. Ret (Some err)) (\<lambda>_. create_steps s steps)"

definition createStartSteps :: "'w registrationService \<Rightarrow> string \<Rightarrow> ('w, error option) prog" where
  "createStartSteps s sessionID =
     create_steps s
       [pending_step sessionID StepKeyUserCreateProfile,
        pending_step sessionID StepKeyAuthCreatePending,
        pending_step sessionID StepKeyMailSendVerificationCode]"

section \<open>start_dispatch.go\<close>

definition hashStartPassword :: "'w Runtime \<Rightarrow> string \<Rightarrow> ('w, error + string) prog" where
  "hashStartPassword rt password =
     unwrap (rt_bcrypt rt password) (\<lambda>_. Ret (Inl (AppErr ErrHashPassword))) (\<lambda>h. Ret (Inr h))"

definition markStartInProgress :: "'w registrationService \<Rightarrow> string \<Rightarrow> ('w, error option) prog" where
  "markStartInProgress s sessionID =
     on_err (sess_UpdateStatus (sv_sessions s) sessionID SessionStatusInProgress)
       (\<lambda>err. Ret (Some err))
     (on_err (step_UpdateStatus (sv_steps s) sessionID StepKeyUserCreateProfile StepStatusInProgress)
       (\<lambda>err. Ret (Some err))
     (on_err (step_UpdateStatus (sv_steps s) sessionID StepKeyAuthCreatePending StepStatusInProgress)
       (\<lambda>err. Ret (Some err))
     (Ret None)))"

definition publishUserCreateCommand ::
  "'w registrationService \<Rightarrow> Session \<Rightarrow> string \<Rightarrow> string \<Rightarrow> ('w, error option) prog" where
  "publishUserCreateCommand s session firstName surname =
     (case ToUserCreateCommandPayload (rt_jsonMarshal (sv_rt s)) session firstName surname of
        Inl err \<Rightarrow> Ret (Some err)
      | Inr payload \<Rightarrow> eb_Publish (sv_broker s) (nc_UserCreateSubject (sv_cfg s)) payload)"

definition publishAuthCreateCommand ::
  "'w registrationService \<Rightarrow> Session \<Rightarrow> string \<Rightarrow> string \<Rightarrow> ('w, error option) prog" where
  "publishAuthCreateCommand s session email passwordHash =
     (case ToAuthCreatePendingCommandPayload (rt_jsonMarshal (sv_rt s)) session email passwordHash of
        Inl err \<Rightarrow> Ret (Some err)
      | Inr payload \<Rightarrow> eb_Publish (sv_broker s) (nc_AuthCreatePendingSubject (sv_cfg s)) payload)"

definition failStartStep :: "'w registrationService \<Rightarrow> string \<Rightarrow> string \<Rightarrow> ('w, unit) prog" where
  "failStartStep s sessionID stepKey =
     seq (step_UpdateStatus (sv_steps s) sessionID stepKey StepStatusFailed)
     (seq (sess_UpdateStatus (sv_sessions s) sessionID SessionStatusFailed)
     (Ret ()))"

definition dispatchStartCommands ::
  "'w registrationService \<Rightarrow> Session \<Rightarrow> startInput \<Rightarrow> string \<Rightarrow> ('w, unit) prog" where
  "dispatchStartCommands s session input passwordHash =
     on_err (markStartInProgress s (s_SessionID session)) (\<lambda>_. Ret ())
     (on_err (publishUserCreateCommand s session (si_firstName input) (si_surname input))
        (\<lambda>_. failStartStep s (s_SessionID session) StepKeyUserCreateProfile)
     (on_err (publishAuthCreateCommand s session (si_email input) passwordHash)
        (\<lambda>_. failStartStep s (s_SessionID session) StepKeyAuthCreatePending)
     (Ret ())))"

section \<open>service.go: Start\<close>

definition Start ::
  "'w registrationService \<Rightarrow> StartRegistrationParams \<Rightarrow> ('w, error + StartRegistrationResult) prog" where
  "Start s params = observed (sv_rt s) ''start''
     (unwrap (normalizeStartInput (sv_rt s) params) (\<lambda>err. Ret (m_error, Inl err))
     (\<lambda>input.
      unwrap (lookupStartConflict s (si_email input) (si_username input)) (\<lambda>err. Ret (m_error, Inl err))
      (\<lambda>conflict. case conflict of
         Some c \<Rightarrow> seq (metric s IncSagaFailed) (Ret (m_success, Inr c))
       | None \<Rightarrow>
         unwrap (createStartSession s input) (\<lambda>err. Ret (m_error, Inl err))
         (\<lambda>session.
          on_err (createStartSteps s (s_SessionID session)) (\<lambda>err. Ret (m_error, Inl err))
          (unwrap (hashStartPassword (sv_rt s) (si_password input)) (\<lambda>err. Ret (m_error, Inl err))
          (\<lambda>passwordHash.
             seq (rt_go (sv_rt s) (DispatchStartCommands session input passwordHash))
             (seq (metric s IncSagaStarted)
             (seq (metric s (SetSagaActiveSessions 1))
             (Ret (m_success,
                Inr \<lparr>sr_SessionID = s_SessionID session, sr_ClientID = s_ClientID session,
                     sr_UserID = s_UserID session, sr_Status = s_Status session,
                     sr_ConflictState = [], sr_UsernameTaken = False, sr_EmailTaken = False\<rparr>))))))))))"

section \<open>service.go: result handlers\<close>

definition result_step_status :: "string \<Rightarrow> string" where
  "result_step_status status = (if status \<noteq> ''success'' then StepStatusFailed else StepStatusCompleted)"

definition HandleUserCreateResult ::
  "'w registrationService \<Rightarrow> UserCreateResult \<Rightarrow> ('w, error option) prog" where
  "HandleUserCreateResult s result = observed (sv_rt s) StepKeyUserCreateProfile
     (if ucr_SessionID result = [] then Ret (m_error, Some (DomainErr ErrInvalidSessionID))
      else on_err (step_UpdateStatus (sv_steps s) (ucr_SessionID result) StepKeyUserCreateProfile
                     (result_step_status (ucr_Status result)))
             (\<lambda>err. Ret (m_error, Some err))
           (if ucr_Status result \<noteq> ''success'' then
              bind (compensateRegistrationFailure s (ucr_SessionID result) (ucr_UserID result)
                      (ucr_Error result))
                (\<lambda>r. Ret (m_error, r))
            else on_err (syncSessionStatus s (ucr_SessionID result))
                   (\<lambda>err. Ret (m_success, Some err))
                 (bind (publishCodeSentIfReady s (ucr_SessionID result) [])
                    (\<lambda>r. Ret (m_success, r)))))"

definition HandleAuthCreatePendingResult ::
  "'w registrationService \<Rightarrow> AuthCreatePendingResult \<Rightarrow> ('w, error option) prog" where
  "HandleAuthCreatePendingResult s result = observed (sv_rt s) StepKeyAuthCreatePending
     (if acr_SessionID result = [] then Ret (m_error, Some (DomainErr ErrInvalidSessionID))
      else on_err (step_UpdateStatus (sv_steps s) (acr_SessionID result) StepKeyAuthCreatePending
                     (result_step_status (acr_Status result)))
             (\<lambda>err. Ret (m_error, Some err))
           (if acr_Status result \<noteq> ''success'' then
              bind (compensateRegistrationFailure s (acr_SessionID result) (acr_UserID result)
                      (acr_Error result))
                (\<lambda>r. Ret (m_error, r))
            else on_err (step_UpdateStatus (sv_steps s) (acr_SessionID result)
                           StepKeyMailSendVerificationCode StepStatusInProgress)
                   (\<lambda>err. Ret (m_error, Some err))
                 (on_err (syncSessionStatus s (acr_SessionID result))
                    (\<lambda>err. Ret (m_success, Some err))
                  (bind (publishCodeSentIfReady s (acr_SessionID result) [])
                     (\<lambda>r. Ret (m_success, r))))))"

definition HandleMailSendResult ::
  "'w registrationService \<Rightarrow> MailSendResult \<Rightarrow> ('w, error option) prog" where
  "HandleMailSendResult s result = observed (sv_rt s) StepKeyMailSendVerificationCode
     (if msr_SessionID result = [] then Ret (m_error, Some (DomainErr ErrInvalidSessionID))
      else on_err (step_UpdateStatus (sv_steps s) (msr_SessionID result)
                     StepKeyMailSendVerificationCode (result_step_status (msr_Status result)))
             (\<lambda>err. Ret (m_error, Some err))
           (if msr_Status result \<noteq> ''success'' then
              bind (compensateRegistrationFailure s (msr_SessionID result) (msr_UserID result)
                      (msr_Error result))
                (\<lambda>r. Ret (m_error, r))
            else bind (rt_now (sv_rt s)) (\<lambda>now.
              case ToCodeSentEventPayload (rt_jsonMarshal (sv_rt s)) now result of
                Inl err \<Rightarrow> Ret (m_error, Some err)
              | Inr payload \<Rightarrow>
                  on_err (eb_Publish (sv_broker s) (nc_RegistrationCodeSentSubject (sv_cfg s)) payload)
                    (\<lambda>err. Ret (m_error, Some err))
                  (on_err (syncSessionStatus s (msr_SessionID result))
                     (\<lambda>err. Ret (m_error, Some err))
                   (bind (publishCodeSentIfReady s (msr_SessionID result) payload)
                      (\<lambda>r. Ret (m_success, r)))))))"

end
