(* ===== verification/Email_Verification.thy ===== *)
theory Email_Verification
  imports Saga_Service
begin

text \<open>
  internal/application/verify_email.go: the e-mail verification command, the goroutine that
  completes the registration, its failure path, and the status query that hands the tokens out
  once.
\<close>

section \<open>VerifyEmail\<close>

definition step_row :: "string \<Rightarrow> string \<Rightarrow> string \<Rightarrow> Step" where
  "step_row sessionID key status =
     \<lparr>st_SessionID = sessionID, st_StepKey = key, st_Status = status,
      st_CreatedAt = 0, st_UpdatedAt = 0\<rparr>"

text \<open>The session as the guard sees it: reconciled first when the steps may still converge.\<close>

definition reload_in_progress ::
  "'w registrationService \<Rightarrow> Session \<Rightarrow> ('w, error + Session) prog" where
  "reload_in_progress s session =
     (if s_Status session = SessionStatusInProgress then
        on_err (syncSessionStatus s (s_SessionID session)) (\<lambda>err. Ret (Inl err))
        (sess_GetByID (sv_sessions s) (s_SessionID session))
      else Ret (Inr session))"

definition begin_verification ::
  "'w registrationService \<Rightarrow> Session \<Rightarrow> string \<Rightarrow> ('w, error + VerifyEmailResult) prog" where
  "begin_verification s session code =
     unwrap (step_Create (sv_steps s)
               (step_row (s_SessionID session) StepKeyVerifyEmailCode StepStatusInProgress))
       (\<lambda>err. Ret (Inl err))
     (\<lambda>_. unwrap (step_Create (sv_steps s)
               (step_row (s_SessionID session) StepKeyActivateUser StepStatusPending))
       (\<lambda>err. Ret (Inl err))
     (\<lambda>_. on_err (sess_UpdateStatus (sv_sessions s) (s_SessionID session) SessionStatusVerifyingEmail)
       (\<lambda>err. Ret (Inl err))
     (seq (rt_go (sv_rt s) (CompleteEmailVerification session code))
     (Ret (Inr \<lparr>vr_SessionID = s_SessionID session, vr_ClientID = s_ClientID session,
                vr_Status = SessionStatusVerifyingEmail\<rparr>)))))"

definition VerifyEmail ::
  "'w registrationService \<Rightarrow> VerifyEmailParams \<Rightarrow> ('w, error + VerifyEmailResult) prog" where
  "VerifyEmail s params =
     (let sessionID = TrimSpace (vp_SessionID params);
          clientID = TrimSpace (vp_ClientID params);
          code = TrimSpace (vp_Code params) in
      if sessionID = [] then Ret (Inl (DomainErr ErrInvalidSessionID))
      else if clientID = [] then Ret (Inl (DomainErr ErrInvalidClientID))
      else if code = [] then Ret (Inl (DomainErr ErrInvalidVerificationCode))
      else unwrap (sess_GetByID (sv_sessions s) sessionID) (\<lambda>err. Ret (Inl err))
        (\<lambda>session.
           if s_ClientID session \<noteq> clientID then Ret (Inl (DomainErr ErrClientMismatch))
           else if s_Status session = SessionStatusCompleted
             then Ret (Inr \<lparr>vr_SessionID = s_SessionID session, vr_ClientID = s_ClientID session,
                            vr_Status = s_Status session\<rparr>)
           else unwrap (reload_in_progress s session) (\<lambda>err. Ret (Inl err))
             (\<lambda>session.
                if s_Status session \<noteq> SessionStatusCodeSent
                then Ret (Inl (DomainErr ErrInvalidStatus))
                else begin_verification s session code)))"

section \<open>GetRegistrationStatus\<close>

definition registration_status :: "Session \<Rightarrow> string \<Rightarrow> RegistrationStatus" where
  "registration_status session status =
     \<lparr>rs_SessionID = s_SessionID session, rs_ClientID = s_ClientID session,
      rs_UserID = s_UserID session, rs_Status = status\<rparr>"

definition GetRegistrationStatus ::
  "'w registrationService \<Rightarrow> string \<Rightarrow> string \<Rightarrow> ('w, error + RegistrationStatus) prog" where
  "GetRegistrationStatus s sessionID0 clientID0 =
     (let sessionID = TrimSpace sessionID0; clientID = TrimSpace clientID0 in
      if sessionID = [] then Ret (Inl (DomainErr ErrInvalidSessionID))
      else if clientID = [] then Ret (Inl (DomainErr ErrInvalidClientID))
      else unwrap (sess_GetByID (sv_sessions s) sessionID) (\<lambda>err. Ret (Inl err))
        (\<lambda>session.
           if s_ClientID session \<noteq> clientID then Ret (Inl (DomainErr ErrClientMismatch))
           else if s_Status session = SessionStatusCompleted then
             unwrap (sess_ClaimCompleted (sv_sessions s) (s_SessionID session))
               (\<lambda>err. Ret (Inl err))
             (\<lambda>claimed. Ret (Inr (registration_status session
                (if claimed then SessionStatusCompleted else SessionStatusTokensClaimed))))
           else Ret (Inr (registration_status session (s_Status session)))))"

section \<open>The verification goroutine\<close>

definition failEmailVerification ::
  "'w registrationService \<Rightarrow> Session \<Rightarrow> string \<Rightarrow> error \<Rightarrow> ('w, unit) prog" where
  "failEmailVerification s session stepKey err =
     seq (step_UpdateStatus (sv_steps s) (s_SessionID session) stepKey StepStatusFailed)
     (seq (sess_UpdateStatus (sv_sessions s) (s_SessionID session) SessionStatusFailed)
     (seq (un_DeactivateUser (sv_usernameChecker s) (s_UserID session))
     (seq (em_DeactivateRegistrationAuth (sv_emailChecker s) (s_UserID session))
     (bind (rt_now (sv_rt s)) (\<lambda>now.
        case ToRegistrationFailedEventPayload (rt_jsonMarshal (sv_rt s)) now session (Error err) of
          Inl _ \<Rightarrow> Ret ()
        | Inr payload \<Rightarrow>
            seq (eb_Publish (sv_broker s) (nc_RegistrationFailedSubject (sv_cfg s)) payload)
            (publishRegistrationNotification s session ''registration.failed'' StatusFailed
               (registrationErrorCode (Error err)) (Some False) payload))))))"

definition announce_completed :: "'w registrationService \<Rightarrow> Session \<Rightarrow> ('w, unit) prog" where
  "announce_completed s session =
     bind (rt_now (sv_rt s)) (\<lambda>now.
       case ToRegistrationCompletedEventPayload (rt_jsonMarshal (sv_rt s)) now session of
         Inl _ \<Rightarrow> Ret ()
       | Inr payload \<Rightarrow>
           seq (eb_Publish (sv_broker s) (nc_RegistrationCompletedSubject (sv_cfg s)) payload)
           (publishRegistrationNotification s session ''registration.completed'' StatusCompleted
              [] None payload))"

definition completeEmailVerification ::
  "'w registrationService \<Rightarrow> Session \<Rightarrow> string \<Rightarrow> ('w, unit) prog" where
  "completeEmailVerification s session code =
     on_err (em_VerifyRegistrationEmail (sv_emailChecker s) (s_UserID session) code)
       (failEmailVerification s session StepKeyVerifyEmailCode)
     (on_err (step_UpdateStatus (sv_steps s) (s_SessionID session) StepKeyVerifyEmailCode
                StepStatusCompleted)
       (failEmailVerification s session StepKeyVerifyEmailCode)
     (on_err (sess_UpdateStatus (sv_sessions s) (s_SessionID session) SessionStatusActivatingUser)
       (failEmailVerification s session StepKeyActivateUser)
     (on_err (step_UpdateStatus (sv_steps s) (s_SessionID session) StepKeyActivateUser
                StepStatusInProgress)
       (failEmailVerification s session StepKeyActivateUser)
     (on_err (un_ActivateUser (sv_usernameChecker s) (s_UserID session))
       (failEmailVerification s session StepKeyActivateUser)
     (on_err (step_UpdateStatus (sv_steps s) (s_SessionID session) StepKeyActivateUser
                StepStatusCompleted)
       (failEmailVerification s session StepKeyActivateUser)
     (on_err (sess_UpdateStatus (sv_sessions s) (s_SessionID session) SessionStatusCompleted)
       (failEmailVerification s session StepKeyActivateUser)
     (announce_completed s session)))))))"

text \<open>What a \<open>go\<close> statement of the service runs.\<close>

definition goroutine_body :: "'w registrationService \<Rightarrow> goroutine \<Rightarrow> ('w, unit) prog" where
  "goroutine_body s g =
     (case g of
        DispatchStartCommands session input passwordHash \<Rightarrow>
          dispatchStartCommands s session input passwordHash
      | CompleteEmailVerification session code \<Rightarrow> completeEmailVerification s session code)"

end
