(* ===== verification/Service_Contract.thy ===== *)
theory Service_Contract
  imports Email_Verification
begin

text \<open>
  What the use cases need of the service's dependencies so that all their actions move the world
  along a relation \<open>R\<close>. The first locale lists the calls of the start and result paths with
  the arguments those paths pass (the only statuses they write, the only steps they touch), save the
  insertion of steps; \<open>service_core\<close> adds the pending steps of a start, \<open>service_results\<close> the
  announcement of a sent code, \<open>service_verification\<close> the verification goroutine and the token claim;
  \<open>service_all\<close> has them all, with the steps of a verification. Inside each, the programs of the
  layer are proved safe once; an invariant of the tables is then an interpretation.
\<close>

definition start_keys :: "string list" where
  "start_keys = [StepKeyUserCreateProfile, StepKeyAuthCreatePending, StepKeyMailSendVerificationCode]"

definition saga_statuses :: "string list" where
  "saga_statuses = [SessionStatusInProgress, SessionStatusCodeSent, SessionStatusFailed]"

definition verify_keys :: "string list" where
  "verify_keys = [StepKeyVerifyEmailCode, StepKeyActivateUser]"

definition verify_statuses :: "string list" where
  "verify_statuses = [SessionStatusVerifyingEmail, SessionStatusActivatingUser, SessionStatusCompleted]"

definition step_statuses :: "string list" where
  "step_statuses = [StepStatusInProgress, StepStatusCompleted, StepStatusFailed]"

lemmas contract_sets = start_keys_def saga_statuses_def verify_keys_def verify_statuses_def
  step_statuses_def

section \<open>Start and result handling\<close>

locale service_base =
  fixes s :: "'w registrationService" and R :: "'w \<Rightarrow> 'w \<Rightarrow> bool"
  assumes now [safe_intros]: "safe R (rt_now (sv_rt s))"
    and uuid [safe_intros]: "safe R (rt_uuid (sv_rt s))"
    and metric [safe_intros]: "safe R (metric s m)"
    and bcrypt [safe_intros]: "safe R (rt_bcrypt (sv_rt s) pw)"
    and dispatch [safe_intros]: "safe R (rt_go (sv_rt s) (DispatchStartCommands x i h))"
    and Publish [safe_intros]: "safe R (eb_Publish (sv_broker s) subject payload)"
    and failed_note [safe_intros]:
      "safe R (publishRegistrationNotification s x ''registration.failed'' ns ec rt pl)"
    and ExistsByEmail [safe_intros]: "safe R (em_ExistsByEmail (sv_emailChecker s) email)"
    and DeactivateAuth [safe_intros]: "safe R (em_DeactivateRegistrationAuth (sv_emailChecker s) u)"
    and ExistsByUsername [safe_intros]: "safe R (un_ExistsByUsername (sv_usernameChecker s) name)"
    and DeactivateUser [safe_intros]: "safe R (un_DeactivateUser (sv_usernameChecker s) u)"
    and Create [safe_intros]:
      "s_Status x = SessionStatusStarted \<Longrightarrow> safe R (sess_Create (sv_sessions s) x)"
    and GetByID [safe_intros]: "safe R (sess_GetByID (sv_sessions s) sid)"
    and GetByEmail [safe_intros]: "safe R (sess_GetByEmail (sv_sessions s) email)"
    and GetByUsername [safe_intros]: "safe R (sess_GetByUsername (sv_sessions s) name)"
    and UpdateStatus:
      "st \<in> set saga_statuses \<Longrightarrow> safe R (sess_UpdateStatus (sv_sessions s) sid st)"
    and Reconcile:
      "sess_ReconcileStatus (sv_sessions s) = Some reconcile \<Longrightarrow> safe R (reconcile sid)"
    and step_List [safe_intros]: "safe R (step_ListBySessionID (sv_steps s) sid)"
    and step_Update:
      "key \<in> set start_keys \<Longrightarrow> st \<in> set step_statuses
       \<Longrightarrow> safe R (step_UpdateStatus (sv_steps s) sid key st)"
begin

lemma update_status [safe_intros]:
  "safe R (sess_UpdateStatus (sv_sessions s) sid SessionStatusInProgress)"
  "safe R (sess_UpdateStatus (sv_sessions s) sid SessionStatusCodeSent)"
  "safe R (sess_UpdateStatus (sv_sessions s) sid SessionStatusFailed)"
  by (rule UpdateStatus, simp add: contract_sets)+

lemma step_update [safe_intros]:
  assumes "st \<in> set step_statuses"
  shows "safe R (step_UpdateStatus (sv_steps s) sid StepKeyUserCreateProfile st)"
    "safe R (step_UpdateStatus (sv_steps s) sid StepKeyAuthCreatePending st)"
    "safe R (step_UpdateStatus (sv_steps s) sid StepKeyMailSendVerificationCode st)"
  using assms by (auto intro!: step_Update simp: start_keys_def)

lemma status_values [simp]:
  "StepStatusInProgress \<in> set step_statuses" "StepStatusCompleted \<in> set step_statuses"
  "StepStatusFailed \<in> set step_statuses" "result_step_status x \<in> set step_statuses"
  by (simp_all add: step_statuses_def result_step_status_def)

lemma observed [safe_intros]: "safe R body \<Longrightarrow> safe R (observed (sv_rt s) name body)"
  unfolding observed_def by (auto intro!: safe_intros split: prod.split)

lemma compensateRegistrationFailure [safe_intros]:
  "safe R (compensateRegistrationFailure s sid u reason)"
  unfolding compensateRegistrationFailure_def compensation_effects_def Let_def
  by (intro safe_intros; (auto intro!: safe_intros split: sum.split; fail)?)

lemma sync_attempts [safe_intros]: "safe R (sync_attempts s sid n)"
  by (induction n) (auto intro!: safe_intros split: option.split)

lemma syncSessionStatus [safe_intros]: "safe R (syncSessionStatus s sid)"
  unfolding syncSessionStatus_def
  by (auto intro!: safe_intros Reconcile split: option.split)

lemma lookupStartConflict [safe_intros]: "safe R (lookupStartConflict s email name)"
  unfolding lookupStartConflict_def lookupIncompleteConflict_def lookupCompletedConflict_def
  by (auto intro!: safe_intros split: sum.split)

lemma normalizeStartInput [safe_intros]: "safe R (normalizeStartInput (sv_rt s) params)"
  unfolding normalizeStartInput_def Let_def by (intro safe_intros)

lemma createStartSession [safe_intros]: "safe R (createStartSession s input)"
  unfolding createStartSession_def or_uuid_def by (intro safe_intros) simp

lemma hashStartPassword [safe_intros]: "safe R (hashStartPassword (sv_rt s) pw)"
  unfolding hashStartPassword_def by (intro safe_intros)

lemma publish_commands [safe_intros]:
  "safe R (publishUserCreateCommand s x f l)" "safe R (publishAuthCreateCommand s x e h)"
  unfolding publishUserCreateCommand_def publishAuthCreateCommand_def
  by (auto intro!: safe_intros split: sum.split)

lemma dispatchStartCommands [safe_intros]: "safe R (dispatchStartCommands s x i h)"
  unfolding dispatchStartCommands_def markStartInProgress_def failStartStep_def
  by (intro safe_intros) simp_all

end

section \<open>The steps of a start\<close>

locale service_core = service_base +
  assumes step_Create:
      "st_Status t = StepStatusPending \<Longrightarrow> st_StepKey t \<in> set start_keys
       \<Longrightarrow> safe R (step_Create (sv_steps s) t)"
begin

lemma step_create [safe_intros]:
  "safe R (step_Create (sv_steps s) (pending_step sid StepKeyUserCreateProfile))"
  "safe R (step_Create (sv_steps s) (pending_step sid StepKeyAuthCreatePending))"
  "safe R (step_Create (sv_steps s) (pending_step sid StepKeyMailSendVerificationCode))"
  by (rule step_Create; simp add: contract_sets pending_step_def)+

lemma createStartSteps [safe_intros]: "safe R (createStartSteps s sid)"
  unfolding createStartSteps_def by (auto intro!: safe_intros)

lemma Start [safe_intros]: "safe R (Start s params)"
  unfolding Start_def by (auto intro!: safe_intros split: option.split)

end

section \<open>Announcing the sent code\<close>

locale service_results = service_base +
  assumes LoadOrStore [safe_intros]: "safe R (rt_LoadOrStore (sv_rt s) sid)"
    and code_sent_note [safe_intros]:
      "safe R (publishRegistrationNotification s x ''registration.code_sent'' ns ec rt pl)"
begin

lemma publishCodeSentIfReady [safe_intros]: "safe R (publishCodeSentIfReady s sid payload)"
  unfolding publishCodeSentIfReady_def by (auto intro!: safe_intros)

lemma HandleUserCreateResult [safe_intros]: "safe R (HandleUserCreateResult s ur)"
  unfolding HandleUserCreateResult_def by (intro safe_intros) simp

lemma HandleAuthCreatePendingResult [safe_intros]: "safe R (HandleAuthCreatePendingResult s ar)"
  unfolding HandleAuthCreatePendingResult_def by (intro safe_intros) simp_all

lemma HandleMailSendResult [safe_intros]: "safe R (HandleMailSendResult s mr)"
  unfolding HandleMailSendResult_def
  by (intro safe_intros) (auto intro!: safe_intros split: sum.split)

end

locale service_announce = service_core s R + service_results s R
  for s :: "'w registrationService" and R :: "'w \<Rightarrow> 'w \<Rightarrow> bool"

section \<open>Verification and the token claim\<close>

locale service_verification = service_results +
  assumes complete [safe_intros]: "safe R (rt_go (sv_rt s) (CompleteEmailVerification x c))"
    and completed_note [safe_intros]:
      "safe R (publishRegistrationNotification s x ''registration.completed'' ns ec rt pl)"
    and VerifyRegistrationEmail [safe_intros]:
      "safe R (em_VerifyRegistrationEmail (sv_emailChecker s) u c)"
    and ActivateUser [safe_intros]: "safe R (un_ActivateUser (sv_usernameChecker s) u)"
    and ClaimCompleted [safe_intros]: "safe R (sess_ClaimCompleted (sv_sessions s) sid)"
    and UpdateStatus_verify:
      "st \<in> set verify_statuses \<Longrightarrow> safe R (sess_UpdateStatus (sv_sessions s) sid st)"
    and step_Update_verify:
      "key \<in> set verify_keys \<Longrightarrow> st \<in> set step_statuses
       \<Longrightarrow> safe R (step_UpdateStatus (sv_steps s) sid key st)"
begin

lemma update_status_verify [safe_intros]:
  "safe R (sess_UpdateStatus (sv_sessions s) sid SessionStatusVerifyingEmail)"
  "safe R (sess_UpdateStatus (sv_sessions s) sid SessionStatusActivatingUser)"
  "safe R (sess_UpdateStatus (sv_sessions s) sid SessionStatusCompleted)"
  by (rule UpdateStatus_verify, simp add: contract_sets)+

lemma step_update_verify [safe_intros]:
  assumes "st \<in> set step_statuses"
  shows "safe R (step_UpdateStatus (sv_steps s) sid StepKeyVerifyEmailCode st)"
    "safe R (step_UpdateStatus (sv_steps s) sid StepKeyActivateUser st)"
  using assms by (auto intro!: step_Update_verify simp: verify_keys_def)

lemma GetRegistrationStatus [safe_intros]: "safe R (GetRegistrationStatus s sid cid)"
  unfolding GetRegistrationStatus_def Let_def by (intro safe_intros)

lemma failEmailVerification [safe_intros]:
  "key \<in> set verify_keys \<Longrightarrow> safe R (failEmailVerification s x key err)"
  unfolding failEmailVerification_def
  by (intro safe_intros step_Update_verify; (auto intro!: safe_intros split: sum.split; fail)?)

lemma completeEmailVerification [safe_intros]: "safe R (completeEmailVerification s x code)"
  unfolding completeEmailVerification_def announce_completed_def
  by (intro safe_intros) (auto simp: verify_keys_def intro!: safe_intros split: sum.split)

end

section \<open>Everything\<close>

locale service_all = service_announce s R + service_verification s R
  for s :: "'w registrationService" and R :: "'w \<Rightarrow> 'w \<Rightarrow> bool" +
  assumes step_Create_verify:
      "st_StepKey t = StepKeyVerifyEmailCode \<and> st_Status t = StepStatusInProgress
       \<or> st_StepKey t = StepKeyActivateUser \<and> st_Status t = StepStatusPending
       \<Longrightarrow> safe R (step_Create (sv_steps s) t)"
begin

lemma step_create_verify [safe_intros]:
  "safe R (step_Create (sv_steps s) (step_row sid StepKeyVerifyEmailCode StepStatusInProgress))"
  "safe R (step_Create (sv_steps s) (step_row sid StepKeyActivateUser StepStatusPending))"
  by (rule step_Create_verify; simp add: step_row_def)+

lemma VerifyEmail [safe_intros]: "safe R (VerifyEmail s vp)"
  unfolding VerifyEmail_def Let_def reload_in_progress_def begin_verification_def
  by (intro safe_intros)

lemma goroutine_body [safe_intros]: "safe R (goroutine_body s g)"
  unfolding goroutine_body_def by (auto intro!: safe_intros split: goroutine.split)

end

end
