(* ===== verification/Saga_World.thy ===== *)
theory Saga_World
  imports Service_Types
begin

text \<open>
  The world the service runs in: the PostgreSQL tables (theory \<open>Postgres_Repository\<close> gives the
  statements), the \<open>sync.Map\<close> of notified sessions, the goroutines started and not yet picked up
  by the scheduler, and the trace of effects on other services. Everything outside the
  repository is an \<open>environment\<close>: what the \<open>i\<close>-th external call of the execution answers, for
  every \<open>i\<close>. Theorems quantify over it, so they hold whatever fails and whenever.
\<close>

section \<open>Tables\<close>

datatype outbox_payload = SessionRow Session | StepRow Step

text \<open>
  Of an outbox row the model keeps the aggregate id, the operation and the row the trigger
  serialises; the list order stands for \<open>occurred_at\<close>. The generated event id, the schema
  version and the type columns, which follow from the payload's table, are left out.
\<close>

record outbox_event =
  ox_aggregate_id :: string
  ox_operation :: string
  ox_payload :: outbox_payload

record database =
  db_sessions :: "Session list"
  db_steps :: "Step list"
  db_outbox :: "outbox_event list"

definition empty_db :: database where
  "empty_db = \<lparr>db_sessions = [], db_steps = [], db_outbox = []\<rparr>"

section \<open>Effects and world\<close>

text \<open>A call of another service with its arguments and whether it succeeded.\<close>

datatype effect =
    Published string bytes bool
  | RealtimePublished bytes bool
  | VerifiedEmail string string bool
  | DeactivatedAuth string bool
  | ActivatedUser string bool
  | DeactivatedUser string bool
  | Metric metric

record world =
  w_db :: database
  w_tick :: nat
  w_trace :: "effect list"
  w_notified :: "string list"
  w_spawned :: "goroutine list"

definition start_world :: world where
  "start_world = \<lparr>w_db = empty_db, w_tick = 0, w_trace = [], w_notified = [], w_spawned = []\<rparr>"

record environment =
  env_now :: "nat \<Rightarrow> int"
  env_uuid :: "nat \<Rightarrow> string"
  env_db_fault :: "nat \<Rightarrow> error option"
  env_publish :: "nat \<Rightarrow> string \<Rightarrow> bytes \<Rightarrow> error option"
  env_realtime :: "nat \<Rightarrow> bytes \<Rightarrow> error option"
  env_ExistsByEmail :: "nat \<Rightarrow> string \<Rightarrow> error + bool"
  env_VerifyRegistrationEmail :: "nat \<Rightarrow> string \<Rightarrow> string \<Rightarrow> error option"
  env_DeactivateRegistrationAuth :: "nat \<Rightarrow> string \<Rightarrow> error option"
  env_ExistsByUsername :: "nat \<Rightarrow> string \<Rightarrow> error + bool"
  env_ActivateUser :: "nat \<Rightarrow> string \<Rightarrow> error option"
  env_DeactivateUser :: "nat \<Rightarrow> string \<Rightarrow> error option"
  env_bcrypt :: "nat \<Rightarrow> string \<Rightarrow> error + string"
  env_jsonMarshal :: marshaller
  env_ParseAddress :: "string \<Rightarrow> bool"
  env_marshalNotification :: "notification \<Rightarrow> error + bytes"

section \<open>External calls\<close>

definition ticked :: "world \<Rightarrow> world" where
  "ticked w = w\<lparr>w_tick := Suc (w_tick w)\<rparr>"

definition traced :: "effect \<Rightarrow> world \<Rightarrow> world" where
  "traced e w = w\<lparr>w_trace := w_trace w @ [e]\<rparr>"

text \<open>An answer of the environment, recorded in the trace by \<open>e\<close>.\<close>

definition ask :: "(nat \<Rightarrow> 'a) \<Rightarrow> (world, 'a) prog" where
  "ask f = call (\<lambda>w. (f (w_tick w), ticked w))"

definition notify :: "(nat \<Rightarrow> error option) \<Rightarrow> (bool \<Rightarrow> effect) \<Rightarrow> (world, error option) prog" where
  "notify f e = call (\<lambda>w. let r = f (w_tick w) in (r, traced (e (r = None)) (ticked w)))"

text \<open>A statement or transaction: it fails as a whole, leaving the tables, or is applied.\<close>

definition db_exec ::
  "environment \<Rightarrow> (int \<Rightarrow> database \<Rightarrow> (error + 'a) \<times> database) \<Rightarrow> (world, error + 'a) prog" where
  "db_exec env stmt = call (\<lambda>w.
     case env_db_fault env (w_tick w) of
       Some e \<Rightarrow> (Inl e, ticked w)
     | None \<Rightarrow> (case stmt (env_now env (w_tick w)) (w_db w) of
                 (r, d) \<Rightarrow> (r, (ticked w)\<lparr>w_db := d\<rparr>)))"

definition LoadOrStore :: "string \<Rightarrow> (world, bool) prog" where
  "LoadOrStore k = call (\<lambda>w.
     if k \<in> set (w_notified w) then (True, w)
     else (False, w\<lparr>w_notified := k # w_notified w\<rparr>))"

definition go :: "goroutine \<Rightarrow> (world, unit) prog" where
  "go g = call (\<lambda>w. ((), w\<lparr>w_spawned := w_spawned w @ [g]\<rparr>))"

definition saga_runtime :: "environment \<Rightarrow> world Runtime" where
  "saga_runtime env =
     \<lparr>rt_now = ask (env_now env),
      rt_uuid = ask (env_uuid env),
      rt_go = go,
      rt_metric = (\<lambda>m. call (\<lambda>w. ((), traced (Metric m) w))),
      rt_LoadOrStore = LoadOrStore,
      rt_jsonMarshal = env_jsonMarshal env,
      rt_ParseAddress = env_ParseAddress env,
      rt_bcrypt = (\<lambda>p. ask (\<lambda>i. env_bcrypt env i p)),
      rt_marshalNotification = env_marshalNotification env\<rparr>"

definition saga_broker :: "environment \<Rightarrow> world EventBroker" where
  "saga_broker env =
     \<lparr>eb_Publish = (\<lambda>subject payload.
        notify (\<lambda>i. env_publish env i subject payload) (Published subject payload)),
      eb_PublishRealtime = Some (\<lambda>body.
        notify (\<lambda>i. env_realtime env i body) (RealtimePublished body))\<rparr>"

text \<open>
  The gRPC clients (internal/presentation/grpc/auth_client.go and user_client.go): each method
  forwards its arguments and returns the call's error; an availability check returns
  \<open>(false, err)\<close> on error and the \<open>exists\<close> field of the response otherwise.
\<close>

definition auth_client :: "environment \<Rightarrow> world EmailAvailabilityChecker" where
  "auth_client env =
     \<lparr>em_ExistsByEmail = (\<lambda>email. ask (\<lambda>i. env_ExistsByEmail env i email)),
      em_VerifyRegistrationEmail = (\<lambda>userID code.
        notify (\<lambda>i. env_VerifyRegistrationEmail env i userID code) (VerifiedEmail userID code)),
      em_DeactivateRegistrationAuth = (\<lambda>userID.
        notify (\<lambda>i. env_DeactivateRegistrationAuth env i userID) (DeactivatedAuth userID))\<rparr>"

definition user_client :: "environment \<Rightarrow> world UsernameAvailabilityChecker" where
  "user_client env =
     \<lparr>un_ExistsByUsername = (\<lambda>username. ask (\<lambda>i. env_ExistsByUsername env i username)),
      un_ActivateUser = (\<lambda>userID.
        notify (\<lambda>i. env_ActivateUser env i userID) (ActivatedUser userID)),
      un_DeactivateUser = (\<lambda>userID.
        notify (\<lambda>i. env_DeactivateUser env i userID) (DeactivatedUser userID))\<rparr>"

section \<open>What one call does\<close>

lemma world_simps [simp]:
  "w_db (ticked w) = w_db w" "w_trace (ticked w) = w_trace w"
  "w_notified (ticked w) = w_notified w" "w_spawned (ticked w) = w_spawned w"
  "w_tick (ticked w) = Suc (w_tick w)"
  "w_db (traced e w) = w_db w" "w_trace (traced e w) = w_trace w @ [e]"
  "w_notified (traced e w) = w_notified w" "w_spawned (traced e w) = w_spawned w"
  "w_tick (traced e w) = w_tick w"
  by (simp_all add: ticked_def traced_def)

lemma run_ask [run_simps, simp]: "run (ask f) w = (f (w_tick w), ticked w)"
  by (simp add: ask_def)

lemma run_notify [run_simps]:
  "run (notify f e) w = (f (w_tick w), traced (e (f (w_tick w) = None)) (ticked w))"
  by (simp add: notify_def Let_def)

lemma run_db_exec [run_simps]:
  "run (db_exec env stmt) w =
     (case env_db_fault env (w_tick w) of
        Some e \<Rightarrow> (Inl e, ticked w)
      | None \<Rightarrow> (case stmt (env_now env (w_tick w)) (w_db w) of
                  (r, d) \<Rightarrow> (r, (ticked w)\<lparr>w_db := d\<rparr>)))"
  by (simp add: db_exec_def)

lemma run_LoadOrStore [run_simps]:
  "run (LoadOrStore k) w =
     (if k \<in> set (w_notified w) then (True, w) else (False, w\<lparr>w_notified := k # w_notified w\<rparr>))"
  by (simp add: LoadOrStore_def)

lemma run_go [run_simps]: "run (go g) w = ((), w\<lparr>w_spawned := w_spawned w @ [g]\<rparr>)"
  by (simp add: go_def)

lemma saga_runtime_simps [simp]:
  "rt_now (saga_runtime env) = ask (env_now env)"
  "rt_uuid (saga_runtime env) = ask (env_uuid env)"
  "rt_go (saga_runtime env) = go"
  "rt_LoadOrStore (saga_runtime env) = LoadOrStore"
  "rt_jsonMarshal (saga_runtime env) = env_jsonMarshal env"
  "rt_ParseAddress (saga_runtime env) = env_ParseAddress env"
  "rt_bcrypt (saga_runtime env) p = ask (\<lambda>i. env_bcrypt env i p)"
  "rt_marshalNotification (saga_runtime env) = env_marshalNotification env"
  by (simp_all add: saga_runtime_def)

lemma run_metric [run_simps, simp]:
  "run (rt_metric (saga_runtime env) m) w = ((), traced (Metric m) w)"
  by (simp add: saga_runtime_def)

end
