(* ===== verification/Postgres_Repository.thy ===== *)
theory Postgres_Repository
  imports Saga_World Saga_Service "HOL-Library.List_Lexorder" "HOL-Library.Char_ord"
begin

text \<open>
  internal/infra/postgres/repository.go over the schema of migration/postgres: the unique
  indexes, the row triggers that append to the outbox, and one function per SQL statement or
  transaction. A statement is atomic; \<open>ReconcileStatus\<close>, which holds an advisory lock and a row
  lock for the length of its transaction, is one atomic step too.
\<close>

section \<open>Triggers\<close>

definition emit_session :: "string \<Rightarrow> Session \<Rightarrow> outbox_event" where
  "emit_session operation s =
     \<lparr>ox_aggregate_id = s_SessionID s, ox_operation = operation, ox_payload = SessionRow s\<rparr>"

definition emit_step :: "string \<Rightarrow> Step \<Rightarrow> outbox_event" where
  "emit_step operation s =
     \<lparr>ox_aggregate_id = st_SessionID s, ox_operation = operation, ox_payload = StepRow s\<rparr>"

text \<open>\<open>UPDATE table SET f WHERE p\<close>, with the AFTER UPDATE trigger on every matched row.\<close>

definition update_sessions ::
  "(Session \<Rightarrow> bool) \<Rightarrow> (Session \<Rightarrow> Session) \<Rightarrow> database \<Rightarrow> database" where
  "update_sessions p f d =
     d\<lparr>db_sessions := update_rows p f (db_sessions d),
       db_outbox := db_outbox d @ map (\<lambda>r. emit_session ''updated'' (f r)) (filter p (db_sessions d))\<rparr>"

definition update_steps :: "(Step \<Rightarrow> bool) \<Rightarrow> (Step \<Rightarrow> Step) \<Rightarrow> database \<Rightarrow> database" where
  "update_steps p f d =
     d\<lparr>db_steps := update_rows p f (db_steps d),
       db_outbox := db_outbox d @ map (\<lambda>r. emit_step ''updated'' (f r)) (filter p (db_steps d))\<rparr>"

section \<open>Session statements\<close>

definition sessions_Create :: "Session \<Rightarrow> int \<Rightarrow> database \<Rightarrow> (error + Session) \<times> database" where
  "sessions_Create s now d =
     (let row = s\<lparr>s_CreatedAt := now, s_UpdatedAt := now\<rparr> in
      if \<exists>r \<in> set (db_sessions d). s_SessionID r = s_SessionID s
      then (Inl (UniqueViolation ''registration_saga_sessions_pkey''), d)
      else if \<exists>r \<in> set (db_sessions d). s_Email r = s_Email s
      then (Inl (UniqueViolation ''registration_sessions_email_idx''), d)
      else if \<exists>r \<in> set (db_sessions d). s_Username r = s_Username s
      then (Inl (UniqueViolation ''registration_sessions_username_idx''), d)
      else (Inr row, d\<lparr>db_sessions := db_sessions d @ [row],
                       db_outbox := db_outbox d @ [emit_session ''created'' row]\<rparr>))"

text \<open>\<open>ORDER BY created_at DESC LIMIT 1\<close>.\<close>

fun latest :: "Session list \<Rightarrow> Session option" where
  "latest [] = None"
| "latest (s # ss) =
     (case latest ss of
        None \<Rightarrow> Some s
      | Some t \<Rightarrow> if s_CreatedAt t \<le> s_CreatedAt s then Some s else Some t)"

definition one :: "Session option \<Rightarrow> error + Session" where
  "one r = (case r of None \<Rightarrow> Inl (DomainErr ErrSessionNotFound) | Some s \<Rightarrow> Inr s)"

definition session_row :: "database \<Rightarrow> string \<Rightarrow> Session option" where
  "session_row d sid = find (\<lambda>r. s_SessionID r = sid) (db_sessions d)"

definition sessions_GetByID :: "string \<Rightarrow> int \<Rightarrow> database \<Rightarrow> (error + Session) \<times> database" where
  "sessions_GetByID sid now d = (one (session_row d sid), d)"

definition sessions_GetByEmail :: "string \<Rightarrow> int \<Rightarrow> database \<Rightarrow> (error + Session) \<times> database" where
  "sessions_GetByEmail v now d = (one (latest (filter (\<lambda>r. s_Email r = v) (db_sessions d))), d)"

definition sessions_GetByUsername :: "string \<Rightarrow> int \<Rightarrow> database \<Rightarrow> (error + Session) \<times> database" where
  "sessions_GetByUsername v now d = (one (latest (filter (\<lambda>r. s_Username r = v) (db_sessions d))), d)"

definition set_session_status :: "string \<Rightarrow> int \<Rightarrow> Session \<Rightarrow> Session" where
  "set_session_status status now r = r\<lparr>s_Status := status, s_UpdatedAt := now\<rparr>"

definition sessions_UpdateStatus ::
  "string \<Rightarrow> string \<Rightarrow> int \<Rightarrow> database \<Rightarrow> (error + unit) \<times> database" where
  "sessions_UpdateStatus sid status now d =
     (Inr (), update_sessions (\<lambda>r. s_SessionID r = sid) (set_session_status status now) d)"

definition sessions_ClaimCompleted :: "string \<Rightarrow> int \<Rightarrow> database \<Rightarrow> (error + bool) \<times> database" where
  "sessions_ClaimCompleted sid now d =
     (let p = (\<lambda>r. s_SessionID r = sid \<and> s_Status r = SessionStatusCompleted) in
      if filter p (db_sessions d) = [] then (Inr False, d)
      else (Inr True, update_sessions p (set_session_status SessionStatusTokensClaimed now) d))"

section \<open>Step statements\<close>

definition steps_Create :: "Step \<Rightarrow> int \<Rightarrow> database \<Rightarrow> (error + Step) \<times> database" where
  "steps_Create s now d =
     (let row = s\<lparr>st_CreatedAt := now, st_UpdatedAt := now\<rparr> in
      if \<exists>r \<in> set (db_steps d). st_SessionID r = st_SessionID s \<and> st_StepKey r = st_StepKey s
      then (Inl (UniqueViolation ''registration_saga_steps_pkey''), d)
      else (Inr row, d\<lparr>db_steps := db_steps d @ [row],
                       db_outbox := db_outbox d @ [emit_step ''created'' row]\<rparr>))"

definition step_at :: "database \<Rightarrow> string \<Rightarrow> string \<Rightarrow> Step option" where
  "step_at d saga key = find (\<lambda>r. st_SessionID r = saga \<and> st_StepKey r = key) (db_steps d)"

definition steps_GetByKey :: "string \<Rightarrow> string \<Rightarrow> int \<Rightarrow> database \<Rightarrow> (error + Step) \<times> database" where
  "steps_GetByKey saga key now d =
     (case step_at d saga key of
        None \<Rightarrow> (Inl (DomainErr ErrStepNotFound), d)
      | Some s \<Rightarrow> (Inr s, d))"

definition steps_of :: "database \<Rightarrow> string \<Rightarrow> Step list" where
  "steps_of d saga = sort_key st_StepKey (filter (\<lambda>r. st_SessionID r = saga) (db_steps d))"

definition steps_ListBySessionID :: "string \<Rightarrow> int \<Rightarrow> database \<Rightarrow> (error + Step list) \<times> database" where
  "steps_ListBySessionID saga now d = (Inr (steps_of d saga), d)"

definition set_step_status :: "string \<Rightarrow> int \<Rightarrow> Step \<Rightarrow> Step" where
  "set_step_status status now r = r\<lparr>st_Status := status, st_UpdatedAt := now\<rparr>"

definition steps_UpdateStatus ::
  "string \<Rightarrow> string \<Rightarrow> string \<Rightarrow> int \<Rightarrow> database \<Rightarrow> (error + unit) \<times> database" where
  "steps_UpdateStatus saga key status now d =
     (Inr (), update_steps
        (\<lambda>r. st_SessionID r = saga \<and> st_StepKey r = key
             \<and> \<not> (st_Status r = StepStatusCompleted \<and> status = StepStatusInProgress))
        (set_step_status status now) d)"

section \<open>ReconcileStatus\<close>

definition aggregate_status :: "Step list \<Rightarrow> string" where
  "aggregate_status steps =
     (case scan_steps True steps of
        None \<Rightarrow> SessionStatusFailed
      | Some allCompleted \<Rightarrow>
          if allCompleted then SessionStatusCodeSent else SessionStatusInProgress)"

definition sessions_ReconcileStatus :: "string \<Rightarrow> int \<Rightarrow> database \<Rightarrow> (error + string) \<times> database" where
  "sessions_ReconcileStatus sid now d =
     (case session_row d sid of
        None \<Rightarrow> (Inl (DomainErr ErrSessionNotFound), d)
      | Some _ \<Rightarrow>
          (let status = aggregate_status (steps_of d sid) in
           (Inr status,
            update_sessions (\<lambda>r. s_SessionID r = sid) (set_session_status status now) d)))"

section \<open>The repositories\<close>

definition result_error :: "(world, error + 'a) prog \<Rightarrow> (world, error option) prog" where
  "result_error p = bind p (\<lambda>r. Ret (err_of r))"

definition session_repository :: "environment \<Rightarrow> world SessionRepository" where
  "session_repository env =
     \<lparr>sess_Create = (\<lambda>s. db_exec env (sessions_Create s)),
      sess_GetByID = (\<lambda>sid. db_exec env (sessions_GetByID sid)),
      sess_GetByEmail = (\<lambda>v. db_exec env (sessions_GetByEmail v)),
      sess_GetByUsername = (\<lambda>v. db_exec env (sessions_GetByUsername v)),
      sess_UpdateStatus = (\<lambda>sid status. result_error (db_exec env (sessions_UpdateStatus sid status))),
      sess_ClaimCompleted = (\<lambda>sid. db_exec env (sessions_ClaimCompleted sid)),
      sess_ReconcileStatus = Some (\<lambda>sid. db_exec env (sessions_ReconcileStatus sid))\<rparr>"

definition step_repository :: "environment \<Rightarrow> world StepRepository" where
  "step_repository env =
     \<lparr>step_Create = (\<lambda>s. db_exec env (steps_Create s)),
      step_GetByKey = (\<lambda>saga key. db_exec env (steps_GetByKey saga key)),
      step_ListBySessionID = (\<lambda>saga. db_exec env (steps_ListBySessionID saga)),
      step_UpdateStatus = (\<lambda>saga key status.
        result_error (db_exec env (steps_UpdateStatus saga key status)))\<rparr>"

text \<open>The constructors; \<open>db\<close> and \<open>lg\<close> say whether the pool and the logger are there.\<close>

definition NewSessionRepository :: "bool \<Rightarrow> bool \<Rightarrow> environment \<Rightarrow> error + world SessionRepository" where
  "NewSessionRepository db lg env =
     (if \<not> db then Inl (ExtErr ''postgres database is nil'')
      else if \<not> lg then Inl (ExtErr ''logger is nil'')
      else Inr (session_repository env))"

definition NewStepRepository :: "bool \<Rightarrow> bool \<Rightarrow> environment \<Rightarrow> error + world StepRepository" where
  "NewStepRepository db lg env =
     (if \<not> db then Inl (ExtErr ''postgres database is nil'')
      else if \<not> lg then Inl (ExtErr ''logger is nil'')
      else Inr (step_repository env))"

definition saga_service :: "environment \<Rightarrow> NATSConfig \<Rightarrow> world registrationService" where
  "saga_service env cfg =
     \<lparr>sv_sessions = session_repository env, sv_steps = step_repository env,
      sv_broker = saga_broker env, sv_realtime = eb_PublishRealtime (saga_broker env),
      sv_emailChecker = auth_client env, sv_usernameChecker = user_client env,
      sv_cfg = cfg, sv_rt = saga_runtime env\<rparr>"

lemma saga_service_New:
  "New (Some (session_repository env)) (Some (step_repository env)) (Some (saga_broker env))
     (Some (auth_client env)) (Some (user_client env)) cfg True (saga_runtime env)
   = Inr (saga_service env cfg)"
  by (simp add: New_def saga_service_def)

lemma saga_service_simps [simp]:
  "sv_sessions (saga_service env cfg) = session_repository env"
  "sv_steps (saga_service env cfg) = step_repository env"
  "sv_broker (saga_service env cfg) = saga_broker env"
  "sv_realtime (saga_service env cfg) = eb_PublishRealtime (saga_broker env)"
  "sv_emailChecker (saga_service env cfg) = auth_client env"
  "sv_usernameChecker (saga_service env cfg) = user_client env"
  "sv_cfg (saga_service env cfg) = cfg"
  "sv_rt (saga_service env cfg) = saga_runtime env"
  by (simp_all add: saga_service_def)

end
