(* ===== verification/Outbox.thy ===== *)
theory Outbox
  imports Postgres_Repository
begin

text \<open>
  The integrity of the tables and what the outbox records: every statement keeps the primary
  keys and the unique indexes, and replaying the outbox from the empty database gives the
  tables, row for row, which is what a change-data-capture consumer of the outbox relies on.
\<close>

section \<open>Keys\<close>

definition step_key_of :: "Step \<Rightarrow> string \<times> string" where
  "step_key_of t = (st_SessionID t, st_StepKey t)"

definition db_keys :: "database \<Rightarrow> bool" where
  "db_keys d \<longleftrightarrow>
     distinct (map s_SessionID (db_sessions d)) \<and> distinct (map s_Email (db_sessions d))
     \<and> distinct (map s_Username (db_sessions d)) \<and> distinct (map step_key_of (db_steps d))"

section \<open>Replaying the outbox\<close>

definition put_row :: "('r \<Rightarrow> 'k) \<Rightarrow> 'r \<Rightarrow> 'r list \<Rightarrow> 'r list" where
  "put_row k x rows = update_rows (\<lambda>r. k r = k x) (\<lambda>_. x) rows"

text \<open>A consumer's projection: a created row is appended, an updated row replaces its key.\<close>

fun apply_event :: "Session list \<times> Step list \<Rightarrow> outbox_event \<Rightarrow> Session list \<times> Step list" where
  "apply_event (ss, ts) e =
     (case ox_payload e of
        SessionRow s \<Rightarrow>
          (if ox_operation e = ''created'' then ss @ [s] else put_row s_SessionID s ss, ts)
      | StepRow t \<Rightarrow>
          (ss, if ox_operation e = ''created'' then ts @ [t] else put_row step_key_of t ts))"

definition replay :: "outbox_event list \<Rightarrow> Session list \<times> Step list" where
  "replay es = foldl apply_event ([], []) es"

definition outbox_complete :: "database \<Rightarrow> bool" where
  "outbox_complete d \<longleftrightarrow> replay (db_outbox d) = (db_sessions d, db_steps d)"

lemma replay_append: "replay (es @ fs) = foldl apply_event (replay es) fs"
  by (simp add: replay_def)

lemma put_row_absent: "k x \<notin> k ` set rows \<Longrightarrow> put_row k x rows = rows"
  unfolding put_row_def by (rule update_rows_none) (metis imageI)

lemma put_row_append: "put_row k x (xs @ ys) = put_row k x xs @ put_row k x ys"
  by (simp add: put_row_def)

lemma put_row_Cons: "put_row k x (y # ys) = (if k y = k x then x else y) # put_row k x ys"
  by (simp add: put_row_def)

text \<open>Putting the updated rows one after the other is the update.\<close>

lemma foldl_put_row:
  assumes "distinct (map k rows)" and key: "\<And>r. k (f r) = k r"
  shows "foldl (\<lambda>rs x. put_row k x rs) rows (map f (filter p rows)) = update_rows p f rows"
proof -
  have "foldl (\<lambda>rs x. put_row k x rs) (xs @ ys) (map f (filter p ys)) = xs @ update_rows p f ys"
    if "distinct (map k (xs @ ys))" for xs ys
    using that
  proof (induction ys arbitrary: xs)
    case (Cons y ys)
    show ?case
    proof (cases "p y")
      case True
      have "k (f y) \<notin> k ` set xs" "k (f y) \<notin> k ` set ys"
        using Cons.prems by (auto simp: key)
      then have "put_row k (f y) (xs @ y # ys) = (xs @ [f y]) @ ys"
        by (simp add: put_row_append put_row_Cons put_row_absent key)
      with Cons.IH [of "xs @ [f y]"] Cons.prems True show ?thesis by (simp add: key)
    next
      case False
      with Cons.IH [of "xs @ [y]"] Cons.prems show ?thesis by simp
    qed
  qed simp
  from this [of "[]" rows] assms(1) show ?thesis by simp
qed

lemma replay_sessions_updates:
  "foldl apply_event (ss, ts) (map (\<lambda>r. emit_session ''updated'' (f r)) xs)
     = (foldl (\<lambda>rs x. put_row s_SessionID x rs) ss (map f xs), ts)"
  by (induction xs arbitrary: ss) (simp_all add: emit_session_def)

lemma replay_steps_updates:
  "foldl apply_event (ss, ts) (map (\<lambda>r. emit_step ''updated'' (f r)) xs)
     = (ss, foldl (\<lambda>rs x. put_row step_key_of x rs) ts (map f xs))"
  by (induction xs arbitrary: ts) (simp_all add: emit_step_def)

section \<open>Every statement keeps them\<close>

definition db_ok :: "database \<Rightarrow> bool" where
  "db_ok d \<longleftrightarrow> db_keys d \<and> outbox_complete d"

lemma db_ok_empty: "db_ok empty_db"
  by (simp add: db_ok_def db_keys_def outbox_complete_def empty_db_def replay_def)

lemma update_sessions_ok:
  assumes "db_ok d" and "\<And>r. s_SessionID (f r) = s_SessionID r" and "\<And>r. s_Email (f r) = s_Email r"
    and "\<And>r. s_Username (f r) = s_Username r"
  shows "db_ok (update_sessions p f d)"
proof -
  have "foldl (\<lambda>rs x. put_row s_SessionID x rs) (db_sessions d) (map f (filter p (db_sessions d)))
      = update_rows p f (db_sessions d)"
    using assms by (intro foldl_put_row) (auto simp: db_ok_def db_keys_def)
  with assms show ?thesis
    by (simp add: db_ok_def db_keys_def outbox_complete_def update_sessions_def map_update_rows
        replay_append replay_sessions_updates)
qed

lemma update_steps_ok:
  assumes "db_ok d" and "\<And>r. step_key_of (f r) = step_key_of r"
  shows "db_ok (update_steps p f d)"
proof -
  have "foldl (\<lambda>rs x. put_row step_key_of x rs) (db_steps d) (map f (filter p (db_steps d)))
      = update_rows p f (db_steps d)"
    using assms by (intro foldl_put_row) (auto simp: db_ok_def db_keys_def)
  with assms show ?thesis
    by (simp add: db_ok_def db_keys_def outbox_complete_def update_steps_def map_update_rows
        replay_append replay_steps_updates)
qed

lemma set_session_status_fields [simp]:
  "s_SessionID (set_session_status st now r) = s_SessionID r"
  "s_Email (set_session_status st now r) = s_Email r"
  "s_Username (set_session_status st now r) = s_Username r"
  "s_ClientID (set_session_status st now r) = s_ClientID r"
  "s_UserID (set_session_status st now r) = s_UserID r"
  "s_Status (set_session_status st now r) = st"
  "s_CreatedAt (set_session_status st now r) = s_CreatedAt r"
  by (simp_all add: set_session_status_def)

lemma set_step_status_fields [simp]:
  "step_key_of (set_step_status st now r) = step_key_of r"
  "st_SessionID (set_step_status st now r) = st_SessionID r"
  "st_StepKey (set_step_status st now r) = st_StepKey r"
  "st_Status (set_step_status st now r) = st"
  by (simp_all add: set_step_status_def step_key_of_def)

lemma sessions_Create_ok: "db_ok d \<Longrightarrow> db_ok (snd (sessions_Create s now d))"
  by (auto simp: sessions_Create_def Let_def db_ok_def db_keys_def outbox_complete_def
      replay_append emit_session_def)

lemma steps_Create_ok: "db_ok d \<Longrightarrow> db_ok (snd (steps_Create s now d))"
  by (auto simp: steps_Create_def Let_def db_ok_def db_keys_def outbox_complete_def
      replay_append emit_step_def step_key_of_def)

lemma statements_ok:
  assumes "db_ok d"
  shows "db_ok (snd (sessions_GetByID v now d))" "db_ok (snd (sessions_GetByEmail v now d))"
    "db_ok (snd (sessions_GetByUsername v now d))" "db_ok (snd (steps_ListBySessionID v now d))"
    "db_ok (snd (steps_GetByKey v k now d))"
    "db_ok (snd (sessions_UpdateStatus v st now d))" "db_ok (snd (steps_UpdateStatus v k st now d))"
    "db_ok (snd (sessions_ClaimCompleted v now d))" "db_ok (snd (sessions_ReconcileStatus v now d))"
  using assms
  by (auto simp: sessions_GetByID_def sessions_GetByEmail_def sessions_GetByUsername_def
      steps_ListBySessionID_def steps_GetByKey_def sessions_UpdateStatus_def steps_UpdateStatus_def
      sessions_ClaimCompleted_def sessions_ReconcileStatus_def Let_def split: option.split
      intro!: update_sessions_ok update_steps_ok)

end
