(* ===== verification/Table_Relations.thy ===== *)
theory Table_Relations
  imports Service_Contract Outbox
begin

text \<open>
  Invariants of the tables. \<open>table_relation D\<close> asks that every SQL statement, with the arguments
  the service gives it, moves the database along \<open>D\<close>; it then provides the service contract, and
  with it that every action of every program of the production service does so, from any world
  and with any failures. The interpretations are the integrity of the keys and the outbox, the
  legal status values, the monotonicity of completed steps, the immutability of a session's
  identity and the accounting of token claims.
\<close>

definition session_statuses :: "string list" where
  "session_statuses = saga_statuses @ verify_statuses"

definition step_keys :: "string list" where
  "step_keys = start_keys @ verify_keys"

definition on_tables :: "(database \<Rightarrow> database \<Rightarrow> bool) \<Rightarrow> world \<Rightarrow> world \<Rightarrow> bool" where
  "on_tables D v w = D (w_db v) (w_db w)"

locale table_relation =
  fixes D :: "database \<Rightarrow> database \<Rightarrow> bool"
  assumes refl: "D d d"
    and create: "s_Status x = SessionStatusStarted \<Longrightarrow> D d (snd (sessions_Create x now d))"
    and update: "st \<in> set session_statuses \<Longrightarrow> D d (snd (sessions_UpdateStatus sid st now d))"
    and claim: "D d (snd (sessions_ClaimCompleted sid now d))"
    and reconcile: "D d (snd (sessions_ReconcileStatus sid now d))"
    and step_create:
      "st_StepKey t \<in> set step_keys \<Longrightarrow> st_Status t \<in> {StepStatusPending, StepStatusInProgress}
       \<Longrightarrow> D d (snd (steps_Create t now d))"
    and step_update:
      "key \<in> set step_keys \<Longrightarrow> st \<in> set step_statuses
       \<Longrightarrow> D d (snd (steps_UpdateStatus sid key st now d))"
begin

lemma same_db: "w_db w = w_db v \<Longrightarrow> on_tables D v w"
  by (simp add: on_tables_def refl)

lemma ask [safe_intros]: "safe (on_tables D) (ask f)"
  unfolding ask_def by (rule safe_call) (simp add: same_db)

lemma notify [safe_intros]: "safe (on_tables D) (notify f e)"
  unfolding notify_def by (rule safe_call) (simp add: same_db Let_def)

lemma LoadOrStore [safe_intros]: "safe (on_tables D) (LoadOrStore k)"
  unfolding LoadOrStore_def by (rule safe_call) (simp add: same_db)

lemma go [safe_intros]: "safe (on_tables D) (go g)"
  unfolding go_def by (rule safe_call) (simp add: same_db)

lemma metric [safe_intros]: "safe (on_tables D) (rt_metric (saga_runtime env) m)"
  unfolding saga_runtime_def by (simp add: safe_call_iff same_db)

lemma db_exec: "(\<And>now d. D d (snd (stmt now d))) \<Longrightarrow> safe (on_tables D) (db_exec env stmt)"
  unfolding db_exec_def by (rule safe_call) (simp add: on_tables_def refl split: option.split prod.split, metis snd_conv)

lemma result_error: "safe (on_tables D) p \<Longrightarrow> safe (on_tables D) (result_error p)"
  unfolding result_error_def by (intro safe_intros)

lemma notification [safe_intros]:
  "safe (on_tables D) (publishRegistrationNotification (saga_service env cfg) x et ns ec rt pl)"
  unfolding publishRegistrationNotification_def
  by (auto simp: saga_broker_def intro!: safe_intros split: sum.split)

end

sublocale table_relation \<subseteq> saga: service_all "saga_service env cfg" "on_tables D" for env cfg
proof unfold_locales
  fix reconcile sid
  assume "sess_ReconcileStatus (sv_sessions (saga_service env cfg)) = Some reconcile"
  then show "safe (on_tables D) (reconcile sid)"
    by (auto simp: session_repository_def intro!: db_exec table_relation.reconcile
        [OF table_relation_axioms])
next
  fix t :: Step assume "st_StepKey t = StepKeyVerifyEmailCode \<and> st_Status t = StepStatusInProgress
      \<or> st_StepKey t = StepKeyActivateUser \<and> st_Status t = StepStatusPending"
  then show "safe (on_tables D) (step_Create (sv_steps (saga_service env cfg)) t)"
    by (auto simp: step_repository_def step_keys_def verify_keys_def intro!: db_exec step_create)
qed (auto simp: session_repository_def step_repository_def saga_broker_def auth_client_def
    user_client_def refl session_statuses_def step_keys_def sessions_GetByID_def
    sessions_GetByEmail_def sessions_GetByUsername_def steps_ListBySessionID_def
    intro!: safe_intros db_exec result_error create update claim step_create step_update)

section \<open>By the change of rows\<close>

text \<open>The statements reduce to five changes of the tables.\<close>

definition insert_session :: "Session \<Rightarrow> database \<Rightarrow> database" where
  "insert_session r d = d\<lparr>db_sessions := db_sessions d @ [r],
     db_outbox := db_outbox d @ [emit_session ''created'' r]\<rparr>"

definition insert_step :: "Step \<Rightarrow> database \<Rightarrow> database" where
  "insert_step t d = d\<lparr>db_steps := db_steps d @ [t],
     db_outbox := db_outbox d @ [emit_step ''created'' t]\<rparr>"

definition write_status :: "string \<Rightarrow> string \<Rightarrow> int \<Rightarrow> database \<Rightarrow> database" where
  "write_status sid st now d = update_sessions (\<lambda>r. s_SessionID r = sid) (set_session_status st now) d"

definition claim_rows :: "string \<Rightarrow> int \<Rightarrow> database \<Rightarrow> database" where
  "claim_rows sid now d =
     update_sessions (\<lambda>r. s_SessionID r = sid \<and> s_Status r = SessionStatusCompleted)
       (set_session_status SessionStatusTokensClaimed now) d"

definition write_step :: "string \<Rightarrow> string \<Rightarrow> string \<Rightarrow> int \<Rightarrow> database \<Rightarrow> database" where
  "write_step sid key st now d =
     update_steps (\<lambda>r. st_SessionID r = sid \<and> st_StepKey r = key
         \<and> \<not> (st_Status r = StepStatusCompleted \<and> st = StepStatusInProgress))
       (set_step_status st now) d"

lemmas row_changes = insert_session_def insert_step_def write_status_def claim_rows_def write_step_def
  update_sessions_def update_steps_def

lemma aggregate_status_saga: "aggregate_status ts \<in> set saga_statuses"
  by (simp add: aggregate_status_def saga_statuses_def split: option.split)

lemma db_sessions_changes [simp]:
  "db_sessions (insert_session r d) = db_sessions d @ [r]"
  "db_sessions (insert_step t d) = db_sessions d"
  "db_sessions (write_step sid k st now d) = db_sessions d"
  "db_sessions (write_status sid st now d) =
     update_rows (\<lambda>r. s_SessionID r = sid) (set_session_status st now) (db_sessions d)"
  "db_sessions (claim_rows sid now d) =
     update_rows (\<lambda>r. s_SessionID r = sid \<and> s_Status r = SessionStatusCompleted)
       (set_session_status SessionStatusTokensClaimed now) (db_sessions d)"
  by (simp_all add: row_changes)

lemma db_steps_changes [simp]:
  "db_steps (insert_session r d) = db_steps d"
  "db_steps (insert_step t d) = db_steps d @ [t]"
  "db_steps (write_status sid st now d) = db_steps d"
  "db_steps (claim_rows sid now d) = db_steps d"
  by (simp_all add: row_changes)

lemma sessions_Create_cases:
  "snd (sessions_Create x now d) = d
   \<or> (\<forall>r \<in> set (db_sessions d). s_SessionID r \<noteq> s_SessionID x)
     \<and> snd (sessions_Create x now d) = insert_session (x\<lparr>s_CreatedAt := now, s_UpdatedAt := now\<rparr>) d"
  by (auto simp: sessions_Create_def Let_def insert_session_def)

lemma steps_Create_cases:
  "snd (steps_Create t now d) = d
   \<or> step_key_of t \<notin> step_key_of ` set (db_steps d)
     \<and> snd (steps_Create t now d) = insert_step (t\<lparr>st_CreatedAt := now, st_UpdatedAt := now\<rparr>) d"
  by (auto simp: steps_Create_def Let_def insert_step_def step_key_of_def)

lemma sessions_ClaimCompleted_cases:
  "snd (sessions_ClaimCompleted sid now d) = d
   \<or> snd (sessions_ClaimCompleted sid now d) = claim_rows sid now d"
  by (simp add: sessions_ClaimCompleted_def Let_def claim_rows_def)

lemma sessions_ReconcileStatus_cases:
  "snd (sessions_ReconcileStatus sid now d) = d
   \<or> (\<exists>st \<in> set saga_statuses. snd (sessions_ReconcileStatus sid now d) = write_status sid st now d)"
  using aggregate_status_saga
  by (auto simp: sessions_ReconcileStatus_def Let_def write_status_def split: option.split)

lemma updates_written [simp]:
  "snd (sessions_UpdateStatus sid st now d) = write_status sid st now d"
  "snd (steps_UpdateStatus sid key st now d) = write_step sid key st now d"
  by (simp_all add: sessions_UpdateStatus_def write_status_def steps_UpdateStatus_def write_step_def)

locale row_relation =
  fixes D :: "database \<Rightarrow> database \<Rightarrow> bool"
  assumes same: "D d d"
    and inserted: "s_Status r = SessionStatusStarted
       \<Longrightarrow> \<forall>q \<in> set (db_sessions d). s_SessionID q \<noteq> s_SessionID r \<Longrightarrow> D d (insert_session r d)"
    and written: "st \<in> set session_statuses \<Longrightarrow> D d (write_status sid st now d)"
    and claimed: "D d (claim_rows sid now d)"
    and step_inserted: "st_StepKey t \<in> set step_keys
       \<Longrightarrow> st_Status t \<in> {StepStatusPending, StepStatusInProgress}
       \<Longrightarrow> step_key_of t \<notin> step_key_of ` set (db_steps d) \<Longrightarrow> D d (insert_step t d)"
    and step_written: "key \<in> set step_keys \<Longrightarrow> st \<in> set step_statuses
       \<Longrightarrow> D d (write_step sid key st now d)"

sublocale row_relation \<subseteq> table_relation D
proof unfold_locales
  fix x :: Session and now d
  show "s_Status x = SessionStatusStarted \<Longrightarrow> D d (snd (sessions_Create x now d))"
    using sessions_Create_cases [of x now d]
      inserted [of "x\<lparr>s_CreatedAt := now, s_UpdatedAt := now\<rparr>" d] same by auto
next
  fix t :: Step and now d
  assume "st_StepKey t \<in> set step_keys" "st_Status t \<in> {StepStatusPending, StepStatusInProgress}"
  then show "D d (snd (steps_Create t now d))"
    using steps_Create_cases [of t now d]
      step_inserted [of "t\<lparr>st_CreatedAt := now, st_UpdatedAt := now\<rparr>" d] same
    by (auto simp: step_key_of_def)
next
  fix sid now d
  show "D d (snd (sessions_ReconcileStatus sid now d))"
    using sessions_ReconcileStatus_cases [of sid now d] written same
    by (auto simp: session_statuses_def)
  show "D d (snd (sessions_ClaimCompleted sid now d))"
    using sessions_ClaimCompleted_cases [of sid now d] claimed same by metis
qed (simp_all add: same written step_written)

end
