(* ===== verification/Credit.thy ===== *)
theory Credit
  imports Effects
begin

text \<open>
  Counting arguments over interleaved programs. \<open>credit I \<Phi> q n p\<close>: a program \<open>p\<close> that
  owns \<open>n\<close> units pays for every action, so that the potential \<open>\<Phi>\<close> of the world plus the units
  it still owns never grows, as long as the world satisfies \<open>I\<close> before the action; when it
  returns \<open>x\<close> with \<open>m\<close> units left, \<open>q x m\<close> holds. Because each action is accounted for from an
  arbitrary world, the sum of the potential and of the units of all running programs never
  grows in any interleaving. It is how "at most once" is proved of operations that are guarded
  in one place and performed in another.
\<close>

inductive credit ::
  "('w \<Rightarrow> bool) \<Rightarrow> ('w \<Rightarrow> int) \<Rightarrow> ('a \<Rightarrow> nat \<Rightarrow> bool) \<Rightarrow> nat \<Rightarrow> ('w, 'a) prog \<Rightarrow> bool"
  for I \<Phi> q where
  credit_Ret: "q x n \<Longrightarrow> credit I \<Phi> q n (Ret x)"
| credit_Act: "(\<And>w. I w \<Longrightarrow> \<exists>m. \<Phi> (snd (f w)) + int m \<le> \<Phi> w + int n
                 \<and> credit I \<Phi> q m (fst (f w)))
     \<Longrightarrow> credit I \<Phi> q n (Act f)"

inductive_simps credit_Ret_iff [simp]: "credit I \<Phi> q n (Ret x)"
inductive_simps credit_Act_iff: "credit I \<Phi> q n (Act f)"

lemma credit_call:
  assumes "\<And>w. I w \<Longrightarrow> \<exists>m. \<Phi> (snd (f w)) + int m \<le> \<Phi> w + int n \<and> q (fst (f w)) m"
  shows "credit I \<Phi> q n (call f)"
  using assms by (auto simp: call_def intro!: credit_Act)

lemma credit_bind:
  assumes "credit I \<Phi> r n p" and "\<And>x m. r x m \<Longrightarrow> credit I \<Phi> q m (k x)"
  shows "credit I \<Phi> q n (bind p k)"
  using assms(1)
proof (induction rule: credit.induct)
  case (credit_Ret x n)
  then show ?case using assms(2) by simp
next
  case (credit_Act f n)
  have "\<exists>m. \<Phi> (snd (f w)) + int m \<le> \<Phi> w + int n \<and> credit I \<Phi> q m (bind (fst (f w)) k)"
    if "I w" for w
    using credit_Act.IH [OF that] by blast
  then show ?case by (auto intro!: credit.credit_Act)
qed

lemma credit_on_err:
  assumes "credit I \<Phi> r n p" and "\<And>e m. r (Some e) m \<Longrightarrow> credit I \<Phi> q m (h e)"
    and "\<And>m. r None m \<Longrightarrow> credit I \<Phi> q m k"
  shows "credit I \<Phi> q n (on_err p h k)"
  unfolding on_err_def using assms by (intro credit_bind [OF assms(1)]) (auto split: option.splits)

lemma credit_unwrap:
  assumes "credit I \<Phi> r n p" and "\<And>e m. r (Inl e) m \<Longrightarrow> credit I \<Phi> q m (h e)"
    and "\<And>x m. r (Inr x) m \<Longrightarrow> credit I \<Phi> q m (k x)"
  shows "credit I \<Phi> q n (unwrap p h k)"
  unfolding unwrap_def using assms by (intro credit_bind [OF assms(1)]) (auto split: sum.splits)

lemma credit_seq:
  assumes "credit I \<Phi> r n p" and "\<And>x m. r x m \<Longrightarrow> credit I \<Phi> q m p'"
  shows "credit I \<Phi> q n (seq p p')"
  unfolding seq_def using assms by (rule credit_bind)

lemma credit_weaken:
  assumes "credit I \<Phi> q n p" and "\<And>x m. q x m \<Longrightarrow> q' x m"
  shows "credit I \<Phi> q' n p"
  using assms(1)
proof (induction rule: credit.induct)
  case (credit_Act f n)
  then show ?case by (intro credit.credit_Act) blast
qed (simp add: assms(2))

text \<open>A program whose actions leave the potential alone keeps its units.\<close>

lemma safe_credit:
  assumes "safe R p" and "\<And>v w. I v \<Longrightarrow> R v w \<Longrightarrow> \<Phi> w \<le> \<Phi> v"
  shows "credit I \<Phi> (\<lambda>_ m. m = n) n p"
  using assms(1)
proof (induction rule: safe.induct)
  case (safe_Act f)
  show ?case
  proof (rule credit.credit_Act)
    fix w assume "I w"
    with safe_Act show "\<exists>m. \<Phi> (snd (f w)) + int m \<le> \<Phi> w + int n
        \<and> credit I \<Phi> (\<lambda>_ m. m = n) m (fst (f w))"
      by (intro exI [of _ n]) (simp add: assms(2))
  qed
qed simp

lemma safe_credit_q:
  assumes "safe R p" and "\<And>v w. I v \<Longrightarrow> R v w \<Longrightarrow> \<Phi> w \<le> \<Phi> v" and "\<And>x. q x n"
  shows "credit I \<Phi> q n p"
  by (rule credit_weaken [OF safe_credit [OF assms(1,2)]]) (auto simp: assms(3))

text \<open>Units may be dropped, so programs that need none compose freely.\<close>

lemma credit_more:
  assumes "credit I \<Phi> (\<lambda>_ _. True) n p" and "n \<le> n'"
  shows "credit I \<Phi> (\<lambda>_ _. True) n' p"
  using assms
proof (induction arbitrary: n' rule: credit.induct)
  case (credit_Act f n)
  show ?case
  proof (rule credit.credit_Act)
    fix w assume "I w"
    with credit_Act obtain m where "\<Phi> (snd (f w)) + int m \<le> \<Phi> w + int n"
      "credit I \<Phi> (\<lambda>_ _. True) m (fst (f w))" by blast
    with credit_Act.prems show "\<exists>m. \<Phi> (snd (f w)) + int m \<le> \<Phi> w + int n'
        \<and> credit I \<Phi> (\<lambda>_ _. True) m (fst (f w))"
      by (intro exI [of _ m]) simp
  qed
qed simp

definition gratis :: "('w \<Rightarrow> bool) \<Rightarrow> ('w \<Rightarrow> int) \<Rightarrow> ('w, 'a) prog \<Rightarrow> bool" where
  "gratis I \<Phi> p \<longleftrightarrow> credit I \<Phi> (\<lambda>_ _. True) 0 p"

lemma gratis_Ret [simp]: "gratis I \<Phi> (Ret x)"
  by (simp add: gratis_def)

lemma gratis_bind:
  assumes "gratis I \<Phi> p" and "\<And>x. gratis I \<Phi> (k x)"
  shows "gratis I \<Phi> (bind p k)"
  using assms unfolding gratis_def by (blast intro: credit_bind credit_more)

lemma gratis_on_err: "gratis I \<Phi> p \<Longrightarrow> (\<And>e. gratis I \<Phi> (h e)) \<Longrightarrow> gratis I \<Phi> k \<Longrightarrow> gratis I \<Phi> (on_err p h k)"
  unfolding on_err_def by (auto intro!: gratis_bind split: option.split)

lemma gratis_unwrap:
  "gratis I \<Phi> p \<Longrightarrow> (\<And>e. gratis I \<Phi> (h e)) \<Longrightarrow> (\<And>x. gratis I \<Phi> (k x)) \<Longrightarrow> gratis I \<Phi> (unwrap p h k)"
  unfolding unwrap_def by (auto intro!: gratis_bind split: sum.split)

lemma gratis_seq: "gratis I \<Phi> p \<Longrightarrow> gratis I \<Phi> q \<Longrightarrow> gratis I \<Phi> (seq p q)"
  unfolding seq_def by (rule gratis_bind)

lemma gratis_if: "(b \<Longrightarrow> gratis I \<Phi> p) \<Longrightarrow> (\<not> b \<Longrightarrow> gratis I \<Phi> q) \<Longrightarrow> gratis I \<Phi> (if b then p else q)"
  by simp

lemma credit_if:
  "(b \<Longrightarrow> credit I \<Phi> q n p) \<Longrightarrow> (\<not> b \<Longrightarrow> credit I \<Phi> q n p') \<Longrightarrow> credit I \<Phi> q n (if b then p else p')"
  by simp

lemmas gratis_intros = gratis_Ret gratis_bind gratis_on_err gratis_unwrap gratis_seq gratis_if

end
