(* ===== verification/Interleaving.thy ===== *)
theory Interleaving
  imports Table_Relations Credit
begin

text \<open>
  The running process. Requests arrive at any time (RPCs of the API, results delivered by the
  consumers), every one runs in a thread of its own, started goroutines are picked up at any
  time, threads advance one action at a time in any order, and the process may crash: threads,
  goroutines not yet started and the in-memory map of notified sessions are lost, the tables
  stay. \<open>sys_step\<close> is the relation, \<open>decide\<close> its executable scheduler.
\<close>

section \<open>Requests and replies\<close>

datatype request =
    StartRequest StartRegistrationParams
  | VerifyRequest VerifyEmailParams
  | StatusRequest string string
  | UserResult UserCreateResult
  | AuthResult AuthCreatePendingResult
  | MailResult MailSendResult

datatype reply =
    StartReply "error + StartRegistrationResult"
  | VerifyReply "error + VerifyEmailResult"
  | StatusReply "error + RegistrationStatus"
  | Handled "error option"
  | Finished

definition serve :: "'w registrationService \<Rightarrow> request \<Rightarrow> ('w, reply) prog" where
  "serve s req =
     (case req of
        StartRequest p \<Rightarrow> bind (Start s p) (\<lambda>r. Ret (StartReply r))
      | VerifyRequest p \<Rightarrow> bind (VerifyEmail s p) (\<lambda>r. Ret (VerifyReply r))
      | StatusRequest sid cid \<Rightarrow> bind (GetRegistrationStatus s sid cid) (\<lambda>r. Ret (StatusReply r))
      | UserResult x \<Rightarrow> bind (HandleUserCreateResult s x) (\<lambda>r. Ret (Handled r))
      | AuthResult x \<Rightarrow> bind (HandleAuthCreatePendingResult s x) (\<lambda>r. Ret (Handled r))
      | MailResult x \<Rightarrow> bind (HandleMailSendResult s x) (\<lambda>r. Ret (Handled r)))"

definition background :: "'w registrationService \<Rightarrow> goroutine \<Rightarrow> ('w, reply) prog" where
  "background s g = bind (goroutine_body s g) (\<lambda>_. Ret Finished)"

section \<open>The system\<close>

record system =
  sys_world :: world
  sys_threads :: "(world, reply) prog list"
  sys_replies :: "reply list"
  sys_crashes :: nat

definition initial :: system where
  "initial = \<lparr>sys_world = start_world, sys_threads = [], sys_replies = [], sys_crashes = 0\<rparr>"

definition crashed :: "world \<Rightarrow> world" where
  "crashed w = w\<lparr>w_notified := [], w_spawned := []\<rparr>"

definition without :: "nat \<Rightarrow> 'a list \<Rightarrow> 'a list" where
  "without i xs = take i xs @ drop (Suc i) xs"

inductive sys_step :: "world registrationService \<Rightarrow> system \<Rightarrow> system \<Rightarrow> bool" for s where
  arrive: "sys_step s x (x\<lparr>sys_threads := sys_threads x @ [serve s req]\<rparr>)"
| pick: "i < length (w_spawned (sys_world x)) \<Longrightarrow>
     sys_step s x (x\<lparr>sys_world := (sys_world x)\<lparr>w_spawned := without i (w_spawned (sys_world x))\<rparr>,
                     sys_threads := sys_threads x @ [background s (w_spawned (sys_world x) ! i)]\<rparr>)"
| action: "i < length (sys_threads x) \<Longrightarrow> sys_threads x ! i = Act f \<Longrightarrow> f (sys_world x) = (p, w) \<Longrightarrow>
     sys_step s x (x\<lparr>sys_world := w, sys_threads := (sys_threads x)[i := p]\<rparr>)"
| return: "i < length (sys_threads x) \<Longrightarrow> sys_threads x ! i = Ret r \<Longrightarrow>
     sys_step s x (x\<lparr>sys_threads := without i (sys_threads x), sys_replies := sys_replies x @ [r]\<rparr>)"
| crash: "sys_step s x (x\<lparr>sys_world := crashed (sys_world x), sys_threads := [],
                         sys_crashes := Suc (sys_crashes x)\<rparr>)"

inductive reachable :: "world registrationService \<Rightarrow> system \<Rightarrow> bool" for s where
  reachable_initial: "reachable s initial"
| reachable_step: "reachable s x \<Longrightarrow> sys_step s x y \<Longrightarrow> reachable s y"

inductive_cases sys_stepE: "sys_step s x y"

subsection \<open>The scheduler\<close>

datatype decision = Arrive request | Pick nat | Advance nat | Crash

fun decide :: "world registrationService \<Rightarrow> system \<Rightarrow> decision \<Rightarrow> system" where
  "decide s x (Arrive req) = x\<lparr>sys_threads := sys_threads x @ [serve s req]\<rparr>"
| "decide s x (Pick i) =
     (if i < length (w_spawned (sys_world x)) then
        x\<lparr>sys_world := (sys_world x)\<lparr>w_spawned := without i (w_spawned (sys_world x))\<rparr>,
          sys_threads := sys_threads x @ [background s (w_spawned (sys_world x) ! i)]\<rparr>
      else x)"
| "decide s x (Advance i) =
     (if i < length (sys_threads x) then
        (case sys_threads x ! i of
           Act f \<Rightarrow> (case f (sys_world x) of (p, w) \<Rightarrow>
                      x\<lparr>sys_world := w, sys_threads := (sys_threads x)[i := p]\<rparr>)
         | Ret r \<Rightarrow> x\<lparr>sys_threads := without i (sys_threads x),
                     sys_replies := sys_replies x @ [r]\<rparr>)
      else x)"
| "decide s x Crash =
     x\<lparr>sys_world := crashed (sys_world x), sys_threads := [], sys_crashes := Suc (sys_crashes x)\<rparr>"

definition schedule :: "world registrationService \<Rightarrow> decision list \<Rightarrow> system" where
  "schedule s ds = foldl (decide s) initial ds"

lemma decide_step: "decide s x d = x \<or> sys_step s x (decide s x d)"
  by (cases d) (auto intro: sys_step.intros split: prog.split prod.split)

lemma step_decide: "sys_step s x y \<Longrightarrow> \<exists>d. decide s x d = y"
proof (induction rule: sys_step.induct)
  case (arrive x req) show ?case by (rule exI [of _ "Arrive req"]) simp
next
  case (pick i x) then show ?case by (intro exI [of _ "Pick i"]) simp
next
  case (action i x f p w) then show ?case by (intro exI [of _ "Advance i"]) simp
next
  case (return i x r) then show ?case by (intro exI [of _ "Advance i"]) simp
next
  case (crash x) show ?case by (rule exI [of _ Crash]) simp
qed

lemma reachable_schedule: "reachable s x \<longleftrightarrow> (\<exists>ds. x = schedule s ds)"
proof
  show "reachable s x \<Longrightarrow> \<exists>ds. x = schedule s ds"
  proof (induction rule: reachable.induct)
    case reachable_initial
    have "initial = schedule s []" by (simp add: schedule_def)
    then show ?case ..
  next
    case (reachable_step x y)
    then obtain ds d where "x = schedule s ds" "decide s x d = y" using step_decide by blast
    then have "y = schedule s (ds @ [d])" by (simp add: schedule_def)
    then show ?case ..
  qed
next
  assume "\<exists>ds. x = schedule s ds"
  then obtain ds where "x = schedule s ds" ..
  moreover have "reachable s (schedule s ds)"
  proof (induction ds rule: rev_induct)
    case Nil
    then show ?case by (simp add: schedule_def reachable_initial)
  next
    case (snoc d ds)
    then show ?case using decide_step [of s "schedule s ds" d] reachable_step
      by (auto simp: schedule_def)
  qed
  ultimately show "reachable s x" by simp
qed

subsection \<open>Sequential executions are executions\<close>

lemma reachable_steps: "(sys_step s)\<^sup>*\<^sup>* x y \<Longrightarrow> reachable s x \<Longrightarrow> reachable s y"
  by (induction rule: rtranclp_induct) (auto intro: reachable_step)

lemma thread_runs:
  "(sys_step s)\<^sup>*\<^sup>* (x\<lparr>sys_world := w, sys_threads := ts @ [p]\<rparr>)
     (x\<lparr>sys_world := snd (run p w), sys_threads := ts,
        sys_replies := sys_replies x @ [fst (run p w)]\<rparr>)"
proof (induction p arbitrary: w)
  case (Ret r)
  have "sys_step s (x\<lparr>sys_world := w, sys_threads := ts @ [Ret r]\<rparr>)
     (x\<lparr>sys_world := w, sys_threads := ts, sys_replies := sys_replies x @ [r]\<rparr>)"
    using sys_step.return [of "length ts" "x\<lparr>sys_world := w, sys_threads := ts @ [Ret r]\<rparr>" r s]
    by (simp add: without_def)
  then show ?case by simp
next
  case (Act f)
  obtain p w' where fw: "f w = (p, w')" by (cases "f w")
  have "sys_step s (x\<lparr>sys_world := w, sys_threads := ts @ [Act f]\<rparr>)
     (x\<lparr>sys_world := w', sys_threads := ts @ [p]\<rparr>)"
    using sys_step.action [of "length ts" "x\<lparr>sys_world := w, sys_threads := ts @ [Act f]\<rparr>" f p w' s] fw
    by simp
  moreover have "(sys_step s)\<^sup>*\<^sup>* (x\<lparr>sys_world := w', sys_threads := ts @ [p]\<rparr>)
     (x\<lparr>sys_world := snd (run p w'), sys_threads := ts,
        sys_replies := sys_replies x @ [fst (run p w')]\<rparr>)"
    using fw by (intro Act.IH [of "f w" p]) (auto simp: image_iff intro: exI [of _ w])
  ultimately show ?case using fw by (simp add: run_Act converse_rtranclp_into_rtranclp)
qed

text \<open>Serve a request alone, or run one goroutine alone.\<close>

definition serve_alone :: "world registrationService \<Rightarrow> request \<Rightarrow> system \<Rightarrow> system" where
  "serve_alone s req x =
     (case run (serve s req) (sys_world x) of (r, w) \<Rightarrow>
        x\<lparr>sys_world := w, sys_replies := sys_replies x @ [r]\<rparr>)"

definition pick_alone :: "world registrationService \<Rightarrow> system \<Rightarrow> system" where
  "pick_alone s x =
     (case w_spawned (sys_world x) of
        [] \<Rightarrow> x
      | g # gs \<Rightarrow> (case run (background s g) ((sys_world x)\<lparr>w_spawned := gs\<rparr>) of (r, w) \<Rightarrow>
                   x\<lparr>sys_world := w, sys_replies := sys_replies x @ [r]\<rparr>))"

lemma system_self [simp]: "x\<lparr>sys_world := sys_world x, sys_threads := sys_threads x\<rparr> = x"
  by simp

lemma serve_alone_steps: "(sys_step s)\<^sup>*\<^sup>* x (serve_alone s req x)"
proof -
  have "(sys_step s)\<^sup>*\<^sup>* (x\<lparr>sys_world := sys_world x, sys_threads := sys_threads x @ [serve s req]\<rparr>)
      (serve_alone s req x)"
    using thread_runs [where s = s and x = x and w = "sys_world x" and ts = "sys_threads x" and p = "serve s req"]
    by (auto simp: serve_alone_def split: prod.split)
  then show ?thesis using sys_step.arrive [of s x req]
    by (simp add: converse_rtranclp_into_rtranclp)
qed

lemma pick_alone_steps: "(sys_step s)\<^sup>*\<^sup>* x (pick_alone s x)"
proof (cases "w_spawned (sys_world x)")
  case Nil
  then show ?thesis by (simp add: pick_alone_def)
next
  case (Cons g gs)
  let ?w = "(sys_world x)\<lparr>w_spawned := gs\<rparr>"
  have "(sys_step s)\<^sup>*\<^sup>* (x\<lparr>sys_world := ?w, sys_threads := sys_threads x @ [background s g]\<rparr>)
      (pick_alone s x)"
    using thread_runs [where s = s and x = x and w = ?w and ts = "sys_threads x" and p = "background s g"] Cons
    by (auto simp: pick_alone_def split: prod.split)
  moreover have "sys_step s x (x\<lparr>sys_world := ?w, sys_threads := sys_threads x @ [background s g]\<rparr>)"
    using sys_step.pick [of 0 x s] Cons by (simp add: without_def)
  ultimately show ?thesis by (rule converse_rtranclp_into_rtranclp [rotated])
qed

lemma serve_alone_reachable: "reachable s x \<Longrightarrow> reachable s (serve_alone s req x)"
  using serve_alone_steps reachable_steps by blast

lemma pick_alone_reachable: "reachable s x \<Longrightarrow> reachable s (pick_alone s x)"
  using pick_alone_steps reachable_steps by blast

section \<open>Relations hold of every step\<close>

lemma sum_list_without: "i < length ns \<Longrightarrow> sum_list (without i ns) + ns ! i = (sum_list ns :: nat)"
  by (subst (3) id_take_nth_drop [of i ns]) (simp_all add: without_def)

lemma map_without: "map f (without i xs) = without i (map f xs)"
  by (simp add: without_def take_map drop_map)

lemma set_without: "set (without i xs) \<subseteq> set xs"
  by (auto simp: without_def dest: in_set_takeD in_set_dropD)

context service_all
begin

lemma serve [safe_intros]: "safe R (serve s req)"
  unfolding serve_def by (auto intro!: safe_intros split: request.split)

lemma background [safe_intros]: "safe R (background s g)"
  unfolding background_def by (intro safe_intros)

end

context table_relation
begin

lemma threads_safe:
  "reachable (saga_service env cfg) x \<Longrightarrow> p \<in> set (sys_threads x) \<Longrightarrow> safe (on_tables D) p"
proof (induction arbitrary: p rule: reachable.induct)
  case reachable_initial
  then show ?case by (simp add: initial_def)
next
  case (reachable_step x y)
  from reachable_step(2) show ?case
  proof (cases rule: sys_step.cases)
    case (action i f q w)
    have "safe (on_tables D) (Act f)"
      using action reachable_step.IH by (metis nth_mem)
    with action have "safe (on_tables D) q" by (metis fst_conv safe_Act_iff)
    with action reachable_step show ?thesis by (auto dest!: set_update_subset_insert [THEN subsetD])
  next
    case (return i r)
    with reachable_step show ?thesis using set_without by fastforce
  qed (use reachable_step in \<open>auto intro: saga.serve saga.background\<close>)
qed

lemma step_related:
  assumes "reachable (saga_service env cfg) x" and "sys_step (saga_service env cfg) x y"
  shows "D (w_db (sys_world x)) (w_db (sys_world y))"
  using assms(2)
proof (cases rule: sys_step.cases)
  case (action i f p w)
  then have "safe (on_tables D) (Act f)" using threads_safe [OF assms(1)] by (metis nth_mem)
  with action show ?thesis by (simp add: safe_Act_iff on_tables_def) (metis snd_conv)
qed (simp_all add: refl crashed_def)

lemma reachable_related:
  assumes "reachable (saga_service env cfg) x" and "\<And>a b. P a \<Longrightarrow> D a b \<Longrightarrow> P b" and "P empty_db"
  shows "P (w_db (sys_world x))"
  using assms(1)
proof (induction rule: reachable.induct)
  case reachable_initial
  then show ?case using assms(3) by (simp add: initial_def start_world_def)
next
  case (reachable_step x y)
  then show ?case using step_related assms(2) by blast
qed

end

section \<open>Credits are never exceeded\<close>

text \<open>
  A counting contract: a served request starts with no unit and keeps \<open>cost r\<close> units for the
  reply \<open>r\<close>, a started goroutine is owed \<open>owed g\<close> units, and a crash costs \<open>price\<close>.
\<close>

locale credit_contract =
  fixes s :: "world registrationService" and I :: "world \<Rightarrow> bool" and \<Phi> :: "world \<Rightarrow> int"
    and cost :: "reply \<Rightarrow> nat" and owed :: "goroutine \<Rightarrow> nat" and price :: nat
  assumes inv: "reachable s x \<Longrightarrow> I (sys_world x)"
    and served: "credit I \<Phi> (\<lambda>r n. cost r \<le> n) 0 (serve s req)"
    and run_in_background: "credit I \<Phi> (\<lambda>r n. cost r \<le> n) (owed g) (background s g)"
    and picked: "\<And>w i. i < length (w_spawned w) \<Longrightarrow>
       \<Phi> (w\<lparr>w_spawned := without i (w_spawned w)\<rparr>) + int (owed (w_spawned w ! i)) \<le> \<Phi> w"
    and crash_price: "\<Phi> (crashed w) \<le> \<Phi> w + int price"
    and started: "\<Phi> start_world \<le> 0"
begin

definition balanced :: "nat list \<Rightarrow> system \<Rightarrow> bool" where
  "balanced ns x \<longleftrightarrow>
     list_all2 (credit I \<Phi> (\<lambda>r n. cost r \<le> n)) ns (sys_threads x)
     \<and> \<Phi> (sys_world x) + int (sum_list ns) + int (sum_list (map cost (sys_replies x)))
         \<le> int (price * sys_crashes x)"

lemma balanced_step:
  assumes "balanced ns x" and "sys_step s x y" and "reachable s x"
  shows "\<exists>ms. balanced ms y"
  using assms(2)
proof (cases rule: sys_step.cases)
  case (arrive req)
  then have "balanced (ns @ [0]) y" using assms(1) served
    by (simp add: balanced_def list_all2_appendI)
  then show ?thesis ..
next
  case (pick i)
  then have "balanced (ns @ [owed (w_spawned (sys_world x) ! i)]) y"
    using assms(1) run_in_background picked [OF pick(2)]
    by (simp add: balanced_def list_all2_appendI)
  then show ?thesis ..
next
  case (action i f p w)
  have len: "length ns = length (sys_threads x)"
    using assms(1) by (auto simp: balanced_def dest: list_all2_lengthD)
  have "credit I \<Phi> (\<lambda>r n. cost r \<le> n) (ns ! i) (Act f)"
    using assms(1) action by (auto simp: balanced_def dest: list_all2_nthD2)
  with inv [OF assms(3)] action obtain m where
    m: "\<Phi> w + int m \<le> \<Phi> (sys_world x) + int (ns ! i)" "credit I \<Phi> (\<lambda>r n. cost r \<le> n) m p"
    by (auto simp: credit_Act_iff dest: spec [of _ "sys_world x"])
  have "sum_list (ns[i := m]) + ns ! i = sum_list ns + m"
    using action len elem_le_sum_list [of i ns] by (simp add: sum_list_update)
  with m assms(1) action len have "balanced (ns[i := m]) y"
    by (simp add: balanced_def list_all2_update_cong)
  then show ?thesis ..
next
  case (return i r)
  have len: "length ns = length (sys_threads x)"
    using assms(1) by (auto simp: balanced_def dest: list_all2_lengthD)
  have "credit I \<Phi> (\<lambda>r n. cost r \<le> n) (ns ! i) (Ret r)"
    using assms(1) return by (auto simp: balanced_def dest: list_all2_nthD2)
  then have "cost r \<le> ns ! i" by simp
  moreover have "sum_list (without i ns) + ns ! i = sum_list ns"
    using return len by (intro sum_list_without) simp
  ultimately have "balanced (without i ns) y"
    using assms(1) return len
    by (simp add: balanced_def without_def list_all2_appendI list_all2_takeI list_all2_dropI)
  then show ?thesis ..
next
  case crash
  then have "balanced [] y" using assms(1) crash_price [of "sys_world x"]
    by (simp add: balanced_def algebra_simps)
  then show ?thesis ..
qed

lemma never_exceeded:
  assumes "reachable s x"
  shows "\<Phi> (sys_world x) + int (sum_list (map cost (sys_replies x))) \<le> int (price * sys_crashes x)"
proof -
  have "\<exists>ns. balanced ns x"
    using assms
  proof (induction rule: reachable.induct)
    case reachable_initial
    have "balanced [] initial" using started by (simp add: balanced_def initial_def)
    then show ?case ..
  qed (blast intro: balanced_step)
  then show ?thesis by (auto simp: balanced_def)
qed

end

end
