(* ===== verification/Accounting.thy ===== *)
theory Accounting
  imports Interleaving
begin

text \<open>
  Potentials of the world: a count over the tables, over the goroutines not yet started, over the
  trace, minus a bonus once a session is in the map of notified sessions. \<open>accounted\<close> collects
  what the counts must satisfy for the start and result paths to leave the potential alone, and
  \<open>accounted_quiet\<close> what is needed for the verification path as well; the paths a counting
  argument is about are then the only ones it has to walk through.
\<close>

definition potential ::
  "(database \<Rightarrow> int) \<Rightarrow> (goroutine \<Rightarrow> nat) \<Rightarrow> (effect \<Rightarrow> nat) \<Rightarrow> string \<Rightarrow> nat \<Rightarrow> world \<Rightarrow> int" where
  "potential \<phi> \<sigma> \<tau> key \<nu> w =
     \<phi> (w_db w) + int (sum_list (map \<sigma> (w_spawned w))) + int (sum_list (map \<tau> (w_trace w)))
     - (if key \<in> set (w_notified w) then int \<nu> else 0)"

definition no_gain ::
  "(database \<Rightarrow> int) \<Rightarrow> (goroutine \<Rightarrow> nat) \<Rightarrow> (effect \<Rightarrow> nat) \<Rightarrow> string \<Rightarrow> nat \<Rightarrow> world \<Rightarrow> world \<Rightarrow> bool"
where
  "no_gain \<phi> \<sigma> \<tau> key \<nu> v w \<longleftrightarrow>
     (db_ok (w_db v) \<longrightarrow> potential \<phi> \<sigma> \<tau> key \<nu> w \<le> potential \<phi> \<sigma> \<tau> key \<nu> v)"

lemma potential_simps [simp]:
  "potential \<phi> \<sigma> \<tau> key \<nu> (ticked w) = potential \<phi> \<sigma> \<tau> key \<nu> w"
  "potential \<phi> \<sigma> \<tau> key \<nu> (traced e w) = potential \<phi> \<sigma> \<tau> key \<nu> w + int (\<tau> e)"
  "potential \<phi> \<sigma> \<tau> key \<nu> (w\<lparr>w_db := d\<rparr>) = potential \<phi> \<sigma> \<tau> key \<nu> w + \<phi> d - \<phi> (w_db w)"
  by (simp_all add: potential_def ticked_def traced_def)

lemma potential_picked:
  assumes "i < length (w_spawned w)"
  shows "potential \<phi> \<sigma> \<tau> key \<nu> (w\<lparr>w_spawned := without i (w_spawned w)\<rparr>)
      + int (\<sigma> (w_spawned w ! i)) = potential \<phi> \<sigma> \<tau> key \<nu> w"
  using assms sum_list_without [of i "map \<sigma> (w_spawned w)"]
  by (simp add: potential_def map_without)

lemma potential_crashed: "potential \<phi> \<sigma> \<tau> key \<nu> (crashed w) \<le> potential \<phi> \<sigma> \<tau> key \<nu> w + int \<nu>"
  by (simp add: potential_def crashed_def)

lemma potential_start [simp]: "potential \<phi> \<sigma> \<tau> key \<nu> start_world = \<phi> empty_db"
  by (simp add: potential_def start_world_def)

lemma credit_db_exec:
  assumes "\<And>now d. db_ok d \<Longrightarrow>
      \<exists>m. \<phi> (snd (stmt now d)) + int m \<le> \<phi> d + int n \<and> q (fst (stmt now d)) m"
    and "\<And>e. q (Inl e) n"
  shows "credit (\<lambda>w. db_ok (w_db w)) (potential \<phi> \<sigma> \<tau> key \<nu>) q n (db_exec env stmt)"
  unfolding db_exec_def
proof (rule credit_call, goal_cases)
  case (1 w)
  with assms(1) [of "w_db w" "env_now env (w_tick w)"] obtain m where
    "\<phi> (snd (stmt (env_now env (w_tick w)) (w_db w))) + int m \<le> \<phi> (w_db w) + int n"
    "q (fst (stmt (env_now env (w_tick w)) (w_db w))) m" by blast
  with assms(2) show ?case
    by (cases "env_db_fault env (w_tick w)"; cases "stmt (env_now env (w_tick w)) (w_db w)")
      (auto intro: exI [of _ m] exI [of _ n])
qed

lemma credit_result_error:
  assumes "credit I \<Phi> (\<lambda>r. q (err_of r)) n p"
  shows "credit I \<Phi> q n (result_error p)"
  unfolding result_error_def by (rule credit_bind [OF assms]) simp

locale accounted =
  fixes env :: environment and cfg :: NATSConfig and \<phi> :: "database \<Rightarrow> int"
    and \<sigma> :: "goroutine \<Rightarrow> nat" and \<tau> :: "effect \<Rightarrow> nat" and key :: string and \<nu> :: nat
  assumes uncounted: "\<tau> (Published subject payload ok) = 0" "\<tau> (VerifiedEmail u c ok) = 0"
      "\<tau> (DeactivatedAuth u ok) = 0" "\<tau> (ActivatedUser u ok) = 0" "\<tau> (DeactivatedUser u ok) = 0"
      "\<tau> (Metric m) = 0"
    and dispatch_free: "\<sigma> (DispatchStartCommands x i h) = 0"
    and quiet: "env_marshalNotification env n = Inr body
       \<Longrightarrow> nt_eventType n \<noteq> ''registration.code_sent'' \<Longrightarrow> \<tau> (RealtimePublished body ok) = 0"
    and insert_session: "db_ok d \<Longrightarrow> \<phi> (insert_session r d) \<le> \<phi> d"
    and write_status: "db_ok d \<Longrightarrow> st \<noteq> SessionStatusCompleted \<Longrightarrow> \<phi> (write_status sid st now d) \<le> \<phi> d"
    and insert_step: "db_ok d \<Longrightarrow> st_StepKey t \<noteq> StepKeyVerifyEmailCode \<Longrightarrow> \<phi> (insert_step t d) \<le> \<phi> d"
    and write_step: "db_ok d \<Longrightarrow> \<phi> (write_step sid k st now d) \<le> \<phi> d"
    and claim_rows: "db_ok d \<Longrightarrow> \<phi> (claim_rows sid now d) \<le> \<phi> d"
begin

lemma ask_free [safe_intros]: "safe (no_gain \<phi> \<sigma> \<tau> key \<nu>) (ask f)"
  unfolding ask_def by (rule safe_call) (simp add: no_gain_def)

lemma notify_free: "(\<And>ok. \<tau> (e ok) = 0) \<Longrightarrow> safe (no_gain \<phi> \<sigma> \<tau> key \<nu>) (notify f e)"
  unfolding notify_def by (rule safe_call) (simp add: no_gain_def Let_def)

lemma metric_free [safe_intros]:
  "safe (no_gain \<phi> \<sigma> \<tau> key \<nu>) (rt_metric (saga_runtime env) m)"
  by (simp add: saga_runtime_def safe_call_iff no_gain_def uncounted)

lemma go_free: "\<sigma> g = 0 \<Longrightarrow> safe (no_gain \<phi> \<sigma> \<tau> key \<nu>) (go g)"
  by (simp add: go_def safe_call_iff no_gain_def potential_def)

lemma LoadOrStore_free [safe_intros]: "safe (no_gain \<phi> \<sigma> \<tau> key \<nu>) (LoadOrStore k)"
  by (simp add: LoadOrStore_def safe_call_iff no_gain_def potential_def)

lemma db_exec_free:
  "(\<And>now d. db_ok d \<Longrightarrow> \<phi> (snd (stmt now d)) \<le> \<phi> d)
   \<Longrightarrow> safe (no_gain \<phi> \<sigma> \<tau> key \<nu>) (db_exec env stmt)"
  unfolding db_exec_def
  by (rule safe_call) (simp add: no_gain_def split: option.split prod.split, metis snd_conv)

lemma result_error_free:
  "safe (no_gain \<phi> \<sigma> \<tau> key \<nu>) p \<Longrightarrow> safe (no_gain \<phi> \<sigma> \<tau> key \<nu>) (result_error p)"
  unfolding result_error_def by (intro safe_intros)

lemma note_free:
  "et \<noteq> ''registration.code_sent'' \<Longrightarrow> safe (no_gain \<phi> \<sigma> \<tau> key \<nu>)
     (publishRegistrationNotification (saga_service env cfg) x et ns ec rt pl)"
  unfolding publishRegistrationNotification_def
  by (auto simp: saga_broker_def registration_notification_def quiet
      intro!: safe_intros notify_free split: sum.split)

lemma Create_free: "\<phi> (snd (sessions_Create x now d)) \<le> \<phi> d" if "db_ok d"
  using sessions_Create_cases [of x now d] insert_session [OF that] by auto

lemma step_Create_free:
  "db_ok d \<Longrightarrow> st_StepKey t \<noteq> StepKeyVerifyEmailCode \<Longrightarrow> \<phi> (snd (steps_Create t now d)) \<le> \<phi> d"
  using steps_Create_cases [of t now d]
    insert_step [of d "t\<lparr>st_CreatedAt := now, st_UpdatedAt := now\<rparr>"] by auto

lemma Reconcile_free: "\<phi> (snd (sessions_ReconcileStatus sid now d)) \<le> \<phi> d" if "db_ok d"
  using sessions_ReconcileStatus_cases [of sid now d] write_status [OF that]
  by (auto simp: saga_statuses_def)

lemma Claim_free: "\<phi> (snd (sessions_ClaimCompleted sid now d)) \<le> \<phi> d" if "db_ok d"
  using sessions_ClaimCompleted_cases [of sid now d] claim_rows [OF that] by auto

lemmas free = db_exec_free result_error_free note_free notify_free go_free Create_free
  step_Create_free Reconcile_free Claim_free write_status write_step

end

sublocale accounted \<subseteq> core: service_core "saga_service env cfg" "no_gain \<phi> \<sigma> \<tau> key \<nu>"
proof unfold_locales
  fix reconcile sid
  assume "sess_ReconcileStatus (sv_sessions (saga_service env cfg)) = Some reconcile"
  then show "safe (no_gain \<phi> \<sigma> \<tau> key \<nu>) (reconcile sid)"
    by (auto simp: session_repository_def intro!: free)
qed (auto simp: session_repository_def step_repository_def saga_broker_def auth_client_def
    user_client_def sessions_GetByID_def sessions_GetByEmail_def sessions_GetByUsername_def
    steps_ListBySessionID_def uncounted dispatch_free contract_sets intro!: safe_intros free)

context accounted
begin

lemma update_free:
  "st \<noteq> SessionStatusCompleted \<Longrightarrow> safe (no_gain \<phi> \<sigma> \<tau> key \<nu>)
     (sess_UpdateStatus (sv_sessions (saga_service env cfg)) sid st)"
  by (auto simp: session_repository_def intro!: free)

lemmas status_free [safe_intros] =
  update_free [OF session_status_distinct(26)] update_free [OF session_status_distinct(33)]

lemma step_update_free [safe_intros]:
  "safe (no_gain \<phi> \<sigma> \<tau> key \<nu>) (step_UpdateStatus (sv_steps (saga_service env cfg)) sid k st)"
  by (auto simp: step_repository_def intro!: free)

lemma activate_step_free [safe_intros]:
  "safe (no_gain \<phi> \<sigma> \<tau> key \<nu>)
     (step_Create (sv_steps (saga_service env cfg)) (step_row sid StepKeyActivateUser st))"
  by (auto simp: step_repository_def step_row_def intro!: free)

lemma calls_free [safe_intros]:
  "safe (no_gain \<phi> \<sigma> \<tau> key \<nu>)
     (em_VerifyRegistrationEmail (sv_emailChecker (saga_service env cfg)) u c)"
  "safe (no_gain \<phi> \<sigma> \<tau> key \<nu>) (un_ActivateUser (sv_usernameChecker (saga_service env cfg)) u)"
  "safe (no_gain \<phi> \<sigma> \<tau> key \<nu>) (sess_ClaimCompleted (sv_sessions (saga_service env cfg)) sid)"
  by (auto simp: auth_client_def user_client_def session_repository_def uncounted intro!: free)

lemma GetRegistrationStatus_free [safe_intros]:
  "safe (no_gain \<phi> \<sigma> \<tau> key \<nu>) (GetRegistrationStatus (saga_service env cfg) sid cid)"
  unfolding GetRegistrationStatus_def Let_def by (intro safe_intros)

lemma reload_free [safe_intros]:
  "safe (no_gain \<phi> \<sigma> \<tau> key \<nu>) (reload_in_progress (saga_service env cfg) x)"
  unfolding reload_in_progress_def by (intro safe_intros)

lemma failEmailVerification_free [safe_intros]:
  "safe (no_gain \<phi> \<sigma> \<tau> key \<nu>) (failEmailVerification (saga_service env cfg) x k err)"
  unfolding failEmailVerification_def
  by (intro safe_intros; (auto simp del: saga_service_simps intro!: safe_intros split: sum.split; fail)?)

lemma announce_completed_free [safe_intros]:
  "safe (no_gain \<phi> \<sigma> \<tau> key \<nu>) (announce_completed (saga_service env cfg) x)"
  unfolding announce_completed_def
  by (auto simp del: saga_service_simps intro!: safe_intros note_free split: sum.split)

text \<open>A program that leaves the potential alone keeps what it owns.\<close>

lemma free_credit:
  "safe (no_gain \<phi> \<sigma> \<tau> key \<nu>) p \<Longrightarrow> (\<And>x. q x n)
   \<Longrightarrow> credit (\<lambda>w. db_ok (w_db w)) (potential \<phi> \<sigma> \<tau> key \<nu>) q n p"
  by (rule safe_credit_q [where R = "no_gain \<phi> \<sigma> \<tau> key \<nu>"]) (simp_all add: no_gain_def)

lemma keep:
  "safe (no_gain \<phi> \<sigma> \<tau> key \<nu>) p
   \<Longrightarrow> credit (\<lambda>w. db_ok (w_db w)) (potential \<phi> \<sigma> \<tau> key \<nu>) (\<lambda>_ m. m = n) n p"
  by (rule free_credit) simp_all

end

locale accounted_quiet = accounted +
  assumes complete_free: "\<sigma> (CompleteEmailVerification x c) = 0"
    and write_completed: "db_ok d \<Longrightarrow> \<phi> (write_status sid SessionStatusCompleted now d) \<le> \<phi> d"
    and insert_verify: "db_ok d \<Longrightarrow> \<phi> (insert_step t d) \<le> \<phi> d"
begin

lemma VerifyEmail_free [safe_intros]:
  "safe (no_gain \<phi> \<sigma> \<tau> key \<nu>) (VerifyEmail (saga_service env cfg) vp)"
proof -
  have "safe (no_gain \<phi> \<sigma> \<tau> key \<nu>)
      (step_Create (sv_steps (saga_service env cfg)) (step_row sid StepKeyVerifyEmailCode st))" for sid st
    using steps_Create_cases insert_verify
    by (auto simp: step_repository_def intro!: db_exec_free) (metis order_refl)
  then show ?thesis
    unfolding VerifyEmail_def Let_def begin_verification_def
    by (intro safe_intros) (auto simp: complete_free intro!: go_free)
qed

lemma completeEmailVerification_free [safe_intros]:
  "safe (no_gain \<phi> \<sigma> \<tau> key \<nu>) (completeEmailVerification (saga_service env cfg) x c)"
proof -
  have "safe (no_gain \<phi> \<sigma> \<tau> key \<nu>)
      (sess_UpdateStatus (sv_sessions (saga_service env cfg)) sid SessionStatusCompleted)" for sid
    by (auto simp: session_repository_def write_completed intro!: free)
  then show ?thesis
    unfolding completeEmailVerification_def by (intro safe_intros)
qed

lemma background_free [safe_intros]:
  "safe (no_gain \<phi> \<sigma> \<tau> key \<nu>) (background (saga_service env cfg) g)"
  unfolding background_def goroutine_body_def by (auto intro!: safe_intros split: goroutine.split)

end

text \<open>When no notification counts, the result handlers are free too.\<close>

locale accounted_silent = accounted +
  assumes silent: "\<tau> (RealtimePublished body ok) = 0"

sublocale accounted_silent \<subseteq> announce:
  service_announce "saga_service env cfg" "no_gain \<phi> \<sigma> \<tau> key \<nu>"
proof unfold_locales
  fix x ns ec rt pl
  show "safe (no_gain \<phi> \<sigma> \<tau> key \<nu>) (publishRegistrationNotification (saga_service env cfg) x
      ''registration.code_sent'' ns ec rt pl)"
    unfolding publishRegistrationNotification_def
    by (auto simp: saga_broker_def silent intro!: safe_intros notify_free split: sum.split)
qed (simp add: LoadOrStore_free)

end
