(* ===== verification/Invariants.thy ===== *)
theory Invariants
  imports Interleaving "HOL-Library.Sublist"
begin

text \<open>
  What holds of the tables at every moment of every execution: any requests, any interleaving,
  any failure of any call, any crash.
\<close>

section \<open>Keys and outbox\<close>

interpretation integrity: table_relation "\<lambda>d d'. db_ok d \<longrightarrow> db_ok d'"
  using statements_ok(6,7)
  by unfold_locales (auto intro: sessions_Create_ok steps_Create_ok statements_ok)

lemma reachable_db_ok: "reachable (saga_service env cfg) x \<Longrightarrow> db_ok (w_db (sys_world x))"
  using integrity.reachable_related [of env cfg x db_ok] db_ok_empty by auto

section \<open>Legal values\<close>

definition legal :: "database \<Rightarrow> bool" where
  "legal d \<longleftrightarrow>
     (\<forall>r \<in> set (db_sessions d).
        s_Status r \<in> set (SessionStatusStarted # SessionStatusTokensClaimed # session_statuses))
     \<and> (\<forall>t \<in> set (db_steps d).
        st_StepKey t \<in> set step_keys \<and> st_Status t \<in> set (StepStatusPending # step_statuses))"

interpretation legality: row_relation "\<lambda>d d'. legal d \<longrightarrow> legal d'"
  by unfold_locales (auto simp: legal_def row_changes set_update_rows step_statuses_def)

lemma reachable_legal:
  "reachable (saga_service env cfg) x \<Longrightarrow> legal (w_db (sys_world x))"
  by (rule legality.reachable_related [where P = legal]) (auto simp: legal_def empty_db_def)

text \<open>
  C18: In every reachable state the status of a session is one of the eight statuses of the
  domain package, a step's key is one of the five step keys and its status one of the four step
  statuses.
\<close>

theorem reachable_legal_values:
  "reachable (saga_service env cfg) x \<Longrightarrow>
     (\<forall>r \<in> set (db_sessions (w_db (sys_world x))). s_Status r \<in> {SessionStatusStarted,
         SessionStatusInProgress, SessionStatusCodeSent, SessionStatusVerifyingEmail,
         SessionStatusActivatingUser, SessionStatusCompleted, SessionStatusTokensClaimed,
         SessionStatusFailed})
     \<and> (\<forall>t \<in> set (db_steps (w_db (sys_world x))).
         st_StepKey t \<in> {StepKeyUserCreateProfile, StepKeyAuthCreatePending,
           StepKeyMailSendVerificationCode, StepKeyVerifyEmailCode, StepKeyActivateUser}
         \<and> st_Status t \<in> {StepStatusPending, StepStatusInProgress, StepStatusCompleted, StepStatusFailed})"
  using reachable_legal [of env cfg x]
  unfolding legal_def session_statuses_def step_keys_def contract_sets by auto

section \<open>Completed steps do not regress\<close>

definition step_monotone :: "database \<Rightarrow> database \<Rightarrow> bool" where
  "step_monotone d d' \<longleftrightarrow>
     (\<forall>t \<in> set (db_steps d). \<exists>t' \<in> set (db_steps d').
        step_key_of t' = step_key_of t
        \<and> (st_Status t = StepStatusCompleted \<longrightarrow> st_Status t' \<in> {StepStatusCompleted, StepStatusFailed}))"

lemma step_monotone_write:
  "st \<in> set step_statuses \<Longrightarrow> step_monotone d (write_step sid key st now d)"
  unfolding step_monotone_def
proof
  fix t assume st: "st \<in> set step_statuses" and t: "t \<in> set (db_steps d)"
  let ?p = "st_SessionID t = sid \<and> st_StepKey t = key
     \<and> \<not> (st_Status t = StepStatusCompleted \<and> st = StepStatusInProgress)"
  let ?u = "if ?p then set_step_status st now t else t"
  have "?u \<in> set (db_steps (write_step sid key st now d))"
    using t by (auto simp: write_step_def update_steps_def set_update_rows)
  moreover have "step_key_of ?u = step_key_of t \<and> (st_Status t = StepStatusCompleted
      \<longrightarrow> st_Status ?u \<in> {StepStatusCompleted, StepStatusFailed})"
    using st by (auto simp: step_statuses_def)
  ultimately show "\<exists>t' \<in> set (db_steps (write_step sid key st now d)).
      step_key_of t' = step_key_of t
      \<and> (st_Status t = StepStatusCompleted \<longrightarrow> st_Status t' \<in> {StepStatusCompleted, StepStatusFailed})"
    by blast
qed

lemma step_monotone_prefix:
  "prefix (db_steps d) (db_steps d') \<Longrightarrow> step_monotone d d'"
  by (fastforce simp: step_monotone_def prefix_def)

interpretation monotone: row_relation step_monotone
  by unfold_locales
    (simp_all add: step_monotone_write step_monotone_prefix insert_session_def insert_step_def write_status_def claim_rows_def update_sessions_def)

section \<open>Rows are never lost and identities never change\<close>

definition session_identity ::
  "Session \<Rightarrow> string \<times> string \<times> string \<times> string \<times> string \<times> int" where
  "session_identity r =
     (s_SessionID r, s_ClientID r, s_UserID r, s_Email r, s_Username r, s_CreatedAt r)"

definition append_only :: "database \<Rightarrow> database \<Rightarrow> bool" where
  "append_only d d' \<longleftrightarrow>
     prefix (map session_identity (db_sessions d)) (map session_identity (db_sessions d'))
     \<and> prefix (map step_key_of (db_steps d)) (map step_key_of (db_steps d'))
     \<and> prefix (db_outbox d) (db_outbox d')"

lemma session_identity_set [simp]:
  "session_identity (set_session_status st now r) = session_identity r"
  by (simp add: session_identity_def)

interpretation identity: row_relation append_only
  by unfold_locales (simp_all add: append_only_def row_changes map_update_rows)

lemma append_only_steps:
  assumes "(sys_step (saga_service env cfg))\<^sup>*\<^sup>* x y" and "reachable (saga_service env cfg) x"
  shows "append_only (w_db (sys_world x)) (w_db (sys_world y)) \<and> reachable (saga_service env cfg) y"
  using assms
proof (induction rule: rtranclp_induct)
  case base
  then show ?case by (simp add: identity.same)
next
  case (step y z)
  then have "append_only (w_db (sys_world y)) (w_db (sys_world z))"
    using identity.step_related by blast
  with step show ?case
    by (auto simp: append_only_def intro: prefix_order.trans reachable_step)
qed

section \<open>The theorems\<close>

text \<open>
  C15: No single action of the running system takes a completed step back to pending or in
  progress, and none removes a step: this is what the guard of the step update is for, since
  results of different topics arrive in any order.
\<close>

theorem completed_step_kept:
  assumes "reachable (saga_service env cfg) x" and "sys_step (saga_service env cfg) x y"
    and "t \<in> set (db_steps (w_db (sys_world x)))" and "st_Status t = StepStatusCompleted"
  shows "\<exists>t' \<in> set (db_steps (w_db (sys_world y))). step_key_of t' = step_key_of t
     \<and> st_Status t' \<in> {StepStatusCompleted, StepStatusFailed}"
  using monotone.step_related [OF assms(1,2)] assms(3,4) unfolding step_monotone_def by fastforce

text \<open>
  C17: Along every execution the sessions keep their ids, client, user, e-mail, name and creation
  time, no session or step disappears or changes its place, and the outbox only grows.
\<close>

theorem rows_append_only:
  assumes "reachable (saga_service env cfg) x" and "(sys_step (saga_service env cfg))\<^sup>*\<^sup>* x y"
  shows "prefix (map session_identity (db_sessions (w_db (sys_world x))))
           (map session_identity (db_sessions (w_db (sys_world y))))
     \<and> prefix (map step_key_of (db_steps (w_db (sys_world x)))) (map step_key_of (db_steps (w_db (sys_world y))))
     \<and> prefix (db_outbox (w_db (sys_world x))) (db_outbox (w_db (sys_world y)))"
  using append_only_steps [OF assms(2,1)] by (simp add: append_only_def)

end
