(* ===== verification/At_Most_Once.thy ===== *)
theory At_Most_Once
  imports Accounting Invariants
begin

text \<open>
  What happens at most once, in any interleaving of any requests, with any failures and crashes:
  a session is completed at most once (the primary key of the verification step admits one
  verification), its completion is claimed at most once, and so at most one status query is
  answered \<open>completed\<close>, the answer that makes the API issue tokens; the realtime notification
  that the code was sent goes out at most once per life of the process.
\<close>

section \<open>Status writes\<close>

definition is_write :: "string \<Rightarrow> string \<Rightarrow> outbox_event \<Rightarrow> bool" where
  "is_write sid st e \<longleftrightarrow>
     (case ox_payload e of
        SessionRow r \<Rightarrow> ox_operation e = ''updated'' \<and> s_SessionID r = sid \<and> s_Status r = st
      | StepRow _ \<Rightarrow> False)"

text \<open>How often the status of the session was set to \<open>st\<close>, by the outbox.\<close>

definition writes :: "string \<Rightarrow> string \<Rightarrow> database \<Rightarrow> nat" where
  "writes sid st d = length (filter (is_write sid st) (db_outbox d))"

lemma is_write_simps [simp]:
  "\<not> is_write sid st (emit_session ''created'' r)" "\<not> is_write sid st (emit_step opn t)"
  "is_write sid st (emit_session ''updated'' r) \<longleftrightarrow> s_SessionID r = sid \<and> s_Status r = st"
  by (simp_all add: is_write_def emit_session_def emit_step_def)

lemma writes_update_sessions:
  "writes sid st (update_sessions p f d) = writes sid st d
     + length (filter (\<lambda>r. p r \<and> s_SessionID (f r) = sid \<and> s_Status (f r) = st) (db_sessions d))"
  by (simp add: writes_def update_sessions_def filter_map comp_def conj_commute)

lemma writes_simps [simp]:
  "writes sid st (insert_session r d) = writes sid st d"
  "writes sid st (insert_step t d) = writes sid st d"
  "writes sid st (write_step sid' k st' now d) = writes sid st d"
  by (simp_all add: writes_def insert_session_def insert_step_def write_step_def update_steps_def
      filter_map comp_def)

lemma writes_write_status [simp]:
  "writes sid st (write_status sid' st' now d) = writes sid st d
     + (if sid = sid' \<and> st = st' then length (filter (\<lambda>r. s_SessionID r = sid) (db_sessions d)) else 0)"
  by (auto simp: write_status_def writes_update_sessions)

definition completed_rows :: "string \<Rightarrow> Session list \<Rightarrow> nat" where
  "completed_rows sid rs =
     length (filter (\<lambda>r. s_SessionID r = sid \<and> s_Status r = SessionStatusCompleted) rs)"

lemma writes_claim_rows [simp]:
  "writes sid st (claim_rows sid' now d) = writes sid st d
     + (if sid = sid' \<and> st = SessionStatusTokensClaimed then completed_rows sid (db_sessions d) else 0)"
  by (auto simp: claim_rows_def writes_update_sessions completed_rows_def intro!: arg_cong [where f = length]
      filter_cong)

lemma at_most_one_row:
  assumes "distinct (map s_SessionID rs)"
  shows "length (filter (\<lambda>r. s_SessionID r = sid) rs) \<le> 1"
  using assms
proof (induction rs)
  case (Cons r rs)
  then show ?case by (auto simp: filter_empty_conv image_iff)
qed simp

section \<open>Claims are completions\<close>

definition claims_backed :: "database \<Rightarrow> bool" where
  "claims_backed d \<longleftrightarrow>
     (\<forall>sid. writes sid SessionStatusTokensClaimed d + completed_rows sid (db_sessions d)
              \<le> writes sid SessionStatusCompleted d)"

lemma completed_rows_written:
  "completed_rows sid (update_rows (\<lambda>r. s_SessionID r = sid') (set_session_status st now) rs) =
     (if sid \<noteq> sid' then completed_rows sid rs
      else if st = SessionStatusCompleted then length (filter (\<lambda>r. s_SessionID r = sid) rs) else 0)"
  by (induction rs) (auto simp: completed_rows_def)

lemma completed_rows_claimed:
  "completed_rows sid (update_rows (\<lambda>r. s_SessionID r = sid' \<and> s_Status r = SessionStatusCompleted)
       (set_session_status SessionStatusTokensClaimed now) rs) =
     (if sid = sid' then 0 else completed_rows sid rs)"
  by (induction rs) (auto simp: completed_rows_def)

lemma claims_backed_le:
  "claims_backed d \<Longrightarrow> writes sid SessionStatusTokensClaimed d \<le> writes sid SessionStatusCompleted d"
  "claims_backed d \<Longrightarrow> writes sid SessionStatusTokensClaimed d + completed_rows sid (db_sessions d)
     \<le> writes sid SessionStatusCompleted d"
  by (auto simp: claims_backed_def intro: add_leD1)

interpretation claims: row_relation "\<lambda>d d'. claims_backed d \<longrightarrow> claims_backed d'"
proof unfold_locales
  fix st sid now d
  assume "st \<in> set session_statuses"
  then show "claims_backed d \<longrightarrow> claims_backed (write_status sid st now d)"
    unfolding claims_backed_def [of "write_status sid st now d"]
    by (auto simp: completed_rows_written contract_sets session_statuses_def
        intro: claims_backed_le trans_le_add1)
qed (auto simp: claims_backed_def completed_rows_claimed, auto simp: completed_rows_def)

lemma reachable_claims:
  "reachable (saga_service env cfg) x \<Longrightarrow>
     writes sid SessionStatusTokensClaimed (w_db (sys_world x))
       \<le> writes sid SessionStatusCompleted (w_db (sys_world x))"
  by (rule claims_backed_le, erule claims.reachable_related)
    (auto simp: claims_backed_def empty_db_def writes_def completed_rows_def)

section \<open>One completion\<close>

definition is_verify_step :: "string \<Rightarrow> Step \<Rightarrow> bool" where
  "is_verify_step sid t \<longleftrightarrow> step_key_of t = (sid, StepKeyVerifyEmailCode)"

definition verify_balance :: "string \<Rightarrow> database \<Rightarrow> int" where
  "verify_balance sid d = int (writes sid SessionStatusCompleted d)
     - int (length (filter (is_verify_step sid) (db_steps d)))"

fun verification_of :: "string \<Rightarrow> goroutine \<Rightarrow> nat" where
  "verification_of sid (CompleteEmailVerification x c) = (if s_SessionID x = sid then 1 else 0)"
| "verification_of sid (DispatchStartCommands x i h) = 0"

lemma verify_steps_written [simp]:
  "length (filter (is_verify_step sid) (db_steps (write_step sid' k st now d)))
     = length (filter (is_verify_step sid) (db_steps d))"
proof -
  have "is_verify_step sid (set_step_status st now t) = is_verify_step sid t" for t
    by (simp add: is_verify_step_def)
  then show ?thesis
    by (simp add: write_step_def update_steps_def filter_update_rows)
qed

interpretation verification: accounted_silent env cfg "verify_balance sid" "verification_of sid" "\<lambda>_. 0" k 0
  for env cfg sid k
  by unfold_locales (auto simp: verify_balance_def is_verify_step_def step_key_of_def)

abbreviation verify_credit ::
  "string \<Rightarrow> ('a \<Rightarrow> nat \<Rightarrow> bool) \<Rightarrow> nat \<Rightarrow> (world, 'a) prog \<Rightarrow> bool" where
  "verify_credit sid \<equiv> credit (\<lambda>w. db_ok (w_db w))
     (potential (verify_balance sid) (verification_of sid) (\<lambda>_. 0) [] 0)"

text \<open>The inserted verification step is worth one unit, and its start costs it.\<close>

lemma verify_step_credit:
  "verify_credit sid (\<lambda>r m. case r of Inl _ \<Rightarrow> m = 0 | Inr _ \<Rightarrow> m = (if sid' = sid then 1 else 0)) 0
     (step_Create (sv_steps (saga_service env cfg)) (step_row sid' StepKeyVerifyEmailCode st))"
  unfolding step_repository_def saga_service_simps
  by (simp, intro conjI impI; rule credit_db_exec)
    (auto simp: steps_Create_def Let_def verify_balance_def is_verify_step_def step_key_of_def
      step_row_def writes_def)

text \<open>Writing \<open>completed\<close> costs the unit.\<close>

lemma complete_credit:
  "verify_credit sid (\<lambda>_ _. True) (if sid' = sid then 1 else 0)
     (sess_UpdateStatus (sv_sessions (saga_service env cfg)) sid' SessionStatusCompleted)"
  unfolding session_repository_def saga_service_simps
  by (simp, intro conjI impI; rule credit_result_error, rule credit_db_exec)
    (auto simp: verify_balance_def db_ok_def db_keys_def dest: at_most_one_row [where sid = sid]
      intro!: exI [of _ 0])

lemma verification_started:
  "n = (if s_SessionID x = sid then 1 else 0) \<Longrightarrow> verify_credit sid (\<lambda>_ m. m = 0) n
     (rt_go (sv_rt (saga_service env cfg)) (CompleteEmailVerification x c))"
  by (simp add: go_def, intro conjI impI; rule credit_call) (auto simp: potential_def)

lemma begin_verification_credit:
  "verify_credit sid (\<lambda>_ _. True) 0 (begin_verification (saga_service env cfg) x code)"
  unfolding begin_verification_def
  by (rule credit_unwrap [OF verify_step_credit], simp,
      rule credit_unwrap [OF verification.keep], intro safe_intros, simp,
      rule credit_on_err [OF verification.keep], intro safe_intros, simp,
      rule credit_seq [OF verification_started], simp_all)

lemma VerifyEmail_credit:
  "verify_credit sid (\<lambda>_ _. True) 0 (VerifyEmail (saga_service env cfg) vp)"
  unfolding VerifyEmail_def Let_def
  by (auto simp del: saga_service_simps
      intro!: credit_unwrap [OF verification.keep] safe_intros begin_verification_credit)

lemma completeEmailVerification_credit:
  "verify_credit sid (\<lambda>_ _. True) (if s_SessionID x = sid then 1 else 0)
     (completeEmailVerification (saga_service env cfg) x code)"
proof -
  have last: "verify_credit sid (\<lambda>_ _. True) (if s_SessionID x = sid then 1 else 0)
    (on_err (sess_UpdateStatus (sv_sessions (saga_service env cfg)) (s_SessionID x) SessionStatusCompleted)
       (failEmailVerification (saga_service env cfg) x StepKeyActivateUser)
     (announce_completed (saga_service env cfg) x))"
    by (rule credit_on_err [OF complete_credit]) (intro verification.free_credit safe_intros TrueI)+
  show ?thesis
    unfolding completeEmailVerification_def
    by ((rule credit_on_err [OF verification.keep], (intro safe_intros; fail),
         (rule verification.free_credit; intro safe_intros TrueI), hypsubst)+)
      (rule last)
qed

interpretation one_completion: credit_contract "saga_service env cfg" "\<lambda>w. db_ok (w_db w)"
    "potential (verify_balance sid) (verification_of sid) (\<lambda>_. 0) [] 0" "\<lambda>_. 0" "verification_of sid" 0
  for env cfg sid
proof unfold_locales
  fix req
  show "verify_credit sid (\<lambda>r n. 0 \<le> n) 0 (serve (saga_service env cfg) req)"
    unfolding serve_def
    by (auto simp del: saga_service_simps intro!: verification.free_credit safe_intros
        credit_bind [OF VerifyEmail_credit] split: request.split)
next
  fix g
  show "verify_credit sid (\<lambda>r n. 0 \<le> n) (verification_of sid g) (background (saga_service env cfg) g)"
  proof (cases g)
    case (DispatchStartCommands x i h)
    then show ?thesis
      by (auto simp del: saga_service_simps simp: background_def goroutine_body_def
          intro!: verification.free_credit safe_intros)
  next
    case (CompleteEmailVerification x c)
    show ?thesis
      unfolding background_def goroutine_body_def CompleteEmailVerification goroutine.case
        verification_of.simps
      by (rule credit_bind [OF completeEmailVerification_credit]) simp
  qed
qed (auto simp: reachable_db_ok potential_picked potential_crashed empty_db_def verify_balance_def writes_def
    order_trans [OF potential_crashed])

lemma one_verify_step: "db_ok d \<Longrightarrow> length (filter (is_verify_step sid) (db_steps d)) \<le> 1"
proof -
  assume "db_ok d"
  moreover have "length (filter (is_verify_step sid) ts) \<le> 1" if "distinct (map step_key_of ts)" for ts
    using that by (induction ts) (auto simp: is_verify_step_def filter_empty_conv image_iff)
  ultimately show ?thesis by (simp add: db_ok_def db_keys_def)
qed

lemma completed_once:
  assumes "reachable (saga_service env cfg) x"
  shows "writes sid SessionStatusCompleted (w_db (sys_world x)) \<le> 1"
  using one_completion.never_exceeded [OF assms, of sid]
    one_verify_step [OF reachable_db_ok [OF assms], of sid]
  by (simp add: potential_def verify_balance_def split: if_splits)

section \<open>One claim\<close>

text \<open>A status reply that hands the session out as completed.\<close>

definition completed_reply :: "string \<Rightarrow> reply \<Rightarrow> nat" where
  "completed_reply sid r =
     (case r of
        StatusReply (Inr rs) \<Rightarrow>
          if rs_SessionID rs = sid \<and> rs_Status rs = SessionStatusCompleted then 1 else 0
      | _ \<Rightarrow> 0)"

lemma completed_reply_simps [simp]:
  "completed_reply sid (StartReply a) = 0" "completed_reply sid (VerifyReply b) = 0"
  "completed_reply sid (Handled c) = 0" "completed_reply sid Finished = 0"
  "completed_reply sid (StatusReply (Inl e)) = 0"
  "completed_reply sid (StatusReply (Inr (registration_status x st))) =
     (if s_SessionID x = sid \<and> st = SessionStatusCompleted then 1 else 0)"
  by (simp_all add: completed_reply_def registration_status_def)

definition claim_balance :: "string \<Rightarrow> database \<Rightarrow> int" where
  "claim_balance sid d = - int (writes sid SessionStatusTokensClaimed d)"

interpretation claiming: accounted_quiet env cfg "claim_balance sid" "\<lambda>_. 0" "\<lambda>_. 0" k 0
  for env cfg sid k
  by unfold_locales (auto simp: claim_balance_def)

interpretation claiming_silent: accounted_silent env cfg "claim_balance sid" "\<lambda>_. 0" "\<lambda>_. 0" k 0
  for env cfg sid k
  by unfold_locales simp

abbreviation claim_credit ::
  "string \<Rightarrow> ('a \<Rightarrow> nat \<Rightarrow> bool) \<Rightarrow> nat \<Rightarrow> (world, 'a) prog \<Rightarrow> bool" where
  "claim_credit sid \<equiv> credit (\<lambda>w. db_ok (w_db w))
     (potential (claim_balance sid) (\<lambda>_. 0) (\<lambda>_. 0) [] 0)"

lemma ClaimCompleted_credit:
  "claim_credit sid (\<lambda>r m. m = (if r = Inr True \<and> sid' = sid then 1 else 0)) 0
     (sess_ClaimCompleted (sv_sessions (saga_service env cfg)) sid')"
proof -
  have "filter (\<lambda>r. s_SessionID r = sid \<and> s_Status r = SessionStatusCompleted) rs \<noteq> []
      \<Longrightarrow> completed_rows sid rs \<ge> 1" for rs
    by (simp add: completed_rows_def Suc_leI)
  then show ?thesis
    unfolding session_repository_def saga_service_simps
    by (simp, intro credit_db_exec)
      (auto simp: sessions_ClaimCompleted_def Let_def claim_balance_def simp flip: claim_rows_def)
qed

lemma GetRegistrationStatus_credit:
  "claim_credit sid (\<lambda>r n. completed_reply sid (StatusReply r) \<le> n) 0
     (GetRegistrationStatus (saga_service env cfg) sid' cid)"
  unfolding GetRegistrationStatus_def Let_def
  by (auto simp del: saga_service_simps
      intro!: credit_unwrap [OF claiming.keep] safe_intros credit_unwrap [OF ClaimCompleted_credit])

interpretation one_claim: credit_contract "saga_service env cfg" "\<lambda>w. db_ok (w_db w)"
    "potential (claim_balance sid) (\<lambda>_. 0) (\<lambda>_. 0) [] 0" "completed_reply sid" "\<lambda>_. 0" 0
  for env cfg sid
proof unfold_locales
  fix req
  show "claim_credit sid (\<lambda>r n. completed_reply sid r \<le> n) 0 (serve (saga_service env cfg) req)"
    unfolding serve_def
    by (auto simp del: saga_service_simps intro!: credit_bind [OF claiming.keep] safe_intros
        credit_bind [OF GetRegistrationStatus_credit] split: request.split)
next
  fix g
  show "claim_credit sid (\<lambda>r n. completed_reply sid r \<le> n) 0 (background (saga_service env cfg) g)"
    unfolding background_def goroutine_body_def
    by (auto simp del: saga_service_simps intro!: credit_bind [OF claiming.keep] safe_intros
        split: goroutine.split)
qed (auto simp: reachable_db_ok potential_crashed empty_db_def claim_balance_def writes_def order_trans [OF potential_crashed]
    eq_refl [OF potential_picked [where \<sigma> = "\<lambda>_. 0", simplified]])

lemma completed_replies:
  assumes "reachable (saga_service env cfg) x"
  shows "sum_list (map (completed_reply sid) (sys_replies x))
     \<le> writes sid SessionStatusTokensClaimed (w_db (sys_world x))"
  using one_claim.never_exceeded [OF assms, of sid]
  by (simp add: potential_def claim_balance_def split: if_splits)

section \<open>One announcement of the code\<close>

text \<open>
  The published bodies come out of the notification library. \<open>announces\<close> is a test on bodies
  that accepts only encodings of \<open>registration.code_sent\<close> notifications for the session.
\<close>

locale code_sent_test =
  fixes env :: environment and cfg :: NATSConfig and sid :: string and announces :: "bytes \<Rightarrow> bool"
  assumes test: "env_marshalNotification env n = Inr body \<Longrightarrow> announces body
    \<Longrightarrow> nt_eventType n = ''registration.code_sent'' \<and> hd (nt_ids n) = sid"

fun announcement :: "(bytes \<Rightarrow> bool) \<Rightarrow> effect \<Rightarrow> nat" where
  "announcement P (RealtimePublished body ok) = (if P body then 1 else 0)"
| "announcement P _ = 0"

sublocale code_sent_test \<subseteq> quiet:
  accounted_quiet env cfg "\<lambda>_. 0" "\<lambda>_. 0" "announcement announces" sid "Suc 0"
  by unfold_locales (auto dest: test)

context code_sent_test
begin

abbreviation note_credit :: "('a \<Rightarrow> nat \<Rightarrow> bool) \<Rightarrow> nat \<Rightarrow> (world, 'a) prog \<Rightarrow> bool" where
  "note_credit \<equiv> credit (\<lambda>w. db_ok (w_db w))
     (potential (\<lambda>_. 0) (\<lambda>_. 0) (announcement announces) sid (Suc 0))"

lemma GetByID_id:
  "note_credit (\<lambda>r m. m = 0 \<and> (\<forall>x. r = Inr x \<longrightarrow> s_SessionID x = sid')) 0
     (sess_GetByID (sv_sessions (saga_service env cfg)) sid')"
  unfolding session_repository_def saga_service_simps
  by (simp, intro credit_db_exec)
    (auto simp: sessions_GetByID_def one_def session_row_def split: option.splits dest: find_Some_in)

lemma LoadOrStore_credit:
  "note_credit (\<lambda>loaded m. m = (if \<not> loaded \<and> sid' = sid then 1 else 0)) 0 (LoadOrStore sid')"
  unfolding LoadOrStore_def by (rule credit_call) (auto simp: potential_def)

lemma note_cost:
  assumes "s_SessionID x = sid'" and "n = (if sid' = sid then 1 else 0)"
  shows "note_credit (\<lambda>_ _. True) n
     (publishRegistrationNotification (saga_service env cfg) x et ns ec rt pl)"
proof (cases "env_marshalNotification env (registration_notification x et ns ec rt pl)")
  case (Inl e)
  then show ?thesis by (simp add: publishRegistrationNotification_def saga_broker_def)
next
  case (Inr body)
  then have "announces body \<Longrightarrow> sid' = sid"
    using test [OF Inr] assms(1) by (simp add: registration_notification_def)
  then have "note_credit (\<lambda>_ _. True) n (notify (\<lambda>i. env_realtime env i body) (RealtimePublished body))"
    unfolding notify_def by (intro credit_call) (auto simp: Let_def assms(2))
  then show ?thesis
    by (auto simp: Inr publishRegistrationNotification_def saga_broker_def intro!: credit_seq)
qed

abbreviation note_gratis :: "(world, 'a) prog \<Rightarrow> bool" where
  "note_gratis \<equiv> gratis (\<lambda>w. db_ok (w_db w))
     (potential (\<lambda>_. 0) (\<lambda>_. 0) (announcement announces) sid (Suc 0))"

lemma publishCodeSentIfReady_gratis:
  "note_gratis (publishCodeSentIfReady (saga_service env cfg) sid' payload)"
  unfolding publishCodeSentIfReady_def gratis_def
  by (rule credit_if, simp, rule credit_unwrap [OF GetByID_id], simp, rule credit_if, simp,
      rule credit_bind [where r = "\<lambda>loaded m. m = (if \<not> loaded \<and> sid' = sid then 1 else 0)"],
      simp add: LoadOrStore_credit, rule credit_if, simp,
      rule credit_seq [OF note_cost]) simp_all

lemma safe_gratis:
  "safe (no_gain (\<lambda>_. 0) (\<lambda>_. 0) (announcement announces) sid (Suc 0)) p \<Longrightarrow> note_gratis p"
  unfolding gratis_def by (rule quiet.free_credit) simp_all

lemma observed_gratis: "note_gratis body \<Longrightarrow> note_gratis (observed (sv_rt (saga_service env cfg)) name body)"
  unfolding observed_def
  by (rule gratis_bind)
    (auto simp del: saga_service_simps intro!: gratis_seq safe_gratis safe_intros split: prod.split)

lemmas leaves_gratis = safe_gratis [OF quiet.core.compensateRegistrationFailure]
  safe_gratis [OF quiet.core.syncSessionStatus] safe_gratis [OF quiet.core.Publish]
  safe_gratis [OF quiet.core.now] safe_gratis [OF quiet.step_update_free]
  safe_gratis [OF quiet.core.Start] safe_gratis [OF quiet.VerifyEmail_free]
  safe_gratis [OF quiet.GetRegistrationStatus_free]

lemma handlers_gratis:
  "note_gratis (HandleUserCreateResult (saga_service env cfg) ur)"
  "note_gratis (HandleAuthCreatePendingResult (saga_service env cfg) ar)"
  "note_gratis (HandleMailSendResult (saga_service env cfg) mr)"
  unfolding HandleUserCreateResult_def HandleAuthCreatePendingResult_def HandleMailSendResult_def
  by (auto simp del: saga_service_simps
      intro!: observed_gratis gratis_intros publishCodeSentIfReady_gratis leaves_gratis
      split: sum.split)

end

sublocale code_sent_test \<subseteq> once: credit_contract "saga_service env cfg" "\<lambda>w. db_ok (w_db w)"
    "potential (\<lambda>_. 0) (\<lambda>_. 0) (announcement announces) sid (Suc 0)" "\<lambda>_. 0" "\<lambda>_. 0" "Suc 0"
proof unfold_locales
  fix req
  have "note_gratis (serve (saga_service env cfg) req)"
    unfolding serve_def
    by (auto simp del: saga_service_simps intro!: gratis_bind handlers_gratis leaves_gratis
        split: request.split)
  then show "note_credit (\<lambda>r n. 0 \<le> n) 0 (serve (saga_service env cfg) req)"
    by (simp add: gratis_def)
next
  fix g
  have "note_gratis (background (saga_service env cfg) g)"
    by (intro safe_gratis quiet.background_free)
  then show "note_credit (\<lambda>r n. 0 \<le> n) 0 (background (saga_service env cfg) g)"
    by (simp add: gratis_def)
qed (simp_all add: reachable_db_ok potential_crashed [where \<nu> = "Suc 0", simplified]
    eq_refl [OF potential_picked [where \<sigma> = "\<lambda>_. 0", simplified]])

context code_sent_test
begin

lemma announced_once:
  assumes "reachable (saga_service env cfg) x"
  shows "sum_list (map (announcement announces) (w_trace (sys_world x))) \<le> 1 + sys_crashes x"
  using once.never_exceeded [OF assms] by (simp add: potential_def split: if_splits)

end

text \<open>
  An encoding whose fields can be told apart: every byte is preceded by a mark and every field
  followed by another.
\<close>

definition framed :: "bytes \<Rightarrow> bytes" where
  "framed s = concat (map (\<lambda>c. [CHR ''x'', c]) s) @ ''.''"

lemma framed_append: "framed s @ r = framed s' @ r' \<longleftrightarrow> s = s' \<and> r = r'"
proof (induction s arbitrary: s')
  case Nil
  then show ?case by (cases s') (auto simp: framed_def)
next
  case (Cons c s)
  then show ?case by (cases s') (auto simp: framed_def)
qed

definition framed_notification :: "notification \<Rightarrow> error + bytes" where
  "framed_notification n =
     Inr (framed (nt_eventType n) @ framed (hd (nt_ids n)) @ framed (nt_errorCode n) @ nt_payload n)"

definition framed_announcement :: "string \<Rightarrow> bytes \<Rightarrow> bool" where
  "framed_announcement sid body =
     (let h = framed ''registration.code_sent'' @ framed sid in take (length h) body = h)"

lemma framed_test:
  assumes "framed_notification n = Inr body" and "framed_announcement sid body"
  shows "nt_eventType n = ''registration.code_sent'' \<and> hd (nt_ids n) = sid"
proof -
  obtain rest where "body = framed ''registration.code_sent'' @ framed sid @ rest"
    using assms(2) append_take_drop_id [of "length (framed ''registration.code_sent'' @ framed sid)" body]
    by (metis append.assoc framed_announcement_def)
  with assms(1) show ?thesis
    by (simp add: framed_notification_def framed_append)
qed

interpretation framed_test: code_sent_test "env\<lparr>env_marshalNotification := framed_notification\<rparr>" cfg sid
    "framed_announcement sid" for env cfg sid
  by unfold_locales (simp add: framed_test)

section \<open>The theorems\<close>

text \<open>
  C2: In every execution, whatever requests arrive and however their actions interleave, fail or
  are cut by crashes, a session becomes completed at most once, the completion is claimed at most
  as often, and at most one of all the status queries ever answered reports the session as
  completed, which is what entitles its caller to tokens.
\<close>

theorem tokens_handed_out_once:
  "reachable (saga_service env cfg) x \<Longrightarrow>
     sum_list (map (completed_reply sid) (sys_replies x))
       \<le> writes sid SessionStatusTokensClaimed (w_db (sys_world x))
     \<and> writes sid SessionStatusTokensClaimed (w_db (sys_world x))
       \<le> writes sid SessionStatusCompleted (w_db (sys_world x))
     \<and> writes sid SessionStatusCompleted (w_db (sys_world x)) \<le> 1"
  by (intro conjI completed_replies reachable_claims completed_once)

text \<open>
  C4: Whatever the interleaving, at most one \<open>registration.code_sent\<close> realtime notification for a
  session is published in each life of the process, when the notification library encodes the
  event type and the session id recognisably.
\<close>

theorem code_sent_announced_once:
  assumes "\<And>n body. env_marshalNotification env n = Inr body \<Longrightarrow> announces body
      \<Longrightarrow> nt_eventType n = ''registration.code_sent'' \<and> hd (nt_ids n) = sid"
    and "reachable (saga_service env cfg) x"
  shows "sum_list (map (announcement announces) (w_trace (sys_world x))) \<le> 1 + sys_crashes x"
proof -
  have "code_sent_test env sid announces" by unfold_locales (rule assms(1))
  then show ?thesis by (rule code_sent_test.announced_once) (rule assms(2))
qed

end
