(* ===== verification/Causality.thy ===== *)
theory Causality
  imports Knowledge At_Most_Once
begin

text \<open>
  What must have happened before. The trace of calls to other services and the identities of the
  rows only grow, so they can be known (theory \<open>Knowledge\<close>). The first part lifts the knowledge
  of single programs to the running system; the second shows that a session is completed, and
  its completion handed out, only for a user whose code the auth service accepted and whom the
  user service activated afterwards.
\<close>

section \<open>Knowledge in the running system\<close>

locale knowledge_contract =
  fixes s :: "world registrationService" and R :: "world \<Rightarrow> world \<Rightarrow> bool" and I :: "world \<Rightarrow> bool"
    and post :: "reply \<Rightarrow> world \<Rightarrow> bool" and owed :: "goroutine \<Rightarrow> world \<Rightarrow> bool"
  assumes same: "w_db v = w_db w \<Longrightarrow> w_trace v = w_trace w \<Longrightarrow> R v w"
    and post_stable: "stable R (post r)" and owed_stable: "stable R (owed g)"
    and served: "learns R I post (\<lambda>_. True) (serve s req)"
    and run_in_background: "learns R I post (owed g) (background s g)"
    and spawned: "I w \<Longrightarrow> g \<in> set (w_spawned w) \<Longrightarrow> owed g w"
    and dropped: "I w \<Longrightarrow> set gs \<subseteq> set (w_spawned w) \<Longrightarrow> I (w\<lparr>w_notified := ns, w_spawned := gs\<rparr>)"
    and started: "I start_world"
begin

definition informed :: "system \<Rightarrow> (world, reply) prog \<Rightarrow> bool" where
  "informed x p \<longleftrightarrow> (\<exists>P. stable R P \<and> P (sys_world x) \<and> learns R I post P p)"

definition holds :: "system \<Rightarrow> bool" where
  "holds x \<longleftrightarrow> I (sys_world x) \<and> (\<forall>p \<in> set (sys_threads x). informed x p)
     \<and> (\<forall>r \<in> set (sys_replies x). post r (sys_world x))"

lemma informed_related: "informed x p \<Longrightarrow> R (sys_world x) (sys_world y) \<Longrightarrow> informed y p"
  unfolding informed_def by (blast dest: stableD)

lemma post_related: "post r (sys_world x) \<Longrightarrow> R (sys_world x) (sys_world y) \<Longrightarrow> post r (sys_world y)"
  using post_stable by (blast dest: stableD)

lemma holds_related:
  assumes "holds x" and "R (sys_world x) (sys_world y)" and "I (sys_world y)"
    and "\<And>p. p \<in> set (sys_threads y) \<Longrightarrow> p \<in> set (sys_threads x) \<or> informed y p"
    and "\<And>r. r \<in> set (sys_replies y) \<Longrightarrow> r \<in> set (sys_replies x) \<or> post r (sys_world y)"
  shows "holds y"
  using assms unfolding holds_def by (blast intro: informed_related post_related)

lemma holds_step:
  assumes "holds x" and "sys_step s x y"
  shows "holds y"
  using assms(2)
proof (cases rule: sys_step.cases)
  case (arrive req)
  have "informed y (serve s req)"
    unfolding informed_def using served by (auto intro!: exI [of _ "\<lambda>_. True"])
  with arrive assms(1) show ?thesis
    by (intro holds_related [OF assms(1)]) (auto simp: holds_def same)
next
  case (pick i)
  let ?g = "w_spawned (sys_world x) ! i"
  have inv: "I (sys_world x)" using assms(1) by (simp add: holds_def)
  have "owed ?g (sys_world x)" using spawned inv pick by simp
  moreover have "R (sys_world x) (sys_world y)" using pick by (simp add: same)
  ultimately have "informed y (background s ?g)"
    unfolding informed_def using run_in_background owed_stable
    by (intro exI [of _ "owed ?g"]) (auto dest: stableD)
  moreover have "I (sys_world y)"
    using dropped [OF inv set_without, of i "w_notified (sys_world x)"] pick by simp
  ultimately show ?thesis using pick
    by (auto simp: same intro: holds_related [OF assms(1)])
next
  case (action i f p w)
  then have "informed x (Act f)" "I (sys_world x)"
    using assms(1) by (auto simp: holds_def dest: nth_mem)
  with action obtain P where "R (sys_world x) w \<and> I w \<and> stable R P \<and> P w \<and> learns R I post P p"
    by (fastforce simp: informed_def learns_Act_iff)
  moreover from this have "informed y p" using action by (auto simp: informed_def)
  ultimately show ?thesis using action
    by (intro holds_related [OF assms(1)]) (auto dest!: set_update_subset_insert [THEN subsetD])
next
  case (return i r)
  then have "informed x (Ret r)" "I (sys_world x)"
    using assms(1) by (auto simp: holds_def dest: nth_mem)
  then have "post r (sys_world x)" by (auto simp: informed_def learns_Ret_iff)
  with return \<open>I (sys_world x)\<close> set_without show ?thesis
    by (intro holds_related [OF assms(1)]) (fastforce simp: same)+
next
  case crash
  have "I (sys_world x)" using assms(1) by (simp add: holds_def)
  with crash show ?thesis
    using dropped [of "sys_world x" "[]" "[]"]
    by (intro holds_related [OF assms(1)]) (auto simp: same crashed_def)
qed

lemma always:
  assumes "reachable s x"
  shows "I (sys_world x)" and "r \<in> set (sys_replies x) \<Longrightarrow> post r (sys_world x)"
proof -
  have "holds x"
    using assms
  proof (induction rule: reachable.induct)
    case reachable_initial
    show ?case using started by (simp add: holds_def initial_def)
  qed (rule holds_step)
  then show "I (sys_world x)" "r \<in> set (sys_replies x) \<Longrightarrow> post r (sys_world x)"
    by (auto simp: holds_def)
qed

end

section \<open>What the tables and the trace remember\<close>

definition grows :: "world \<Rightarrow> world \<Rightarrow> bool" where
  "grows v w \<longleftrightarrow> append_only (w_db v) (w_db w) \<and> prefix (w_trace v) (w_trace w)"

text \<open>The auth service accepted a code for the user, and later the user service activated it.\<close>

definition vouched :: "string \<Rightarrow> effect list \<Rightarrow> bool" where
  "vouched u tr \<longleftrightarrow> (\<exists>code before between after.
     tr = before @ VerifiedEmail u code True # between @ ActivatedUser u True # after)"

definition code_accepted :: "string \<Rightarrow> world \<Rightarrow> bool" where
  "code_accepted u w \<longleftrightarrow> (\<exists>code. VerifiedEmail u code True \<in> set (w_trace w))"

definition user_vouched :: "string \<Rightarrow> world \<Rightarrow> bool" where
  "user_vouched u w \<longleftrightarrow> vouched u (w_trace w)"

definition recorded :: "Session \<Rightarrow> world \<Rightarrow> bool" where
  "recorded x w \<longleftrightarrow> session_identity x \<in> set (map session_identity (db_sessions (w_db w)))"

lemma vouched_prefix: "vouched u tr \<Longrightarrow> prefix tr tr' \<Longrightarrow> vouched u tr'"
  unfolding vouched_def prefix_def by (elim exE) (simp, blast)

lemma stable_user_vouched: "stable grows (user_vouched u)"
  by (auto simp: stable_def grows_def user_vouched_def intro: vouched_prefix)

lemma stable_code_accepted: "stable grows (code_accepted u)"
  by (auto simp: stable_def grows_def code_accepted_def dest: set_mono_prefix)

lemma stable_recorded: "stable grows (recorded x)"
  unfolding stable_def grows_def recorded_def append_only_def
  by (blast dest: set_mono_prefix)

lemmas stable_facts = stable_user_vouched stable_code_accepted stable_recorded

lemma activated_vouched:
  "code_accepted u w \<Longrightarrow> vouched u (w_trace w @ [ActivatedUser u True])"
  unfolding code_accepted_def vouched_def by (auto dest!: split_list) (metis append.assoc append_Cons)

section \<open>Settled sessions\<close>

definition settled :: "Session \<Rightarrow> bool" where
  "settled r \<longleftrightarrow> s_Status r \<in> {SessionStatusCompleted, SessionStatusTokensClaimed}"

text \<open>A change of the tables that settles no session.\<close>

definition settled_from :: "database \<Rightarrow> database \<Rightarrow> bool" where
  "settled_from d d' \<longleftrightarrow> (\<forall>r' \<in> set (db_sessions d'). settled r'
     \<longrightarrow> (\<exists>r \<in> set (db_sessions d). settled r \<and> s_UserID r = s_UserID r'))"

definition settles_none :: "database \<Rightarrow> database \<Rightarrow> bool" where
  "settles_none d d' \<longleftrightarrow> append_only d d' \<and> (db_ok d \<longrightarrow> db_ok d') \<and> settled_from d d'"

lemma settled_from_changes:
  "settled_from d d"
  "s_Status r = SessionStatusStarted \<Longrightarrow> settled_from d (insert_session r d)"
  "st \<notin> {SessionStatusCompleted, SessionStatusTokensClaimed}
     \<Longrightarrow> settled_from d (write_status sid st now d)"
  "settled_from d (claim_rows sid now d)"
  "settled_from d (insert_step t d)"
  "settled_from d (write_step sid key st now d)"
  by (auto simp: settled_from_def settled_def set_update_rows)

lemma settles_none_refl [simp]: "settles_none d d"
  by (simp add: settles_none_def identity.same settled_from_changes)

lemma settles_none_Create:
  "s_Status x = SessionStatusStarted \<Longrightarrow> settles_none d (snd (sessions_Create x now d))"
  using identity.create sessions_Create_ok sessions_Create_cases [of x now d]
  by (auto simp: settles_none_def settled_from_changes)

lemma settles_none_Update:
  assumes "st \<in> set session_statuses" and "st \<noteq> SessionStatusCompleted"
  shows "settles_none d (snd (sessions_UpdateStatus sid st now d))"
proof -
  have "st \<noteq> SessionStatusTokensClaimed"
    using assms(1) by (auto simp: session_statuses_def contract_sets)
  with assms show ?thesis
    using identity.update [OF assms(1), of d sid now] statements_ok(6) [of d sid st now]
    by (simp add: settles_none_def settled_from_changes)
qed

lemma settles_none_Claim: "settles_none d (snd (sessions_ClaimCompleted sid now d))"
  using identity.claim [of d sid now] statements_ok(8) [of d sid now]
    sessions_ClaimCompleted_cases [of sid now d]
  by (auto simp: settles_none_def settled_from_changes)

lemma settles_none_Reconcile: "settles_none d (snd (sessions_ReconcileStatus sid now d))"
proof -
  have "settled_from d (snd (sessions_ReconcileStatus sid now d))"
    using sessions_ReconcileStatus_cases [of sid now d]
    by (auto simp: settled_from_changes saga_statuses_def)
  then show ?thesis
    using identity.reconcile [of d sid now] statements_ok(9) [of d sid now]
    by (simp add: settles_none_def)
qed

lemma settles_none_step_Create:
  "st_StepKey t \<in> set step_keys \<Longrightarrow> st_Status t \<in> {StepStatusPending, StepStatusInProgress}
     \<Longrightarrow> settles_none d (snd (steps_Create t now d))"
  using identity.step_create [of t d now] steps_Create_ok [of d t now] steps_Create_cases [of t now d]
  by (auto simp: settles_none_def settled_from_changes)

lemma settles_none_step_Update:
  "key \<in> set step_keys \<Longrightarrow> st \<in> set step_statuses
     \<Longrightarrow> settles_none d (snd (steps_UpdateStatus sid key st now d))"
  using identity.step_update [of key st d sid now] statements_ok(7) [of d sid key st now]
  by (simp add: settles_none_def settled_from_changes)

lemmas settles_none_statements = settles_none_Create settles_none_Update settles_none_Claim
  settles_none_Reconcile settles_none_step_Create settles_none_step_Update

section \<open>The invariant and the actions that keep it\<close>

definition promised :: "world \<Rightarrow> bool" where
  "promised w \<longleftrightarrow> db_ok (w_db w)
     \<and> (\<forall>r \<in> set (db_sessions (w_db w)). settled r \<longrightarrow> user_vouched (s_UserID r) w)
     \<and> (\<forall>x c. CompleteEmailVerification x c \<in> set (w_spawned w) \<longrightarrow> recorded x w)"

abbreviation advances :: "world \<Rightarrow> world \<Rightarrow> bool" where
  "advances v w \<equiv> promised v \<longrightarrow> grows v w \<and> promised w"

lemma grows_same: "w_db v = w_db w \<Longrightarrow> prefix (w_trace v) (w_trace w) \<Longrightarrow> grows v w"
  by (simp add: grows_def identity.same)

lemma advances_grown:
  assumes "grows v w" and "w_spawned w = w_spawned v" and "db_ok (w_db v) \<Longrightarrow> db_ok (w_db w)"
    and "settled_from (w_db v) (w_db w)"
  shows "advances v w"
proof (intro impI conjI assms(1))
  assume v: "promised v"
  have "user_vouched u v \<Longrightarrow> user_vouched u w" "recorded x v \<Longrightarrow> recorded x w" for u x
    using stable_facts assms(1) by (blast dest: stableD)+
  with v assms show "promised w"
    unfolding promised_def settled_from_def by metis
qed

lemma advances_same:
  "w_db w = w_db v \<Longrightarrow> w_spawned w = w_spawned v \<Longrightarrow> prefix (w_trace v) (w_trace w) \<Longrightarrow> advances v w"
  by (rule advances_grown) (simp_all add: grows_same settled_from_changes)

lemma ask_advances [safe_intros]: "safe advances (ask f)"
  unfolding ask_def by (rule safe_call, rule advances_same) simp_all

lemma notify_advances [safe_intros]: "safe advances (notify f e)"
  unfolding notify_def by (rule safe_call, rule advances_same) (simp_all add: Let_def)

lemma metric_advances [safe_intros]: "safe advances (rt_metric (saga_runtime env) m)"
  unfolding saga_runtime_def by (simp, rule safe_call, rule advances_same) simp_all

lemma LoadOrStore_advances [safe_intros]: "safe advances (LoadOrStore k)"
  unfolding LoadOrStore_def by (rule safe_call, rule advances_same) simp_all

lemma go_advances: "safe advances (go (DispatchStartCommands x i h))"
proof -
  have "advances w (w\<lparr>w_spawned := w_spawned w @ [DispatchStartCommands x i h]\<rparr>)" for w
    by (auto simp: promised_def grows_same recorded_def user_vouched_def)
  then show ?thesis unfolding go_def by (intro safe_call) simp
qed

lemma db_exec_grows:
  assumes "append_only (w_db w) (snd (stmt (env_now env (w_tick w)) (w_db w)))"
  shows "grows w (snd (run (db_exec env stmt) w))"
  using assms by (auto simp: db_exec_def grows_def identity.same split: option.split prod.split)

lemma db_exec_advances:
  assumes "\<And>now d. settles_none d (snd (stmt now d))"
  shows "safe advances (db_exec env stmt)"
  unfolding db_exec_def
proof (rule safe_call, goal_cases)
  case (1 w)
  show ?case
  proof (cases "env_db_fault env (w_tick w)")
    case None
    obtain r d where st: "stmt (env_now env (w_tick w)) (w_db w) = (r, d)"
      by (cases "stmt (env_now env (w_tick w)) (w_db w)")
    with assms [of "w_db w" "env_now env (w_tick w)"] have "settles_none (w_db w) d" by simp
    then have "advances w ((ticked w)\<lparr>w_db := d\<rparr>)"
      by (intro advances_grown) (auto simp: settles_none_def grows_def)
    with None st show ?thesis by simp
  next
    case (Some e)
    then show ?thesis by (simp, intro advances_same) simp_all
  qed
qed

lemma result_error_advances: "safe advances p \<Longrightarrow> safe advances (result_error p)"
  unfolding result_error_def by (intro safe_intros)

lemma notification_advances [safe_intros]:
  "safe advances (publishRegistrationNotification (saga_service env cfg) x et ns ec rt pl)"
  unfolding publishRegistrationNotification_def
  by (auto simp: saga_broker_def intro!: safe_intros split: sum.split)

lemma traced_advances: "promised w \<Longrightarrow> grows w (traced e w)" "promised w \<Longrightarrow> promised (traced e w)"
  using advances_same [of "traced e w" w] by simp_all

interpretation promise: service_announce "saga_service env cfg" advances for env cfg
proof unfold_locales
  fix reconcile sid
  assume "sess_ReconcileStatus (sv_sessions (saga_service env cfg)) = Some reconcile"
  then show "safe advances (reconcile sid)"
    by (auto simp del: updates_written simp: session_repository_def intro!: db_exec_advances settles_none_statements)
qed (auto simp: session_repository_def step_repository_def saga_broker_def auth_client_def saga_runtime_def
    user_client_def session_statuses_def step_keys_def sessions_GetByID_def contract_sets
    sessions_GetByEmail_def sessions_GetByUsername_def steps_ListBySessionID_def
    simp del: updates_written
    intro!: safe_intros go_advances db_exec_advances result_error_advances settles_none_statements traced_advances)

end
