(* ===== verification/Entitlement.thy ===== *)
theory Entitlement
  imports Causality
begin

text \<open>
  The verification path with what it knows: a session read from the tables is recorded there and,
  if settled, its user is vouched for; the verification goroutine knows that its session is
  recorded, after the auth service's answer that the code was accepted, and after the user
  service's that the user is vouched for, which is when it may write \<open>completed\<close>. The result is
  the causality theorem on the answers of the status query.
\<close>

section \<open>Reading and completing\<close>

lemma learns_query:
  assumes "\<And>now d. snd (stmt now d) = d" and "\<And>x. stable grows (Q x)"
    and "\<And>w now. promised w \<Longrightarrow> P w \<Longrightarrow> Q (fst (stmt now (w_db w))) w"
    and "\<And>w e. promised w \<Longrightarrow> P w \<Longrightarrow> Q (Inl e) w"
  shows "learns grows promised Q P (db_exec env stmt)"
  unfolding db_exec_def
proof (rule learns_call [OF _ assms(2)])
  fix w assume w: "promised w" "P w"
  let ?v = "case env_db_fault env (w_tick w) of Some e \<Rightarrow> (Inl e, ticked w)
     | None \<Rightarrow> (case stmt (env_now env (w_tick w)) (w_db w) of (r, d) \<Rightarrow> (r, (ticked w)\<lparr>w_db := d\<rparr>))"
  have v: "snd ?v = ticked w"
    using assms(1) [of "env_now env (w_tick w)" "w_db w"]
    by (auto simp: ticked_def split: option.split prod.split)
  moreover have t: "advances w (ticked w)" by (rule advances_same) simp_all
  moreover have "Q (fst ?v) w"
    using assms(3) [OF w] assms(4) [OF w] by (auto split: option.split prod.split, metis fst_conv)
  moreover from t w(1) have "grows w (ticked w)" "promised (ticked w)" by simp_all
  ultimately show "grows w (snd ?v) \<and> promised (snd ?v) \<and> Q (fst ?v) (snd ?v)"
    using stableD [OF assms(2), of "fst ?v" w "ticked w"] by (simp only:)
qed

lemma recorded_user:
  assumes "db_ok (w_db w)" and "recorded x w" and "r \<in> set (db_sessions (w_db w))"
    and "s_SessionID r = s_SessionID x"
  shows "s_UserID r = s_UserID x"
proof -
  have keys: "distinct (map s_SessionID (db_sessions (w_db w)))"
    using assms(1) by (simp add: db_ok_def db_keys_def)
  obtain q where "q \<in> set (db_sessions (w_db w))" "session_identity q = session_identity x"
    using assms(2) by (auto simp: recorded_def)
  with find_unique_key [OF keys, of q] find_unique_key [OF keys assms(3)] assms(4)
  show ?thesis by (simp add: session_identity_def)
qed

lemma promised_row:
  assumes "promised w" and "find p (db_sessions (w_db w)) = Some x"
  shows "recorded x w \<and> (settled x \<longrightarrow> user_vouched (s_UserID x) w)"
  using assms by (auto simp: promised_def recorded_def dest!: find_Some_in)

definition known_row :: "error + Session \<Rightarrow> world \<Rightarrow> bool" where
  "known_row r w \<longleftrightarrow>
     (\<forall>x. r = Inr x \<longrightarrow> recorded x w \<and> (settled x \<longrightarrow> user_vouched (s_UserID x) w))"

lemma stable_known_row: "stable grows (known_row r)"
  unfolding known_row_def stable_def using stable_facts by (metis stableD)

lemma GetByID_learns:
  "learns grows promised known_row P (sess_GetByID (sv_sessions (saga_service env cfg)) sid)"
  unfolding session_repository_def saga_service_simps
  by (simp, rule learns_query [OF _ stable_known_row])
    (auto simp: known_row_def sessions_GetByID_def one_def session_row_def promised_row split: option.splits)

lemma completed_kept:
  assumes w: "promised w" and x: "recorded x w" "user_vouched (s_UserID x) w"
    and d: "d = write_status (s_SessionID x) SessionStatusCompleted now (w_db w)"
  shows "grows w ((ticked w)\<lparr>w_db := d\<rparr>) \<and> promised ((ticked w)\<lparr>w_db := d\<rparr>)"
proof -
  let ?w = "(ticked w)\<lparr>w_db := d\<rparr>"
  have g: "grows w ?w"
    using identity.written [of SessionStatusCompleted "w_db w" "s_SessionID x" now] d
    by (simp add: grows_def session_statuses_def contract_sets)
  have facts: "user_vouched u w \<Longrightarrow> user_vouched u ?w" "recorded y w \<Longrightarrow> recorded y ?w" for u y
    using stable_facts g by (blast dest: stableD)+
  have ok: "db_ok (w_db w)" using w by (simp add: promised_def)
  have "db_ok d" using statements_ok(6) [OF ok] d by simp
  moreover have "user_vouched (s_UserID r) ?w" if r: "r \<in> set (db_sessions d)" "settled r" for r
  proof -
    consider q where "q \<in> set (db_sessions (w_db w))" "s_SessionID q = s_SessionID x" "s_UserID r = s_UserID q"
      | "r \<in> set (db_sessions (w_db w))"
      using r d by (auto simp: set_update_rows)
    then show ?thesis
    proof cases
      case 1
      then show ?thesis using recorded_user [OF ok x(1)] x(2) facts by metis
    next
      case 2
      then show ?thesis using w r(2) facts by (auto simp: promised_def)
    qed
  qed
  ultimately show ?thesis using g w facts by (auto simp: promised_def)
qed

lemma complete_learns:
  "learns grows promised (\<lambda>_ _. True) (\<lambda>w. recorded x w \<and> user_vouched (s_UserID x) w)
     (sess_UpdateStatus (sv_sessions (saga_service env cfg)) (s_SessionID x) SessionStatusCompleted)"
proof -
  have "learns grows promised (\<lambda>_ _. True) (\<lambda>w. recorded x w \<and> user_vouched (s_UserID x) w)
     (db_exec env (sessions_UpdateStatus (s_SessionID x) SessionStatusCompleted))"
    unfolding db_exec_def
  proof (rule learns_call)
    fix w assume w: "promised w" "recorded x w \<and> user_vouched (s_UserID x) w"
    show "grows w (snd (case env_db_fault env (w_tick w) of
         Some e \<Rightarrow> (Inl e, ticked w)
       | None \<Rightarrow> (case sessions_UpdateStatus (s_SessionID x) SessionStatusCompleted
                       (env_now env (w_tick w)) (w_db w) of (r, d) \<Rightarrow> (r, (ticked w)\<lparr>w_db := d\<rparr>))))
      \<and> promised (snd (case env_db_fault env (w_tick w) of
         Some e \<Rightarrow> (Inl e, ticked w)
       | None \<Rightarrow> (case sessions_UpdateStatus (s_SessionID x) SessionStatusCompleted
                       (env_now env (w_tick w)) (w_db w) of (r, d) \<Rightarrow> (r, (ticked w)\<lparr>w_db := d\<rparr>)))) \<and> True"
    proof (cases "env_db_fault env (w_tick w)")
      case None
      then show ?thesis
        using completed_kept [OF w(1) _ _ refl] w(2)
        by (simp add: sessions_UpdateStatus_def flip: write_status_def)
    next
      case (Some e)
      then show ?thesis using advances_same [of "ticked w" w] w by simp
    qed
  qed simp
  then show ?thesis
    unfolding session_repository_def saga_service_simps result_error_def
    by (simp, intro learns_bind, assumption) (simp add: learns_Ret_iff)
qed

section \<open>The verification path\<close>

lemma stay:
  "safe advances p \<Longrightarrow> stable grows P \<Longrightarrow> learns grows promised (\<lambda>_. P) P p"
  by (rule safe_learns)

lemma go_complete_learns:
  "learns grows promised (\<lambda>_ _. True) (recorded x)
     (rt_go (sv_rt (saga_service env cfg)) (CompleteEmailVerification x c))"
proof -
  have "grows w (w\<lparr>w_spawned := w_spawned w @ [CompleteEmailVerification x c]\<rparr>)
      \<and> promised (w\<lparr>w_spawned := w_spawned w @ [CompleteEmailVerification x c]\<rparr>)"
    if "promised w" "recorded x w" for w
    using that by (auto simp: promised_def grows_same recorded_def user_vouched_def)
  then show ?thesis
    by (simp add: saga_runtime_def go_def, intro learns_call) simp_all
qed

lemma verify_statuses_advance [safe_intros]:
  "safe advances (sess_UpdateStatus (sv_sessions (saga_service env cfg)) sid SessionStatusVerifyingEmail)"
  "safe advances (sess_UpdateStatus (sv_sessions (saga_service env cfg)) sid SessionStatusActivatingUser)"
  by (auto simp: session_repository_def session_statuses_def contract_sets simp del: updates_written
      intro!: result_error_advances db_exec_advances settles_none_statements)

lemma verify_steps_advance [safe_intros]:
  "safe advances (step_Create (sv_steps (saga_service env cfg)) (step_row sid StepKeyVerifyEmailCode StepStatusInProgress))"
  "safe advances (step_Create (sv_steps (saga_service env cfg)) (step_row sid StepKeyActivateUser StepStatusPending))"
  "st \<in> set step_statuses \<Longrightarrow>
     safe advances (step_UpdateStatus (sv_steps (saga_service env cfg)) sid StepKeyVerifyEmailCode st)"
  "st \<in> set step_statuses \<Longrightarrow>
     safe advances (step_UpdateStatus (sv_steps (saga_service env cfg)) sid StepKeyActivateUser st)"
  by (auto simp: step_repository_def step_row_def step_keys_def verify_keys_def simp del: updates_written
      intro!: result_error_advances db_exec_advances settles_none_statements)

lemma Claim_advances [safe_intros]:
  "safe advances (sess_ClaimCompleted (sv_sessions (saga_service env cfg)) sid)"
  by (auto simp: session_repository_def intro!: db_exec_advances settles_none_statements)

lemma clients_advance [safe_intros]:
  "safe advances (em_VerifyRegistrationEmail (sv_emailChecker (saga_service env cfg)) u c)"
  "safe advances (un_ActivateUser (sv_usernameChecker (saga_service env cfg)) u)"
  by (auto simp: auth_client_def user_client_def intro!: safe_intros)

lemma failEmailVerification_advances [safe_intros]:
  "k \<in> set verify_keys \<Longrightarrow> safe advances (failEmailVerification (saga_service env cfg) x k err)"
  unfolding failEmailVerification_def verify_keys_def
  by (intro safe_intros; (auto simp del: saga_service_simps intro!: safe_intros split: sum.split; fail)?)

lemma announce_completed_advances [safe_intros]:
  "safe advances (announce_completed (saga_service env cfg) x)"
  unfolding announce_completed_def
  by (auto simp del: saga_service_simps intro!: safe_intros split: sum.split)

lemma notify_learns:
  assumes "\<And>w r. promised w \<Longrightarrow> P w \<Longrightarrow> Q r (traced (e (r = None)) (ticked w))" and "\<And>r. stable grows (Q r)"
  shows "learns grows promised Q P (notify f e)"
  unfolding notify_def
proof (rule learns_call [OF _ assms(2)])
  fix w assume w: "promised w" "P w"
  have "advances w (traced (e (f (w_tick w) = None)) (ticked w))" by (rule advances_same) simp_all
  with w assms(1) show "grows w (snd (let r = f (w_tick w) in (r, traced (e (r = None)) (ticked w))))
      \<and> promised (snd (let r = f (w_tick w) in (r, traced (e (r = None)) (ticked w))))
      \<and> Q (fst (let r = f (w_tick w) in (r, traced (e (r = None)) (ticked w))))
          (snd (let r = f (w_tick w) in (r, traced (e (r = None)) (ticked w))))"
    by (simp add: Let_def)
qed

lemma accept_learns:
  "learns grows promised (\<lambda>r w. recorded x w \<and> (r = None \<longrightarrow> code_accepted (s_UserID x) w)) (recorded x)
     (em_VerifyRegistrationEmail (sv_emailChecker (saga_service env cfg)) (s_UserID x) code)"
  by (simp add: auth_client_def, intro notify_learns stable_conj stable_imp stable_facts)
    (auto simp: recorded_def code_accepted_def)

lemma activate_learns:
  "learns grows promised (\<lambda>r w. recorded x w \<and> (r = None \<longrightarrow> user_vouched (s_UserID x) w))
     (\<lambda>w. recorded x w \<and> code_accepted (s_UserID x) w)
     (un_ActivateUser (sv_usernameChecker (saga_service env cfg)) (s_UserID x))"
  by (simp add: user_client_def, intro notify_learns stable_conj stable_imp stable_facts)
    (auto simp: recorded_def user_vouched_def code_accepted_def intro!: activated_vouched)

lemma silently:
  "safe advances p \<Longrightarrow> learns grows promised (\<lambda>_ _. True) P p"
proof -
  assume "safe advances p"
  then have "learns grows promised (\<lambda>_ _. True) (\<lambda>_. True) p" by (rule safe_learns) simp
  then show ?thesis by (rule learns_weaken) simp_all
qed

lemma on_err_stay:
  assumes "safe advances p" and "\<And>e. safe advances (h e)" and "stable grows P"
    and "learns grows promised (\<lambda>_ _. True) P k"
  shows "learns grows promised (\<lambda>_ _. True) P (on_err p h k)"
  by (rule learns_on_err [OF stay [OF assms(1,3)]]) (intro silently assms)+

lemma fail_advances:
  "safe advances (failEmailVerification (saga_service env cfg) x StepKeyVerifyEmailCode err)"
  "safe advances (failEmailVerification (saga_service env cfg) x StepKeyActivateUser err)"
  by (intro safe_intros, simp add: verify_keys_def)+

lemmas verification_steps = on_err_stay [OF _ fail_advances(1)] on_err_stay [OF _ fail_advances(2)]

lemma completeEmailVerification_learns:
  "learns grows promised (\<lambda>_ _. True) (recorded x) (completeEmailVerification (saga_service env cfg) x code)"
proof -
  let ?s = "saga_service env cfg" and ?id = "s_SessionID x" and ?u = "s_UserID x"
  have last: "learns grows promised (\<lambda>_ _. True) (\<lambda>w. recorded x w \<and> user_vouched ?u w)
    (on_err (sess_UpdateStatus (sv_sessions ?s) ?id SessionStatusCompleted)
       (failEmailVerification ?s x StepKeyActivateUser) (announce_completed ?s x))"
    by (rule learns_on_err [OF complete_learns]) (intro silently fail_advances safe_intros)+
  have mid: "learns grows promised (\<lambda>_ _. True) (\<lambda>w. recorded x w \<and> code_accepted ?u w)
     (on_err (un_ActivateUser (sv_usernameChecker ?s) ?u)
       (failEmailVerification ?s x StepKeyActivateUser) p)"
    if "learns grows promised (\<lambda>_ _. True) (\<lambda>w. recorded x w \<and> user_vouched ?u w) p" for p
    by (rule learns_on_err [OF activate_learns]) (auto intro!: silently fail_advances that)
  show ?thesis
    unfolding completeEmailVerification_def
  proof (rule learns_on_err [OF accept_learns], rule silently [OF fail_advances(1)], simp only: simp_thms,
      rule verification_steps(1), goal_cases)
    case 3
    show ?case
      by (rule verification_steps(2) verification_steps(2) [OF _ _ last] mid
        | intro safe_intros stable_conj stable_facts last | simp)+
  qed (intro safe_intros stable_conj stable_facts, simp?)+
qed

lemma unwrap_learns:
  assumes "learns grows promised S P p" and "\<And>e w. promised w \<Longrightarrow> S (Inl e) w \<Longrightarrow> Q (Inl e) w"
    and "\<And>x. learns grows promised Q (S (Inr x)) (k x)"
  shows "learns grows promised Q P (unwrap p (\<lambda>e. Ret (Inl e)) k)"
  using assms by (intro learns_unwrap [OF assms(1)]) (auto simp: learns_Ret_iff)

lemma reload_learns:
  "learns grows promised known_row (\<lambda>w. known_row (Inr x) w) (reload_in_progress (saga_service env cfg) x)"
  unfolding reload_in_progress_def
proof (rule learns_if)
  show "learns grows promised known_row (\<lambda>w. known_row (Inr x) w)
     (on_err (syncSessionStatus (saga_service env cfg) (s_SessionID x)) (\<lambda>err. Ret (Inl err))
        (sess_GetByID (sv_sessions (saga_service env cfg)) (s_SessionID x)))"
    by (rule learns_on_err [OF stay [OF promise.syncSessionStatus stable_known_row]])
      (simp_all only: learns_Ret_iff GetByID_learns, simp add: known_row_def)
qed (simp add: learns_Ret_iff)

lemma begin_verification_learns:
  "learns grows promised (\<lambda>_ _. True) (recorded x) (begin_verification (saga_service env cfg) x code)"
  unfolding begin_verification_def
  by (rule unwrap_learns [OF stay], intro safe_intros, rule stable_facts, simp,
      rule unwrap_learns [OF stay], intro safe_intros, rule stable_facts, simp,
      rule learns_on_err [OF stay], intro safe_intros, rule stable_facts, simp add: learns_Ret_iff,
      rule learns_seq [OF go_complete_learns], simp add: learns_Ret_iff)

lemma VerifyEmail_learns:
  "learns grows promised (\<lambda>_ _. True) P (VerifyEmail (saga_service env cfg) vp)"
  unfolding VerifyEmail_def Let_def
  by (intro learns_if unwrap_learns [OF GetByID_learns] unwrap_learns [OF reload_learns];
      (simp add: learns_Ret_iff; fail)?)
    (rule learns_weaken [OF begin_verification_learns], simp_all add: known_row_def)

section \<open>The status query\<close>

text \<open>A reply that reports a session as completed names a user who is vouched for.\<close>

definition entitled_reply :: "reply \<Rightarrow> world \<Rightarrow> bool" where
  "entitled_reply r w \<longleftrightarrow>
     (case r of
        StatusReply (Inr rs) \<Rightarrow>
          rs_Status rs \<in> {SessionStatusCompleted, SessionStatusTokensClaimed} \<longrightarrow> user_vouched (rs_UserID rs) w
      | _ \<Rightarrow> True)"

lemma GetRegistrationStatus_learns:
  "learns grows promised (\<lambda>r. entitled_reply (StatusReply r)) P (GetRegistrationStatus (saga_service env cfg) sid cid)"
  unfolding GetRegistrationStatus_def Let_def
  by (intro learns_if unwrap_learns [OF GetByID_learns]
        unwrap_learns [OF stay, OF Claim_advances stable_known_row])
    (auto simp: learns_Ret_iff entitled_reply_def registration_status_def known_row_def settled_def)

section \<open>The running system\<close>

definition due :: "goroutine \<Rightarrow> world \<Rightarrow> bool" where
  "due g w \<longleftrightarrow> (case g of CompleteEmailVerification x c \<Rightarrow> recorded x w
     | DispatchStartCommands x i h \<Rightarrow> True)"

lemma stable_entitled_reply: "stable grows (entitled_reply r)"
  unfolding stable_def entitled_reply_def
  by (auto split: reply.split sum.split dest: stableD [OF stable_user_vouched])

lemma stable_due: "stable grows (due g)"
  unfolding stable_def due_def
  by (auto split: goroutine.split dest: stableD [OF stable_recorded])

lemma reply_learns:
  assumes "learns grows promised (\<lambda>_ _. True) P p" and "\<And>x w. entitled_reply (f x) w"
  shows "learns grows promised entitled_reply P (bind p (\<lambda>x. Ret (f x)))"
  by (rule learns_bind [OF assms(1)]) (simp add: learns_Ret_iff assms(2))

lemma served_learns: "learns grows promised entitled_reply (\<lambda>_. True) (serve (saga_service env cfg) req)"
proof (cases req)
  case (StatusRequest sid cid)
  show ?thesis
    unfolding StatusRequest serve_def request.case
    by (rule learns_bind [OF GetRegistrationStatus_learns]) (simp add: learns_Ret_iff)
qed (auto simp del: saga_service_simps simp: serve_def entitled_reply_def
    intro!: reply_learns VerifyEmail_learns silently promise.Start promise.HandleUserCreateResult
      promise.HandleAuthCreatePendingResult promise.HandleMailSendResult)

lemma background_learns: "learns grows promised entitled_reply (due g) (background (saga_service env cfg) g)"
proof (cases g)
  case (CompleteEmailVerification x c)
  then have "due g = recorded x" by (auto simp: due_def)
  then show ?thesis
    unfolding background_def goroutine_body_def CompleteEmailVerification goroutine.case
    by (simp only:) (rule reply_learns [OF completeEmailVerification_learns], simp add: entitled_reply_def)
qed (auto simp del: saga_service_simps simp: background_def goroutine_body_def entitled_reply_def
    intro!: reply_learns silently promise.dispatchStartCommands)

interpretation entitlement: knowledge_contract "saga_service env cfg" grows promised entitled_reply due
  for env cfg
proof unfold_locales
  fix w g
  assume "promised w" "g \<in> set (w_spawned w)"
  then show "due g w" by (auto simp: promised_def due_def split: goroutine.split)
next
  fix w gs ns
  assume "promised w" "set gs \<subseteq> set (w_spawned w)"
  then show "promised (w\<lparr>w_notified := ns, w_spawned := gs\<rparr>)"
    by (simp add: promised_def recorded_def user_vouched_def) blast
qed (auto simp: grows_same stable_entitled_reply stable_due served_learns background_learns
    promised_def start_world_def db_ok_empty [unfolded empty_db_def] empty_db_def)

text \<open>
  C1: Nobody gets tokens without a verified address. Whatever requests arrive, however their
  actions interleave, fail or are cut by crashes: when a session is stored as completed or
  claimed, and when a status query was answered with one of these, the auth service had accepted
  a code for the session's user, and after that the user service had activated the user.
\<close>

theorem completion_needs_verified_email:
  assumes "reachable (saga_service env cfg) x"
  shows "(\<forall>r \<in> set (db_sessions (w_db (sys_world x))).
        s_Status r \<in> {SessionStatusCompleted, SessionStatusTokensClaimed}
          \<longrightarrow> vouched (s_UserID r) (w_trace (sys_world x)))
     \<and> (\<forall>rs. StatusReply (Inr rs) \<in> set (sys_replies x)
          \<and> rs_Status rs \<in> {SessionStatusCompleted, SessionStatusTokensClaimed}
          \<longrightarrow> vouched (rs_UserID rs) (w_trace (sys_world x)))"
proof (intro conjI ballI allI impI)
  show "vouched (s_UserID r) (w_trace (sys_world x))"
    if "r \<in> set (db_sessions (w_db (sys_world x)))"
      "s_Status r \<in> {SessionStatusCompleted, SessionStatusTokensClaimed}" for r
    using entitlement.always(1) [OF assms] that by (auto simp: promised_def settled_def user_vouched_def)
  show "vouched (rs_UserID rs) (w_trace (sys_world x))"
    if "StatusReply (Inr rs) \<in> set (sys_replies x)
      \<and> rs_Status rs \<in> {SessionStatusCompleted, SessionStatusTokensClaimed}" for rs
    using entitlement.always(2) [OF assms, of "StatusReply (Inr rs)"] that
    by (auto simp: entitled_reply_def user_vouched_def)
qed

end
