(* ===== verification/Saga_View.thy ===== *)
theory Saga_View
  imports Invariants
begin

text \<open>
  One session as its database rows show it: its status and the status of each step. While the
  database answers, every statement of the service is an operation on this view; the abstract
  operations are what the result handlers are meant to do, and theory \<open>Result_Handling\<close> shows
  that the handlers implement them.
\<close>

section \<open>The view\<close>

record view =
  v_status :: "string option"
  v_step :: "string \<Rightarrow> string option"

definition view_of :: "string \<Rightarrow> database \<Rightarrow> view" where
  "view_of sid d = \<lparr>v_status = map_option s_Status (session_row d sid),
                    v_step = (\<lambda>k. map_option st_Status (step_at d sid k))\<rparr>"

definition view_write :: "string \<Rightarrow> view \<Rightarrow> view" where
  "view_write st v = v\<lparr>v_status := map_option (\<lambda>_. st) (v_status v)\<rparr>"

text \<open>A step row is overwritten, unless that would take a completed step back to in progress.\<close>

definition view_put :: "string \<Rightarrow> string \<Rightarrow> view \<Rightarrow> view" where
  "view_put k st v = v\<lparr>v_step := (v_step v)(k := map_option
     (\<lambda>old. if old = StepStatusCompleted \<and> st = StepStatusInProgress then old else st) (v_step v k))\<rparr>"

definition aggregate :: "string option list \<Rightarrow> string" where
  "aggregate sts =
     (if Some StepStatusFailed \<in> set sts then SessionStatusFailed
      else if set sts \<subseteq> {None, Some StepStatusCompleted} then SessionStatusCodeSent
      else SessionStatusInProgress)"

definition view_aggregate :: "view \<Rightarrow> string" where
  "view_aggregate v = aggregate (map (v_step v) step_keys)"

definition view_reconcile :: "view \<Rightarrow> view" where
  "view_reconcile v = view_write (view_aggregate v) v"

section \<open>Statements act on the view\<close>

lemma session_row_write:
  "session_row (write_status sid' st now d) sid =
     map_option (\<lambda>r. if s_SessionID r = sid' then set_session_status st now r else r) (session_row d sid)"
  unfolding session_row_def write_status_def update_sessions_def
  by simp (subst find_update_rows, auto)

lemma step_at_write:
  "step_at (write_step sid' k' st now d) sid k =
     map_option (\<lambda>t. if st_SessionID t = sid' \<and> st_StepKey t = k'
         \<and> \<not> (st_Status t = StepStatusCompleted \<and> st = StepStatusInProgress)
       then set_step_status st now t else t) (step_at d sid k)"
  unfolding step_at_def write_step_def update_steps_def
  by simp (subst find_update_rows, auto)

lemma session_row_id: "session_row d sid = Some r \<Longrightarrow> s_SessionID r = sid \<and> r \<in> set (db_sessions d)"
  by (auto simp: session_row_def dest: find_Some_in)

lemma step_at_id: "step_at d sid k = Some t \<Longrightarrow> st_SessionID t = sid \<and> st_StepKey t = k \<and> t \<in> set (db_steps d)"
  by (auto simp: step_at_def dest: find_Some_in)

lemma step_at_other [simp]: "step_at (write_status sid' st now d) sid k = step_at d sid k"
  by (simp add: step_at_def write_status_def update_sessions_def)

lemma session_row_other [simp]: "session_row (write_step sid' k st now d) sid = session_row d sid"
  by (simp add: session_row_def write_step_def update_steps_def)

lemma view_write_status [simp]:
  "view_of sid (write_status sid st now d) = view_write st (view_of sid d)"
  by (auto simp: view_of_def view_write_def session_row_write option.map_comp comp_def
      dest: session_row_id intro!: option.map_cong)

lemma view_write_status_other [simp]:
  "sid' \<noteq> sid \<Longrightarrow> view_of sid (write_status sid' st now d) = view_of sid d"
  by (auto simp: view_of_def session_row_write option.map_comp comp_def
      dest: session_row_id intro!: option.map_cong)

lemma view_write_step [simp]:
  "view_of sid (write_step sid k st now d) = view_put k st (view_of sid d)"
proof -
  have "map_option st_Status (step_at (write_step sid k st now d) sid k') =
      ((\<lambda>k. map_option st_Status (step_at d sid k))(k := map_option
        (\<lambda>old. if old = StepStatusCompleted \<and> st = StepStatusInProgress then old else st)
        (map_option st_Status (step_at d sid k)))) k'" for k'
    by (auto simp: step_at_write option.map_comp comp_def dest: step_at_id intro!: option.map_cong)
  then show ?thesis by (auto simp: view_of_def view_put_def fun_eq_iff)
qed

lemma scan_steps_spec:
  "scan_steps b ts = (if \<exists>t \<in> set ts. st_Status t = StepStatusFailed then None
                      else Some (b \<and> (\<forall>t \<in> set ts. st_Status t = StepStatusCompleted)))"
  by (induction ts arbitrary: b) auto

text \<open>
  With unique keys and legal step keys the aggregate computed from the rows, in whatever order
  they are listed, is the aggregate of the view.
\<close>

lemma steps_of_set: "set (steps_of d sid) = {t \<in> set (db_steps d). st_SessionID t = sid}"
  by (auto simp: steps_of_def)

lemma step_at_unique:
  assumes "db_keys d" and "t \<in> set (db_steps d)"
  shows "step_at d (st_SessionID t) (st_StepKey t) = Some t"
proof -
  have "(\<lambda>r. st_SessionID r = st_SessionID t \<and> st_StepKey r = st_StepKey t)
      = (\<lambda>r. step_key_of r = step_key_of t)"
    by (auto simp: step_key_of_def)
  then show ?thesis
    using assms find_unique_key [of step_key_of "db_steps d" t]
    by (simp add: step_at_def db_keys_def)
qed

lemma aggregate_status_view:
  assumes "db_keys d" and "legal d"
  shows "aggregate_status (steps_of d sid) = view_aggregate (view_of sid d)"
proof -
  have *: "(\<exists>k \<in> set step_keys. v_step (view_of sid d) k = Some st)
      \<longleftrightarrow> (\<exists>t \<in> set (steps_of d sid). st_Status t = st)" for st
    using assms step_at_unique [OF assms(1)]
    by (fastforce simp: view_of_def steps_of_set legal_def dest: step_at_id)
  have **: "(\<forall>k \<in> set step_keys. v_step (view_of sid d) k \<in> {None, Some StepStatusCompleted})
      \<longleftrightarrow> (\<forall>t \<in> set (steps_of d sid). st_Status t = StepStatusCompleted)"
    using assms step_at_unique [OF assms(1)]
    by (fastforce simp: view_of_def steps_of_set legal_def dest: step_at_id)
  have "Some StepStatusFailed \<in> set (map (v_step (view_of sid d)) step_keys)
      \<longleftrightarrow> (\<exists>t \<in> set (steps_of d sid). st_Status t = StepStatusFailed)"
    using * [of StepStatusFailed] by (auto simp: image_iff eq_commute)
  moreover have "set (map (v_step (view_of sid d)) step_keys) \<subseteq> {None, Some StepStatusCompleted}
      \<longleftrightarrow> (\<forall>t \<in> set (steps_of d sid). st_Status t = StepStatusCompleted)"
    using ** by auto
  ultimately show ?thesis
    unfolding aggregate_status_def scan_steps_spec view_aggregate_def aggregate_def by auto
qed

section \<open>While the database answers\<close>

definition db_up :: "environment \<Rightarrow> world \<Rightarrow> bool" where
  "db_up env w \<longleftrightarrow> (\<forall>i. w_tick w \<le> i \<longrightarrow> env_db_fault env i = None)"

definition sound :: "world \<Rightarrow> bool" where
  "sound w \<longleftrightarrow> db_ok (w_db w) \<and> legal (w_db w)"

definition with_db :: "environment \<Rightarrow> (int \<Rightarrow> database \<Rightarrow> database) \<Rightarrow> world \<Rightarrow> world" where
  "with_db env f w = (ticked w)\<lparr>w_db := f (env_now env (w_tick w)) (w_db w)\<rparr>"

lemma with_db_simps [simp]:
  "w_db (with_db env f w) = f (env_now env (w_tick w)) (w_db w)"
  "w_trace (with_db env f w) = w_trace w" "w_notified (with_db env f w) = w_notified w"
  "w_spawned (with_db env f w) = w_spawned w" "w_tick (with_db env f w) = Suc (w_tick w)"
  by (simp_all add: with_db_def)

lemma db_up_simps [simp]:
  "db_up env w \<Longrightarrow> db_up env (ticked w)" "db_up env (traced e w) = db_up env w"
  "db_up env w \<Longrightarrow> db_up env (with_db env f w)"
  "db_up env (w\<lparr>w_notified := ns\<rparr>) = db_up env w" "db_up env (w\<lparr>w_spawned := gs\<rparr>) = db_up env w"
  by (auto simp: db_up_def)

lemma sound_simps [simp]:
  "sound (ticked w) = sound w" "sound (traced e w) = sound w"
  "sound (w\<lparr>w_notified := ns\<rparr>) = sound w" "sound (w\<lparr>w_spawned := gs\<rparr>) = sound w"
  by (simp_all add: sound_def)

lemma sound_write_status [simp]:
  "st \<in> set session_statuses \<Longrightarrow> sound w \<Longrightarrow> sound (with_db env (write_status sid st) w)"
  using statements_ok(6) legality.written by (auto simp: sound_def)

lemma sound_write_step [simp]:
  "k \<in> set step_keys \<Longrightarrow> st \<in> set step_statuses \<Longrightarrow> sound w
   \<Longrightarrow> sound (with_db env (write_step sid k st) w)"
  using statements_ok(7) legality.step_written by (auto simp: sound_def)

lemma reachable_sound: "reachable (saga_service env cfg) x \<Longrightarrow> sound (sys_world x)"
  by (simp add: sound_def reachable_db_ok reachable_legal)

lemma run_db_answered:
  "env_db_fault env (w_tick w) = None \<Longrightarrow> run (db_exec env stmt) w =
     (fst (stmt (env_now env (w_tick w)) (w_db w)),
      with_db env (\<lambda>now d. snd (stmt now d)) w)"
  by (simp add: run_db_exec with_db_def split: prod.split)

lemma run_db_refused:
  "env_db_fault env (w_tick w) = Some e \<Longrightarrow> run (db_exec env stmt) w = (Inl e, ticked w)"
  by (simp add: run_db_exec)

lemma with_db_same: "f (env_now env (w_tick w)) (w_db w) = w_db w \<Longrightarrow> with_db env f w = ticked w"
  by (simp add: with_db_def ticked_def)

lemma run_db_up:
  "db_up env w \<Longrightarrow> run (db_exec env stmt) w =
     (fst (stmt (env_now env (w_tick w)) (w_db w)),
      with_db env (\<lambda>now d. snd (stmt now d)) w)"
  by (simp add: run_db_exec db_up_def with_db_def split: prod.split)

lemma run_UpdateStatus:
  "db_up env w \<Longrightarrow> run (sess_UpdateStatus (session_repository env) sid st) w =
     (None, with_db env (write_status sid st) w)"
  by (simp add: session_repository_def result_error_def run_bind run_db_up)
    (simp add: sessions_UpdateStatus_def)

lemma run_step_UpdateStatus:
  "db_up env w \<Longrightarrow> run (step_UpdateStatus (step_repository env) sid k st) w =
     (None, with_db env (write_step sid k st) w)"
  by (simp add: step_repository_def result_error_def run_bind run_db_up)
    (simp add: steps_UpdateStatus_def)

lemma run_GetByID:
  "db_up env w \<Longrightarrow> run (sess_GetByID (session_repository env) sid) w =
     (one (session_row (w_db w) sid), ticked w)"
  by (simp add: session_repository_def run_db_up sessions_GetByID_def with_db_def ticked_def)

text \<open>A reconciliation of an existing session writes the aggregate of its view.\<close>

lemma run_Reconcile:
  assumes "db_up env w" and "sound w" and "session_row (w_db w) sid = Some r"
  shows "run (db_exec env (sessions_ReconcileStatus sid)) w =
     (Inr (view_aggregate (view_of sid (w_db w))),
      with_db env (write_status sid (view_aggregate (view_of sid (w_db w)))) w)"
proof -
  have "aggregate_status (steps_of (w_db w) sid) = view_aggregate (view_of sid (w_db w))"
    using assms(2) by (intro aggregate_status_view) (auto simp: sound_def db_ok_def)
  with assms show ?thesis
    by (simp add: run_db_up sessions_ReconcileStatus_def Let_def with_db_def write_status_def)
qed

lemma view_aggregate_cases: "view_aggregate v \<in> set saga_statuses"
  by (simp add: view_aggregate_def aggregate_def saga_statuses_def)

lemma view_aggregate_legal [simp]: "view_aggregate v \<in> set session_statuses"
  using view_aggregate_cases by (auto simp: session_statuses_def)

end
