(* ===== verification/Result_Handling.thy ===== *)
theory Result_Handling
  imports Saga_View
begin

text \<open>
  The result handlers against their abstract operations on the view, and what follows: any order
  of the three results leads to the same view, a failure reported by any of them fails the
  session, compensation goes through whatever the other services answer.
\<close>

section \<open>Calls of other services\<close>

definition same_tables :: "environment \<Rightarrow> world \<Rightarrow> world \<Rightarrow> bool" where
  "same_tables env v w \<longleftrightarrow> w_db w = w_db v \<and> w_notified w = w_notified v \<and> w_spawned w = w_spawned v
     \<and> w_tick v \<le> w_tick w"

lemma same_tables_refl: "same_tables env w w"
  by (simp add: same_tables_def)

lemma same_tables_trans: "same_tables env u v \<Longrightarrow> same_tables env v w \<Longrightarrow> same_tables env u w"
  by (simp add: same_tables_def)

lemma same_tables_up: "same_tables env v w \<Longrightarrow> db_up env v \<Longrightarrow> db_up env w"
  by (auto simp: same_tables_def db_up_def)

lemma same_tables_sound: "same_tables env v w \<Longrightarrow> sound w = sound v"
  by (simp add: same_tables_def sound_def)

lemma elsewhere [safe_intros]:
  "safe (same_tables env) (ask f)" "safe (same_tables env) (notify f' e)"
  "safe (same_tables env) (rt_metric (saga_runtime env') m)"
  by (simp_all add: ask_def notify_def saga_runtime_def safe_call_iff same_tables_def Let_def)

lemma notification_elsewhere [safe_intros]:
  "safe (same_tables env) (publishRegistrationNotification (saga_service env' cfg) x et ns ec rt pl)"
  unfolding publishRegistrationNotification_def
  by (auto simp: saga_broker_def intro!: safe_intros split: sum.split)

lemma compensation_elsewhere:
  "safe (same_tables env) (compensation_effects (saga_service env' cfg) x u reason)"
  unfolding compensation_effects_def
  by (auto simp: saga_broker_def auth_client_def user_client_def intro!: safe_intros split: sum.split)

lemma compensation_effects_None:
  "fst (run (compensation_effects (saga_service env cfg) x u reason) w) = None"
  by (auto simp: compensation_effects_def run_simps split: sum.split prod.split)

lemma run_compensation_effects:
  obtains w' where "run (compensation_effects (saga_service env cfg) x u reason) w = (None, w')"
    and "same_tables env w w'"
proof
  let ?r = "run (compensation_effects (saga_service env cfg) x u reason) w"
  show "?r = (None, snd ?r)"
    using compensation_effects_None by (metis prod.collapse)
  show "same_tables env w (snd ?r)"
    by (rule safe_run [OF compensation_elsewhere same_tables_refl same_tables_trans])
qed

section \<open>Compensation\<close>

text \<open>
  While the database answers, compensation of an existing session writes \<open>failed\<close>, returns no
  error, and does nothing else to the tables.
\<close>

lemma run_compensate:
  assumes "db_up env w" and "session_row (w_db w) sid = Some r"
  obtains w' where "run (compensateRegistrationFailure (saga_service env cfg) sid u reason) w = (None, w')"
    and "same_tables env (with_db env (write_status sid SessionStatusFailed) (ticked w)) w'"
proof -
  define w1 where "w1 = with_db env (write_status sid SessionStatusFailed)
    (ticked (traced (Metric IncSagaCompensationStarted) w))"
  obtain w' where w': "run (compensation_effects (saga_service env cfg) r
      (if u = [] then s_UserID r else u) reason) w1 = (None, w')" "same_tables env w1 w'"
    by (rule run_compensation_effects)
  have "run (compensateRegistrationFailure (saga_service env cfg) sid u reason) w = (None, w')"
    using assms w'(1)
    by (simp add: compensateRegistrationFailure_def run_simps run_GetByID run_UpdateStatus one_def
        w1_def Let_def)
  moreover have "same_tables env (with_db env (write_status sid SessionStatusFailed) (ticked w)) w'"
    using w'(2) by (simp add: same_tables_def w1_def)
  ultimately show thesis by (rule that)
qed

lemma session_row_view: "v_status (view_of sid d) = map_option s_Status (session_row d sid)"
  by (simp add: view_of_def)

section \<open>Synchronisation\<close>

definition touches_only :: "string \<Rightarrow> (view \<Rightarrow> view) \<Rightarrow> environment \<Rightarrow> world \<Rightarrow> world \<Rightarrow> bool" where
  "touches_only sid f env v w \<longleftrightarrow>
     view_of sid (w_db w) = f (view_of sid (w_db v))
     \<and> (\<forall>sid'. sid' \<noteq> sid \<longrightarrow> view_of sid' (w_db w) = view_of sid' (w_db v))
     \<and> sound w \<and> db_up env w \<and> w_spawned w = w_spawned v"

lemma view_write_write [simp]: "view_write st (view_write st' v) = view_write st v"
  by (cases "v_status v") (simp_all add: view_write_def)

lemma run_syncSessionStatus:
  assumes up: "db_up env w" and "sound w" and row: "session_row (w_db w) sid = Some r"
  obtains w' where "run (syncSessionStatus (saga_service env cfg) sid) w = (None, w')"
    and "touches_only sid view_reconcile env w w'" and "w_notified w' = w_notified w"
proof -
  define st where "st = view_aggregate (view_of sid (w_db w))"
  define w1 where "w1 = with_db env (write_status sid st) w"
  have rec: "run (db_exec env (sessions_ReconcileStatus sid)) w = (Inr st, w1)"
    unfolding st_def w1_def by (rule run_Reconcile) fact+
  have w1: "touches_only sid view_reconcile env w w1"
    using assms by (simp add: touches_only_def w1_def view_reconcile_def st_def)
  show thesis
  proof (cases "st = SessionStatusFailed")
    case True
    have row1: "session_row (w_db w1) sid = Some (set_session_status st (env_now env (w_tick w)) r)"
      using row by (auto simp: w1_def session_row_write dest: session_row_id)
    have "db_up env w1" using up by (simp add: w1_def)
    then obtain w' where w': "run (compensateRegistrationFailure (saga_service env cfg) sid []
        ''registration step failed'') w1 = (None, w')"
      "same_tables env (with_db env (write_status sid SessionStatusFailed) (ticked w1)) w'"
      using row1 by (rule run_compensate)
    have "touches_only sid view_reconcile env w w'"
      using w1 w'(2) \<open>db_up env w1\<close> True
      by (auto simp: touches_only_def same_tables_def view_reconcile_def st_def sound_def db_up_def
          session_statuses_def saga_statuses_def statements_ok(6) [simplified]
          legality.written [THEN mp])
    moreover have "run (syncSessionStatus (saga_service env cfg) sid) w = (None, w')"
      using rec w'(1) True by (simp add: syncSessionStatus_def session_repository_def run_simps)
    ultimately show thesis
      using that w'(2) by (simp add: same_tables_def w1_def)
  next
    case False
    then have "run (syncSessionStatus (saga_service env cfg) sid) w = (None, w1)"
      using rec by (simp add: syncSessionStatus_def session_repository_def run_simps)
    from that [OF this w1] show thesis by (simp add: w1_def)
  qed
qed

section \<open>Announcing\<close>

lemma run_publishCodeSentIfReady:
  assumes "db_up env w" and "session_row (w_db w) sid = Some r"
  obtains w' where "run (publishCodeSentIfReady (saga_service env cfg) sid payload) w = (None, w')"
    and "w_db w' = w_db w" and "w_spawned w' = w_spawned w" and "db_up env w'"
    and "w_notified w' = (if s_Status r = SessionStatusCodeSent \<and> sid \<notin> set (w_notified w)
                          then sid # w_notified w else w_notified w)"
proof -
  let ?note = "publishRegistrationNotification (saga_service env cfg) r ''registration.code_sent''
      StatusAccepted [] None payload"
  let ?w1 = "(ticked w)\<lparr>w_notified := sid # w_notified w\<rparr>"
  have sent: "same_tables env ?w1 (snd (run ?note ?w1))"
    by (rule safe_run [OF notification_elsewhere same_tables_refl same_tables_trans])
  show thesis
  proof (cases "s_Status r = SessionStatusCodeSent \<and> sid \<notin> set (w_notified w)")
    case True
    then have eq: "run (publishCodeSentIfReady (saga_service env cfg) sid payload) w
        = (None, snd (run ?note ?w1))"
      using assms by (simp add: publishCodeSentIfReady_def saga_broker_def run_simps run_GetByID one_def)
    show thesis
      by (rule that [OF eq]) (use sent True assms(1) same_tables_up [OF sent] in
        \<open>simp_all add: same_tables_def\<close>)
  next
    case False
    then have eq: "run (publishCodeSentIfReady (saga_service env cfg) sid payload) w = (None, ticked w)"
      using assms by (auto simp: publishCodeSentIfReady_def saga_broker_def run_simps run_GetByID one_def)
    show thesis by (rule that [OF eq]) (use False assms(1) in auto)
  qed
qed

section \<open>The abstract operations\<close>

definition view_user :: "bool \<Rightarrow> view \<Rightarrow> view" where
  "view_user ok v =
     (if ok then view_reconcile (view_put StepKeyUserCreateProfile StepStatusCompleted v)
      else view_write SessionStatusFailed (view_put StepKeyUserCreateProfile StepStatusFailed v))"

definition view_auth :: "bool \<Rightarrow> view \<Rightarrow> view" where
  "view_auth ok v =
     (if ok then view_reconcile (view_put StepKeyMailSendVerificationCode StepStatusInProgress
                   (view_put StepKeyAuthCreatePending StepStatusCompleted v))
      else view_write SessionStatusFailed (view_put StepKeyAuthCreatePending StepStatusFailed v))"

definition view_mail :: "bool \<Rightarrow> view \<Rightarrow> view" where
  "view_mail ok v =
     (if ok then view_reconcile (view_put StepKeyMailSendVerificationCode StepStatusCompleted v)
      else view_write SessionStatusFailed (view_put StepKeyMailSendVerificationCode StepStatusFailed v))"

section \<open>Composition\<close>

lemma touches_trans:
  "touches_only sid f env u v \<Longrightarrow> touches_only sid g env v w \<Longrightarrow> touches_only sid (\<lambda>x. g (f x)) env u w"
  by (simp add: touches_only_def)

lemma touches_put:
  assumes "db_up env w" and "sound w" and "k \<in> set step_keys" and "st \<in> set step_statuses"
  shows "touches_only sid (view_put k st) env w (with_db env (write_step sid k st) w)"
proof -
  have "view_of sid' (write_step sid k st now d) = view_of sid' d" if "sid' \<noteq> sid" for sid' now d
    using that by (auto simp: view_of_def step_at_write option.map_comp comp_def fun_eq_iff
        dest: step_at_id intro!: option.map_cong)
  with assms show ?thesis by (simp add: touches_only_def)
qed

lemma touches_same:
  "touches_only sid f env u v \<Longrightarrow> w_db w = w_db v \<Longrightarrow> w_spawned w = w_spawned v \<Longrightarrow> db_up env w
   \<Longrightarrow> touches_only sid f env u w"
  by (simp add: touches_only_def sound_def)

text \<open>A failing result: compensation after the step was marked.\<close>

lemma touches_compensate:
  assumes "db_up env w" and "sound w" and "session_row (w_db w) sid = Some r"
  obtains w' where "run (compensateRegistrationFailure (saga_service env cfg) sid u reason) w = (None, w')"
    and "touches_only sid (view_write SessionStatusFailed) env w w'"
proof -
  obtain w' where w': "run (compensateRegistrationFailure (saga_service env cfg) sid u reason) w = (None, w')"
    "same_tables env (with_db env (write_status sid SessionStatusFailed) (ticked w)) w'"
    using assms(1,3) by (rule run_compensate)
  have "touches_only sid (view_write SessionStatusFailed) env w
      (with_db env (write_status sid SessionStatusFailed) (ticked w))"
    using assms by (simp add: touches_only_def session_statuses_def saga_statuses_def)
  then have "touches_only sid (view_write SessionStatusFailed) env w w'"
    using w'(2) same_tables_up [OF w'(2)] assms(1)
    by (auto simp: same_tables_def intro: touches_same)
  with w'(1) show thesis by (rule that)
qed

text \<open>A successful result: synchronisation and announcement.\<close>

lemma touches_sync:
  assumes "db_up env w" and "sound w" and "session_row (w_db w) sid = Some r"
  obtains v w' where "run (syncSessionStatus (saga_service env cfg) sid) w = (None, v)"
    and "run (publishCodeSentIfReady (saga_service env cfg) sid payload) v = (None, w')"
    and "touches_only sid view_reconcile env w w'"
proof -
  obtain v where v: "run (syncSessionStatus (saga_service env cfg) sid) w = (None, v)"
    "touches_only sid view_reconcile env w v"
    using assms by (rule run_syncSessionStatus)
  then have "map_option s_Status (session_row (w_db v) sid) \<noteq> None"
    using assms(3) by (auto simp: touches_only_def view_of_def view_reconcile_def view_write_def)
  then obtain q where q: "session_row (w_db v) sid = Some q" by auto
  have "db_up env v" using v(2) by (simp add: touches_only_def)
  then obtain w' where "run (publishCodeSentIfReady (saga_service env cfg) sid payload) v = (None, w')"
    "w_db w' = w_db v" "w_spawned w' = w_spawned v" "db_up env w'"
    using q by (rule run_publishCodeSentIfReady)
  with v show thesis using touches_same by (blast intro: that)
qed

lemma touches_traced: "touches_only sid f env u (traced e w) = touches_only sid f env u w"
  by (simp add: touches_only_def)

lemma key_sets [simp]:
  "StepKeyUserCreateProfile \<in> set step_keys" "StepKeyAuthCreatePending \<in> set step_keys"
  "StepKeyMailSendVerificationCode \<in> set step_keys" "StepKeyVerifyEmailCode \<in> set step_keys"
  "StepKeyActivateUser \<in> set step_keys"
  "StepStatusInProgress \<in> set step_statuses" "StepStatusCompleted \<in> set step_statuses"
  "StepStatusFailed \<in> set step_statuses"
  by (simp_all add: step_keys_def start_keys_def verify_keys_def step_statuses_def)

text \<open>A step was marked; the session is still there.\<close>

lemma row_after_step:
  "session_row (w_db w) sid = Some r \<Longrightarrow> session_row (w_db (with_db env (write_step sid k st) w)) sid = Some r"
  by simp

text \<open>A result marks its step; success goes on to synchronise, failure to compensate.\<close>

lemma marked_success:
  assumes "db_up env w" and "sound w" and "session_row (w_db w) sid = Some r" and "k \<in> set step_keys"
  shows "\<exists>v w'. run (syncSessionStatus (saga_service env cfg) sid)
        (with_db env (write_step sid k StepStatusCompleted) w) = (None, v)
    \<and> run (publishCodeSentIfReady (saga_service env cfg) sid payload) v = (None, w')
    \<and> touches_only sid (\<lambda>x. view_reconcile (view_put k StepStatusCompleted x)) env w w'"
proof -
  let ?w1 = "with_db env (write_step sid k StepStatusCompleted) w"
  have w1: "touches_only sid (view_put k StepStatusCompleted) env w ?w1"
    using assms by (intro touches_put) auto
  then have "db_up env ?w1" "sound ?w1" "session_row (w_db ?w1) sid = Some r"
    using assms(3) by (auto simp: touches_only_def)
  then obtain v w' where "run (syncSessionStatus (saga_service env cfg) sid) ?w1 = (None, v)"
    "run (publishCodeSentIfReady (saga_service env cfg) sid payload) v = (None, w')"
    "touches_only sid view_reconcile env ?w1 w'"
    by (rule touches_sync)
  with touches_trans [OF w1] show ?thesis by blast
qed

lemma marked_failure:
  assumes "db_up env w" and "sound w" and "session_row (w_db w) sid = Some r" and "k \<in> set step_keys"
  shows "\<exists>w'. run (compensateRegistrationFailure (saga_service env cfg) sid u reason)
        (with_db env (write_step sid k StepStatusFailed) w) = (None, w')
    \<and> touches_only sid (\<lambda>x. view_write SessionStatusFailed (view_put k StepStatusFailed x)) env w w'"
proof -
  let ?w1 = "with_db env (write_step sid k StepStatusFailed) w"
  have w1: "touches_only sid (view_put k StepStatusFailed) env w ?w1"
    using assms by (intro touches_put) auto
  then have "db_up env ?w1" "sound ?w1" "session_row (w_db ?w1) sid = Some r"
    using assms(3) by (auto simp: touches_only_def)
  then obtain w' where "run (compensateRegistrationFailure (saga_service env cfg) sid u reason) ?w1 = (None, w')"
    "touches_only sid (view_write SessionStatusFailed) env ?w1 w'"
    by (rule touches_compensate)
  with touches_trans [OF w1] show ?thesis by blast
qed

lemma user_result:
  assumes "db_up env w" and "sound w" and "session_row (w_db w) (ucr_SessionID res) = Some r"
    and "ucr_SessionID res \<noteq> []"
  shows "\<exists>w'. run (HandleUserCreateResult (saga_service env cfg) res) w = (None, w')
    \<and> touches_only (ucr_SessionID res) (view_user (ucr_Status res = ''success'')) env w w'"
proof (cases "ucr_Status res = ''success''")
  case True
  then show ?thesis
    using marked_success [OF assms(1-3), of StepKeyUserCreateProfile cfg "[]"] assms
    by (auto simp: HandleUserCreateResult_def observed_def run_simps run_step_UpdateStatus
        touches_traced view_user_def [abs_def] result_step_status_def)
next
  case False
  then show ?thesis
    using marked_failure [OF assms(1-3), of StepKeyUserCreateProfile cfg "ucr_UserID res" "ucr_Error res"]
      assms
    by (auto simp: HandleUserCreateResult_def observed_def run_simps run_step_UpdateStatus
        touches_traced view_user_def [abs_def] result_step_status_def)
qed

lemma auth_result:
  assumes "db_up env w" and "sound w" and "session_row (w_db w) (acr_SessionID res) = Some r"
    and "acr_SessionID res \<noteq> []"
  shows "\<exists>w'. run (HandleAuthCreatePendingResult (saga_service env cfg) res) w = (None, w')
    \<and> touches_only (acr_SessionID res) (view_auth (acr_Status res = ''success'')) env w w'"
proof (cases "acr_Status res = ''success''")
  case True
  let ?sid = "acr_SessionID res"
  let ?w1 = "with_db env (write_step ?sid StepKeyAuthCreatePending StepStatusCompleted) w"
  let ?w2 = "with_db env (write_step ?sid StepKeyMailSendVerificationCode StepStatusInProgress) ?w1"
  have w1: "touches_only ?sid (view_put StepKeyAuthCreatePending StepStatusCompleted) env w ?w1"
    using assms by (intro touches_put) auto
  then have w2: "touches_only ?sid (view_put StepKeyMailSendVerificationCode StepStatusInProgress) env ?w1 ?w2"
    by (intro touches_put) (auto simp: touches_only_def)
  then have "db_up env ?w2" "sound ?w2" "session_row (w_db ?w2) ?sid = Some r"
    using assms(3) by (auto simp: touches_only_def)
  then obtain v w' where "run (syncSessionStatus (saga_service env cfg) ?sid) ?w2 = (None, v)"
    "run (publishCodeSentIfReady (saga_service env cfg) ?sid []) v = (None, w')"
    "touches_only ?sid view_reconcile env ?w2 w'"
    by (rule touches_sync)
  then show ?thesis
    using touches_trans [OF touches_trans [OF w1 w2]] assms True
    by (auto simp: HandleAuthCreatePendingResult_def observed_def run_simps run_step_UpdateStatus
        touches_traced view_auth_def [abs_def] result_step_status_def)
next
  case False
  then show ?thesis
    using marked_failure [OF assms(1-3), of StepKeyAuthCreatePending cfg "acr_UserID res" "acr_Error res"]
      assms
    by (auto simp: HandleAuthCreatePendingResult_def observed_def run_simps run_step_UpdateStatus
        touches_traced view_auth_def [abs_def] result_step_status_def)
qed

text \<open>
  The mail handler publishes the code-sent event before it synchronises: its payload must be
  encoded and the broker must accept it.
\<close>

definition code_sent_deliverable :: "environment \<Rightarrow> NATSConfig \<Rightarrow> bool" where
  "code_sent_deliverable env cfg \<longleftrightarrow> env_jsonMarshal env = json_Marshal
     \<and> (\<forall>i payload. env_publish env i (nc_RegistrationCodeSentSubject cfg) payload = None)"

lemma mail_result:
  assumes "db_up env w" and "sound w" and "session_row (w_db w) (msr_SessionID res) = Some r"
    and "msr_SessionID res \<noteq> []" and "msr_Status res = ''success'' \<Longrightarrow> code_sent_deliverable env cfg"
  shows "\<exists>w'. run (HandleMailSendResult (saga_service env cfg) res) w = (None, w')
    \<and> touches_only (msr_SessionID res) (view_mail (msr_Status res = ''success'')) env w w'"
proof (cases "msr_Status res = ''success''")
  case True
  let ?sid = "msr_SessionID res"
  let ?w1 = "with_db env (write_step ?sid StepKeyMailSendVerificationCode StepStatusCompleted) w"
  obtain payload where payload:
    "ToCodeSentEventPayload (env_jsonMarshal env) (env_now env (w_tick ?w1)) res = Inr payload"
    using assms(5) [OF True] by (simp add: ToCodeSentEventPayload_def code_sent_deliverable_def)
  let ?w2 = "traced (Published (nc_RegistrationCodeSentSubject cfg) payload True) (ticked (ticked ?w1))"
  have w1: "touches_only ?sid (view_put StepKeyMailSendVerificationCode StepStatusCompleted) env w ?w1"
    using assms by (intro touches_put) auto
  then have w2: "touches_only ?sid (view_put StepKeyMailSendVerificationCode StepStatusCompleted) env w ?w2"
    by (rule touches_same) (use assms in auto)
  then have "db_up env ?w2" "sound ?w2" "session_row (w_db ?w2) ?sid = Some r"
    using assms(3) by (auto simp: touches_only_def)
  then obtain v w' where "run (syncSessionStatus (saga_service env cfg) ?sid) ?w2 = (None, v)"
    "run (publishCodeSentIfReady (saga_service env cfg) ?sid payload) v = (None, w')"
    "touches_only ?sid view_reconcile env ?w2 w'"
    by (rule touches_sync)
  then show ?thesis
    using touches_trans [OF w2] assms True payload
    by (auto simp: HandleMailSendResult_def observed_def run_simps run_step_UpdateStatus saga_broker_def
        touches_traced view_mail_def [abs_def] result_step_status_def code_sent_deliverable_def)
next
  case False
  then show ?thesis
    using marked_failure [OF assms(1-3), of StepKeyMailSendVerificationCode cfg "msr_UserID res" "msr_Error res"]
      assms
    by (auto simp: HandleMailSendResult_def observed_def run_simps run_step_UpdateStatus
        touches_traced view_mail_def [abs_def] result_step_status_def)
qed

section \<open>The handlers implement the abstract operations\<close>

text \<open>The session a result is about and what it does to its view.\<close>

definition result_of :: "request \<Rightarrow> (string \<times> (view \<Rightarrow> view)) option" where
  "result_of req =
     (case req of
        UserResult x \<Rightarrow> Some (ucr_SessionID x, view_user (ucr_Status x = ''success''))
      | AuthResult x \<Rightarrow> Some (acr_SessionID x, view_auth (acr_Status x = ''success''))
      | MailResult x \<Rightarrow> Some (msr_SessionID x, view_mail (msr_Status x = ''success''))
      | _ \<Rightarrow> None)"

lemma result_served:
  assumes "result_of req = Some (sid, f)" and "sid \<noteq> []" and "code_sent_deliverable env cfg"
    and "db_up env w" and "sound w" and "session_row (w_db w) sid = Some r"
  shows "\<exists>w'. run (serve (saga_service env cfg) req) w = (Handled None, w')
    \<and> touches_only sid f env w w'"
proof (cases req)
  case (UserResult x)
  with user_result [of env w x r cfg] assms show ?thesis
    by (auto simp: serve_def result_of_def run_simps)
next
  case (AuthResult x)
  with auth_result [of env w x r cfg] assms show ?thesis
    by (auto simp: serve_def result_of_def run_simps)
next
  case (MailResult x)
  with mail_result [of env w x r cfg] assms show ?thesis
    by (auto simp: serve_def result_of_def run_simps)
qed (use assms in \<open>auto simp: result_of_def\<close>)

text \<open>
  C5: While the database answers and the code-sent event can be delivered, serving a user, auth or
  mail result of an existing session, from any reachable or otherwise sound state, replies without
  error and acts on the session's rows exactly as the abstract operation of that result: mark the
  step (never taking a completed step back to in progress), then write the aggregate of the steps,
  or \<open>failed\<close> when the result reports a failure. No other session changes.
\<close>

theorem result_handlers_refine:
  assumes "result_of req = Some (sid, f)" and "sid \<noteq> []" and "code_sent_deliverable env cfg"
    and "db_up env w" and "sound w" and "session_row (w_db w) sid = Some r"
  shows "\<exists>w'. run (serve (saga_service env cfg) req) w = (Handled None, w')
    \<and> view_of sid (w_db w') = f (view_of sid (w_db w))
    \<and> (\<forall>sid'. sid' \<noteq> sid \<longrightarrow> view_of sid' (w_db w') = view_of sid' (w_db w))"
  using result_served [OF assms] by (auto simp: touches_only_def)

section \<open>Sequences of results\<close>

fun serve_each :: "world registrationService \<Rightarrow> request list \<Rightarrow> world \<Rightarrow> reply list \<times> world" where
  "serve_each s [] w = ([], w)"
| "serve_each s (req # reqs) w =
     (case run (serve s req) w of (r, v) \<Rightarrow>
        (case serve_each s reqs v of (rs, w') \<Rightarrow> (r # rs, w')))"

lemma touches_row:
  assumes "touches_only sid f env v w" and "session_row (w_db v) sid = Some r"
    and "\<And>x. v_status (f x) = None \<longleftrightarrow> v_status x = None"
  shows "\<exists>q. session_row (w_db w) sid = Some q"
proof -
  have "v_status (view_of sid (w_db w)) \<noteq> None"
    using assms by (simp add: touches_only_def view_of_def)
  then show ?thesis by (auto simp: view_of_def)
qed

lemma status_kept [simp]:
  "v_status (view_write st v) = None \<longleftrightarrow> v_status v = None"
  "v_status (view_put k st v) = v_status v"
  "v_status (view_reconcile v) = None \<longleftrightarrow> v_status v = None"
  by (auto simp: view_write_def view_put_def view_reconcile_def)

lemma result_status_kept:
  "result_of req = Some (sid, f) \<Longrightarrow> v_status (f x) = None \<longleftrightarrow> v_status x = None"
  by (auto simp: result_of_def view_user_def view_auth_def view_mail_def split: request.splits if_splits)

lemma results_served:
  assumes "list_all2 (\<lambda>req f. result_of req = Some (sid, f)) reqs fs" and "sid \<noteq> []"
    and "code_sent_deliverable env cfg" and "db_up env w" and "sound w"
    and "session_row (w_db w) sid = Some r"
  shows "\<exists>w'. serve_each (saga_service env cfg) reqs w = (replicate (length reqs) (Handled None), w')
    \<and> touches_only sid (fold (\<lambda>f. f) fs) env w w'"
  using assms
proof (induction arbitrary: w r rule: list_all2_induct)
  case Nil
  then show ?case by (simp add: touches_only_def)
next
  case (Cons req reqs f fs)
  obtain v where v: "run (serve (saga_service env cfg) req) w = (Handled None, v)" "touches_only sid f env w v"
    using result_served [OF Cons.hyps(1) Cons.prems] by blast
  then obtain q where "session_row (w_db v) sid = Some q"
    using touches_row Cons.prems(5) result_status_kept [OF Cons.hyps(1)] by blast
  with Cons.IH [of v q] Cons.prems v(2) obtain w' where
    w': "serve_each (saga_service env cfg) reqs v = (replicate (length reqs) (Handled None), w')"
      "touches_only sid (fold (\<lambda>f. f) fs) env v w'"
    by (auto simp: touches_only_def)
  with v touches_trans [OF v(2) w'(2)] show ?case by (simp add: comp_def)
qed

section \<open>Order and redelivery\<close>

lemma view_put_simps [simp]:
  "v_step (view_put k st v) k' = (if k' = k then map_option
     (\<lambda>old. if old = StepStatusCompleted \<and> st = StepStatusInProgress then old else st) (v_step v k)
     else v_step v k')"
  "v_step (view_write st v) = v_step v" "v_step (view_reconcile v) = v_step v"
  by (simp_all add: view_put_def view_write_def view_reconcile_def)

lemma view_reconcile_status:
  "v_status v \<noteq> None \<Longrightarrow> v_status (view_reconcile v) = Some (view_aggregate (view_reconcile v))"
  by (auto simp: view_reconcile_def view_write_def view_aggregate_def)

text \<open>A registration under way: the steps in \<open>done\<close> are completed, none has failed.\<close>

definition under_way :: "string set \<Rightarrow> view \<Rightarrow> bool" where
  "under_way done v \<longleftrightarrow> v_status v \<noteq> None
     \<and> (\<forall>k \<in> set start_keys. v_step v k \<noteq> None \<and> v_step v k \<noteq> Some StepStatusFailed)
     \<and> (\<forall>k \<in> set verify_keys. v_step v k = None)
     \<and> (\<forall>k \<in> done. v_step v k = Some StepStatusCompleted)"

fun success_key :: "request \<Rightarrow> string option" where
  "success_key (UserResult x) = (if ucr_Status x = ''success'' then Some StepKeyUserCreateProfile else None)"
| "success_key (AuthResult x) = (if acr_Status x = ''success'' then Some StepKeyAuthCreatePending else None)"
| "success_key (MailResult x) =
     (if msr_Status x = ''success'' then Some StepKeyMailSendVerificationCode else None)"
| "success_key _ = None"

lemma success_step:
  assumes "result_of req = Some (sid, f)" and "success_key req = Some k"
    and "under_way done v" and "done \<subseteq> set start_keys"
  shows "under_way (insert k done) (f v) \<and> v_status (f v) = Some (view_aggregate (f v))
    \<and> k \<in> set start_keys"
  using assms
  by (cases req)
    (auto simp: result_of_def under_way_def start_keys_def verify_keys_def view_user_def view_auth_def
      view_mail_def view_reconcile_status split: if_splits)

lemma success_steps:
  assumes "list_all2 (\<lambda>req f. result_of req = Some (sid, f)) reqs fs"
    and "\<forall>req \<in> set reqs. success_key req \<noteq> None" and "under_way done v" and "done \<subseteq> set start_keys"
  shows "under_way (done \<union> {k. \<exists>req \<in> set reqs. success_key req = Some k}) (fold (\<lambda>f. f) fs v)
    \<and> (reqs \<noteq> [] \<longrightarrow> v_status (fold (\<lambda>f. f) fs v) = Some (view_aggregate (fold (\<lambda>f. f) fs v)))"
  using assms
proof (induction arbitrary: v "done" rule: list_all2_induct)
  case Nil
  then show ?case by simp
next
  case (Cons req reqs f fs)
  then obtain k where k: "success_key req = Some k" by auto
  from success_step [OF Cons.hyps(1) k Cons.prems(2,3)]
  have f: "under_way (insert k done) (f v)" "v_status (f v) = Some (view_aggregate (f v))"
    "insert k done \<subseteq> set start_keys" using Cons.prems(3) by auto
  have eq: "insert k done \<union> {k. \<exists>req \<in> set reqs. success_key req = Some k}
      = done \<union> {k'. \<exists>r \<in> set (req # reqs). success_key r = Some k'}"
    using k by auto
  show ?case
  proof (cases "reqs = []")
    case True
    then have "fs = []" using Cons.hyps(2) by simp
    with f True eq show ?thesis by (simp add: comp_def)
  next
    case False
    with Cons.IH [OF _ f(1,3)] Cons.prems(1) eq show ?thesis by (simp add: comp_def)
  qed
qed

lemma aggregate_all_done:
  "under_way (set start_keys) v \<Longrightarrow> view_aggregate v = SessionStatusCodeSent"
  by (auto simp: under_way_def view_aggregate_def aggregate_def step_keys_def start_keys_def
      verify_keys_def)

lemma results_done:
  assumes "set reqs = {UserResult u, AuthResult a, MailResult m}"
    and "ucr_SessionID u = sid" and "acr_SessionID a = sid" and "msr_SessionID m = sid" and "sid \<noteq> []"
    and "ucr_Status u = ''success''" and "acr_Status a = ''success''" and "msr_Status m = ''success''"
    and "under_way {} (view_of sid (w_db w))"
    and "code_sent_deliverable env cfg" and "db_up env w" and "sound w"
  shows "\<exists>w'. serve_each (saga_service env cfg) reqs w = (replicate (length reqs) (Handled None), w')
    \<and> v_status (view_of sid (w_db w')) = Some SessionStatusCodeSent
    \<and> under_way (set start_keys) (view_of sid (w_db w')) \<and> w_spawned w' = w_spawned w"
proof -
  define fs where "fs = map (\<lambda>req. snd (the (result_of req))) reqs"
  have "\<forall>req \<in> set reqs. result_of req = Some (sid, snd (the (result_of req)))"
    unfolding assms(1) using assms(2-4) by (simp add: result_of_def)
  then have fs: "list_all2 (\<lambda>req f. result_of req = Some (sid, f)) reqs fs"
    by (simp add: fs_def list_all2_map2 list_all2_same)
  obtain r where "session_row (w_db w) sid = Some r"
    using assms(9) by (auto simp: under_way_def view_of_def)
  from results_served [OF fs assms(5,10-12) this] obtain w' where
    w': "serve_each (saga_service env cfg) reqs w = (replicate (length reqs) (Handled None), w')"
      "touches_only sid (fold (\<lambda>f. f) fs) env w w'" by blast
  have ne: "reqs \<noteq> []" using assms(1) by (metis empty_set insert_not_empty)
  have ok: "\<forall>req \<in> set reqs. success_key req \<noteq> None"
    unfolding assms(1) using assms(6-8) by simp
  have keys: "{k. \<exists>req \<in> set reqs. success_key req = Some k} = set start_keys"
    unfolding assms(1) using assms(6-8) by (auto simp: start_keys_def)
  define v where "v = fold (\<lambda>f. f) fs (view_of sid (w_db w))"
  have v: "view_of sid (w_db w') = v"
    using w'(2) by (simp add: touches_only_def v_def)
  have done_all: "under_way (set start_keys) v" and "v_status v = Some (view_aggregate v)"
    using success_steps [OF fs ok assms(9)] ne keys by (simp_all add: v_def)
  then have "v_status v = Some SessionStatusCodeSent" by (simp add: aggregate_all_done)
  with done_all show ?thesis using w'(1) w'(2) [unfolded touches_only_def] v by blast
qed

text \<open>
  C6: The three successful results may be delivered in any order and any number of times: while
  the database answers and the code-sent event can be delivered, once each of them has been
  handled at least once the session is \<open>code_sent\<close> with its three steps completed, and no handler
  reported an error.
\<close>

theorem results_in_any_order:
  assumes "set reqs = {UserResult u, AuthResult a, MailResult m}"
    and "ucr_SessionID u = sid" and "acr_SessionID a = sid" and "msr_SessionID m = sid" and "sid \<noteq> []"
    and "ucr_Status u = ''success''" and "acr_Status a = ''success''" and "msr_Status m = ''success''"
    and "under_way {} (view_of sid (w_db w))"
    and "code_sent_deliverable env cfg" and "db_up env w" and "sound w"
  shows "\<exists>w'. serve_each (saga_service env cfg) reqs w = (replicate (length reqs) (Handled None), w')
    \<and> v_status (view_of sid (w_db w')) = Some SessionStatusCodeSent
    \<and> (\<forall>k \<in> set start_keys. v_step (view_of sid (w_db w')) k = Some StepStatusCompleted)"
  using results_done [OF assms] unfolding under_way_def by blast

section \<open>Failure\<close>

definition reports_failure :: "request \<Rightarrow> bool" where
  "reports_failure req \<longleftrightarrow> result_of req \<noteq> None \<and> success_key req = None"

definition failed_at :: "string \<Rightarrow> view \<Rightarrow> bool" where
  "failed_at k v \<longleftrightarrow> v_step v k = Some StepStatusFailed \<and> v_status v = Some SessionStatusFailed"

lemma aggregate_failed:
  "k \<in> set step_keys \<Longrightarrow> v_step v k = Some StepStatusFailed \<Longrightarrow> view_aggregate v = SessionStatusFailed"
  unfolding view_aggregate_def aggregate_def by (auto simp: image_iff intro: bexI [of _ k])

lemma result_shape:
  assumes "result_of req = Some (sid, f)"
  shows "(\<exists>x. f v = view_reconcile x \<and> v_status x = v_status v)
    \<or> (\<exists>x. f v = view_write SessionStatusFailed x \<and> v_status x = v_status v)"
proof -
  have put: "v_status (view_put k st v) = v_status v" for k st v by simp
  from assms show ?thesis
    by (cases req; simp add: result_of_def)
      (elim conjE, hypsubst, simp only: view_user_def view_auth_def view_mail_def split: if_split, metis put)+
qed

lemma failed_kept:
  assumes "result_of req = Some (sid, f)" and "failed_at k v"
    and "k \<in> {StepKeyUserCreateProfile, StepKeyAuthCreatePending}" and "success_key req \<noteq> Some k"
  shows "failed_at k (f v)"
proof -
  have "v_step (f v) k = Some StepStatusFailed"
    using assms by (cases req) (auto simp: failed_at_def result_of_def view_user_def view_auth_def
        view_mail_def split: if_splits)
  moreover have "v_status (f v) = Some SessionStatusFailed"
  proof -
    have *: "v_status (view_reconcile x) = Some SessionStatusFailed"
      if "v_status x \<noteq> None" "v_step x k = Some StepStatusFailed" for x
      using that assms(3) view_reconcile_status [of x] aggregate_failed [of k "view_reconcile x"] by auto
    have **: "v_status (view_write st x) = Some st" if "v_status x \<noteq> None" for st x
      using that by (auto simp: view_write_def)
    have old: "v_status v \<noteq> None" "v_step v k = Some StepStatusFailed"
      using assms(2) by (simp_all add: failed_at_def)
    from result_shape [OF assms(1), of v] consider
        (good) x where "f v = view_reconcile x" "v_status x = v_status v"
      | (bad) x where "f v = view_write SessionStatusFailed x" "v_status x = v_status v" by blast
    then show ?thesis
    proof cases
      case good
      with old \<open>v_step (f v) k = Some StepStatusFailed\<close> * [of x] show ?thesis by simp
    next
      case bad
      with old ** [of x SessionStatusFailed] show ?thesis by simp
    qed
  qed
  ultimately show ?thesis by (simp add: failed_at_def)
qed

fun result_key :: "request \<Rightarrow> string option" where
  "result_key (UserResult x) = Some StepKeyUserCreateProfile"
| "result_key (AuthResult x) = Some StepKeyAuthCreatePending"
| "result_key (MailResult x) = Some StepKeyMailSendVerificationCode"
| "result_key _ = None"

lemma failure_fails:
  assumes "result_of req = Some (sid, f)" and "reports_failure req" and "result_key req = Some k"
    and "v_step v k \<noteq> None" and "v_status v \<noteq> None"
  shows "failed_at k (f v)"
  using assms
  by (cases req) (auto simp: result_of_def reports_failure_def failed_at_def view_user_def view_auth_def
      view_mail_def view_write_def view_put_def split: if_splits)

lemma failed_through:
  assumes "list_all2 (\<lambda>req f. result_of req = Some (sid, f)) reqs fs" and "failed_at k v"
    and "k \<in> {StepKeyUserCreateProfile, StepKeyAuthCreatePending}"
    and "\<forall>req \<in> set reqs. success_key req \<noteq> Some k"
  shows "failed_at k (fold (\<lambda>f. f) fs v)"
  using assms
  by (induction arbitrary: v rule: list_all2_induct) (auto simp: failed_kept)

lemma results_list:
  assumes "\<forall>req \<in> set reqs. \<exists>f. result_of req = Some (sid, f)"
  obtains fs where "list_all2 (\<lambda>req f. result_of req = Some (sid, f)) reqs fs"
proof
  show "list_all2 (\<lambda>req f. result_of req = Some (sid, f)) reqs
      (map (\<lambda>req. snd (the (result_of req))) reqs)"
    using assms by (auto simp: list_all2_map2 list_all2_same)
qed

text \<open>
  C9: Once the user or the auth service has reported a failure, the registration stays failed
  whatever other results follow, in any order and number, as long as none of them reports the
  failed step as successful.
\<close>

theorem failure_is_final:
  assumes "result_of req = Some (sid, f)" and "reports_failure req" and "result_key req = Some k"
    and "k \<in> {StepKeyUserCreateProfile, StepKeyAuthCreatePending}"
    and "\<forall>x \<in> set reqs. (\<exists>g. result_of x = Some (sid, g)) \<and> success_key x \<noteq> Some k"
    and "under_way {} (view_of sid (w_db w))" and "sid \<noteq> []"
    and "code_sent_deliverable env cfg" and "db_up env w" and "sound w"
  shows "\<exists>w'. serve_each (saga_service env cfg) (req # reqs) w
        = (replicate (Suc (length reqs)) (Handled None), w')
    \<and> v_status (view_of sid (w_db w')) = Some SessionStatusFailed"
proof -
  obtain fs where fs: "list_all2 (\<lambda>req f. result_of req = Some (sid, f)) reqs fs"
    using results_list [of reqs sid] assms(5) by blast
  then have all: "list_all2 (\<lambda>req f. result_of req = Some (sid, f)) (req # reqs) (f # fs)"
    using assms(1) by simp
  let ?v = "view_of sid (w_db w)"
  obtain r where "session_row (w_db w) sid = Some r"
    using assms(6) by (auto simp: under_way_def view_of_def)
  from results_served [OF all assms(7-10) this] obtain w' where
    w': "serve_each (saga_service env cfg) (req # reqs) w
        = (replicate (Suc (length reqs)) (Handled None), w')"
      "touches_only sid (fold (\<lambda>f. f) (f # fs)) env w w'" by auto
  have "v_step ?v k \<noteq> None" "v_status ?v \<noteq> None"
    using assms(4,6) by (auto simp: under_way_def start_keys_def)
  then have "failed_at k (f ?v)" by (rule failure_fails [OF assms(1-3)])
  then have "failed_at k (fold (\<lambda>f. f) fs (f ?v))"
    using failed_through [OF fs _ assms(4)] assms(5) by blast
  with w' show ?thesis by (auto simp: touches_only_def failed_at_def)
qed

text \<open>
  C37: A mail failure is not final. When the mail service's failure is delivered before the auth
  service's success, the session, already failed and compensated, is put back to in progress by
  the auth handler: it sets the mail step to in progress unless it is completed, and the
  reconciliation that follows no longer sees a failed step.
\<close>

theorem mail_failure_undone:
  assumes "msr_SessionID m = sid" and "msr_Status m \<noteq> ''success''"
    and "acr_SessionID a = sid" and "acr_Status a = ''success''" and "sid \<noteq> []"
    and "under_way {} (view_of sid (w_db w))" and "code_sent_deliverable env cfg"
    and "db_up env w" and "sound w"
  shows "\<exists>v w'. run (serve (saga_service env cfg) (MailResult m)) w = (Handled None, v)
    \<and> v_status (view_of sid (w_db v)) = Some SessionStatusFailed
    \<and> run (serve (saga_service env cfg) (AuthResult a)) v = (Handled None, w')
    \<and> v_status (view_of sid (w_db w')) = Some SessionStatusInProgress"
proof -
  let ?x = "view_of sid (w_db w)"
  obtain r where r: "session_row (w_db w) sid = Some r"
    using assms(6) by (auto simp: under_way_def view_of_def)
  have m: "result_of (MailResult m) = Some (sid, view_mail False)"
    and a: "result_of (AuthResult a) = Some (sid, view_auth True)"
    using assms(1-4) by (simp_all add: result_of_def)
  obtain v where v: "run (serve (saga_service env cfg) (MailResult m)) w = (Handled None, v)"
    "touches_only sid (view_mail False) env w v"
    using result_served [OF m assms(5,7-9) r] by blast
  obtain q where q: "session_row (w_db v) sid = Some q"
    using touches_row [OF v(2) r] result_status_kept [OF m] by blast
  obtain w' where w': "run (serve (saga_service env cfg) (AuthResult a)) v = (Handled None, w')"
    "touches_only sid (view_auth True) env v w'"
    using result_served [OF a assms(5,7) _ _ q] v(2) by (auto simp: touches_only_def)
  have "v_status (view_mail False ?x) = Some SessionStatusFailed"
    using assms(6) by (auto simp: view_mail_def view_write_def under_way_def view_put_def)
  moreover have "v_status (view_auth True (view_mail False ?x)) = Some SessionStatusInProgress"
  proof -
    let ?y = "view_auth True (view_mail False ?x)"
    have steps: "\<forall>k \<in> set step_keys. v_step ?y k \<noteq> Some StepStatusFailed"
      "v_step ?y StepKeyMailSendVerificationCode = Some StepStatusInProgress"
      using assms(6) by (auto simp: view_mail_def view_auth_def under_way_def step_keys_def start_keys_def
          verify_keys_def)
    then have "view_aggregate ?y = SessionStatusInProgress"
      by (auto simp: view_aggregate_def aggregate_def step_keys_def start_keys_def)
    moreover have "v_status ?y = Some (view_aggregate ?y)"
    proof -
      have "v_status ?x \<noteq> None" using assms(6) by (simp add: under_way_def)
      then have "v_status (view_put StepKeyMailSendVerificationCode StepStatusInProgress
          (view_put StepKeyAuthCreatePending StepStatusCompleted (view_mail False ?x))) \<noteq> None"
        by (simp add: view_mail_def del: not_None_eq)
      then show ?thesis unfolding view_auth_def by (simp del: not_None_eq add: view_reconcile_status)
    qed
    ultimately show ?thesis by simp
  qed
  ultimately show ?thesis using v w' by (auto simp: touches_only_def)
qed

end
