(* ===== verification/Start_Flow.thy ===== *)
theory Start_Flow
  imports Result_Handling
begin

text \<open>
  The start use case and the dispatch goroutine, branch by branch: which requests are refused and
  that refusing them touches nothing, which conflicts are reported, what an accepted request
  stores, and what the goroutine does with it. Two behaviours of the code that the domain does not
  ask for are stated as theorems too: a failed session keeps blocking its e-mail address, and a
  start that fails half-way leaves a session nobody will ever drive.
\<close>

section \<open>Refusals\<close>

definition start_error :: "environment \<Rightarrow> StartRegistrationParams \<Rightarrow> domain_error option" where
  "start_error env p =
     (if \<not> env_ParseAddress env (TrimSpace (sp_Email p)) then Some ErrInvalidEmail
      else if TrimSpace (sp_Username p) = [] then Some ErrInvalidUsername
      else if length (TrimSpace (sp_Password p)) < 8 then Some ErrInvalidPassword
      else None)"

text \<open>
  C23: A start request with an unparsable address, a blank user name or a password of fewer than
  eight bytes after trimming is refused with the error of the first of these tests that fails;
  nothing is read or written and no other service is called, only the step metric is recorded.
\<close>

theorem start_refused:
  "start_error env p = Some e \<Longrightarrow>
     run (Start (saga_service env cfg) p) w =
       (Inl (DomainErr e), traced (Metric (ObserveSagaStep ''start'' ''error'')) w)"
  by (auto simp: start_error_def Start_def normalizeStartInput_def observed_def run_simps Let_def
      m_error_def split: if_splits)

section \<open>Accepted input\<close>

definition start_input :: "StartRegistrationParams \<Rightarrow> startInput" where
  "start_input p =
     \<lparr>si_sessionID = TrimSpace (sp_SessionID p), si_email = TrimSpace (sp_Email p),
      si_username = TrimSpace (sp_Username p), si_password = TrimSpace (sp_Password p),
      si_clientID = TrimSpace (sp_ClientID p), si_userID = TrimSpace (sp_UserID p),
      si_firstName = TrimSpace (sp_FirstName p), si_surname = TrimSpace (sp_Surname p)\<rparr>"

lemma start_input_simps [simp]:
  "si_sessionID (start_input p) = TrimSpace (sp_SessionID p)"
  "si_email (start_input p) = TrimSpace (sp_Email p)"
  "si_username (start_input p) = TrimSpace (sp_Username p)"
  "si_password (start_input p) = TrimSpace (sp_Password p)"
  "si_clientID (start_input p) = TrimSpace (sp_ClientID p)"
  "si_userID (start_input p) = TrimSpace (sp_UserID p)"
  by (simp_all add: start_input_def)

lemma run_normalize:
  assumes "start_error env p = None" and "TrimSpace (sp_ClientID p) \<noteq> []"
  shows "run (normalizeStartInput (saga_runtime env) p) w = (Inr (start_input p), w)"
  using assms
  by (auto simp: normalizeStartInput_def start_error_def start_input_def Let_def split: if_splits)

definition email_holder :: "database \<Rightarrow> string \<Rightarrow> Session option" where
  "email_holder d v = latest (filter (\<lambda>r. s_Email r = v) (db_sessions d))"

definition username_holder :: "database \<Rightarrow> string \<Rightarrow> Session option" where
  "username_holder d v = latest (filter (\<lambda>r. s_Username r = v) (db_sessions d))"

lemma latest_in: "latest rs = Some r \<Longrightarrow> r \<in> set rs"
  by (induction rs arbitrary: r) (auto split: option.splits if_splits)

lemma not_found_ok_one [simp]: "not_found_ok (one r) = Inr r"
  by (cases r) (simp_all add: not_found_ok_def one_def)

lemma run_lookups:
  assumes "db_up env w"
  shows "run (sess_GetByEmail (session_repository env) v) w = (one (email_holder (w_db w) v), ticked w)"
    "run (sess_GetByUsername (session_repository env) v) w = (one (username_holder (w_db w) v), ticked w)"
  using assms
  by (simp_all add: session_repository_def run_db_up sessions_GetByEmail_def sessions_GetByUsername_def
      email_holder_def username_holder_def with_db_def ticked_def)

lemma run_lookupIncomplete:
  assumes "db_up env w"
  shows "run (lookupIncompleteConflict (saga_service env cfg) v u) w =
     (Inr (ToIncompleteConflictResult (email_holder (w_db w) v) (username_holder (w_db w) u)),
      ticked (ticked w))"
  using assms
  by (simp add: lookupIncompleteConflict_def run_simps run_lookups)

lemma start_conflict_incomplete_run:
  assumes "db_up env w" and "start_error env p = None" and "TrimSpace (sp_ClientID p) \<noteq> []"
    and "e = taken (email_holder (w_db w) (TrimSpace (sp_Email p)))"
    and "u = taken (username_holder (w_db w) (TrimSpace (sp_Username p)))"
    and "e \<or> u"
  shows "run (Start (saga_service env cfg) p) w =
     (Inr (conflict_result AvailabilityStateIncomplete u e),
      traced (Metric (ObserveSagaStep ''start'' ''success''))
        (traced (Metric IncSagaFailed) (ticked (ticked w))))"
  using assms
  by (auto simp: Start_def observed_def run_simps run_normalize lookupStartConflict_def
      run_lookupIncomplete ToIncompleteConflictResult_def Let_def m_success_def)

lemma start_conflict_completed_run:
  assumes "db_up env w" and "start_error env p = None" and "TrimSpace (sp_ClientID p) \<noteq> []"
    and "\<not> taken (email_holder (w_db w) (TrimSpace (sp_Email p)))"
    and "\<not> taken (username_holder (w_db w) (TrimSpace (sp_Username p)))"
    and "env_ExistsByEmail env (w_tick w + 2) (TrimSpace (sp_Email p)) = Inr e"
    and "env_ExistsByUsername env (w_tick w + 3) (TrimSpace (sp_Username p)) = Inr u"
    and "e \<or> u"
  shows "run (Start (saga_service env cfg) p) w =
     (Inr (conflict_result AvailabilityStateCompleted u e),
      traced (Metric (ObserveSagaStep ''start'' ''success''))
        (traced (Metric IncSagaFailed) (ticked (ticked (ticked (ticked w))))))"
  using assms
  by (auto simp: Start_def observed_def run_simps run_normalize lookupStartConflict_def
      run_lookupIncomplete ToIncompleteConflictResult_def lookupCompletedConflict_def auth_client_def
      user_client_def ToCompletedConflictResult_def Let_def m_success_def eval_nat_numeral)

text \<open>The status test of the conflict lookup.\<close>

lemma taken_iff:
  "taken h \<longleftrightarrow> (\<exists>r. h = Some r \<and> s_Status r \<noteq> SessionStatusFailed \<and> s_Status r \<noteq> SessionStatusCompleted)"
  by (auto simp: taken_def split: option.splits)

text \<open>
  C26: While the database answers, a valid start request whose e-mail or user name belongs to a
  session whose status is neither \<open>failed\<close> nor \<open>completed\<close> is answered with the conflict
  \<open>found_incomplete\<close>, and otherwise, when the auth or the user service knows the e-mail or the name,
  with \<open>found_completed\<close>; the two flags say which of them is taken. In both cases no row is written
  and nothing is dispatched, and in the first no other service is asked. A session whose tokens
  were claimed has neither of the two statuses: although its registration is over, it is reported
  as \<open>found_incomplete\<close>.
\<close>

theorem start_conflicts_reported:
  assumes "db_up env w" and "start_error env p = None" and "TrimSpace (sp_ClientID p) \<noteq> []"
    and "e \<longleftrightarrow> (\<exists>r. email_holder (w_db w) (TrimSpace (sp_Email p)) = Some r
             \<and> s_Status r \<noteq> SessionStatusFailed \<and> s_Status r \<noteq> SessionStatusCompleted)"
    and "u \<longleftrightarrow> (\<exists>r. username_holder (w_db w) (TrimSpace (sp_Username p)) = Some r
             \<and> s_Status r \<noteq> SessionStatusFailed \<and> s_Status r \<noteq> SessionStatusCompleted)"
  shows "(e \<or> u \<longrightarrow> run (Start (saga_service env cfg) p) w =
       (Inr (conflict_result AvailabilityStateIncomplete u e),
        traced (Metric (ObserveSagaStep ''start'' ''success''))
          (traced (Metric IncSagaFailed) (ticked (ticked w)))))
     \<and> (\<not> e \<and> \<not> u
         \<and> env_ExistsByEmail env (w_tick w + 2) (TrimSpace (sp_Email p)) = Inr known_e
         \<and> env_ExistsByUsername env (w_tick w + 3) (TrimSpace (sp_Username p)) = Inr known_u
         \<and> (known_e \<or> known_u) \<longrightarrow> run (Start (saga_service env cfg) p) w =
       (Inr (conflict_result AvailabilityStateCompleted known_u known_e),
        traced (Metric (ObserveSagaStep ''start'' ''success''))
          (traced (Metric IncSagaFailed) (ticked (ticked (ticked (ticked w)))))))"
  using start_conflict_incomplete_run [OF assms(1-3) assms(4,5) [folded taken_iff]]
    start_conflict_completed_run [OF assms(1-3)] assms(4,5) [folded taken_iff]
  by blast

section \<open>An accepted start\<close>

definition new_session :: "startInput \<Rightarrow> int \<Rightarrow> Session" where
  "new_session i now =
     \<lparr>s_SessionID = si_sessionID i, s_ClientID = si_clientID i, s_UserID = si_userID i,
      s_Email = si_email i, s_Username = si_username i, s_Status = SessionStatusStarted,
      s_CreatedAt = now, s_UpdatedAt = now\<rparr>"

definition stored_step :: "string \<Rightarrow> int \<Rightarrow> string \<Rightarrow> Step" where
  "stored_step sid now key = (pending_step sid key)\<lparr>st_CreatedAt := now, st_UpdatedAt := now\<rparr>"

lemma run_step_Create:
  assumes "db_up env w" and "(sid, k) \<notin> step_key_of ` set (db_steps (w_db w))"
  shows "run (step_Create (step_repository env) (pending_step sid k)) w =
     (Inr (stored_step sid (env_now env (w_tick w)) k),
      with_db env (\<lambda>now. insert_step (stored_step sid now k)) w)"
  using assms
  by (auto simp: step_repository_def run_db_up steps_Create_def Let_def stored_step_def
      pending_step_def with_db_def insert_step_def step_key_of_def image_iff)

definition free_to_start :: "environment \<Rightarrow> startInput \<Rightarrow> world \<Rightarrow> bool" where
  "free_to_start env i w \<longleftrightarrow>
     (\<forall>r \<in> set (db_sessions (w_db w)). s_SessionID r \<noteq> si_sessionID i
        \<and> s_Email r \<noteq> si_email i \<and> s_Username r \<noteq> si_username i)
     \<and> (\<forall>t \<in> set (db_steps (w_db w)). st_SessionID t \<noteq> si_sessionID i)
     \<and> (\<forall>j. env_ExistsByEmail env j (si_email i) = Inr False)
     \<and> (\<forall>j. env_ExistsByUsername env j (si_username i) = Inr False)"

lemma run_free_lookup:
  assumes "db_up env w" and "free_to_start env i w"
  shows "run (lookupStartConflict (saga_service env cfg) (si_email i) (si_username i)) w
     = (Inr None, (ticked ^^ 4) w)"
proof -
  have "filter (\<lambda>r. s_Email r = si_email i) (db_sessions (w_db w)) = []"
    "filter (\<lambda>r. s_Username r = si_username i) (db_sessions (w_db w)) = []"
    using assms(2) by (auto simp: free_to_start_def filter_empty_conv)
  then have "email_holder (w_db w) (si_email i) = None" "username_holder (w_db w) (si_username i) = None"
    by (simp_all add: email_holder_def username_holder_def)
  then show ?thesis
    using assms by (auto simp: lookupStartConflict_def run_simps run_lookupIncomplete
        ToIncompleteConflictResult_def taken_def lookupCompletedConflict_def auth_client_def
        user_client_def free_to_start_def ToCompletedConflictResult_def eval_nat_numeral)
qed

lemma ticked_funpow [simp]:
  "w_db ((ticked ^^ n) w) = w_db w" "w_trace ((ticked ^^ n) w) = w_trace w"
  "w_spawned ((ticked ^^ n) w) = w_spawned w" "w_notified ((ticked ^^ n) w) = w_notified w"
  "w_tick ((ticked ^^ n) w) = n + w_tick w" "db_up env w \<Longrightarrow> db_up env ((ticked ^^ n) w)"
  by (induction n) auto

lemma stored_step_key [simp]: "step_key_of (stored_step sid now k) = (sid, k)"
  by (simp add: stored_step_def pending_step_def step_key_of_def)

definition start_tables :: "environment \<Rightarrow> startInput \<Rightarrow> world \<Rightarrow> world" where
  "start_tables env i w =
     with_db env (\<lambda>now. insert_step (stored_step (si_sessionID i) now StepKeyMailSendVerificationCode))
     (with_db env (\<lambda>now. insert_step (stored_step (si_sessionID i) now StepKeyAuthCreatePending))
     (with_db env (\<lambda>now. insert_step (stored_step (si_sessionID i) now StepKeyUserCreateProfile))
     (with_db env (\<lambda>now. insert_session (new_session i now)) w)))"

lemma run_createSteps:
  assumes "db_up env w" and "\<forall>t \<in> set (db_steps (w_db w)). st_SessionID t \<noteq> sid"
  shows "run (createStartSteps (saga_service env cfg) sid) w = (None,
     with_db env (\<lambda>now. insert_step (stored_step sid now StepKeyMailSendVerificationCode))
     (with_db env (\<lambda>now. insert_step (stored_step sid now StepKeyAuthCreatePending))
     (with_db env (\<lambda>now. insert_step (stored_step sid now StepKeyUserCreateProfile)) w)))"
proof -
  have old: "(sid, k) \<notin> step_key_of ` set (db_steps (w_db w))" for k
    using assms(2) by (auto simp: step_key_of_def)
  show ?thesis
    using assms(1) old
    by (simp add: createStartSteps_def run_simps run_step_Create)
qed

text \<open>
  Ids the request does not carry are generated: the client id with the input, the session and user
  ids after the lookups. (The gRPC API never passes the last two.)
\<close>

definition input_of :: "environment \<Rightarrow> StartRegistrationParams \<Rightarrow> world \<Rightarrow> startInput \<times> world" where
  "input_of env p w =
     (if TrimSpace (sp_ClientID p) = []
      then ((start_input p)\<lparr>si_clientID := env_uuid env (w_tick w)\<rparr>, ticked w)
      else (start_input p, w))"

definition with_ids :: "environment \<Rightarrow> startInput \<Rightarrow> world \<Rightarrow> startInput \<times> world" where
  "with_ids env i w =
     (let (sid, w1) = (if si_sessionID i = [] then (env_uuid env (w_tick w), ticked w) else (si_sessionID i, w));
          (uid, w2) = (if si_userID i = [] then (env_uuid env (w_tick w1), ticked w1) else (si_userID i, w1))
      in (i\<lparr>si_sessionID := sid, si_userID := uid\<rparr>, w2))"

lemma with_ids_run:
  "with_ids env n w = (i, w1) \<Longrightarrow> db_up env w \<Longrightarrow>
     w_db w1 = w_db w \<and> w_trace w1 = w_trace w \<and> w_spawned w1 = w_spawned w \<and> db_up env w1
     \<and> si_email i = si_email n \<and> si_username i = si_username n \<and> si_clientID i = si_clientID n
     \<and> run (createStartSession (saga_service env cfg) n) w
       = run (sess_Create (session_repository env)
           \<lparr>s_SessionID = si_sessionID i, s_ClientID = si_clientID i, s_UserID = si_userID i,
            s_Email = si_email i, s_Username = si_username i, s_Status = SessionStatusStarted,
            s_CreatedAt = 0, s_UpdatedAt = 0\<rparr>) w1"
  by (auto simp: with_ids_def createStartSession_def or_uuid_def run_bind Let_def split: if_splits)

lemma input_of_run:
  "input_of env p w = (n, w0) \<Longrightarrow> start_error env p = None \<Longrightarrow>
     run (normalizeStartInput (saga_runtime env) p) w = (Inr n, w0) \<and> w_db w0 = w_db w
     \<and> w_trace w0 = w_trace w \<and> w_spawned w0 = w_spawned w \<and> (db_up env w \<longrightarrow> db_up env w0)
     \<and> si_password n = TrimSpace (sp_Password p)"
  by (auto simp: input_of_def normalizeStartInput_def start_error_def start_input_def Let_def run_bind
      split: if_splits)

lemma start_run:
  assumes "db_up env w" and "start_error env p = None"
    and "input_of env p w = (n, w0)" and "with_ids env n ((ticked ^^ 4) w0) = (i, w1)"
    and "free_to_start env i w"
    and "\<And>j. env_bcrypt env j (TrimSpace (sp_Password p)) = Inr hash"
  shows "\<exists>w' session. run (Start (saga_service env cfg) p) w =
       (Inr \<lparr>sr_SessionID = si_sessionID i, sr_ClientID = si_clientID i,
             sr_UserID = si_userID i, sr_Status = SessionStatusStarted,
             sr_ConflictState = [], sr_UsernameTaken = False, sr_EmailTaken = False\<rparr>, w')
     \<and> session = new_session i (env_now env (w_tick w1))
     \<and> db_sessions (w_db w') = db_sessions (w_db w) @ [session]
     \<and> db_steps (w_db w') = db_steps (w_db w)
         @ [stored_step (si_sessionID i) (env_now env (w_tick w1 + 1)) StepKeyUserCreateProfile,
            stored_step (si_sessionID i) (env_now env (w_tick w1 + 2)) StepKeyAuthCreatePending,
            stored_step (si_sessionID i) (env_now env (w_tick w1 + 3)) StepKeyMailSendVerificationCode]
     \<and> w_spawned w' = w_spawned w @ [DispatchStartCommands session n hash]
     \<and> w_trace w' = w_trace w @ [Metric IncSagaStarted, Metric (SetSagaActiveSessions 1),
         Metric (ObserveSagaStep ''start'' ''success'')]
     \<and> db_up env w'"
proof -
  let ?S = "saga_service env cfg" and ?w4 = "(ticked ^^ 4) w0"
  let ?session = "new_session i (env_now env (w_tick w1))"
  let ?w5 = "with_db env (\<lambda>now. insert_session (new_session i now)) w1"
  note w0 = input_of_run [OF assms(3,2)]
  then have up0: "db_up env w0" and up4: "db_up env ?w4" using assms(1) by simp_all
  note w1 = with_ids_run [OF assms(4) up4, of cfg]
  have lookup: "run (lookupStartConflict ?S (si_email n) (si_username n)) w0 = (Inr None, ?w4)"
    using run_free_lookup [OF up0, of i cfg] assms(5) w0 w1 by (simp add: free_to_start_def)
  have created: "run (createStartSession ?S n) ?w4 = (Inr ?session, ?w5)"
    using assms(5) w0 w1 by (simp add: session_repository_def run_db_up sessions_Create_def Let_def
        free_to_start_def new_session_def with_db_def insert_session_def)
  have steps: "run (createStartSteps ?S (si_sessionID i)) ?w5 = (None, start_tables env i w1)"
    using assms(5) w0 w1 by (subst run_createSteps) (auto simp: free_to_start_def start_tables_def)
  have fields: "s_SessionID ?session = si_sessionID i" "s_ClientID ?session = si_clientID i"
    "s_UserID ?session = si_userID i" "s_Status ?session = SessionStatusStarted"
    by (simp_all add: new_session_def)
  have "run (Start ?S p) w =
      (Inr \<lparr>sr_SessionID = si_sessionID i, sr_ClientID = si_clientID i,
             sr_UserID = si_userID i, sr_Status = SessionStatusStarted,
             sr_ConflictState = [], sr_UsernameTaken = False, sr_EmailTaken = False\<rparr>,
       traced (Metric (ObserveSagaStep ''start'' ''success'')) (traced (Metric (SetSagaActiveSessions 1))
         (traced (Metric IncSagaStarted) ((ticked (start_tables env i w1))\<lparr>w_spawned :=
            w_spawned w @ [DispatchStartCommands ?session n hash]\<rparr>))))"
    using assms(6) created steps lookup w0 w1
    by (simp add: Start_def observed_def run_bind run_unwrap run_on_err run_seq run_go
        fields hashStartPassword_def m_success_def start_tables_def)
  then show ?thesis
    using w0 w1 by (simp add: start_tables_def insert_session_def insert_step_def eval_nat_numeral)
qed

text \<open>
  C22: An accepted start, while the database answers, stores one session row with status
  \<open>started\<close> and the trimmed input, and the three pending steps, in that order; ids the request
  does not carry are generated. It starts one goroutine with the session, the input and the
  password hash, and replies with the session's ids and status. It publishes nothing and calls no
  other service but the two availability checks.
\<close>

theorem start_accepted:
  assumes "db_up env w" and "start_error env p = None"
    and "input_of env p w = (n, w0)" and "with_ids env n ((ticked ^^ 4) w0) = (i, w1)"
    and "free_to_start env i w"
    and "\<And>j. env_bcrypt env j (TrimSpace (sp_Password p)) = Inr hash"
  shows "\<exists>w' session. run (Start (saga_service env cfg) p) w =
       (Inr \<lparr>sr_SessionID = si_sessionID i, sr_ClientID = si_clientID i,
             sr_UserID = si_userID i, sr_Status = SessionStatusStarted,
             sr_ConflictState = [], sr_UsernameTaken = False, sr_EmailTaken = False\<rparr>, w')
     \<and> session = new_session i (env_now env (w_tick w1))
     \<and> db_sessions (w_db w') = db_sessions (w_db w) @ [session]
     \<and> db_steps (w_db w') = db_steps (w_db w)
         @ [stored_step (si_sessionID i) (env_now env (w_tick w1 + 1)) StepKeyUserCreateProfile,
            stored_step (si_sessionID i) (env_now env (w_tick w1 + 2)) StepKeyAuthCreatePending,
            stored_step (si_sessionID i) (env_now env (w_tick w1 + 3)) StepKeyMailSendVerificationCode]
     \<and> w_spawned w' = w_spawned w @ [DispatchStartCommands session n hash]
     \<and> w_trace w' = w_trace w @ [Metric IncSagaStarted, Metric (SetSagaActiveSessions 1),
         Metric (ObserveSagaStep ''start'' ''success'')]"
  using start_run [OF assms, of cfg] by blast

section \<open>Half-way failures\<close>

text \<open>
  C39: When the database refuses the first step row, the session row is already stored: the
  request fails, no goroutine is started, and the session stays \<open>started\<close> with no step. Every later
  start with the same e-mail is then answered with the conflict \<open>found_incomplete\<close>.
\<close>

theorem start_leaves_orphan:
  assumes "start_error env p = None" and "free_to_start env (start_input p) w"
    and "TrimSpace (sp_ClientID p) \<noteq> []" and "TrimSpace (sp_SessionID p) \<noteq> []"
    and "TrimSpace (sp_UserID p) \<noteq> []"
    and "\<And>i. env_db_fault env i = (if i = w_tick w + 5 then Some err else None)"
  shows "\<exists>w'. run (Start (saga_service env cfg) p) w = (Inl err, w')
     \<and> db_sessions (w_db w') = db_sessions (w_db w)
         @ [new_session (start_input p) (env_now env (w_tick w + 4))]
     \<and> db_steps (w_db w') = db_steps (w_db w) \<and> w_spawned w' = w_spawned w
     \<and> (\<exists>u. fst (run (Start (saga_service env cfg) p) w')
           = Inr (conflict_result AvailabilityStateIncomplete u True))"
proof -
  let ?i = "start_input p" and ?sid = "TrimSpace (sp_SessionID p)"
  let ?S = "saga_service env cfg" and ?w4 = "(ticked ^^ 4) w"
  let ?session = "new_session ?i (env_now env (4 + w_tick w))"
  define w5 where "w5 = with_db env (\<lambda>now. insert_session (new_session ?i now)) ?w4"
  define w' where "w' = traced (Metric (ObserveSagaStep ''start'' ''error'')) (ticked w5)"
  have answered: "env_db_fault env i = None" if "i \<noteq> w_tick w + 5" for i
    using assms(6) that by simp
  have nobody: "email_holder (w_db w) (si_email ?i) = None" "username_holder (w_db w) (si_username ?i) = None"
    using assms(2) by (auto simp: email_holder_def username_holder_def free_to_start_def filter_empty_conv)
  have lookup: "run (lookupStartConflict ?S (si_email ?i) (si_username ?i)) w = (Inr None, ?w4)"
    using assms(2) nobody
    by (simp add: lookupStartConflict_def lookupIncompleteConflict_def run_bind run_unwrap
        session_repository_def run_db_answered answered sessions_GetByEmail_def
        sessions_GetByUsername_def email_holder_def [symmetric] username_holder_def [symmetric]
        ToIncompleteConflictResult_def taken_def lookupCompletedConflict_def auth_client_def
        user_client_def free_to_start_def ToCompletedConflictResult_def eval_nat_numeral
        with_db_same)
  have created: "run (createStartSession ?S ?i) ?w4 = (Inr ?session, w5)"
    using assms(2,4,5)
    by (auto simp: createStartSession_def or_uuid_def run_bind session_repository_def run_db_answered
        answered sessions_Create_def Let_def new_session_def with_db_def insert_session_def
        free_to_start_def w5_def)
  have refused: "run (createStartSteps ?S ?sid) w5 = (Some err, ticked w5)"
    using assms(6)
    by (simp add: createStartSteps_def run_unwrap step_repository_def run_db_refused w5_def)
  have fields: "s_SessionID ?session = ?sid" by (simp add: new_session_def)
  have first: "run (Start ?S p) w = (Inl err, w')"
    using lookup created refused assms(1,3)
    by (simp add: Start_def observed_def run_bind run_unwrap run_on_err run_seq run_normalize
        fields m_error_def w'_def)
  have "email_holder (w_db w') (si_email ?i) = Some ?session"
    using assms(2) by (auto simp: w'_def w5_def email_holder_def free_to_start_def new_session_def
        filter_empty_conv [THEN iffD2])
  then have "taken (email_holder (w_db w') (TrimSpace (sp_Email p)))"
    by (simp add: taken_def new_session_def)
  moreover have "db_up env w'"
    using assms(6) by (simp add: db_up_def w'_def w5_def)
  ultimately have "fst (run (Start ?S p) w') = Inr (conflict_result AvailabilityStateIncomplete
      (taken (username_holder (w_db w') (TrimSpace (sp_Username p)))) True)"
    using assms(1,3) by (subst start_conflict_incomplete_run) auto
  with first show ?thesis by (auto simp: w'_def w5_def add.commute [of "w_tick w"])
qed

text \<open>
  C38: A failed registration keeps its e-mail address: the conflict lookup lets a new start with
  that address pass, but the unique index on the sessions table refuses the row, so the request
  fails with the database's error and no session is created.
\<close>

theorem failed_email_cannot_restart:
  assumes "db_up env w" and "start_error env p = None"
    and "TrimSpace (sp_ClientID p) \<noteq> []" and "TrimSpace (sp_SessionID p) \<noteq> []"
    and "TrimSpace (sp_UserID p) \<noteq> []"
    and "email_holder (w_db w) (TrimSpace (sp_Email p)) = Some r" and "s_Status r = SessionStatusFailed"
    and "username_holder (w_db w) (TrimSpace (sp_Username p)) = None"
    and "\<forall>q \<in> set (db_sessions (w_db w)). s_SessionID q \<noteq> TrimSpace (sp_SessionID p)"
    and "\<And>j. env_ExistsByEmail env j (TrimSpace (sp_Email p)) = Inr False"
    and "\<And>j. env_ExistsByUsername env j (TrimSpace (sp_Username p)) = Inr False"
  shows "\<exists>w'. run (Start (saga_service env cfg) p) w
       = (Inl (UniqueViolation ''registration_sessions_email_idx''), w') \<and> w_db w' = w_db w
     \<and> w_spawned w' = w_spawned w"
proof -
  have "r \<in> set (filter (\<lambda>q. s_Email q = TrimSpace (sp_Email p)) (db_sessions (w_db w)))"
    using assms(6) latest_in unfolding email_holder_def by blast
  then have row: "\<exists>q \<in> set (db_sessions (w_db w)). s_Email q = TrimSpace (sp_Email p)" by auto
  have lookup: "run (lookupStartConflict (saga_service env cfg) (TrimSpace (sp_Email p))
      (TrimSpace (sp_Username p))) w = (Inr None, (ticked ^^ 4) w)"
    using assms by (auto simp: lookupStartConflict_def run_simps run_lookupIncomplete
        ToIncompleteConflictResult_def taken_def lookupCompletedConflict_def auth_client_def
        user_client_def ToCompletedConflictResult_def eval_nat_numeral)
  have "run (createStartSession (saga_service env cfg) (start_input p)) ((ticked ^^ 4) w)
      = (Inl (UniqueViolation ''registration_sessions_email_idx''), (ticked ^^ 5) w)"
    using assms(1,3-5,9) row
    by (simp add: createStartSession_def or_uuid_def run_bind session_repository_def run_db_up
        sessions_Create_def Let_def with_db_same eval_nat_numeral)
  with lookup assms show ?thesis
    by (simp add: Start_def observed_def run_bind run_unwrap run_seq run_normalize)
qed

end
