(* ===== verification/Verification_Flow.thy ===== *)
theory Verification_Flow
  imports Start_Flow
begin

text \<open>
  The dispatch goroutine, the verification command with its goroutine, and the status query,
  branch by branch, while the database answers.
\<close>

section \<open>Dispatch\<close>

definition user_command :: "environment \<Rightarrow> Session \<Rightarrow> startInput \<Rightarrow> bytes option" where
  "user_command env x i =
     (case ToUserCreateCommandPayload (env_jsonMarshal env) x (si_firstName i) (si_surname i) of
        Inl _ \<Rightarrow> None | Inr payload \<Rightarrow> Some payload)"

definition auth_command :: "environment \<Rightarrow> Session \<Rightarrow> startInput \<Rightarrow> string \<Rightarrow> bytes option" where
  "auth_command env x i h =
     (case ToAuthCreatePendingCommandPayload (env_jsonMarshal env) x (si_email i) h of
        Inl _ \<Rightarrow> None | Inr payload \<Rightarrow> Some payload)"

definition in_progress_view :: "view \<Rightarrow> view" where
  "in_progress_view v = view_put StepKeyAuthCreatePending StepStatusInProgress
     (view_put StepKeyUserCreateProfile StepStatusInProgress (view_write SessionStatusInProgress v))"

lemma touches_write:
  assumes "db_up env w" and "sound w" and "st \<in> set session_statuses"
  shows "touches_only sid (view_write st) env w (with_db env (write_status sid st) w)"
  using assms by (simp add: touches_only_def)

lemma status_sets [simp]:
  "SessionStatusInProgress \<in> set session_statuses" "SessionStatusCodeSent \<in> set session_statuses"
  "SessionStatusFailed \<in> set session_statuses" "SessionStatusVerifyingEmail \<in> set session_statuses"
  "SessionStatusActivatingUser \<in> set session_statuses" "SessionStatusCompleted \<in> set session_statuses"
  by (simp_all add: session_statuses_def saga_statuses_def verify_statuses_def)

lemma touches_up: "touches_only sid f env v w \<Longrightarrow> db_up env w" "touches_only sid f env v w \<Longrightarrow> sound w"
  by (simp_all add: touches_only_def)

definition marked_in_progress :: "environment \<Rightarrow> string \<Rightarrow> world \<Rightarrow> world" where
  "marked_in_progress env sid w =
     with_db env (write_step sid StepKeyAuthCreatePending StepStatusInProgress)
       (with_db env (write_step sid StepKeyUserCreateProfile StepStatusInProgress)
         (with_db env (write_status sid SessionStatusInProgress) w))"

lemma run_markStartInProgress:
  "db_up env w \<Longrightarrow> run (markStartInProgress (saga_service env cfg) sid) w
     = (None, marked_in_progress env sid w)"
  by (simp add: markStartInProgress_def run_on_err run_UpdateStatus run_step_UpdateStatus
      marked_in_progress_def)

lemma marked_in_progress_simps [simp]:
  "w_trace (marked_in_progress env sid w) = w_trace w"
  "w_notified (marked_in_progress env sid w) = w_notified w"
  "w_spawned (marked_in_progress env sid w) = w_spawned w"
  by (simp_all add: marked_in_progress_def)

lemma touches_marked:
  assumes "db_up env w" and "sound w"
  shows "touches_only sid in_progress_view env w (marked_in_progress env sid w)"
proof -
  let ?w1 = "with_db env (write_status sid SessionStatusInProgress) w"
  let ?w2 = "with_db env (write_step sid StepKeyUserCreateProfile StepStatusInProgress) ?w1"
  have 1: "touches_only sid (view_write SessionStatusInProgress) env w ?w1"
    using assms by (intro touches_write) auto
  have 2: "touches_only sid (view_put StepKeyUserCreateProfile StepStatusInProgress) env ?w1 ?w2"
    using touches_up [OF 1] by (intro touches_put) auto
  have 3: "touches_only sid (view_put StepKeyAuthCreatePending StepStatusInProgress) env ?w2
      (marked_in_progress env sid w)"
    unfolding marked_in_progress_def using touches_up [OF 2] by (intro touches_put) auto
  show ?thesis
    using touches_trans [OF touches_trans [OF 1 2] 3] by (simp add: in_progress_view_def [abs_def])
qed

lemma dispatch_run:
  assumes "db_up env w" and "sound w" and "user_command env x i = Some pu"
    and "auth_command env x i h = Some pa"
    and "\<And>j. env_publish env j (nc_UserCreateSubject cfg) pu = None"
    and "\<And>j. env_publish env j (nc_AuthCreatePendingSubject cfg) pa = None"
  shows "\<exists>w'. run (dispatchStartCommands (saga_service env cfg) x i h) w = ((), w')
     \<and> touches_only (s_SessionID x) in_progress_view env w w'
     \<and> w_trace w' = w_trace w @ [Published (nc_UserCreateSubject cfg) pu True,
                                Published (nc_AuthCreatePendingSubject cfg) pa True]"
proof -
  let ?w1 = "marked_in_progress env (s_SessionID x) w"
  have "touches_only (s_SessionID x) in_progress_view env w ?w1"
    using assms(1,2) by (rule touches_marked)
  then have "touches_only (s_SessionID x) in_progress_view env w
      (traced (Published (nc_AuthCreatePendingSubject cfg) pa True)
        (ticked (traced (Published (nc_UserCreateSubject cfg) pu True) (ticked ?w1))))"
    by (rule touches_same) (use touches_up [OF touches_marked] assms in auto)
  then show ?thesis
    using assms(1,3-6)
    by (auto simp: dispatchStartCommands_def run_on_err run_markStartInProgress
        publishUserCreateCommand_def publishAuthCreateCommand_def user_command_def auth_command_def
        saga_broker_def run_notify split: sum.splits)
qed

text \<open>
  C27: When both commands can be encoded and the broker accepts them, the dispatch goroutine puts
  the session and its user and auth steps in progress (a step already completed stays so) and then
  publishes the user command and the auth command, in that order, each on its subject; it touches
  nothing else.
\<close>

theorem dispatch_publishes_both:
  assumes "db_up env w" and "sound w" and "user_command env x i = Some pu"
    and "auth_command env x i h = Some pa"
    and "\<And>j. env_publish env j (nc_UserCreateSubject cfg) pu = None"
    and "\<And>j. env_publish env j (nc_AuthCreatePendingSubject cfg) pa = None"
  shows "\<exists>w'. run (dispatchStartCommands (saga_service env cfg) x i h) w = ((), w')
     \<and> touches_only (s_SessionID x) in_progress_view env w w'
     \<and> w_trace w' = w_trace w @ [Published (nc_UserCreateSubject cfg) pu True,
                                Published (nc_AuthCreatePendingSubject cfg) pa True]"
  using assms by (rule dispatch_run)

text \<open>
  C40: When the broker refuses the user command, the auth command is not sent, the user step and
  the session are failed, and nothing else is published: no compensation runs and no failed event
  is sent.
\<close>

theorem dispatch_user_command_refused:
  assumes "db_up env w" and "sound w" and "user_command env x i = Some pu"
    and "\<And>j. env_publish env j (nc_UserCreateSubject cfg) pu = Some err"
  shows "\<exists>w'. run (dispatchStartCommands (saga_service env cfg) x i h) w = ((), w')
     \<and> touches_only (s_SessionID x) (\<lambda>v. view_write SessionStatusFailed
          (view_put StepKeyUserCreateProfile StepStatusFailed (in_progress_view v))) env w w'
     \<and> w_trace w' = w_trace w @ [Published (nc_UserCreateSubject cfg) pu False]"
proof -
  let ?sid = "s_SessionID x"
  let ?w1 = "traced (Published (nc_UserCreateSubject cfg) pu False)
      (ticked (marked_in_progress env ?sid w))"
  let ?w2 = "with_db env (write_step ?sid StepKeyUserCreateProfile StepStatusFailed) ?w1"
  let ?w3 = "with_db env (write_status ?sid SessionStatusFailed) ?w2"
  have 0: "touches_only ?sid in_progress_view env w (marked_in_progress env ?sid w)"
    using assms(1,2) by (rule touches_marked)
  then have 1: "touches_only ?sid in_progress_view env w ?w1"
    by (rule touches_same) (use touches_up [OF 0] in auto)
  have 2: "touches_only ?sid (view_put StepKeyUserCreateProfile StepStatusFailed) env ?w1 ?w2"
    using touches_up [OF 1] by (intro touches_put) auto
  have 3: "touches_only ?sid (view_write SessionStatusFailed) env ?w2 ?w3"
    using touches_up [OF 2] by (intro touches_write) auto
  have "run (dispatchStartCommands (saga_service env cfg) x i h) w = ((), ?w3)"
    using assms(1,3,4) touches_up [OF 0]
    by (auto simp: dispatchStartCommands_def run_on_err run_seq run_markStartInProgress failStartStep_def
        publishUserCreateCommand_def user_command_def saga_broker_def run_notify run_UpdateStatus
        run_step_UpdateStatus split: sum.splits)
  with touches_trans [OF touches_trans [OF 1 2] 3] show ?thesis by simp
qed

section \<open>The verification command\<close>

text \<open>
  What the command comes to, by the tables: the first test that fails, or, when all pass, a
  primary key of a verification step that is taken already, or acceptance. The status of a session
  in progress is what the reconciliation computes from its steps.
\<close>

definition guarded_status :: "database \<Rightarrow> Session \<Rightarrow> string" where
  "guarded_status d r =
     (if s_Status r = SessionStatusInProgress then view_aggregate (view_of (s_SessionID r) d) else s_Status r)"

datatype verdict = Refused domain_error | Blocked | Accepted

definition verify_verdict :: "database \<Rightarrow> VerifyEmailParams \<Rightarrow> verdict" where
  "verify_verdict d p =
     (if TrimSpace (vp_SessionID p) = [] then Refused ErrInvalidSessionID
      else if TrimSpace (vp_ClientID p) = [] then Refused ErrInvalidClientID
      else if TrimSpace (vp_Code p) = [] then Refused ErrInvalidVerificationCode
      else case session_row d (TrimSpace (vp_SessionID p)) of
             None \<Rightarrow> Refused ErrSessionNotFound
           | Some r \<Rightarrow>
               if s_ClientID r \<noteq> TrimSpace (vp_ClientID p) then Refused ErrClientMismatch
               else if s_Status r = SessionStatusCompleted then Accepted
               else if guarded_status d r \<noteq> SessionStatusCodeSent then Refused ErrInvalidStatus
               else if step_at d (s_SessionID r) StepKeyVerifyEmailCode \<noteq> None
                     \<or> step_at d (s_SessionID r) StepKeyActivateUser \<noteq> None then Blocked
               else Accepted)"

text \<open>The reconciliation in front of the status test.\<close>

definition guarded :: "environment \<Rightarrow> Session \<Rightarrow> world \<Rightarrow> world \<Rightarrow> bool" where
  "guarded env r w w' \<longleftrightarrow>
     (if s_Status r = SessionStatusInProgress then touches_only (s_SessionID r) view_reconcile env w w'
      else w' = w)"

lemma guardedD:
  assumes "guarded env r w w'" and "session_row (w_db w) (s_SessionID r) = Some r"
  shows "v_status (view_of (s_SessionID r) (w_db w')) = Some (guarded_status (w_db w) r)"
    and "sid \<noteq> s_SessionID r \<Longrightarrow> view_of sid (w_db w') = view_of sid (w_db w)"
    and "step_at (w_db w') (s_SessionID r) k = None \<longleftrightarrow> step_at (w_db w) (s_SessionID r) k = None"
    and "w_spawned w' = w_spawned w" and "db_up env w \<Longrightarrow> db_up env w'"
proof -
  have s: "v_status (view_of (s_SessionID r) (w_db w)) = Some (s_Status r)"
    using assms(2) by (simp add: view_of_def)
  then show "v_status (view_of (s_SessionID r) (w_db w')) = Some (guarded_status (w_db w) r)"
    using assms(1) by (auto simp: guarded_def guarded_status_def touches_only_def view_reconcile_def view_write_def
        split: if_splits)
  have "v_step (view_of (s_SessionID r) (w_db w')) k = v_step (view_of (s_SessionID r) (w_db w)) k"
    using assms(1) by (auto simp: guarded_def touches_only_def view_reconcile_def view_write_def split: if_splits)
  then show "step_at (w_db w') (s_SessionID r) k = None \<longleftrightarrow> step_at (w_db w) (s_SessionID r) k = None"
    by (metis (mono_tags, lifting) map_option_is_None select_convs(2) view_of_def)
qed (use assms(1) in \<open>auto simp: guarded_def touches_only_def split: if_splits\<close>)

lemma run_reload:
  assumes "db_up env w" and "sound w" and "session_row (w_db w) (s_SessionID r) = Some r"
  obtains q w' where "run (reload_in_progress (saga_service env cfg) r) w = (Inr q, w')"
    and "guarded env r w w'" and "s_SessionID q = s_SessionID r" and "s_Status q = guarded_status (w_db w) r"
proof (cases "s_Status r = SessionStatusInProgress")
  case True
  obtain v where v: "run (syncSessionStatus (saga_service env cfg) (s_SessionID r)) w = (None, v)"
    "touches_only (s_SessionID r) view_reconcile env w v"
    using assms by (rule run_syncSessionStatus)
  then have g: "guarded env r w v" "guarded env r w (ticked v)"
    using True by (auto simp: guarded_def touches_only_def)
  obtain q where q: "session_row (w_db v) (s_SessionID r) = Some q" "s_Status q = guarded_status (w_db w) r"
    using guardedD(1) [OF g(1) assms(3)] by (auto simp: view_of_def)
  show thesis
  proof (rule that)
    show "run (reload_in_progress (saga_service env cfg) r) w = (Inr q, ticked v)"
      using True v q(1) by (simp add: reload_in_progress_def run_on_err run_GetByID one_def touches_only_def)
  qed (use g(2) q session_row_id [OF q(1)] in auto)
next
  case False
  then show thesis
    by (intro that [of r w]) (simp_all add: reload_in_progress_def guarded_def guarded_status_def)
qed

definition verifying_view :: "view \<Rightarrow> view" where
  "verifying_view v = v\<lparr>v_status := Some SessionStatusVerifyingEmail,
     v_step := (v_step v)(StepKeyVerifyEmailCode \<mapsto> StepStatusInProgress,
                          StepKeyActivateUser \<mapsto> StepStatusPending)\<rparr>"

lemma step_at_insert:
  "step_at (insert_step t d) sid k =
     (case step_at d sid k of Some q \<Rightarrow> Some q
      | None \<Rightarrow> if step_key_of t = (sid, k) then Some t else None)"
  by (auto simp: step_at_def find_append step_key_of_def split: option.split)

lemma view_insert_step:
  assumes "step_at d sid k = None" and "step_key_of t = (sid, k)"
  shows "view_of sid (insert_step t d) = (view_of sid d)\<lparr>v_step := (v_step (view_of sid d))(k \<mapsto> st_Status t)\<rparr>"
    and "sid' \<noteq> sid \<Longrightarrow> view_of sid' (insert_step t d) = view_of sid' d"
  using assms
  by (auto simp: view_of_def session_row_def step_at_insert fun_eq_iff split: option.split)

lemma step_at_none: "step_at d sid k = None \<longleftrightarrow> (sid, k) \<notin> step_key_of ` set (db_steps d)"
  by (auto simp: step_at_def find_None_all step_key_of_def image_iff)

lemma run_step_row_Create:
  assumes "db_up env w" and "step_at (w_db w) sid k = None"
  shows "run (step_Create (step_repository env) (step_row sid k st)) w =
     (Inr ((step_row sid k st)\<lparr>st_CreatedAt := env_now env (w_tick w), st_UpdatedAt := env_now env (w_tick w)\<rparr>),
      with_db env (\<lambda>now. insert_step ((step_row sid k st)\<lparr>st_CreatedAt := now, st_UpdatedAt := now\<rparr>)) w)"
  using assms
  by (auto simp: step_repository_def run_db_up steps_Create_def Let_def step_row_def step_at_none
      with_db_def insert_step_def step_key_of_def image_iff)

definition vstep :: "string \<Rightarrow> string \<Rightarrow> string \<Rightarrow> int \<Rightarrow> Step" where
  "vstep sid k st now = (step_row sid k st)\<lparr>st_CreatedAt := now, st_UpdatedAt := now\<rparr>"

lemma vstep_simps [simp]: "step_key_of (vstep sid k st now) = (sid, k)" "st_Status (vstep sid k st now) = st"
  by (simp_all add: vstep_def step_row_def step_key_of_def)

text \<open>What storing the verification steps and starting the goroutine comes to.\<close>

lemma run_begin_verification:
  assumes "db_up env w" and "s_SessionID q = sid"
  shows "if step_at (w_db w) sid StepKeyVerifyEmailCode \<noteq> None \<or> step_at (w_db w) sid StepKeyActivateUser \<noteq> None
     then \<exists>w'. run (begin_verification (saga_service env cfg) q code) w
            = (Inl (UniqueViolation ''registration_saga_steps_pkey''), w')
          \<and> w_spawned w' = w_spawned w
          \<and> (\<forall>sid'. v_status (view_of sid' (w_db w')) = v_status (view_of sid' (w_db w)))
          \<and> (\<forall>sid'. sid' \<noteq> sid \<longrightarrow> view_of sid' (w_db w') = view_of sid' (w_db w))
     else \<exists>r. vr_Status r = SessionStatusVerifyingEmail
          \<and> fst (run (begin_verification (saga_service env cfg) q code) w) = Inr r"
proof -
  let ?S = "saga_service env cfg" and ?C = "step_Create (step_repository env)"
  have taken: "run (?C (step_row sid k st)) v = (Inl (UniqueViolation ''registration_saga_steps_pkey''), ticked v)"
    if "db_up env v" and "step_at (w_db v) sid k \<noteq> None" for k st v
    using that step_at_none [of "w_db v" sid k]
    by (auto simp: step_repository_def run_db_up steps_Create_def Let_def step_row_def step_key_of_def image_iff
        with_db_same)
  show ?thesis
  proof (cases "step_at (w_db w) sid StepKeyVerifyEmailCode = None")
    case True
    note unverified = True
    let ?t = "vstep sid StepKeyVerifyEmailCode StepStatusInProgress"
    let ?w1 = "with_db env (\<lambda>now. insert_step (?t now)) w"
    have first: "run (?C (step_row sid StepKeyVerifyEmailCode StepStatusInProgress)) w
        = (Inr (?t (env_now env (w_tick w))), ?w1)"
      using run_step_row_Create [OF assms(1) True] by (simp add: vstep_def)
    have other: "step_at (w_db ?w1) sid StepKeyActivateUser = step_at (w_db w) sid StepKeyActivateUser"
      by (simp add: step_at_insert split: option.split)
    have views: "v_status (view_of sid' (w_db ?w1)) = v_status (view_of sid' (w_db w))"
      "sid' \<noteq> sid \<longrightarrow> view_of sid' (w_db ?w1) = view_of sid' (w_db w)" for sid'
      using view_insert_step(2) [OF True, of "?t (env_now env (w_tick w))" sid']
      by (simp_all add: view_of_def session_row_def insert_step_def)
    show ?thesis
    proof (cases "step_at (w_db w) sid StepKeyActivateUser = None")
      case True
      with first other assms unverified show ?thesis
        by (auto simp: begin_verification_def run_unwrap run_on_err run_seq run_go run_step_row_Create
            run_UpdateStatus)
    next
      case False
      with first other assms views taken [of ?w1 StepKeyActivateUser StepStatusPending] show ?thesis
        by (simp add: begin_verification_def run_unwrap)
    qed
  next
    case False
    with taken [OF assms(1) False] assms(2) show ?thesis
      by (simp add: begin_verification_def run_unwrap)
  qed
qed

text \<open>The answer of the command and what it leaves behind, by the verdict on the tables.\<close>

definition verify_answer ::
  "environment \<Rightarrow> VerifyEmailParams \<Rightarrow> world \<Rightarrow> (error + VerifyEmailResult) \<times> world \<Rightarrow> bool" where
  "verify_answer env p w = (\<lambda>(ans, w'). let sid = TrimSpace (vp_SessionID p) in
     (case verify_verdict (w_db w) p of
        Refused e \<Rightarrow> ans = Inl (DomainErr e) \<and> w_spawned w' = w_spawned w
          \<and> (if e = ErrInvalidStatus \<and> v_status (view_of sid (w_db w)) = Some SessionStatusInProgress
             then touches_only sid view_reconcile env w w' else w_db w' = w_db w \<and> w_trace w' = w_trace w)
      | Blocked \<Rightarrow> (\<exists>key. ans = Inl (UniqueViolation key)) \<and> w_spawned w' = w_spawned w
          \<and> v_status (view_of sid (w_db w')) = Some SessionStatusCodeSent
          \<and> (\<forall>sid'. sid' \<noteq> sid \<longrightarrow> view_of sid' (w_db w') = view_of sid' (w_db w))
      | Accepted \<Rightarrow> (\<exists>r. ans = Inr r \<and> vr_Status r \<in> {SessionStatusVerifyingEmail, SessionStatusCompleted})))"

lemma verify_answered:
  assumes "db_up env w" and "sound w"
  shows "verify_answer env p w (run (VerifyEmail (saga_service env cfg) p) w)"
proof -
  let ?S = "saga_service env cfg" and ?sid = "TrimSpace (vp_SessionID p)" and ?code = "TrimSpace (vp_Code p)"
  note unfold = verify_answer_def verify_verdict_def VerifyEmail_def Let_def run_unwrap run_GetByID one_def
  show ?thesis
  proof (cases "?sid = [] \<or> TrimSpace (vp_ClientID p) = [] \<or> ?code = [] \<or> (case session_row (w_db w) ?sid of
      None \<Rightarrow> True | Some r \<Rightarrow> s_ClientID r \<noteq> TrimSpace (vp_ClientID p) \<or> s_Status r = SessionStatusCompleted)")
    case True
    with assms show ?thesis by (auto simp: unfold split: option.split)
  next
    case False
    then obtain r where given: "?sid \<noteq> []" "TrimSpace (vp_ClientID p) \<noteq> []" "?code \<noteq> []"
      and row: "session_row (w_db w) ?sid = Some r" and r: "s_ClientID r = TrimSpace (vp_ClientID p)"
        "s_Status r \<noteq> SessionStatusCompleted"
      by (auto split: option.splits)
    have id: "s_SessionID r = ?sid" using session_row_id [OF row] by simp
    have row1: "session_row (w_db (ticked w)) (s_SessionID r) = Some r" using row id by simp
    obtain q v where q: "run (reload_in_progress ?S r) (ticked w) = (Inr q, v)" "guarded env r (ticked w) v"
      "s_SessionID q = s_SessionID r" "s_Status q = guarded_status (w_db (ticked w)) r"
      by (rule run_reload [OF _ _ row1, of env cfg]) (use assms in simp_all)
    note after = guardedD [OF q(2) row1]
    have run: "run (VerifyEmail ?S p) w = (if s_Status q \<noteq> SessionStatusCodeSent
        then (Inl (DomainErr ErrInvalidStatus), v) else run (begin_verification ?S q ?code) v)"
      using assms given row r q(1) by (simp add: VerifyEmail_def Let_def run_unwrap run_GetByID one_def)
    have up: "db_up env v" using after(5) assms by simp
    show ?thesis
    proof (cases "s_Status q = SessionStatusCodeSent")
      case False
      with run have "run (VerifyEmail ?S p) w = (Inl (DomainErr ErrInvalidStatus), v)" by simp
      with False show ?thesis
        using given row r id q(2,4) by (auto simp: verify_answer_def verify_verdict_def guarded_def view_of_def touches_only_def)
    next
      case True
      with run have "run (VerifyEmail ?S p) w = run (begin_verification ?S q ?code) v" by simp
      moreover have "verify_verdict (w_db w) p =
          (if step_at (w_db v) ?sid StepKeyVerifyEmailCode \<noteq> None \<or> step_at (w_db v) ?sid StepKeyActivateUser \<noteq> None
           then Blocked else Accepted)"
        using True given row r id q(4) after(3) by (simp add: verify_verdict_def)
      moreover have "v_status (view_of ?sid (w_db v)) = Some SessionStatusCodeSent"
        using True q(4) after(1) id by simp
      ultimately show ?thesis
        using run_begin_verification [OF up, of q ?sid cfg ?code] q(3) id after(2,4)
        by (cases "run (begin_verification ?S q ?code) v") (auto simp: verify_answer_def split: if_splits)
    qed
  qed
qed

lemma verify_run:
  assumes "db_up env w" and "session_row (w_db w) sid = Some r" and "sid \<noteq> []"
    and "TrimSpace (vp_SessionID p) = sid" and "TrimSpace (vp_ClientID p) = s_ClientID r"
    and "s_ClientID r \<noteq> []" and "TrimSpace (vp_Code p) \<noteq> []"
    and "s_Status r = SessionStatusCodeSent"
    and "step_at (w_db w) sid StepKeyVerifyEmailCode = None"
    and "step_at (w_db w) sid StepKeyActivateUser = None"
  shows "\<exists>w'. run (VerifyEmail (saga_service env cfg) p) w
       = (Inr \<lparr>vr_SessionID = sid, vr_ClientID = s_ClientID r, vr_Status = SessionStatusVerifyingEmail\<rparr>, w')
     \<and> view_of sid (w_db w') = verifying_view (view_of sid (w_db w))
     \<and> (\<forall>sid'. sid' \<noteq> sid \<longrightarrow> view_of sid' (w_db w') = view_of sid' (w_db w))
     \<and> w_spawned w' = w_spawned w @ [CompleteEmailVerification r (TrimSpace (vp_Code p))]
     \<and> w_trace w' = w_trace w"
proof -
  have id: "s_SessionID r = sid" using assms(2) session_row_id by blast
  let ?w1 = "with_db env (\<lambda>now. insert_step (vstep sid StepKeyVerifyEmailCode StepStatusInProgress now)) (ticked w)"
  let ?w2 = "with_db env (\<lambda>now. insert_step (vstep sid StepKeyActivateUser StepStatusPending now)) ?w1"
  let ?w3 = "with_db env (write_status sid SessionStatusVerifyingEmail) ?w2"
  have none: "step_at (w_db ?w1) sid StepKeyActivateUser = None"
    using assms(10) by (simp add: step_at_insert)
  have "run (begin_verification (saga_service env cfg) r (TrimSpace (vp_Code p))) (ticked w)
      = (Inr \<lparr>vr_SessionID = sid, vr_ClientID = s_ClientID r, vr_Status = SessionStatusVerifyingEmail\<rparr>,
         ?w3\<lparr>w_spawned := w_spawned w @ [CompleteEmailVerification r (TrimSpace (vp_Code p))]\<rparr>)"
    using assms(1,9) none
    by (simp add: begin_verification_def run_unwrap run_on_err run_seq run_go run_step_row_Create
        run_UpdateStatus id vstep_def)
  moreover have "view_of sid (w_db ?w3) = verifying_view (view_of sid (w_db w))"
    using assms(2,9) none
    by (simp add: view_insert_step [where k = StepKeyActivateUser] view_insert_step [where k = StepKeyVerifyEmailCode])
      (simp add: verifying_view_def view_write_def view_of_def)
  moreover have "view_of sid' (w_db ?w3) = view_of sid' (w_db w)" if "sid' \<noteq> sid" for sid'
    using assms(9) none that
    by (simp add: view_insert_step [where k = StepKeyActivateUser and sid = sid]
        view_insert_step [where k = StepKeyVerifyEmailCode and sid = sid])
  ultimately show ?thesis
    using assms(1-8) id
    by (auto simp: VerifyEmail_def Let_def run_unwrap run_GetByID one_def reload_in_progress_def)
qed

text \<open>
  C28: A verification request of the right client for a session to which the code was sent, and
  which has no verification step yet, stores the verification step in progress and the activation
  step pending, puts the session to \<open>verifying_email\<close>, starts the verification goroutine with the
  trimmed code and replies at once; no other session changes and no service has been called.
\<close>

theorem verify_accepted:
  assumes "db_up env w" and "session_row (w_db w) sid = Some r" and "sid \<noteq> []"
    and "TrimSpace (vp_SessionID p) = sid" and "TrimSpace (vp_ClientID p) = s_ClientID r"
    and "s_ClientID r \<noteq> []" and "TrimSpace (vp_Code p) \<noteq> []"
    and "s_Status r = SessionStatusCodeSent"
    and "step_at (w_db w) sid StepKeyVerifyEmailCode = None"
    and "step_at (w_db w) sid StepKeyActivateUser = None"
  shows "\<exists>w'. run (VerifyEmail (saga_service env cfg) p) w
       = (Inr \<lparr>vr_SessionID = sid, vr_ClientID = s_ClientID r, vr_Status = SessionStatusVerifyingEmail\<rparr>, w')
     \<and> view_of sid (w_db w') = verifying_view (view_of sid (w_db w))
     \<and> (\<forall>sid'. sid' \<noteq> sid \<longrightarrow> view_of sid' (w_db w') = view_of sid' (w_db w))
     \<and> w_spawned w' = w_spawned w @ [CompleteEmailVerification r (TrimSpace (vp_Code p))]
     \<and> w_trace w' = w_trace w"
  using assms by (rule verify_run)

section \<open>The verification goroutine\<close>

definition completed_view :: "view \<Rightarrow> view" where
  "completed_view v = view_write SessionStatusCompleted
     (view_put StepKeyActivateUser StepStatusCompleted
       (view_put StepKeyVerifyEmailCode StepStatusCompleted v))"

definition verification_failed_view :: "view \<Rightarrow> view" where
  "verification_failed_view v =
     view_write SessionStatusFailed (view_put StepKeyVerifyEmailCode StepStatusFailed v)"

lemma announce_elsewhere:
  "safe (same_tables env) (announce_completed (saga_service env' cfg) x)"
  unfolding announce_completed_def
  by (auto simp: saga_broker_def intro!: safe_intros split: sum.split)

lemma touches_elsewhere:
  assumes "safe (same_tables env) p" and "touches_only sid f env v w"
  shows "touches_only sid f env v (snd (run p w))"
proof -
  have "same_tables env w (snd (run p w))"
    by (rule safe_run [OF assms(1) same_tables_refl same_tables_trans])
  with assms(2) same_tables_up [OF this] touches_up [OF assms(2)] show ?thesis
    by (auto simp: same_tables_def intro: touches_same)
qed

lemma touches_write':
  "touches_only sid f env v w \<Longrightarrow> st \<in> set session_statuses
   \<Longrightarrow> touches_only sid (\<lambda>x. view_write st (f x)) env v (with_db env (write_status sid st) w)"
  using touches_trans [OF _ touches_write] touches_up by blast

lemma touches_put':
  "touches_only sid f env v w \<Longrightarrow> k \<in> set step_keys \<Longrightarrow> st \<in> set step_statuses
   \<Longrightarrow> touches_only sid (\<lambda>x. view_put k st (f x)) env v (with_db env (write_step sid k st) w)"
  using touches_trans [OF _ touches_put] touches_up by blast

lemma touches_call:
  "touches_only sid f env v w \<Longrightarrow> touches_only sid f env v (traced e (ticked w))"
  by (simp add: touches_only_def)

lemma touches_self: "db_up env w \<Longrightarrow> sound w \<Longrightarrow> touches_only sid (\<lambda>x. x) env w w"
  by (simp add: touches_only_def)

lemma view_put_comm_write: "view_put k st (view_write st' v) = view_write st' (view_put k st v)"
  by (simp add: view_put_def view_write_def)

lemma view_put_twice:
  "view_put k StepStatusCompleted (view_put k st v) = view_put k StepStatusCompleted v"
  by (simp add: view_put_def option.map_comp comp_def)

lemma verification_run:
  assumes "db_up env w" and "sound w"
    and "\<And>j. env_VerifyRegistrationEmail env j (s_UserID x) code = None"
    and "\<And>j. env_ActivateUser env j (s_UserID x) = None"
  shows "\<exists>w' rest. run (completeEmailVerification (saga_service env cfg) x code) w = ((), w')
     \<and> touches_only (s_SessionID x) completed_view env w w'
     \<and> w_trace w' = w_trace w @ [VerifiedEmail (s_UserID x) code True, ActivatedUser (s_UserID x) True] @ rest"
proof -
  let ?sid = "s_SessionID x"
  let ?w0 = "traced (VerifiedEmail (s_UserID x) code True) (ticked w)"
  let ?w1 = "with_db env (write_step ?sid StepKeyVerifyEmailCode StepStatusCompleted) ?w0"
  let ?w2 = "with_db env (write_status ?sid SessionStatusActivatingUser) ?w1"
  let ?w3 = "with_db env (write_step ?sid StepKeyActivateUser StepStatusInProgress) ?w2"
  let ?w4 = "traced (ActivatedUser (s_UserID x) True) (ticked ?w3)"
  let ?w5 = "with_db env (write_step ?sid StepKeyActivateUser StepStatusCompleted) ?w4"
  let ?w6 = "with_db env (write_status ?sid SessionStatusCompleted) ?w5"
  let ?rest = "announce_completed (saga_service env cfg) x"
  have "touches_only ?sid (\<lambda>v. view_write SessionStatusCompleted
      (view_put StepKeyActivateUser StepStatusCompleted (view_put StepKeyActivateUser StepStatusInProgress
        (view_write SessionStatusActivatingUser (view_put StepKeyVerifyEmailCode StepStatusCompleted v)))))
      env w ?w6"
    using touches_self [OF assms(1,2), of ?sid]
    by (intro touches_write' touches_put' touches_call) simp_all
  then have "touches_only ?sid completed_view env w ?w6"
    by (simp add: completed_view_def [abs_def] view_put_comm_write view_put_twice)
  then have fin: "touches_only ?sid completed_view env w (snd (run ?rest ?w6))"
    by (rule touches_elsewhere [OF announce_elsewhere])
  have "\<exists>rest. w_trace (snd (run ?rest ?w6)) = w_trace ?w6 @ rest"
    by (auto simp: announce_completed_def publishRegistrationNotification_def saga_broker_def run_bind
        run_seq run_notify split: sum.split)
  then obtain rest where "w_trace (snd (run ?rest ?w6)) = w_trace w
      @ [VerifiedEmail (s_UserID x) code True, ActivatedUser (s_UserID x) True] @ rest" by auto
  moreover have "run (completeEmailVerification (saga_service env cfg) x code) w = ((), snd (run ?rest ?w6))"
    using assms(1,3,4)
    by (intro prod_eqI) (simp_all add: completeEmailVerification_def run_on_err run_notify
        run_UpdateStatus run_step_UpdateStatus auth_client_def user_client_def)
  ultimately show ?thesis using fin by blast
qed

text \<open>
  C29: When the auth service accepts the code and the user service activates the user, the
  verification goroutine ends with the session completed and both verification steps completed;
  the auth service was asked first, and the user was activated only after that. If the completed
  event can be encoded it is published, whether or not the broker takes it.
\<close>

theorem verification_completes:
  assumes "db_up env w" and "sound w"
    and "\<And>j. env_VerifyRegistrationEmail env j (s_UserID x) code = None"
    and "\<And>j. env_ActivateUser env j (s_UserID x) = None"
  shows "\<exists>w' rest. run (completeEmailVerification (saga_service env cfg) x code) w = ((), w')
     \<and> touches_only (s_SessionID x) completed_view env w w'
     \<and> w_trace w' = w_trace w @ [VerifiedEmail (s_UserID x) code True, ActivatedUser (s_UserID x) True] @ rest"
  using assms by (rule verification_run)

text \<open>
  C30: When the auth service rejects the code, the verification step and the session are failed,
  both the user and the auth record are asked to be deactivated, the user whatever the auth
  service answers and the other way round, the user is not activated, and the session ends
  failed.
\<close>

theorem verification_rejected:
  assumes "db_up env w" and "sound w"
    and "\<And>j. env_VerifyRegistrationEmail env j (s_UserID x) code = Some err"
  shows "\<exists>w' a b rest. run (completeEmailVerification (saga_service env cfg) x code) w = ((), w')
     \<and> touches_only (s_SessionID x) verification_failed_view env w w'
     \<and> w_trace w' = w_trace w @ [VerifiedEmail (s_UserID x) code False,
          DeactivatedUser (s_UserID x) a, DeactivatedAuth (s_UserID x) b] @ rest
     \<and> (\<forall>u ok. ActivatedUser u ok \<notin> set rest)"
proof -
  let ?sid = "s_SessionID x" and ?S = "saga_service env cfg"
  let ?w0 = "traced (VerifiedEmail (s_UserID x) code False) (ticked w)"
  let ?w1 = "with_db env (write_step ?sid StepKeyVerifyEmailCode StepStatusFailed) ?w0"
  let ?w2 = "with_db env (write_status ?sid SessionStatusFailed) ?w1"
  let ?a = "env_DeactivateUser env (w_tick ?w2) (s_UserID x) = None"
  let ?w3 = "traced (DeactivatedUser (s_UserID x) ?a) (ticked ?w2)"
  let ?b = "env_DeactivateRegistrationAuth env (w_tick ?w3) (s_UserID x) = None"
  let ?w4 = "traced (DeactivatedAuth (s_UserID x) ?b) (ticked ?w3)"
  let ?w' = "snd (run (completeEmailVerification ?S x code) w)"
  have w4: "touches_only ?sid verification_failed_view env w ?w4"
    unfolding verification_failed_view_def [abs_def] using touches_self [OF assms(1,2), of ?sid]
    by (intro touches_write' touches_put' touches_call) simp_all
  define rest where "rest = bind (rt_now (sv_rt ?S)) (\<lambda>now.
      case ToRegistrationFailedEventPayload (rt_jsonMarshal (sv_rt ?S)) now x (Error err) of
        Inl _ \<Rightarrow> Ret ()
      | Inr payload \<Rightarrow> seq (eb_Publish (sv_broker ?S) (nc_RegistrationFailedSubject (sv_cfg ?S)) payload)
          (publishRegistrationNotification ?S x ''registration.failed'' StatusFailed
             (registrationErrorCode (Error err)) (Some False) payload))"
  have "safe (same_tables env) rest"
    unfolding rest_def by (auto simp: saga_broker_def intro!: safe_intros split: sum.split)
  then have fin: "touches_only ?sid verification_failed_view env w (snd (run rest ?w4))"
    using w4 by (rule touches_elsewhere)
  have "run (completeEmailVerification ?S x code) w = ((), snd (run rest ?w4))"
    using assms(1,3)
    by (intro prod_eqI) (simp_all add: completeEmailVerification_def failEmailVerification_def run_on_err
        run_seq run_notify run_UpdateStatus run_step_UpdateStatus auth_client_def user_client_def rest_def)
  moreover have "\<exists>r. w_trace (snd (run rest ?w4)) = w_trace ?w4 @ r \<and> (\<forall>u ok. ActivatedUser u ok \<notin> set r)"
    by (auto simp: rest_def publishRegistrationNotification_def saga_broker_def run_bind
        run_seq run_notify split: sum.split)
  then obtain r where "w_trace (snd (run rest ?w4)) = w_trace ?w4 @ r"
    "\<forall>u ok. ActivatedUser u ok \<notin> set r" by blast
  ultimately show ?thesis using fin by fastforce
qed

section \<open>The status query\<close>

lemma claim_run:
  assumes "db_up env w" and "session_row (w_db w) sid = Some r" and "db_ok (w_db w)"
    and "s_Status r = SessionStatusCompleted" and "TrimSpace sid' = sid" and "sid \<noteq> []"
    and "s_ClientID r \<noteq> []" and "TrimSpace cid = s_ClientID r"
    and "TrimSpace other \<noteq> []" and "TrimSpace other \<noteq> s_ClientID r"
  shows "\<exists>v w'. run (GetRegistrationStatus (saga_service env cfg) sid' cid) w
       = (Inr (registration_status r SessionStatusCompleted), v)
     \<and> fst (run (GetRegistrationStatus (saga_service env cfg) sid' cid) v)
         = Inr (registration_status r SessionStatusTokensClaimed)
     \<and> run (GetRegistrationStatus (saga_service env cfg) sid' other) w
       = (Inl (DomainErr ErrClientMismatch), w') \<and> w_db w' = w_db w"
proof -
  have id: "s_SessionID r = sid" and row: "r \<in> set (db_sessions (w_db w))"
    using session_row_id [OF assms(2)] by auto
  let ?now = "env_now env (Suc (w_tick w))"
  let ?v = "with_db env (claim_rows sid) (ticked w)"
  let ?q = "set_session_status SessionStatusTokensClaimed ?now r"
  have "filter (\<lambda>r. s_SessionID r = sid \<and> s_Status r = SessionStatusCompleted) (db_sessions (w_db w)) \<noteq> []"
    using row id assms(4) by (auto simp: filter_empty_conv)
  then have claim: "run (sess_ClaimCompleted (session_repository env) sid) (ticked w) = (Inr True, ?v)"
    using assms(1)
    by (simp add: session_repository_def run_db_up sessions_ClaimCompleted_def Let_def with_db_def
        claim_rows_def)
  have v: "session_row (w_db ?v) sid = Some ?q"
  proof -
    have "session_row (claim_rows sid ?now (w_db w)) sid = map_option (\<lambda>r. if s_SessionID r = sid
        \<and> s_Status r = SessionStatusCompleted then set_session_status SessionStatusTokensClaimed ?now r
        else r) (session_row (w_db w) sid)"
      unfolding session_row_def db_sessions_changes by (rule find_update_rows) auto
    then show ?thesis using assms(2,4) id by simp
  qed
  have first: "run (GetRegistrationStatus (saga_service env cfg) sid' cid) w
      = (Inr (registration_status r SessionStatusCompleted), ?v)"
    using assms claim id by (simp add: GetRegistrationStatus_def run_unwrap run_GetByID one_def)
  have "registration_status ?q SessionStatusTokensClaimed = registration_status r SessionStatusTokensClaimed"
    by (simp add: registration_status_def)
  then have "fst (run (GetRegistrationStatus (saga_service env cfg) sid' cid) ?v)
      = Inr (registration_status r SessionStatusTokensClaimed)"
    using assms(1,5-8) v by (simp add: GetRegistrationStatus_def run_unwrap run_GetByID one_def)
  moreover have "run (GetRegistrationStatus (saga_service env cfg) sid' other) w
      = (Inl (DomainErr ErrClientMismatch), ticked w)"
    using assms by (simp add: GetRegistrationStatus_def run_unwrap run_GetByID one_def)
  ultimately show ?thesis using first by auto
qed

text \<open>
  C31: While the database answers, the first status query of the right client for a completed
  session is answered \<open>completed\<close> and claims it, and every later one, with no other change in
  between, is answered \<open>tokens_claimed\<close>; another client is told nothing.
\<close>

theorem status_claims_once:
  assumes "db_up env w" and "session_row (w_db w) sid = Some r" and "db_ok (w_db w)"
    and "s_Status r = SessionStatusCompleted" and "TrimSpace sid' = sid" and "sid \<noteq> []"
    and "s_ClientID r \<noteq> []" and "TrimSpace cid = s_ClientID r"
    and "TrimSpace other \<noteq> []" and "TrimSpace other \<noteq> s_ClientID r"
  shows "\<exists>v w'. run (GetRegistrationStatus (saga_service env cfg) sid' cid) w
       = (Inr (registration_status r SessionStatusCompleted), v)
     \<and> fst (run (GetRegistrationStatus (saga_service env cfg) sid' cid) v)
         = Inr (registration_status r SessionStatusTokensClaimed)
     \<and> run (GetRegistrationStatus (saga_service env cfg) sid' other) w
       = (Inl (DomainErr ErrClientMismatch), w') \<and> w_db w' = w_db w"
  using assms by (rule claim_run)

end
