(* ===== verification/Registration_Run.thy ===== *)
theory Registration_Run
  imports Entitlement Verification_Flow
begin

text \<open>
  One registration from the start request to the tokens, through the scheduler: the flows of the
  single handlers are chained, carrying the view of the session's rows from step to step and the
  identity of the session by the invariant that rows only grow.
\<close>

lemma serve_each_alone:
  "serve_each s reqs (sys_world x) = (rs, w) \<Longrightarrow>
     foldl (\<lambda>x req. serve_alone s req x) x reqs = x\<lparr>sys_world := w, sys_replies := sys_replies x @ rs\<rparr>"
proof (induction reqs arbitrary: x rs)
  case (Cons req reqs)
  obtain r v where v: "run (serve s req) (sys_world x) = (r, v)" by force
  obtain rs' where "serve_each s reqs v = (rs', w)" "rs = r # rs'"
    using Cons.prems v by (auto split: prod.splits)
  with v Cons.IH [of "serve_alone s req x" rs'] show ?case by (simp add: serve_alone_def)
qed simp

lemma serve_all_steps: "(sys_step s)\<^sup>*\<^sup>* x (foldl (\<lambda>x req. serve_alone s req x) x reqs)"
proof (induction reqs rule: rev_induct)
  case (snoc req reqs)
  then show ?case using serve_alone_steps by simp (rule rtranclp_trans)
qed simp

lemma recorded_row:
  assumes "(sys_step (saga_service env cfg))\<^sup>*\<^sup>* x y" and "reachable (saga_service env cfg) x"
    and "recorded q (sys_world x)" and "session_row (w_db (sys_world y)) (s_SessionID q) = Some r"
  shows "session_identity r = session_identity q"
proof -
  have y: "append_only (w_db (sys_world x)) (w_db (sys_world y))" "reachable (saga_service env cfg) y"
    using append_only_steps [OF assms(1,2)] by simp_all
  then have "session_identity q \<in> set (map session_identity (db_sessions (w_db (sys_world y))))"
    using assms(3) set_mono_prefix by (fastforce simp: recorded_def append_only_def)
  then obtain q' where q': "q' \<in> set (db_sessions (w_db (sys_world y)))"
      "session_identity q' = session_identity q" by auto
  have keys: "distinct (map s_SessionID (db_sessions (w_db (sys_world y))))"
    using reachable_db_ok [OF y(2)] by (simp add: db_ok_def db_keys_def)
  from find_unique_key [OF keys q'(1)] q'(2) assms(4) show ?thesis
    by (simp add: session_row_def session_identity_def)
qed

lemma started_under_way:
  assumes "db_sessions d' = db_sessions d @ [new_session i t0]"
    and "db_steps d' = db_steps d @ [stored_step (si_sessionID i) t1 StepKeyUserCreateProfile,
         stored_step (si_sessionID i) t2 StepKeyAuthCreatePending,
         stored_step (si_sessionID i) t3 StepKeyMailSendVerificationCode]"
    and "free_to_start env i w" and "w_db w = d"
  shows "under_way {} (view_of (si_sessionID i) d')"
proof -
  have "find (\<lambda>r. s_SessionID r = si_sessionID i) (db_sessions d) = None"
    using assms(3,4) by (auto simp: find_None_all free_to_start_def)
  moreover have "find (\<lambda>r. st_SessionID r = si_sessionID i \<and> st_StepKey r = k) (db_steps d) = None" for k
    using assms(3,4) by (auto simp: find_None_all free_to_start_def)
  ultimately show ?thesis
    using assms(1,2)
    by (simp add: under_way_def view_of_def session_row_def step_at_def find_append new_session_def
        stored_step_def pending_step_def start_keys_def verify_keys_def)
qed

lemma under_way_in_progress: "under_way {} v \<Longrightarrow> under_way {} (in_progress_view v)"
  by (auto simp: under_way_def in_progress_view_def)


definition serve_all :: "world registrationService \<Rightarrow> request list \<Rightarrow> system \<Rightarrow> system" where
  "serve_all s reqs x = foldl (\<lambda>x req. serve_alone s req x) x reqs"

definition code_entered :: "world registrationService \<Rightarrow> StartRegistrationParams \<Rightarrow> request list
   \<Rightarrow> VerifyEmailParams \<Rightarrow> system \<Rightarrow> system" where
  "code_entered s p results v x =
     pick_alone s (serve_alone s (VerifyRequest v)
       (serve_all s results (pick_alone s (serve_alone s (StartRequest p) x))))"

text \<open>The session after the start, and after its commands were dispatched.\<close>

lemma dispatched_run:
  assumes "reachable (saga_service env cfg) x" and "w_spawned (sys_world x) = []"
    and "\<And>j. env_db_fault env j = None" and "start_error env p = None"
    and "input_of env p (sys_world x) = (n, w0)" and "with_ids env n ((ticked ^^ 4) w0) = (i, w1)"
    and "free_to_start env i (sys_world x)"
    and "\<And>j. env_bcrypt env j (TrimSpace (sp_Password p)) = Inr hash"
    and "user_command env (new_session i (env_now env (w_tick w1))) n = Some pu"
    and "auth_command env (new_session i (env_now env (w_tick w1))) n hash = Some pa"
    and "\<And>j. env_publish env j (nc_UserCreateSubject cfg) pu = None"
    and "\<And>j. env_publish env j (nc_AuthCreatePendingSubject cfg) pa = None"
  defines "x1 \<equiv> serve_alone (saga_service env cfg) (StartRequest p) x"
  shows "recorded (new_session i (env_now env (w_tick w1))) (sys_world x1)
    \<and> under_way {} (view_of (si_sessionID i) (w_db (sys_world (pick_alone (saga_service env cfg) x1))))
    \<and> w_spawned (sys_world (pick_alone (saga_service env cfg) x1)) = []"
proof -
  let ?S = "saga_service env cfg" and ?q = "new_session i (env_now env (w_tick w1))"
  have up: "db_up env w" for w using assms(3) by (simp add: db_up_def)
  obtain r w' where run: "run (Start ?S p) (sys_world x) = (r, w')"
    and rows: "db_sessions (w_db w') = db_sessions (w_db (sys_world x)) @ [?q]"
      "db_steps (w_db w') = db_steps (w_db (sys_world x))
         @ [stored_step (si_sessionID i) (env_now env (w_tick w1 + 1)) StepKeyUserCreateProfile,
            stored_step (si_sessionID i) (env_now env (w_tick w1 + 2)) StepKeyAuthCreatePending,
            stored_step (si_sessionID i) (env_now env (w_tick w1 + 3)) StepKeyMailSendVerificationCode]"
    and spawn: "w_spawned w' = [DispatchStartCommands ?q n hash]"
    using start_run [OF up assms(4-8), of cfg] assms(2) by auto
  have x1: "sys_world x1 = w'" using run by (simp add: x1_def serve_alone_def serve_def run_bind)
  have "sound w'"
    using reachable_sound [OF serve_alone_reachable [OF assms(1)], of "StartRequest p"] x1
    by (simp add: x1_def)
  then have "sound (w'\<lparr>w_spawned := []\<rparr>)" by simp
  from dispatch_run [OF up this assms(9-12)] obtain w2 where
    w2: "run (dispatchStartCommands ?S ?q n hash) (w'\<lparr>w_spawned := []\<rparr>) = ((), w2)"
      "touches_only (si_sessionID i) in_progress_view env (w'\<lparr>w_spawned := []\<rparr>) w2"
    by (auto simp: new_session_def)
  have x2: "sys_world (pick_alone ?S x1) = w2"
    using w2(1) spawn x1 by (simp add: pick_alone_def background_def goroutine_body_def run_bind)
  have "under_way {} (view_of (si_sessionID i) (w_db w'))"
    by (rule started_under_way [OF rows assms(7) refl])
  with w2(2) x1 x2 rows(1) show ?thesis
    by (auto simp: touches_only_def recorded_def under_way_in_progress)
qed


text \<open>From the sent code to the completed session.\<close>

lemma verified_run:
  assumes "reachable (saga_service env cfg) y" and "\<And>j. env_db_fault env j = None"
    and "under_way (set start_keys) (view_of sid (w_db (sys_world y)))"
    and "session_row (w_db (sys_world y)) sid = Some r" and "s_Status r = SessionStatusCodeSent"
    and "w_spawned (sys_world y) = []" and "sid \<noteq> []"
    and "TrimSpace (vp_SessionID v) = sid" and "TrimSpace (vp_ClientID v) = s_ClientID r"
    and "s_ClientID r \<noteq> []" and "TrimSpace (vp_Code v) \<noteq> []"
    and "\<And>j. env_VerifyRegistrationEmail env j (s_UserID r) (TrimSpace (vp_Code v)) = None"
    and "\<And>j. env_ActivateUser env j (s_UserID r) = None"
  defines "z \<equiv> pick_alone (saga_service env cfg) (serve_alone (saga_service env cfg) (VerifyRequest v) y)"
  shows "\<exists>q. session_row (w_db (sys_world z)) sid = Some q \<and> s_Status q = SessionStatusCompleted"
proof -
  let ?S = "saga_service env cfg" and ?x = "serve_alone (saga_service env cfg) (VerifyRequest v) y"
  have up: "db_up env w" for w using assms(2) by (simp add: db_up_def)
  have none: "step_at (w_db (sys_world y)) sid StepKeyVerifyEmailCode = None"
    "step_at (w_db (sys_world y)) sid StepKeyActivateUser = None"
    using assms(3) by (auto simp: under_way_def view_of_def verify_keys_def)
  from verify_run [OF up assms(4,7-11,5) none, of cfg] obtain rep w1 where
    w1: "run (VerifyEmail ?S v) (sys_world y) = (rep, w1)"
      "view_of sid (w_db w1) = verifying_view (view_of sid (w_db (sys_world y)))"
      "w_spawned w1 = [CompleteEmailVerification r (TrimSpace (vp_Code v))]"
    using assms(6) by auto
  have x: "sys_world ?x = w1" using w1(1) by (simp add: serve_alone_def serve_def run_bind)
  have "sound w1"
    using reachable_sound [OF serve_alone_reachable [OF assms(1)], of "VerifyRequest v"] x by simp
  then have "sound (w1\<lparr>w_spawned := []\<rparr>)" by simp
  from verification_run [OF up this assms(12,13), of cfg] obtain w2 where
    w2: "run (completeEmailVerification ?S r (TrimSpace (vp_Code v))) (w1\<lparr>w_spawned := []\<rparr>) = ((), w2)"
      "touches_only (s_SessionID r) completed_view env (w1\<lparr>w_spawned := []\<rparr>) w2" by blast
  have "sys_world z = w2"
    using w2(1) w1(3) x by (simp add: z_def pick_alone_def background_def goroutine_body_def run_bind)
  moreover have "s_SessionID r = sid" using session_row_id assms(4) by blast
  ultimately have "v_status (view_of sid (w_db (sys_world z))) = Some SessionStatusCompleted"
    using w2(2) w1(2) assms(4)
    by (auto simp: touches_only_def completed_view_def verifying_view_def view_write_def view_put_def view_of_def)
  then show ?thesis by (auto simp: session_row_view)
qed

lemma status_completed:
  assumes "db_up env (sys_world z)" and "session_row (w_db (sys_world z)) sid = Some q"
    and "s_Status q = SessionStatusCompleted" and "sid \<noteq> []" and "s_ClientID q \<noteq> []"
    and "TrimSpace sid' = sid" and "TrimSpace cid = s_ClientID q"
  shows "sys_replies (serve_alone (saga_service env cfg) (StatusRequest sid' cid) z)
     = sys_replies z @ [StatusReply (Inr (registration_status q SessionStatusCompleted))]"
proof -
  have id: "s_SessionID q = sid" and row: "q \<in> set (db_sessions (w_db (sys_world z)))"
    using session_row_id [OF assms(2)] by auto
  have "filter (\<lambda>r. s_SessionID r = sid \<and> s_Status r = SessionStatusCompleted)
      (db_sessions (w_db (sys_world z))) \<noteq> []"
    using row id assms(3) by (auto simp: filter_empty_conv)
  then have "run (sess_ClaimCompleted (session_repository env) sid) (ticked (sys_world z))
      = (Inr True, with_db env (claim_rows sid) (ticked (sys_world z)))"
    using assms(1)
    by (simp add: session_repository_def run_db_up sessions_ClaimCompleted_def Let_def with_db_def
        claim_rows_def)
  then have "fst (run (GetRegistrationStatus (saga_service env cfg) sid' cid) (sys_world z))
      = Inr (registration_status q SessionStatusCompleted)"
    using assms id by (simp add: GetRegistrationStatus_def run_unwrap run_GetByID one_def)
  then show ?thesis by (auto simp: serve_alone_def serve_def run_bind split: prod.splits)
qed

lemma registration_run:
  fixes sid :: string
  assumes "reachable (saga_service env cfg) x" and "w_spawned (sys_world x) = []"
    and "\<And>j. env_db_fault env j = None" and "start_error env p = None"
    and "input_of env p (sys_world x) = (n, w0)" and "with_ids env n ((ticked ^^ 4) w0) = (i, w1)"
    and "free_to_start env i (sys_world x)" and "si_sessionID i = sid" and "sid \<noteq> []"
    and "\<And>j. env_bcrypt env j (TrimSpace (sp_Password p)) = Inr hash"
    and "user_command env (new_session i (env_now env (w_tick w1))) n = Some pu"
    and "auth_command env (new_session i (env_now env (w_tick w1))) n hash = Some pa"
    and "\<And>j. env_publish env j (nc_UserCreateSubject cfg) pu = None"
    and "\<And>j. env_publish env j (nc_AuthCreatePendingSubject cfg) pa = None"
    and "code_sent_deliverable env cfg"
    and "set results = {UserResult u, AuthResult a, MailResult m}"
    and "ucr_SessionID u = sid" and "acr_SessionID a = sid" and "msr_SessionID m = sid"
    and "ucr_Status u = ''success''" and "acr_Status a = ''success''" and "msr_Status m = ''success''"
    and "TrimSpace (vp_SessionID v) = sid" and "TrimSpace (vp_ClientID v) = si_clientID i"
    and "si_clientID i \<noteq> []" and "TrimSpace (vp_Code v) \<noteq> []"
    and "\<And>j. env_VerifyRegistrationEmail env j (si_userID i) (TrimSpace (vp_Code v)) = None"
    and "\<And>j. env_ActivateUser env j (si_userID i) = None"
  shows "last (sys_replies (serve_alone (saga_service env cfg)
            (StatusRequest (vp_SessionID v) (vp_ClientID v)) (code_entered (saga_service env cfg) p results v x)))
     = StatusReply (Inr \<lparr>rs_SessionID = sid, rs_ClientID = si_clientID i, rs_UserID = si_userID i,
                        rs_Status = SessionStatusCompleted\<rparr>)"
proof -
  let ?S = "saga_service env cfg" and ?q = "new_session i (env_now env (w_tick w1))"
  define x1 where "x1 = serve_alone ?S (StartRequest p) x"
  define x2 where "x2 = pick_alone ?S x1"
  define x3 where "x3 = serve_all ?S results x2"
  define z where "z = pick_alone ?S (serve_alone ?S (VerifyRequest v) x3)"
  have up: "db_up env w" for w using assms(3) by (simp add: db_up_def)
  note start = dispatched_run [OF assms(1-7,10-14), folded x1_def x2_def, unfolded assms(8)]
  have x1: "reachable ?S x1" unfolding x1_def by (rule serve_alone_reachable [OF assms(1)])
  then have x2: "reachable ?S x2" unfolding x2_def by (rule pick_alone_reachable)
  have x23: "(sys_step ?S)\<^sup>*\<^sup>* x2 x3" unfolding x3_def serve_all_def by (rule serve_all_steps)
  have x12: "(sys_step ?S)\<^sup>*\<^sup>* x1 x2" unfolding x2_def by (rule pick_alone_steps)
  have x3: "reachable ?S x3" using reachable_steps [OF x23 x2] .
  have x3z: "(sys_step ?S)\<^sup>*\<^sup>* x3 z"
    unfolding z_def using serve_alone_steps pick_alone_steps by (rule rtranclp_trans)
  obtain w3 where "serve_each ?S results (sys_world x2) = (replicate (length results) (Handled None), w3)"
    and w3: "v_status (view_of sid (w_db w3)) = Some SessionStatusCodeSent"
      "under_way (set start_keys) (view_of sid (w_db w3))" "w_spawned w3 = []"
    using results_done [OF assms(16-19,9,20-22) _ assms(15) up reachable_sound [OF x2]] start by auto
  then have x3w: "sys_world x3 = w3" by (simp add: x3_def serve_all_def serve_each_alone)
  obtain r where r: "session_row (w_db (sys_world x3)) sid = Some r" "s_Status r = SessionStatusCodeSent"
    using w3(1) by (auto simp: x3w session_row_view)
  have id: "session_identity q = session_identity ?q"
    if "session_row (w_db (sys_world y)) sid = Some q" "(sys_step ?S)\<^sup>*\<^sup>* x3 y" for y q
    using recorded_row [OF rtranclp_trans [OF x12 rtranclp_trans [OF x23 that(2)]] x1, of ?q q] start that(1)
      assms(8) by (simp add: new_session_def)
  have fields: "s_ClientID r = si_clientID i" "s_UserID r = si_userID i"
    using id [OF r(1) rtranclp.rtrancl_refl] by (simp_all add: session_identity_def new_session_def)
  have under: "under_way (set start_keys) (view_of sid (w_db (sys_world x3)))" "w_spawned (sys_world x3) = []"
    using w3(2,3) x3w by simp_all
  obtain q where q: "session_row (w_db (sys_world z)) sid = Some q" "s_Status q = SessionStatusCompleted"
  proof -
    have "s_ClientID r \<noteq> []" "TrimSpace (vp_ClientID v) = s_ClientID r"
      using fields assms(24,25) by simp_all
    moreover have "env_VerifyRegistrationEmail env j (s_UserID r) (TrimSpace (vp_Code v)) = None"
      "env_ActivateUser env j (s_UserID r) = None" for j
      unfolding fields by (rule assms(27), rule assms(28))
    ultimately show thesis
      using verified_run [OF x3 assms(3) under(1) r under(2) assms(9,23) _ _ assms(26), folded z_def] that by blast
  qed
  have "code_entered ?S p results v x = z"
    by (simp add: code_entered_def z_def x3_def x2_def x1_def)
  moreover have "s_ClientID q = si_clientID i" "s_UserID q = si_userID i" "s_SessionID q = sid"
    using id [OF q(1) x3z] assms(8) by (simp_all add: session_identity_def new_session_def)
  ultimately show ?thesis
    using status_completed [OF up q assms(9), of "vp_SessionID v" "vp_ClientID v" cfg] assms(23-25)
    by (simp add: registration_status_def)
qed


text \<open>
  C3: A registration goes through. From any reachable state with no pending goroutine, while the
  database answers, the broker accepts the commands and events, and the auth and user services
  accept the code and the activation: a valid start for a free address, the dispatch of its
  commands, the three successful results in any order and number, the right code entered by the
  same client and the verification goroutine lead to a state in which the client's status query
  is answered \<open>completed\<close> with the session's ids.
\<close>

theorem registration_completes:
  fixes sid :: string
  assumes "reachable (saga_service env cfg) x" and "w_spawned (sys_world x) = []"
    and "\<And>j. env_db_fault env j = None" and "start_error env p = None"
    and "input_of env p (sys_world x) = (n, w0)" and "with_ids env n ((ticked ^^ 4) w0) = (i, w1)"
    and "free_to_start env i (sys_world x)" and "si_sessionID i = sid" and "sid \<noteq> []"
    and "\<And>j. env_bcrypt env j (TrimSpace (sp_Password p)) = Inr hash"
    and "user_command env (new_session i (env_now env (w_tick w1))) n = Some pu"
    and "auth_command env (new_session i (env_now env (w_tick w1))) n hash = Some pa"
    and "\<And>j. env_publish env j (nc_UserCreateSubject cfg) pu = None"
    and "\<And>j. env_publish env j (nc_AuthCreatePendingSubject cfg) pa = None"
    and "code_sent_deliverable env cfg"
    and "set results = {UserResult u, AuthResult a, MailResult m}"
    and "ucr_SessionID u = sid" and "acr_SessionID a = sid" and "msr_SessionID m = sid"
    and "ucr_Status u = ''success''" and "acr_Status a = ''success''" and "msr_Status m = ''success''"
    and "TrimSpace (vp_SessionID v) = sid" and "TrimSpace (vp_ClientID v) = si_clientID i"
    and "si_clientID i \<noteq> []" and "TrimSpace (vp_Code v) \<noteq> []"
    and "\<And>j. env_VerifyRegistrationEmail env j (si_userID i) (TrimSpace (vp_Code v)) = None"
    and "\<And>j. env_ActivateUser env j (si_userID i) = None"
  shows "last (sys_replies (serve_alone (saga_service env cfg)
            (StatusRequest (vp_SessionID v) (vp_ClientID v)) (code_entered (saga_service env cfg) p results v x)))
     = StatusReply (Inr \<lparr>rs_SessionID = sid, rs_ClientID = si_clientID i, rs_UserID = si_userID i,
                        rs_Status = SessionStatusCompleted\<rparr>)"
  using assms by (rule registration_run)

end
