(* ===== verification/Reconciliation.thy ===== *)
theory Reconciliation
  imports Registration_Run
begin

text \<open>
  More on the reconciliation of a session's status: the loop for repositories without
  \<open>ReconcileStatus\<close> against the transaction of the PostgreSQL repository, and what the
  reconciliation does to a session whose registration went on before a result was handled.
\<close>

section \<open>The two reconciliations\<close>

text \<open>The service over a session repository that does not offer \<open>ReconcileStatus\<close>.\<close>

definition fallback_service :: "environment \<Rightarrow> NATSConfig \<Rightarrow> world registrationService" where
  "fallback_service env cfg =
     (saga_service env cfg)\<lparr>sv_sessions := (session_repository env)\<lparr>sess_ReconcileStatus := None\<rparr>\<rparr>"

lemma fallback_fields [simp]:
  "sv_steps (fallback_service env cfg) = step_repository env"
  "sv_broker (fallback_service env cfg) = sv_broker (saga_service env cfg)"
  "sv_realtime (fallback_service env cfg) = sv_realtime (saga_service env cfg)"
  "sv_emailChecker (fallback_service env cfg) = sv_emailChecker (saga_service env cfg)"
  "sv_usernameChecker (fallback_service env cfg) = sv_usernameChecker (saga_service env cfg)"
  "sv_cfg (fallback_service env cfg) = sv_cfg (saga_service env cfg)"
  "sv_rt (fallback_service env cfg) = sv_rt (saga_service env cfg)"
  "sess_GetByID (sv_sessions (fallback_service env cfg)) = sess_GetByID (session_repository env)"
  "sess_UpdateStatus (sv_sessions (fallback_service env cfg)) = sess_UpdateStatus (session_repository env)"
  "sess_ReconcileStatus (sv_sessions (fallback_service env cfg)) = None"
  by (simp_all add: fallback_service_def)

lemma fallback_compensation:
  "compensateRegistrationFailure (fallback_service env cfg) sid u reason
     = compensateRegistrationFailure (saga_service env cfg) sid u reason"
proof -
  have "sv_sessions (saga_service env cfg) = session_repository env" by simp
  then show ?thesis
    unfolding compensateRegistrationFailure_def compensation_effects_def
      publishRegistrationNotification_def fallback_fields by simp
qed

lemma run_ListBySessionID:
  "db_up env w \<Longrightarrow> run (step_ListBySessionID (step_repository env) sid) w =
     (Inr (steps_of (w_db w) sid), ticked w)"
  by (simp add: step_repository_def run_db_up steps_ListBySessionID_def with_db_def ticked_def)

lemma scan_view:
  assumes "sound w"
  shows "scan_steps True (steps_of (w_db w) sid) =
     (let st = view_aggregate (view_of sid (w_db w)) in
      if st = SessionStatusFailed then None else Some (st = SessionStatusCodeSent))"
proof -
  have "aggregate_status (steps_of (w_db w) sid) = view_aggregate (view_of sid (w_db w))"
    using assms by (intro aggregate_status_view) (auto simp: sound_def db_ok_def)
  then show ?thesis
    by (auto simp: aggregate_status_def Let_def split: option.splits if_splits)
qed

text \<open>What the attempts come to while nothing else runs: they all read the same steps.\<close>

lemma run_sync_attempts:
  assumes "db_up env w" and "sound w"
  shows "run (sync_attempts (fallback_service env cfg) sid (Suc n)) w =
     (let st = view_aggregate (view_of sid (w_db w)) in
      if st = SessionStatusFailed
      then (case run (compensateRegistrationFailure (saga_service env cfg) sid [] ''registration step failed'')
                   (ticked w) of (r, w') \<Rightarrow> (Inl r, w'))
      else if st = SessionStatusCodeSent then (Inr (), ticked w)
      else (Inl None, (ticked ^^ Suc n) w))"
  using assms
proof (induction n arbitrary: w)
  case 0
  then show ?case
    by (simp add: run_simps run_ListBySessionID scan_view fallback_compensation Let_def)
next
  case (Suc n)
  from Suc.IH [of "ticked w"] Suc.prems show ?case
    by (subst sync_attempts.simps) (simp add: run_simps run_ListBySessionID scan_view
        fallback_compensation Let_def funpow_swap1 del: sync_attempts.simps)
qed

lemma run_fallback:
  assumes up: "db_up env w" and "sound w" and row: "session_row (w_db w) sid = Some r"
  shows "\<exists>w'. run (syncSessionStatus (fallback_service env cfg) sid) w = (None, w')
     \<and> touches_only sid (\<lambda>v. if view_aggregate v = SessionStatusInProgress then v else view_reconcile v) env w w'"
proof -
  let ?v = "view_of sid (w_db w)"
  have attempts: "run (sync_attempts (fallback_service env cfg) sid 3) w =
     (let st = view_aggregate (view_of sid (w_db w)) in
      if st = SessionStatusFailed
      then (case run (compensateRegistrationFailure (saga_service env cfg) sid [] ''registration step failed'')
                   (ticked w) of (r, w') \<Rightarrow> (Inl r, w'))
      else if st = SessionStatusCodeSent then (Inr (), ticked w)
      else (Inl None, (ticked ^^ 3) w))"
    using run_sync_attempts [OF assms(1,2), where sid = sid and n = 2 and cfg = cfg]
    by (simp only: Suc_numeral semiring_norm)
  consider (failed) "view_aggregate ?v = SessionStatusFailed"
    | (all_done) "view_aggregate ?v = SessionStatusCodeSent"
    | (pending) "view_aggregate ?v = SessionStatusInProgress"
    unfolding view_aggregate_def aggregate_def by presburger
  then show ?thesis
  proof cases
    case failed
    have row': "session_row (w_db (ticked w)) sid = Some r" "db_up env (ticked w)" "sound (ticked w)"
      using assms by simp_all
    obtain w' where w': "run (compensateRegistrationFailure (saga_service env cfg) sid []
        ''registration step failed'') (ticked w) = (None, w')"
      "touches_only sid (view_write SessionStatusFailed) env (ticked w) w'"
      using row'(2,3,1) by (rule touches_compensate)
    have "run (syncSessionStatus (fallback_service env cfg) sid) w = (None, w')"
      using attempts w'(1) failed by (simp add: syncSessionStatus_def run_simps Let_def del: sync_attempts.simps)
    then show ?thesis using w'(2) failed by (auto simp: touches_only_def view_reconcile_def)
  next
    case all_done
    let ?w = "traced (Metric (SetSagaActiveSessions 0)) (traced (Metric IncSagaCompleted)
      (with_db env (write_status sid SessionStatusCodeSent) (ticked w)))"
    have "run (syncSessionStatus (fallback_service env cfg) sid) w = (None, ?w)"
      using attempts all_done up
      by (simp add: syncSessionStatus_def run_simps run_UpdateStatus Let_def del: sync_attempts.simps)
    moreover have "touches_only sid view_reconcile env w ?w"
      using all_done assms(1,2) by (auto simp: touches_only_def view_reconcile_def)
    ultimately show ?thesis using all_done by (auto simp: touches_only_def)
  next
    case pending
    then have "run (syncSessionStatus (fallback_service env cfg) sid) w = (None, (ticked ^^ 3) w)"
      using attempts by (simp add: syncSessionStatus_def run_simps Let_def eval_nat_numeral del: sync_attempts.simps)
    then show ?thesis using pending assms by (auto simp: touches_only_def eval_nat_numeral)
  qed
qed

text \<open>
  C7: The two ways to reconcile a session compared, each run undisturbed from the same tables: the
  transaction of the PostgreSQL repository and, for a repository without it, the loop of the
  service end with the same statuses of every session and step as soon as one step has failed or
  all are completed. While steps are pending they differ: the transaction writes \<open>in_progress\<close>
  over the session's status, the loop gives up after three reads and leaves it as it is.
\<close>

theorem reconciliations_agree:
  assumes "db_up env w" and "sound w" and "session_row (w_db w) sid = Some r"
  shows "\<exists>v w'. run (syncSessionStatus (saga_service env cfg) sid) w = (None, v)
     \<and> run (syncSessionStatus (fallback_service env cfg) sid) w = (None, w')
     \<and> (if view_aggregate (view_of sid (w_db w)) = SessionStatusInProgress
        then view_of sid (w_db v) = view_write SessionStatusInProgress (view_of sid (w_db w))
             \<and> view_of sid (w_db w') = view_of sid (w_db w)
        else view_of sid (w_db v) = view_of sid (w_db w'))
     \<and> (\<forall>sid'. sid' \<noteq> sid \<longrightarrow> view_of sid' (w_db v) = view_of sid' (w_db w'))"
proof -
  obtain v where "run (syncSessionStatus (saga_service env cfg) sid) w = (None, v)"
    "touches_only sid view_reconcile env w v" using assms by (rule run_syncSessionStatus)
  moreover obtain w' where "run (syncSessionStatus (fallback_service env cfg) sid) w = (None, w')"
    "touches_only sid (\<lambda>v. if view_aggregate v = SessionStatusInProgress then v else view_reconcile v) env w w'"
    using run_fallback [OF assms] by blast
  ultimately show ?thesis by (auto simp: touches_only_def view_reconcile_def)
qed

section \<open>Late results\<close>

lemma session_identity_unique:
  assumes "append_only d d'" and "db_ok d'" and "session_row d sid = Some r"
    and "session_row d' sid = Some q"
  shows "session_identity q = session_identity r"
proof -
  have "session_identity r \<in> set (map session_identity (db_sessions d'))"
    using assms(1) session_row_id [OF assms(3)] set_mono_prefix by (fastforce simp: append_only_def)
  then obtain r' where r': "r' \<in> set (db_sessions d')" "session_identity r' = session_identity r" by auto
  have "distinct (map s_SessionID (db_sessions d'))" using assms(2) by (simp add: db_ok_def db_keys_def)
  from find_unique_key [OF this r'(1)] r'(2) session_row_id [OF assms(3)] assms(4) show ?thesis
    by (simp add: session_row_def session_identity_def)
qed

lemma append_only_trans: "append_only c d \<Longrightarrow> append_only d e \<Longrightarrow> append_only c e"
  unfolding append_only_def by (blast intro: prefix_order.trans)

lemma on_tables_append:
  "on_tables append_only w w"
  "on_tables append_only u v \<Longrightarrow> on_tables append_only v w \<Longrightarrow> on_tables append_only u w"
  unfolding on_tables_def by (rule identity.same, rule append_only_trans)

lemma serve_each_appends:
  "serve_each (saga_service env cfg) reqs w = (rs, w') \<Longrightarrow> append_only (w_db w) (w_db w')"
proof (induction reqs arbitrary: w rs)
  case Nil
  then show ?case by (simp add: identity.same)
next
  case (Cons req reqs)
  obtain r v where v: "run (serve (saga_service env cfg) req) w = (r, v)" by force
  moreover obtain rs' where "serve_each (saga_service env cfg) reqs v = (rs', w')"
    using Cons.prems v by (auto split: prod.splits)
  moreover have "append_only (w_db w) (w_db (snd (run (serve (saga_service env cfg) req) w)))"
    using safe_run [OF identity.saga.serve [where env = env and cfg = cfg and req = req], of w]
      on_tables_append by (simp add: on_tables_def)
  ultimately show ?case using Cons.IH append_only_trans by auto
qed

lemma success_on_completed:
  assumes "result_of req = Some (sid, f)" and "success_key req \<noteq> None"
    and "\<forall>k \<in> set step_keys. v_step v k = Some StepStatusCompleted" and "v_status v \<noteq> None"
  shows "(\<forall>k \<in> set step_keys. v_step (f v) k = Some StepStatusCompleted)
     \<and> v_status (f v) = Some SessionStatusCodeSent"
proof -
  have all: "view_aggregate x = SessionStatusCodeSent"
    if "\<forall>k \<in> set step_keys. v_step x k = Some StepStatusCompleted" for x
    using that by (auto simp: view_aggregate_def aggregate_def step_keys_def start_keys_def)
  from assms show ?thesis
    by (cases req)
      (auto simp: result_of_def view_user_def view_auth_def view_mail_def view_reconcile_status all
        split: if_splits)
qed

lemma successes_on_completed:
  assumes "list_all2 (\<lambda>req f. result_of req = Some (sid, f)) reqs fs"
    and "\<forall>req \<in> set reqs. success_key req \<noteq> None"
    and "\<forall>k \<in> set step_keys. v_step v k = Some StepStatusCompleted" and "v_status v \<noteq> None"
  shows "(\<forall>k \<in> set step_keys. v_step (fold (\<lambda>f. f) fs v) k = Some StepStatusCompleted)
     \<and> (reqs \<noteq> [] \<longrightarrow> v_status (fold (\<lambda>f. f) fs v) = Some SessionStatusCodeSent)"
  using assms
proof (induction arbitrary: v rule: list_all2_induct)
  case (Cons req reqs f fs)
  from success_on_completed [OF Cons.hyps(1)] Cons.prems
  have "\<forall>k \<in> set step_keys. v_step (f v) k = Some StepStatusCompleted"
    "v_status (f v) = Some SessionStatusCodeSent" by auto
  with Cons.IH [of "f v"] Cons.hyps(2) Cons.prems(1) show ?case by (cases "reqs = []") auto
qed simp

text \<open>What the client of a session in \<open>code_sent\<close> with a verification step gets.\<close>

lemma verify_twice_refused:
  assumes "db_up env w" and "session_row (w_db w) sid = Some r" and "sid \<noteq> []"
    and "TrimSpace (vp_SessionID p) = sid" and "TrimSpace (vp_ClientID p) = s_ClientID r"
    and "s_ClientID r \<noteq> []" and "TrimSpace (vp_Code p) \<noteq> []"
    and "s_Status r = SessionStatusCodeSent" and "step_at (w_db w) sid StepKeyVerifyEmailCode \<noteq> None"
  shows "run (VerifyEmail (saga_service env cfg) p) w
     = (Inl (UniqueViolation ''registration_saga_steps_pkey''), ticked (ticked w))"
proof -
  have id: "s_SessionID r = sid" using session_row_id [OF assms(2)] by simp
  have "\<exists>t \<in> set (db_steps (w_db w)). st_SessionID t = sid \<and> st_StepKey t = StepKeyVerifyEmailCode"
    using assms(9) step_at_id by blast
  then have "run (step_Create (step_repository env)
      (step_row sid StepKeyVerifyEmailCode StepStatusInProgress)) (ticked w)
    = (Inl (UniqueViolation ''registration_saga_steps_pkey''), ticked (ticked w))"
    using assms(1) by (simp add: step_repository_def run_db_up steps_Create_def Let_def step_row_def)
  with assms id show ?thesis
    by (simp add: VerifyEmail_def Let_def run_unwrap run_GetByID one_def reload_in_progress_def
        begin_verification_def)
qed

lemma status_reported:
  assumes "db_up env w" and "session_row (w_db w) sid = Some r" and "sid \<noteq> []"
    and "TrimSpace sid' = sid" and "TrimSpace cid = s_ClientID r" and "s_ClientID r \<noteq> []"
    and "s_Status r \<noteq> SessionStatusCompleted"
  shows "run (GetRegistrationStatus (saga_service env cfg) sid' cid) w
     = (Inr (registration_status r (s_Status r)), ticked w)"
  using assms by (simp add: GetRegistrationStatus_def run_unwrap run_GetByID one_def)

text \<open>
  C8: Late results strand a completed registration. When successful results of a completed session
  whose tokens were not yet claimed are handled, in any order and number, every handler reports
  success and the session is \<open>code_sent\<close> again: the client's status query is answered
  \<open>code_sent\<close>, so no tokens are issued, and entering a code fails on the primary key of the
  verification step, leaving the tables as they are.
\<close>

theorem late_results_strand_registration:
  assumes "session_row (w_db w) sid = Some r" and "s_Status r = SessionStatusCompleted" and "sid \<noteq> []"
    and "\<forall>k \<in> set step_keys. v_step (view_of sid (w_db w)) k = Some StepStatusCompleted"
    and "reqs \<noteq> []"
    and "\<forall>x \<in> set reqs. (\<exists>f. result_of x = Some (sid, f)) \<and> success_key x \<noteq> None"
    and "code_sent_deliverable env cfg" and "db_up env w" and "sound w"
    and "TrimSpace (vp_SessionID p) = sid" and "TrimSpace (vp_ClientID p) = s_ClientID r"
    and "s_ClientID r \<noteq> []" and "TrimSpace (vp_Code p) \<noteq> []"
  shows "\<exists>w'. serve_each (saga_service env cfg) reqs w = (replicate (length reqs) (Handled None), w')
     \<and> fst (run (GetRegistrationStatus (saga_service env cfg) (vp_SessionID p) (vp_ClientID p)) w')
         = Inr (registration_status r SessionStatusCodeSent)
     \<and> run (VerifyEmail (saga_service env cfg) p) w'
         = (Inl (UniqueViolation ''registration_saga_steps_pkey''), ticked (ticked w'))"
proof -
  obtain fs where fs: "list_all2 (\<lambda>req f. result_of req = Some (sid, f)) reqs fs"
    using results_list [of reqs sid] assms(6) by blast
  obtain w' where w': "serve_each (saga_service env cfg) reqs w = (replicate (length reqs) (Handled None), w')"
      "touches_only sid (fold (\<lambda>f. f) fs) env w w'"
    using results_served [OF fs assms(3,7-9,1)] by blast
  have up: "db_up env w'" "sound w'" using w'(2) by (simp_all add: touches_only_def)
  have "v_status (view_of sid (w_db w)) \<noteq> None" using assms(1) by (simp add: session_row_view)
  then have "v_status (view_of sid (w_db w')) = Some SessionStatusCodeSent"
    "v_step (view_of sid (w_db w')) StepKeyVerifyEmailCode = Some StepStatusCompleted"
    using successes_on_completed [OF fs _ assms(4)] assms(5,6) w'(2) by (auto simp: touches_only_def)
  then obtain q where q: "session_row (w_db w') sid = Some q" "s_Status q = SessionStatusCodeSent"
    and step: "step_at (w_db w') sid StepKeyVerifyEmailCode \<noteq> None"
    by (auto simp: view_of_def)
  have "session_identity q = session_identity r"
    using session_identity_unique [OF serve_each_appends [OF w'(1)] _ assms(1) q(1)] up(2)
    by (simp add: sound_def)
  then have eq: "s_ClientID q = s_ClientID r" "registration_status q = registration_status r"
    by (simp_all add: session_identity_def registration_status_def fun_eq_iff)
  have "s_Status q \<noteq> SessionStatusCompleted" by (simp add: q(2))
  from status_reported [OF up(1) q(1) assms(3,10) _ _ this, of "vp_ClientID p" cfg]
    verify_twice_refused [OF up(1) q(1) assms(3,10) _ _ assms(13) q(2) step, of cfg] w'(1)
  show ?thesis using eq assms(11,12) q(2) by auto
qed

end
