(* ===== verification/Scenario.thy ===== *)
theory Scenario
  imports Reconciliation
begin

text \<open>
  A concrete environment, a concrete registration and concrete worlds, on which the theorems with
  hypotheses are instantiated: every call succeeds, no name is taken, JSON is the standard
  encoding, notifications are framed. The states of the registration are reached through the
  rules of the scheduler; what their tables hold is derived from the handlers' lemmas.
\<close>

section \<open>The environment and the requests\<close>

definition calm :: environment where
  "calm =
     \<lparr>env_now = int, env_uuid = (\<lambda>i. [char_of (97 + i)]), env_db_fault = (\<lambda>_. None),
      env_publish = (\<lambda>_ _ _. None), env_realtime = (\<lambda>_ _. None),
      env_ExistsByEmail = (\<lambda>_ _. Inr False), env_VerifyRegistrationEmail = (\<lambda>_ _ _. None),
      env_DeactivateRegistrationAuth = (\<lambda>_ _. None), env_ExistsByUsername = (\<lambda>_ _. Inr False),
      env_ActivateUser = (\<lambda>_ _. None), env_DeactivateUser = (\<lambda>_ _. None),
      env_bcrypt = (\<lambda>_ pw. Inr (''#'' @ pw)), env_jsonMarshal = json_Marshal,
      env_ParseAddress = (\<lambda>a. CHR ''@'' \<in> set a),
      env_marshalNotification = framed_notification\<rparr>"

lemma calm_simps [simp]:
  "env_db_fault calm i = None" "env_publish calm i subj b = None"
  "env_ExistsByEmail calm i v = Inr False" "env_ExistsByUsername calm i v = Inr False"
  "env_VerifyRegistrationEmail calm i u c = None" "env_ActivateUser calm i u = None"
  "env_bcrypt calm i pw = Inr (''#'' @ pw)" "env_jsonMarshal calm = json_Marshal"
  "env_ParseAddress calm a \<longleftrightarrow> CHR ''@'' \<in> set a"
  "env_marshalNotification calm = framed_notification" "env_now calm i = int i"
  by (simp_all add: calm_def)

lemma calm_up [simp]: "db_up calm w" and calm_deliverable [simp]: "code_sent_deliverable calm cfg"
  by (simp_all add: db_up_def code_sent_deliverable_def)

abbreviation calm_service :: "world registrationService" where
  "calm_service \<equiv> saga_service calm NATSConfig_default"

definition ada :: StartRegistrationParams where
  "ada = \<lparr>sp_SessionID = ''s1'', sp_ClientID = ''c1'', sp_UserID = ''u1'', sp_Email = '' a@b'',
          sp_Username = ''ada'', sp_Password = ''password'', sp_FirstName = [], sp_Surname = []\<rparr>"

definition user_result_of :: "string \<Rightarrow> UserCreateResult" where
  "user_result_of st = \<lparr>ucr_SessionID = ''s1'', ucr_UserID = ''u1'', ucr_Status = st, ucr_Error = [],
             ucr_Timestamp = []\<rparr>"

definition auth_result_of :: "string \<Rightarrow> AuthCreatePendingResult" where
  "auth_result_of st = \<lparr>acr_SessionID = ''s1'', acr_ClientID = ''c1'', acr_UserID = ''u1'',
             acr_Status = st, acr_Error = [], acr_Timestamp = []\<rparr>"

definition mail_result_of :: "string \<Rightarrow> MailSendResult" where
  "mail_result_of st = \<lparr>msr_SessionID = ''s1'', msr_ClientID = ''c1'', msr_UserID = ''u1'',
             msr_RequestID = [], msr_CorrelationID = [], msr_MessageType = [], msr_To = [],
             msr_Status = st, msr_Error = [], msr_Timestamp = []\<rparr>"

definition code_entry :: VerifyEmailParams where
  "code_entry = \<lparr>vp_SessionID = ''s1'', vp_ClientID = ''c1'', vp_Code = ''123456''\<rparr>"

lemma entries [simp]:
  "ucr_SessionID (user_result_of st) = ''s1''" "ucr_Status (user_result_of st) = st"
  "acr_SessionID (auth_result_of st) = ''s1''" "acr_Status (auth_result_of st) = st"
  "msr_SessionID (mail_result_of st) = ''s1''" "msr_Status (mail_result_of st) = st"
  by (simp_all add: user_result_of_def auth_result_of_def mail_result_of_def)

lemma trimmed [simp]:
  "TrimSpace (sp_SessionID ada) = ''s1''" "TrimSpace (sp_ClientID ada) = ''c1''"
  "TrimSpace (sp_UserID ada) = ''u1''" "TrimSpace (sp_Email ada) = ''a@b''"
  "TrimSpace (sp_Username ada) = ''ada''" "TrimSpace (sp_Password ada) = ''password''"
  "TrimSpace (vp_SessionID code_entry) = ''s1''" "TrimSpace (vp_ClientID code_entry) = ''c1''"
  "TrimSpace (vp_Code code_entry) = ''123456''"
  by (code_simp)+

section \<open>The states of a registration\<close>

definition at_start :: system where
  "at_start = serve_alone calm_service (StartRequest ada) initial"

definition dispatched :: system where
  "dispatched = pick_alone calm_service at_start"

definition user_done :: system where
  "user_done = serve_alone calm_service (UserResult (user_result_of ''success'')) at_start"

definition registered :: system where
  "registered = pick_alone calm_service (serve_alone calm_service (VerifyRequest code_entry)
     (serve_alone calm_service (MailResult (mail_result_of ''success''))
       (serve_alone calm_service (AuthResult (auth_result_of ''success'')) user_done)))"

definition claimed :: system where
  "claimed = serve_alone calm_service (StatusRequest ''s1'' ''c1'')
     (serve_alone calm_service (StatusRequest ''s1'' ''c1'') registered)"

lemma scenario_reachable:
  "reachable calm_service at_start" "reachable calm_service dispatched"
  "reachable calm_service user_done" "reachable calm_service registered" "reachable calm_service claimed"
  unfolding at_start_def dispatched_def user_done_def registered_def claimed_def
  by (intro serve_alone_reachable pick_alone_reachable reachable_initial)+

lemma ada_valid: "start_error calm ada = None"
  by (simp add: start_error_def)

lemma ada_free: "free_to_start calm (start_input ada) start_world"
  by (simp add: free_to_start_def start_world_def empty_db_def)

lemma ada_input: "input_of calm ada start_world = (start_input ada, start_world)"
  by (simp add: input_of_def)

lemma ada_ids: "with_ids calm (start_input ada) ((ticked ^^ 4) start_world)
    = (start_input ada, (ticked ^^ 4) start_world)"
  by (simp add: with_ids_def)

lemma at_start_tables:
  "db_sessions (w_db (sys_world at_start)) = [new_session (start_input ada) 4]"
  "db_steps (w_db (sys_world at_start)) = [stored_step ''s1'' 5 StepKeyUserCreateProfile,
     stored_step ''s1'' 6 StepKeyAuthCreatePending, stored_step ''s1'' 7 StepKeyMailSendVerificationCode]"
  "w_spawned (sys_world at_start) = [DispatchStartCommands (new_session (start_input ada) 4)
     (start_input ada) ''#password'']"
  using start_run [OF calm_up ada_valid ada_input ada_ids ada_free, of "''#password''" NATSConfig_default]
  by (auto simp: at_start_def serve_alone_def serve_def run_bind initial_def start_world_def empty_db_def)

lemma at_start_sound: "sound (sys_world at_start)"
  by (rule reachable_sound [OF scenario_reachable(1)])

lemma at_start_row: "session_row (w_db (sys_world at_start)) ''s1'' = Some (new_session (start_input ada) 4)"
  by (simp add: session_row_def at_start_tables new_session_def)

lemma at_start_under_way: "under_way {} (view_of ''s1'' (w_db (sys_world at_start)))"
  by (simp add: under_way_def view_of_def at_start_row step_at_def at_start_tables stored_step_def
      pending_step_def start_keys_def verify_keys_def)

lemma user_done_step:
  "\<exists>t \<in> set (db_steps (w_db (sys_world user_done))).
     st_StepKey t = StepKeyUserCreateProfile \<and> st_Status t = StepStatusCompleted"
proof -
  obtain w' where "run (HandleUserCreateResult calm_service (user_result_of ''success'')) (sys_world at_start)
      = (None, w')" "touches_only ''s1'' (view_user True) calm (sys_world at_start) w'"
    using user_result [OF calm_up at_start_sound, of "user_result_of ''success''"
        "new_session (start_input ada) 4" NATSConfig_default] at_start_row by auto
  then have "v_step (view_of ''s1'' (w_db (sys_world user_done))) StepKeyUserCreateProfile
      = Some StepStatusCompleted"
    using at_start_under_way
    by (auto simp: user_done_def serve_alone_def serve_def run_bind touches_only_def view_user_def
        under_way_def start_keys_def)
  then show ?thesis by (auto simp: view_of_def dest: step_at_id)
qed

end
