(* ===== verification/Ownership.thy ===== *)
theory Ownership
  imports Causality
begin

text \<open>
  Every step belongs to a stored session. No foreign key of the tables says so: a step is inserted
  under the id of a session the program has created or read before, and sessions are never removed.
  So the insertions need what the program knows (theory \<open>Knowledge\<close>), while every other action
  keeps the fact by itself.
\<close>

section \<open>The invariant\<close>

definition has_session :: "string \<Rightarrow> database \<Rightarrow> bool" where
  "has_session sid d \<longleftrightarrow> sid \<in> set (map s_SessionID (db_sessions d))"

definition owned :: "database \<Rightarrow> bool" where
  "owned d \<longleftrightarrow> (\<forall>sid \<in> set (map st_SessionID (db_steps d)). has_session sid d)"

abbreviation keeps_owned :: "world \<Rightarrow> world \<Rightarrow> bool" where
  "keeps_owned v w \<equiv> owned (w_db v) \<longrightarrow> on_tables append_only v w \<and> owned (w_db w)"

abbreviation knows ::
  "('a \<Rightarrow> world \<Rightarrow> bool) \<Rightarrow> (world \<Rightarrow> bool) \<Rightarrow> (world, 'a) prog \<Rightarrow> bool" where
  "knows \<equiv> learns (on_tables append_only) (\<lambda>w. owned (w_db w))"

lemma has_session_grows: "has_session sid d \<Longrightarrow> append_only d d' \<Longrightarrow> has_session sid d'"
proof -
  have "map s_SessionID xs = map fst (map session_identity xs)" for xs by (simp add: session_identity_def)
  then show "has_session sid d \<Longrightarrow> append_only d d' \<Longrightarrow> has_session sid d'"
    unfolding has_session_def append_only_def by (metis map_mono_prefix set_mono_prefix subsetD)
qed

lemma stable_has_session: "stable (on_tables append_only) (\<lambda>w. has_session sid (w_db w))"
  by (auto simp: stable_def on_tables_def intro: has_session_grows)

lemma owned_changes:
  "owned d \<Longrightarrow> owned (insert_session r d)"
  "owned (insert_step t d) \<longleftrightarrow> owned d \<and> has_session (st_SessionID t) d"
  "owned (write_status sid st now d) = owned d" "owned (claim_rows sid now d) = owned d"
  "owned (write_step sid k st now d) = owned d"
  by (auto simp: owned_def has_session_def row_changes map_update_rows simp del: set_map)

lemma owned_statements:
  "s_Status x = SessionStatusStarted \<Longrightarrow> append_only d (snd (sessions_Create x now d)) \<and> (owned d \<longrightarrow> owned (snd (sessions_Create x now d)))"
  "st \<in> set session_statuses \<Longrightarrow> append_only d (snd (sessions_UpdateStatus sid st now d)) \<and> (owned d \<longrightarrow> owned (snd (sessions_UpdateStatus sid st now d)))"
  "append_only d (snd (sessions_ClaimCompleted sid now d)) \<and> (owned d \<longrightarrow> owned (snd (sessions_ClaimCompleted sid now d)))"
  "append_only d (snd (sessions_ReconcileStatus sid now d)) \<and> (owned d \<longrightarrow> owned (snd (sessions_ReconcileStatus sid now d)))"
  "k \<in> set step_keys \<Longrightarrow> ss \<in> set step_statuses \<Longrightarrow> append_only d (snd (steps_UpdateStatus sid k ss now d)) \<and> (owned d \<longrightarrow> owned (snd (steps_UpdateStatus sid k ss now d)))"
  using sessions_Create_cases [of x now d] sessions_ClaimCompleted_cases [of sid now d]
    sessions_ReconcileStatus_cases [of sid now d] identity.create [of x d now] identity.update [of st d sid now]
    identity.claim [of d sid now] identity.reconcile [of d sid now] identity.step_update [of k ss d sid now]
  by (auto simp: owned_changes)

section \<open>Actions that insert no step\<close>

lemma same_tables_kept: "w_db w = w_db v \<Longrightarrow> keeps_owned v w"
  by (simp add: on_tables_def identity.same)

lemma traced_kept: "on_tables append_only w (traced e w)"
  by (simp add: on_tables_def identity.same)

lemma db_exec_kept:
  assumes "\<And>now d. append_only d (snd (stmt now d)) \<and> (owned d \<longrightarrow> owned (snd (stmt now d)))"
  shows "safe keeps_owned (db_exec env stmt)"
proof -
  have "keeps_owned w (snd (run (db_exec env stmt) w))" for w
    using assms [of "w_db w" "env_now env (w_tick w)"]
    by (auto simp: db_exec_def on_tables_def identity.same split: option.split prod.split)
  then show ?thesis by (simp add: db_exec_def safe_call_iff)
qed

lemma result_error_kept: "safe keeps_owned p \<Longrightarrow> safe keeps_owned (result_error p)"
  unfolding result_error_def by (intro safe_intros)

lemma ask_kept [safe_intros]: "safe keeps_owned (ask f)"
  unfolding ask_def by (rule safe_call, rule same_tables_kept) simp

lemma notify_kept [safe_intros]: "safe keeps_owned (notify f e)"
  unfolding notify_def by (rule safe_call, rule same_tables_kept) (simp add: Let_def)

lemma LoadOrStore_kept [safe_intros]: "safe keeps_owned (LoadOrStore k)"
  unfolding LoadOrStore_def by (rule safe_call, rule same_tables_kept) simp

lemma go_kept [safe_intros]: "safe keeps_owned (go g)"
  unfolding go_def by (rule safe_call, rule same_tables_kept) simp

lemma metric_kept [safe_intros]: "safe keeps_owned (rt_metric (saga_runtime env) m)"
  by (simp add: saga_runtime_def, rule safe_call, rule same_tables_kept) simp

lemma notification_kept [safe_intros]:
  "safe keeps_owned (publishRegistrationNotification (saga_service env cfg) x et ns ec rt pl)"
  unfolding publishRegistrationNotification_def
  by (auto simp: saga_broker_def intro!: safe_intros split: sum.split)

interpretation owners: service_verification "saga_service env cfg" keeps_owned for env cfg
proof unfold_locales
  fix reconcile sid
  assume "sess_ReconcileStatus (sv_sessions (saga_service env cfg)) = Some reconcile"
  then show "safe keeps_owned (reconcile sid)"
    by (auto simp del: updates_written simp: session_repository_def intro!: db_exec_kept owned_statements)
qed (auto simp: session_repository_def step_repository_def saga_broker_def auth_client_def saga_runtime_def
    user_client_def session_statuses_def step_keys_def sessions_GetByID_def contract_sets identity.same
    sessions_GetByEmail_def sessions_GetByUsername_def steps_ListBySessionID_def
    simp del: updates_written
    intro!: safe_intros db_exec_kept result_error_kept owned_statements traced_kept)

section \<open>What the insertions know\<close>

lemma knows_statement:
  assumes "\<And>now d. owned d \<Longrightarrow> P d \<Longrightarrow> append_only d (snd (stmt now d)) \<and> owned (snd (stmt now d))
      \<and> Q (fst (stmt now d)) (snd (stmt now d))"
    and "\<And>e d. P d \<Longrightarrow> Q (Inl e) d" and "\<And>x. stable (on_tables append_only) (\<lambda>w. Q x (w_db w))"
  shows "knows (\<lambda>x w. Q x (w_db w)) (\<lambda>w. P (w_db w)) (db_exec env stmt)"
proof -
  have kept: "on_tables append_only w v \<and> owned (w_db v) \<and> Q x (w_db v)"
    if "owned (w_db w)" "P (w_db w)" "(x, v) = run (db_exec env stmt) w" for w x v
    using that assms(1) [OF that(1,2), of "env_now env (w_tick w)"] assms(2) [OF that(2)]
    by (auto simp: db_exec_def on_tables_def identity.same split: option.splits prod.splits)
  show ?thesis
    unfolding db_exec_def
    by (rule learns_call [OF _ assms(3)], drule (1) kept [OF _ _ surjective_pairing [symmetric]]) (simp add: db_exec_def)
qed

definition names_session :: "error + Session \<Rightarrow> database \<Rightarrow> bool" where
  "names_session r d \<longleftrightarrow> (\<forall>x. r = Inr x \<longrightarrow> has_session (s_SessionID x) d)"

lemma names_session_Inl [simp]: "names_session (Inl e) d"
  by (simp add: names_session_def)

lemma stable_names_session: "stable (on_tables append_only) (\<lambda>w. names_session r (w_db w))"
  by (auto simp: names_session_def stable_def on_tables_def intro: has_session_grows)

lemma Create_knows:
  assumes "s_Status x = SessionStatusStarted"
  shows "knows (\<lambda>r w. names_session r (w_db w)) (\<lambda>_. True) (sess_Create (sv_sessions (saga_service env cfg)) x)"
proof -
  have "knows (\<lambda>r w. names_session r (w_db w)) (\<lambda>w. True) (db_exec env (sessions_Create x))"
  proof (rule knows_statement [where P = "\<lambda>_. True", OF _ _ stable_names_session], intro conjI)
    show "names_session (fst (sessions_Create x now d)) (snd (sessions_Create x now d))" for now d
      by (simp add: sessions_Create_def Let_def names_session_def has_session_def)
  qed (use owned_statements(1) [OF assms] in auto)
  then show ?thesis by (simp add: session_repository_def)
qed

lemma GetByID_knows:
  "knows (\<lambda>r w. names_session r (w_db w)) (\<lambda>_. True) (sess_GetByID (sv_sessions (saga_service env cfg)) sid)"
proof -
  have "knows (\<lambda>r w. names_session r (w_db w)) (\<lambda>w. True) (db_exec env (sessions_GetByID sid))"
    by (rule knows_statement [where P = "\<lambda>_. True", OF _ _ stable_names_session])
      (auto simp: sessions_GetByID_def identity.same names_session_def has_session_def session_row_def one_def
        dest!: find_Some_in split: option.splits)
  then show ?thesis by (simp add: session_repository_def)
qed

lemma step_Create_knows:
  assumes "st_SessionID t = sid"
  shows "knows (\<lambda>_ w. has_session sid (w_db w)) (\<lambda>w. has_session sid (w_db w)) (step_Create (sv_steps (saga_service env cfg)) t)"
proof -
  have "knows (\<lambda>_ w. has_session sid (w_db w)) (\<lambda>w. has_session sid (w_db w)) (db_exec env (steps_Create t))"
  proof (rule knows_statement [OF _ _ stable_has_session])
    fix now d assume d: "owned d" "has_session sid d"
    have "append_only d (insert_step q d)" for q by (simp add: append_only_def insert_step_def)
    then have grown: "append_only d (snd (steps_Create t now d))"
      using steps_Create_cases [of t now d] identity.same [of d] by auto
    moreover have "owned (snd (steps_Create t now d))"
      using steps_Create_cases [of t now d] d assms by (auto simp: owned_changes)
    ultimately show "append_only d (snd (steps_Create t now d)) \<and> owned (snd (steps_Create t now d))
        \<and> has_session sid (snd (steps_Create t now d))"
      using d(2) has_session_grows by blast
  qed
  then show ?thesis by (simp add: step_repository_def)
qed

section \<open>The programs\<close>

lemma knows_safe: "safe keeps_owned p \<Longrightarrow> knows (\<lambda>_ _. True) P p"
  by (rule learns_weaken [OF safe_learns [where P = "\<lambda>_. True"]]) simp_all

lemma knows_stay:
  "safe keeps_owned p \<Longrightarrow> knows (\<lambda>_ w. has_session sid (w_db w)) (\<lambda>w. has_session sid (w_db w)) p"
  by (rule safe_learns [OF _ stable_has_session])

lemma createStartSession_knows:
  "knows (\<lambda>r w. names_session r (w_db w)) P (createStartSession (saga_service env cfg) input)"
proof -
  have id: "knows (\<lambda>_ _. True) P (or_uuid (sv_rt (saga_service env cfg)) v)" for v P
    unfolding or_uuid_def by (intro knows_safe safe_if owners.uuid safe_Ret)
  show ?thesis
    unfolding createStartSession_def by (intro learns_bind [OF id] Create_knows) simp
qed

lemma createStartSteps_knows:
  "knows (\<lambda>_ _. True) (\<lambda>w. has_session sid (w_db w)) (createStartSteps (saga_service env cfg) sid)"
proof -
  have steps: "knows (\<lambda>_ _. True) (\<lambda>w. has_session sid (w_db w)) (create_steps (saga_service env cfg) ts)"
    if "\<forall>t \<in> set ts. st_SessionID t = sid" for ts
    using that
  proof (induction ts)
    case (Cons t ts)
    then have "knows (\<lambda>_ _. True) (\<lambda>w. has_session sid (w_db w)) (create_steps (saga_service env cfg) ts)"
      and "st_SessionID t = sid" by simp_all
    then show ?case
      unfolding create_steps.simps by (intro learns_unwrap [OF step_Create_knows]) (simp_all only: learns_Ret_iff simp_thms)
  qed (simp add: learns_Ret_iff)
  show ?thesis unfolding createStartSteps_def by (rule steps) (simp add: pending_step_def)
qed

lemma Start_knows: "knows (\<lambda>_ _. True) P (Start (saga_service env cfg) p)"
proof -
  let ?s = "saga_service env cfg"
  note quiet = knows_safe [OF owners.normalizeStartInput] knows_safe [OF owners.lookupStartConflict]
  have created: "knows (\<lambda>_ _. True) (\<lambda>w. names_session (Inr x) (w_db w))
      (on_err (createStartSteps ?s (s_SessionID x)) h k)"
    if "\<And>e. safe keeps_owned (h e)" and "safe keeps_owned k" for x :: Session and h and k :: "(world, string \<times> (error + StartRegistrationResult)) prog"
  proof (rule learns_on_err)
    show "knows (\<lambda>_ _. True) (\<lambda>w. names_session (Inr x) (w_db w)) (createStartSteps ?s (s_SessionID x))"
      by (rule learns_weaken [OF createStartSteps_knows]) (simp_all add: names_session_def)
  qed (intro knows_safe that)+
  show ?thesis
    unfolding Start_def observed_def
  proof (rule learns_bind [where S = "\<lambda>_ _. True"])
    show "knows (\<lambda>_ _. True) (\<lambda>_. True) (case r of (status, result) \<Rightarrow>
        seq (rt_metric (sv_rt ?s) (ObserveSagaStep ''start'' status)) (Ret result))"
      for r :: "string \<times> (error + StartRegistrationResult)"
      by (cases r) (simp only: prod.case, intro knows_safe safe_intros owners.metric)
  qed (rule learns_unwrap [OF quiet(1)], simp add: learns_Ret_iff, rule learns_unwrap [OF quiet(2)],
      simp add: learns_Ret_iff, split option.split, intro conjI impI allI, rule learns_unwrap [OF createStartSession_knows],
      simp add: learns_Ret_iff, rule created, (intro knows_safe safe_intros)+)
qed

lemma reload_knows:
  "knows (\<lambda>r w. names_session r (w_db w)) (\<lambda>w. names_session (Inr x) (w_db w)) (reload_in_progress (saga_service env cfg) x)"
  unfolding reload_in_progress_def
proof (rule learns_if)
  show "knows (\<lambda>r w. names_session r (w_db w)) (\<lambda>w. names_session (Inr x) (w_db w))
     (on_err (syncSessionStatus (saga_service env cfg) (s_SessionID x)) (\<lambda>err. Ret (Inl err))
        (sess_GetByID (sv_sessions (saga_service env cfg)) (s_SessionID x)))"
    by (rule learns_on_err [OF knows_safe [OF owners.syncSessionStatus]])
      (simp add: learns_Ret_iff, rule GetByID_knows)
qed (simp add: learns_Ret_iff)

lemma begin_verification_knows:
  "knows (\<lambda>_ _. True) (\<lambda>w. names_session (Inr x) (w_db w)) (begin_verification (saga_service env cfg) x code)"
proof -
  have step: "st_SessionID (step_row (s_SessionID x) k st) = s_SessionID x" for k st by (simp add: step_row_def)
  have rest: "safe keeps_owned (on_err (sess_UpdateStatus (sv_sessions (saga_service env cfg)) (s_SessionID x) SessionStatusVerifyingEmail)
      (\<lambda>err. Ret (Inl err)) (seq (rt_go (sv_rt (saga_service env cfg)) (CompleteEmailVerification x code)) (Ret r)))"
    for r :: "error + VerifyEmailResult"
    by (intro safe_intros owners.update_status_verify owners.complete)
  have "knows (\<lambda>_ _. True) (\<lambda>w. has_session (s_SessionID x) (w_db w)) (begin_verification (saga_service env cfg) x code)"
    unfolding begin_verification_def
    by (rule learns_unwrap [OF step_Create_knows [OF step]], simp only: learns_Ret_iff simp_thms,
        rule learns_unwrap [OF step_Create_knows [OF step]], simp only: learns_Ret_iff simp_thms,
        rule knows_safe [OF rest])
  then show ?thesis by (rule learns_weaken) (simp_all add: names_session_def)
qed

lemma VerifyEmail_knows: "knows (\<lambda>_ _. True) (\<lambda>_. True) (VerifyEmail (saga_service env cfg) p)"
  unfolding VerifyEmail_def Let_def
  by (intro learns_if learns_unwrap [OF GetByID_knows] learns_unwrap [OF reload_knows] begin_verification_knows;
      simp add: learns_Ret_iff)

lemma reply_knows: "knows (\<lambda>_ _. True) P p \<Longrightarrow> knows (\<lambda>_ _. True) P (bind p (\<lambda>x. Ret (f x)))"
  by (erule learns_bind) (simp add: learns_Ret_iff)

section \<open>The running system\<close>

interpretation ownership: knowledge_contract "saga_service env cfg" "on_tables append_only"
  "\<lambda>w. owned (w_db w)" "\<lambda>_ _. True" "\<lambda>_ _. True" for env cfg
proof unfold_locales
  show "knows (\<lambda>_ _. True) (\<lambda>_. True) (serve (saga_service env cfg) req)" for req
    by (cases req) (auto simp del: saga_service_simps simp: serve_def
        intro!: reply_knows Start_knows VerifyEmail_knows knows_safe [OF owners.GetRegistrationStatus]
          knows_safe [OF owners.HandleUserCreateResult] knows_safe [OF owners.HandleAuthCreatePendingResult]
          knows_safe [OF owners.HandleMailSendResult])
  show "knows (\<lambda>_ _. True) (\<lambda>_. True) (background (saga_service env cfg) g)" for g
    by (cases g) (auto simp del: saga_service_simps simp: background_def goroutine_body_def
        intro!: reply_knows knows_safe [OF owners.dispatchStartCommands] knows_safe [OF owners.completeEmailVerification])
qed (simp_all add: on_tables_def identity.same owned_def start_world_def empty_db_def)

text \<open>
  C16: In every reachable state of the service the session ids, e-mails, usernames and
  (session, step) keys in the tables are unique, every step belongs to a stored session, and
  replaying the outbox gives exactly the tables: no change is missing from it and none is recorded
  that was not applied.
\<close>

theorem reachable_integrity:
  assumes "reachable (saga_service env cfg) x"
  shows "db_keys (w_db (sys_world x))
     \<and> (\<forall>t \<in> set (db_steps (w_db (sys_world x))). \<exists>r \<in> set (db_sessions (w_db (sys_world x))).
          s_SessionID r = st_SessionID t)
     \<and> replay (db_outbox (w_db (sys_world x)))
         = (db_sessions (w_db (sys_world x)), db_steps (w_db (sys_world x)))"
proof -
  have "owned (w_db (sys_world x))" using ownership.always(1) [OF assms] .
  then have "\<forall>t \<in> set (db_steps (w_db (sys_world x))). \<exists>r \<in> set (db_sessions (w_db (sys_world x))).
      s_SessionID r = st_SessionID t"
    by (fastforce simp: owned_def has_session_def)
  then show ?thesis
    using reachable_db_ok [OF assms] by (simp add: db_ok_def outbox_complete_def)
qed

end
