(* ===== verification/Witnesses.thy ===== *)
theory Witnesses
  imports Scenario Ownership
begin

text \<open>
  The theorems of the saga applied: to the states of the scenario, to worlds holding one session
  with given step rows, and to environments in which one call fails.
\<close>

section \<open>Worlds with one session\<close>

definition kim :: "string \<Rightarrow> Session" where
  "kim st = \<lparr>s_SessionID = ''s1'', s_ClientID = ''c1'', s_UserID = ''u1'', s_Email = ''a@b'',
             s_Username = ''ada'', s_Status = st, s_CreatedAt = 0, s_UpdatedAt = 0\<rparr>"

definition seeded :: "string \<Rightarrow> (string \<times> string) list \<Rightarrow> world" where
  "seeded st ks = start_world\<lparr>w_db := fold (\<lambda>(k, v). insert_step (step_row ''s1'' k v)) ks
     (insert_session (kim st) empty_db)\<rparr>"

lemma fold_insert_step [simp]:
  "db_sessions (fold (\<lambda>(k, v). insert_step (step_row sid k v)) ks d) = db_sessions d"
  "db_steps (fold (\<lambda>(k, v). insert_step (step_row sid k v)) ks d)
     = db_steps d @ map (\<lambda>(k, v). step_row sid k v) ks"
  by (induction ks arbitrary: d) auto

lemma seeded_tables [simp]:
  "db_sessions (w_db (seeded st ks)) = [kim st]"
  "db_steps (w_db (seeded st ks)) = map (\<lambda>(k, v). step_row ''s1'' k v) ks"
  "w_tick (seeded st ks) = 0" "w_spawned (seeded st ks) = []"
  by (simp_all add: seeded_def empty_db_def start_world_def)

lemma kim_simps [simp]:
  "s_SessionID (kim st) = ''s1''" "s_ClientID (kim st) = ''c1''" "s_UserID (kim st) = ''u1''"
  "s_Email (kim st) = ''a@b''" "s_Username (kim st) = ''ada''" "s_Status (kim st) = st"
  by (simp_all add: kim_def)

lemma seeded_row [simp]: "session_row (w_db (seeded st ks)) ''s1'' = Some (kim st)"
  by (simp add: session_row_def)

lemma seeded_holders [simp]:
  "email_holder (w_db (seeded st ks)) v = (if v = ''a@b'' then Some (kim st) else None)"
  "username_holder (w_db (seeded st ks)) v = (if v = ''ada'' then Some (kim st) else None)"
  by (auto simp: email_holder_def username_holder_def)

lemma step_row_simps [simp]:
  "st_SessionID (step_row sid k st) = sid" "st_StepKey (step_row sid k st) = k"
  "st_Status (step_row sid k st) = st" "step_key_of (step_row sid k st) = (sid, k)"
  by (simp_all add: step_row_def step_key_of_def)

lemma insert_step_ok:
  "db_ok d \<Longrightarrow> step_key_of t \<notin> step_key_of ` set (db_steps d) \<Longrightarrow> db_ok (insert_step t d)"
  by (auto simp: db_ok_def db_keys_def outbox_complete_def insert_step_def replay_append emit_step_def)

lemma insert_session_first: "db_ok (insert_session r empty_db)"
  by (simp add: db_ok_def db_keys_def outbox_complete_def insert_session_def empty_db_def replay_def
      emit_session_def)

lemma seeded_db_ok: "distinct (map fst ks) \<Longrightarrow> db_ok (w_db (seeded st ks))"
proof -
  have "db_ok (fold (\<lambda>(k, v). insert_step (step_row ''s1'' k v)) ks d)"
    if "db_ok d" "distinct (map fst ks)" "\<forall>t \<in> set (db_steps d). st_StepKey t \<notin> fst ` set ks" for ks d
    using that
  proof (induction ks arbitrary: d)
    case (Cons kv ks)
    obtain k v where kv: "kv = (k, v)" by force
    have "db_ok (insert_step (step_row ''s1'' k v) d)"
      using Cons.prems kv by (intro insert_step_ok) (auto simp: step_key_of_def)
    then show ?case
      using Cons.prems kv by (simp add: Cons.IH)
  qed simp
  from this [of _ ks] insert_session_first show "distinct (map fst ks) \<Longrightarrow> ?thesis"
    by (auto simp: seeded_def start_world_def insert_session_def empty_db_def)
qed

lemma seeded_sound:
  assumes "distinct (map fst ks)" and "st \<in> set (SessionStatusStarted # SessionStatusTokensClaimed # session_statuses)"
    and "fst ` set ks \<subseteq> set step_keys" and "snd ` set ks \<subseteq> set (StepStatusPending # step_statuses)"
  shows "sound (seeded st ks)"
  using assms seeded_db_ok [OF assms(1), of st]
  by (auto simp: sound_def legal_def image_subset_iff split: prod.splits)

abbreviation three_steps :: "(string \<times> string) list" where
  "three_steps \<equiv> [(StepKeyUserCreateProfile, StepStatusCompleted),
     (StepKeyAuthCreatePending, StepStatusCompleted), (StepKeyMailSendVerificationCode, StepStatusCompleted)]"

lemma seeded_three: "st \<in> set session_statuses \<Longrightarrow> sound (seeded st three_steps)"
  by (rule seeded_sound) (auto simp: step_keys_def start_keys_def step_statuses_def)

section \<open>Executions\<close>

theorem reachable_integrity_witness:
  "reachable calm_service user_done \<and> db_keys (w_db (sys_world user_done))
   \<and> (\<exists>t \<in> set (db_steps (w_db (sys_world user_done))). st_Status t = StepStatusCompleted
        \<and> (\<exists>r \<in> set (db_sessions (w_db (sys_world user_done))). s_SessionID r = st_SessionID t))
   \<and> replay (db_outbox (w_db (sys_world user_done)))
       = (db_sessions (w_db (sys_world user_done)), db_steps (w_db (sys_world user_done)))"
  using reachable_integrity [OF scenario_reachable(3)] scenario_reachable(3) user_done_step by blast

theorem reachable_legal_values_witness:
  "reachable calm_service user_done \<and> (\<exists>t \<in> set (db_steps (w_db (sys_world user_done))).
     st_Status t \<in> {StepStatusPending, StepStatusInProgress, StepStatusCompleted, StepStatusFailed})"
  using reachable_legal_values [OF scenario_reachable(3)] user_done_step scenario_reachable(3) by blast

theorem completed_step_kept_witness:
  "\<exists>t \<in> set (db_steps (w_db (sys_world user_done))). st_Status t = StepStatusCompleted
   \<and> (\<exists>t' \<in> set (db_steps (w_db (sys_world (decide calm_service user_done Crash)))).
        step_key_of t' = step_key_of t \<and> st_Status t' \<in> {StepStatusCompleted, StepStatusFailed})"
proof -
  obtain t where t: "t \<in> set (db_steps (w_db (sys_world user_done)))" "st_Status t = StepStatusCompleted"
    using user_done_step by blast
  have "sys_step calm_service user_done (decide calm_service user_done Crash)"
    by (simp add: sys_step.crash)
  from completed_step_kept [OF scenario_reachable(3) this t] t show ?thesis by blast
qed

theorem rows_append_only_witness:
  "prefix (map session_identity [new_session (start_input ada) 4])
     (map session_identity (db_sessions (w_db (sys_world user_done))))"
  using rows_append_only [OF scenario_reachable(1) serve_alone_steps, of "UserResult (user_result_of ''success'')"]
  by (simp add: user_done_def at_start_tables)

theorem tokens_handed_out_once_witness:
  "reachable calm_service claimed
   \<and> sum_list (map (completed_reply ''s1'') (sys_replies claimed)) \<le> 1"
  using tokens_handed_out_once [OF scenario_reachable(5), of "''s1''"] scenario_reachable(5) by linarith

theorem code_sent_announced_once_witness:
  "reachable calm_service claimed
   \<and> sum_list (map (announcement (framed_announcement ''s1'')) (w_trace (sys_world claimed)))
       \<le> 1 + sys_crashes claimed"
  using code_sent_announced_once [OF _ scenario_reachable(5), of "framed_announcement ''s1''" "''s1''"]
    framed_test scenario_reachable(5) by auto

section \<open>Results\<close>

theorem result_handlers_refine_witness:
  "\<exists>w'. run (serve calm_service (UserResult (user_result_of ''success''))) (sys_world at_start) = (Handled None, w')
     \<and> view_of ''s1'' (w_db w') = view_user True (view_of ''s1'' (w_db (sys_world at_start)))"
  using result_handlers_refine [of "UserResult (user_result_of ''success'')" "''s1''" "view_user True" calm
      NATSConfig_default "sys_world at_start", OF _ _ calm_deliverable calm_up at_start_sound at_start_row]
  by (auto simp: result_of_def)

theorem results_in_any_order_witness:
  "\<exists>w'. v_status (view_of ''s1'' (w_db w')) = Some SessionStatusCodeSent
     \<and> serve_each calm_service [MailResult (mail_result_of ''success''), AuthResult (auth_result_of ''success''),
           MailResult (mail_result_of ''success''), UserResult (user_result_of ''success'')] (sys_world at_start)
       = (replicate 4 (Handled None), w')"
  using results_in_any_order [of "[MailResult (mail_result_of ''success''), AuthResult (auth_result_of ''success''),
      MailResult (mail_result_of ''success''), UserResult (user_result_of ''success'')]"
      "user_result_of ''success''" "auth_result_of ''success''" "mail_result_of ''success''" "''s1''"
      "sys_world at_start" calm NATSConfig_default]
    at_start_under_way at_start_sound
  by (auto simp: insert_commute eval_nat_numeral)

theorem failure_is_final_witness:
  "\<exists>w'. serve_each calm_service [UserResult (user_result_of ''error''), AuthResult (auth_result_of ''success''),
           MailResult (mail_result_of ''success'')] (sys_world at_start)
       = (replicate 3 (Handled None), w')
     \<and> v_status (view_of ''s1'' (w_db w')) = Some SessionStatusFailed"
  using failure_is_final [of "UserResult (user_result_of ''error'')" "''s1''" "view_user False"
      StepKeyUserCreateProfile "[AuthResult (auth_result_of ''success''), MailResult (mail_result_of ''success'')]"
      "sys_world at_start" calm NATSConfig_default]
    at_start_under_way at_start_sound
  by (auto simp: result_of_def reports_failure_def eval_nat_numeral)

theorem mail_failure_undone_witness:
  "\<exists>v w'. run (serve calm_service (MailResult (mail_result_of ''error''))) (sys_world at_start) = (Handled None, v)
     \<and> v_status (view_of ''s1'' (w_db v)) = Some SessionStatusFailed
     \<and> run (serve calm_service (AuthResult (auth_result_of ''success''))) v = (Handled None, w')
     \<and> v_status (view_of ''s1'' (w_db w')) = Some SessionStatusInProgress"
  using mail_failure_undone [of "mail_result_of ''error''" "''s1''" "auth_result_of ''success''"
      "sys_world at_start" calm NATSConfig_default] at_start_under_way at_start_sound
  by auto

section \<open>Start\<close>

theorem start_refused_witness:
  "run (Start calm_service (ada\<lparr>sp_Email := ''nobody''\<rparr>)) start_world =
     (Inl (DomainErr ErrInvalidEmail), traced (Metric (ObserveSagaStep ''start'' ''error'')) start_world)"
proof -
  have "TrimSpace ''nobody'' = ''nobody''" by code_simp
  then have "start_error calm (ada\<lparr>sp_Email := ''nobody''\<rparr>) = Some ErrInvalidEmail"
    by (simp add: start_error_def)
  then show ?thesis by (rule start_refused)
qed

definition known :: environment where
  "known = calm\<lparr>env_ExistsByEmail := (\<lambda>_ _. Inr True)\<rparr>"

theorem start_conflicts_reported_witness:
  "fst (run (Start calm_service ada) (seeded SessionStatusInProgress []))
     = Inr (conflict_result AvailabilityStateIncomplete True True)
   \<and> fst (run (Start (saga_service known NATSConfig_default) ada) start_world)
     = Inr (conflict_result AvailabilityStateCompleted False True)"
proof -
  have "start_error known ada = None" "db_up known start_world"
    using ada_valid by (simp_all add: known_def start_error_def db_up_def)
  then show ?thesis
    using start_conflicts_reported [of calm "seeded SessionStatusInProgress []" ada True True NATSConfig_default]
      start_conflicts_reported [of known start_world ada False False NATSConfig_default True False] ada_valid
    by (simp add: known_def email_holder_def username_holder_def start_world_def empty_db_def)
qed

text \<open>The request as the API passes it: without a session and a user id.\<close>

theorem start_accepted_witness:
  "\<exists>w' session. run (Start calm_service (ada\<lparr>sp_SessionID := [], sp_UserID := []\<rparr>)) start_world =
       (Inr \<lparr>sr_SessionID = ''e'', sr_ClientID = ''c1'', sr_UserID = ''f'',
             sr_Status = SessionStatusStarted, sr_ConflictState = [], sr_UsernameTaken = False,
             sr_EmailTaken = False\<rparr>, w')
     \<and> db_sessions (w_db w') = [session] \<and> s_Email session = ''a@b'' \<and> length (db_steps (w_db w')) = 3"
proof -
  let ?p = "ada\<lparr>sp_SessionID := [], sp_UserID := []\<rparr>"
  let ?i = "(start_input ?p)\<lparr>si_sessionID := ''e'', si_userID := ''f''\<rparr>"
  have letters: "char_of (101 :: nat) = CHR ''e''" "char_of (102 :: nat) = CHR ''f''" by code_simp+
  have "start_error calm ?p = None" by (simp add: start_error_def)
  moreover have "input_of calm ?p start_world = (start_input ?p, start_world)"
    by (simp add: input_of_def)
  moreover have "with_ids calm (start_input ?p) ((ticked ^^ 4) start_world)
      = (?i, ticked (ticked ((ticked ^^ 4) start_world)))"
    using letters by (simp add: with_ids_def Let_def start_world_def calm_def)
  moreover have "free_to_start calm ?i start_world"
    by (simp add: free_to_start_def start_world_def empty_db_def)
  ultimately show ?thesis
    using start_accepted [OF calm_up, of ?p start_world "start_input ?p" start_world ?i _ "''#password''"
        NATSConfig_default]
    by (auto simp: start_world_def empty_db_def new_session_def)
qed

definition broken_at :: "nat \<Rightarrow> environment" where
  "broken_at n = calm\<lparr>env_db_fault := (\<lambda>i. if i = n then Some (ExtErr ''connection reset'') else None)\<rparr>"

theorem start_leaves_orphan_witness:
  "\<exists>w'. run (Start (saga_service (broken_at 5) NATSConfig_default) ada) start_world
       = (Inl (ExtErr ''connection reset''), w')
     \<and> map s_Status (db_sessions (w_db w')) = [SessionStatusStarted] \<and> db_steps (w_db w') = []"
proof -
  have "start_error (broken_at 5) ada = None" "free_to_start (broken_at 5) (start_input ada) start_world"
    using ada_valid ada_free by (simp_all add: broken_at_def start_error_def free_to_start_def)
  moreover have "env_db_fault (broken_at 5) i
      = (if i = w_tick start_world + 5 then Some (ExtErr ''connection reset'') else None)" for i
    by (simp add: broken_at_def start_world_def)
  ultimately show ?thesis
    using start_leaves_orphan [of "broken_at 5" ada start_world "ExtErr ''connection reset''" NATSConfig_default]
    by (auto simp: start_world_def empty_db_def new_session_def)
qed

theorem failed_email_cannot_restart_witness:
  "\<exists>w'. run (Start calm_service (ada\<lparr>sp_SessionID := ''s2'', sp_Username := ''bob''\<rparr>))
         (seeded SessionStatusFailed [])
       = (Inl (UniqueViolation ''registration_sessions_email_idx''), w')"
proof -
  let ?p = "ada\<lparr>sp_SessionID := ''s2'', sp_Username := ''bob''\<rparr>"
  have trim: "TrimSpace ''s2'' = ''s2''" "TrimSpace ''bob'' = ''bob''" by code_simp+
  then have "start_error calm ?p = None" by (simp add: start_error_def)
  with trim show ?thesis
    using failed_email_cannot_restart [of calm "seeded SessionStatusFailed []" ?p "kim SessionStatusFailed"
        NATSConfig_default] by auto
qed

section \<open>Dispatch and verification\<close>

definition refusing :: environment where
  "refusing = calm\<lparr>env_publish := (\<lambda>_ _ _. Some (ExtErr ''no broker''))\<rparr>"

lemma started_sound: "sound (seeded SessionStatusStarted [])"
  by (rule seeded_sound) simp_all

theorem dispatch_publishes_both_witness:
  "\<exists>w' pu pa. run (dispatchStartCommands calm_service (kim SessionStatusStarted) (start_input ada) ''h'')
         (seeded SessionStatusStarted []) = ((), w')
     \<and> w_trace w' = [Published (nc_UserCreateSubject NATSConfig_default) pu True,
                    Published (nc_AuthCreatePendingSubject NATSConfig_default) pa True]"
proof -
  obtain pu pa where "user_command calm (kim SessionStatusStarted) (start_input ada) = Some pu"
    "auth_command calm (kim SessionStatusStarted) (start_input ada) ''h'' = Some pa"
    by (simp add: user_command_def auth_command_def ToUserCreateCommandPayload_def
        ToAuthCreatePendingCommandPayload_def)
  then show ?thesis
    using dispatch_publishes_both [OF calm_up started_sound, of "kim SessionStatusStarted" "start_input ada"
        pu "''h''" pa NATSConfig_default] by (auto simp: seeded_def start_world_def)
qed

theorem dispatch_user_command_refused_witness:
  "\<exists>w'. run (dispatchStartCommands (saga_service refusing NATSConfig_default) (kim SessionStatusStarted)
           (start_input ada) ''h'') (seeded SessionStatusStarted []) = ((), w')
     \<and> v_status (view_of ''s1'' (w_db w')) = Some SessionStatusFailed"
proof -
  obtain pu where pu: "user_command refusing (kim SessionStatusStarted) (start_input ada) = Some pu"
    by (simp add: user_command_def ToUserCreateCommandPayload_def refusing_def)
  have up: "db_up refusing (seeded SessionStatusStarted [])" by (simp add: db_up_def refusing_def)
  show ?thesis
    using dispatch_user_command_refused [OF up started_sound pu, of NATSConfig_default "ExtErr ''no broker''" "''h''"]
    by (auto simp: refusing_def touches_only_def in_progress_view_def view_write_def view_put_def
        view_of_def [of _ "w_db (seeded _ _)"])
qed

theorem verify_accepted_witness:
  "\<exists>w'. run (VerifyEmail calm_service code_entry) (seeded SessionStatusCodeSent three_steps)
       = (Inr \<lparr>vr_SessionID = ''s1'', vr_ClientID = ''c1'', vr_Status = SessionStatusVerifyingEmail\<rparr>, w')
     \<and> w_spawned w' = [CompleteEmailVerification (kim SessionStatusCodeSent) ''123456'']"
  using verify_accepted [OF calm_up, of "seeded SessionStatusCodeSent three_steps" "''s1''"
      "kim SessionStatusCodeSent" code_entry NATSConfig_default]
  by (auto simp: step_at_def)

lemma verifying_sound: "sound (seeded SessionStatusVerifyingEmail three_steps)"
  by (rule seeded_three) simp

theorem verification_completes_witness:
  "\<exists>w'. run (completeEmailVerification calm_service (kim SessionStatusCodeSent) ''123456'')
         (seeded SessionStatusVerifyingEmail three_steps) = ((), w')
     \<and> v_status (view_of ''s1'' (w_db w')) = Some SessionStatusCompleted"
  using verification_completes [OF calm_up verifying_sound, of "kim SessionStatusCodeSent" "''123456''"
      NATSConfig_default]
  by (auto simp: touches_only_def completed_view_def view_write_def view_put_def
      view_of_def [of _ "w_db (seeded _ _)"])

definition wrong_code :: environment where
  "wrong_code = calm\<lparr>env_VerifyRegistrationEmail := (\<lambda>_ _ _. Some (ExtErr ''wrong code''))\<rparr>"

theorem verification_rejected_witness:
  "\<exists>w'. run (completeEmailVerification (saga_service wrong_code NATSConfig_default)
           (kim SessionStatusCodeSent) ''000000'') (seeded SessionStatusVerifyingEmail three_steps) = ((), w')
     \<and> v_status (view_of ''s1'' (w_db w')) = Some SessionStatusFailed"
proof -
  have up: "db_up wrong_code (seeded SessionStatusVerifyingEmail three_steps)"
    by (simp add: db_up_def wrong_code_def)
  show ?thesis
    using verification_rejected [OF up verifying_sound, of "kim SessionStatusCodeSent" "''000000''"
        "ExtErr ''wrong code''" NATSConfig_default]
    by (auto simp: wrong_code_def touches_only_def verification_failed_view_def view_write_def view_put_def
        view_of_def [of _ "w_db (seeded _ _)"])
qed

theorem status_claims_once_witness:
  "\<exists>v. fst (run (GetRegistrationStatus calm_service ''s1'' ''c1'') (seeded SessionStatusCompleted three_steps))
       = Inr (registration_status (kim SessionStatusCompleted) SessionStatusCompleted)
     \<and> fst (run (GetRegistrationStatus calm_service ''s1'' ''c1'') v)
       = Inr (registration_status (kim SessionStatusCompleted) SessionStatusTokensClaimed)"
proof -
  have trim: "TrimSpace ''s1'' = ''s1''" "TrimSpace ''c1'' = ''c1''" "TrimSpace ''c2'' = ''c2''"
    by code_simp+
  have "db_ok (w_db (seeded SessionStatusCompleted three_steps))"
    using seeded_three [of SessionStatusCompleted] by (simp add: sound_def)
  then show ?thesis
    using status_claims_once [OF calm_up, of "seeded SessionStatusCompleted three_steps" "''s1''"
        "kim SessionStatusCompleted" "''s1''" "''c1''" "''c2''" NATSConfig_default] trim by auto
qed

section \<open>A whole registration\<close>

lemma commands_encoded:
  "user_command calm x i = Some (case ToUserCreateCommandPayload json_Marshal x (si_firstName i) (si_surname i) of
     Inl _ \<Rightarrow> [] | Inr b \<Rightarrow> b)"
  "auth_command calm x i h = Some (case ToAuthCreatePendingCommandPayload json_Marshal x (si_email i) h of
     Inl _ \<Rightarrow> [] | Inr b \<Rightarrow> b)"
  by (simp_all add: user_command_def auth_command_def ToUserCreateCommandPayload_def
      ToAuthCreatePendingCommandPayload_def marshal_or_def json_Marshal_def)

definition results_twice :: "request list" where
  "results_twice = [MailResult (mail_result_of ''success''), AuthResult (auth_result_of ''success''),
      UserResult (user_result_of ''success''), MailResult (mail_result_of ''success'')]"

definition paid_out :: system where
  "paid_out = serve_alone calm_service (StatusRequest (vp_SessionID code_entry) (vp_ClientID code_entry))
     (code_entered calm_service ada results_twice code_entry initial)"

lemma paid_out_reply:
  "last (sys_replies paid_out) = StatusReply (Inr \<lparr>rs_SessionID = ''s1'', rs_ClientID = ''c1'',
     rs_UserID = ''u1'', rs_Status = SessionStatusCompleted\<rparr>)"
proof -
  have "last (sys_replies paid_out) = StatusReply (Inr \<lparr>rs_SessionID = ''s1'',
      rs_ClientID = si_clientID (start_input ada), rs_UserID = si_userID (start_input ada),
      rs_Status = SessionStatusCompleted\<rparr>)"
    unfolding paid_out_def
    by (rule registration_run [OF reachable_initial _ _ ada_valid _ _ _ _ _ _ commands_encoded,
        where u = "user_result_of ''success''" and a = "auth_result_of ''success''"
        and m = "mail_result_of ''success''"])
      (auto simp: initial_def start_world_def ada_input [unfolded start_world_def] ada_ids [unfolded start_world_def]
        ada_free [unfolded start_world_def] results_twice_def)
  then show ?thesis by simp
qed

theorem registration_completes_witness:
  "last (sys_replies (serve_alone calm_service (StatusRequest ''s1'' ''c1'')
       (code_entered calm_service ada results_twice code_entry initial)))
   = StatusReply (Inr \<lparr>rs_SessionID = ''s1'', rs_ClientID = ''c1'', rs_UserID = ''u1'',
       rs_Status = SessionStatusCompleted\<rparr>)"
proof -
  have "last (sys_replies (serve_alone calm_service
      (StatusRequest (vp_SessionID code_entry) (vp_ClientID code_entry))
       (code_entered calm_service ada results_twice code_entry initial))) = StatusReply (Inr \<lparr>rs_SessionID = ''s1'',
      rs_ClientID = si_clientID (start_input ada), rs_UserID = si_userID (start_input ada),
      rs_Status = SessionStatusCompleted\<rparr>)"
    by (rule registration_completes [OF reachable_initial _ _ ada_valid _ _ _ _ _ _ commands_encoded,
        where u = "user_result_of ''success''" and a = "auth_result_of ''success''"
        and m = "mail_result_of ''success''"])
      (auto simp: initial_def start_world_def ada_input [unfolded start_world_def] ada_ids [unfolded start_world_def]
        ada_free [unfolded start_world_def] results_twice_def)
  then show ?thesis by (simp add: code_entry_def)
qed

lemma paid_out_reachable: "reachable calm_service paid_out"
  unfolding paid_out_def code_entered_def
  by (intro serve_alone_reachable pick_alone_reachable reachable_steps [OF serve_all_steps, folded serve_all_def]
      reachable_initial)

theorem completion_needs_verified_email_witness:
  "(\<exists>rs. StatusReply (Inr rs) \<in> set (sys_replies paid_out) \<and> rs_UserID rs = ''u1''
       \<and> rs_Status rs = SessionStatusCompleted)
   \<and> vouched ''u1'' (w_trace (sys_world paid_out))"
proof -
  have "sys_replies paid_out \<noteq> []"
    by (simp add: paid_out_def serve_alone_def split: prod.split)
  then have reply: "StatusReply (Inr \<lparr>rs_SessionID = ''s1'', rs_ClientID = ''c1'', rs_UserID = ''u1'',
      rs_Status = SessionStatusCompleted\<rparr>) \<in> set (sys_replies paid_out)"
    using paid_out_reply last_in_set by metis
  with completion_needs_verified_email [OF paid_out_reachable] show ?thesis by force
qed

section \<open>Reconciliation\<close>

abbreviation five_steps :: "(string \<times> string) list" where
  "five_steps \<equiv> three_steps @ [(StepKeyVerifyEmailCode, StepStatusCompleted),
     (StepKeyActivateUser, StepStatusCompleted)]"

lemma seeded_five: "sound (seeded SessionStatusCompleted five_steps)"
  by (rule seeded_sound) (auto simp: step_keys_def start_keys_def verify_keys_def step_statuses_def)

theorem reconciliations_agree_witness:
  "\<exists>v w'. run (syncSessionStatus calm_service ''s1'') (seeded SessionStatusInProgress three_steps) = (None, v)
     \<and> run (syncSessionStatus (fallback_service calm NATSConfig_default) ''s1'')
           (seeded SessionStatusInProgress three_steps) = (None, w')
     \<and> view_of ''s1'' (w_db v) = view_of ''s1'' (w_db w')"
proof -
  have "view_aggregate (view_of ''s1'' (w_db (seeded SessionStatusInProgress three_steps)))
      \<noteq> SessionStatusInProgress"
    by (simp add: view_aggregate_def aggregate_def view_of_def step_at_def step_keys_def start_keys_def
        verify_keys_def)
  with reconciliations_agree [OF calm_up seeded_three seeded_row, of SessionStatusInProgress NATSConfig_default]
  show ?thesis by auto
qed

theorem late_results_strand_registration_witness:
  "\<exists>w'. serve_each calm_service [MailResult (mail_result_of ''success''), AuthResult (auth_result_of ''success'')]
         (seeded SessionStatusCompleted five_steps) = ([Handled None, Handled None], w')
     \<and> fst (run (GetRegistrationStatus calm_service ''s1'' ''c1'') w')
         = Inr (registration_status (kim SessionStatusCompleted) SessionStatusCodeSent)
     \<and> run (VerifyEmail calm_service code_entry) w'
         = (Inl (UniqueViolation ''registration_saga_steps_pkey''), ticked (ticked w'))"
proof -
  have "\<forall>k \<in> set step_keys.
      v_step (view_of ''s1'' (w_db (seeded SessionStatusCompleted five_steps))) k = Some StepStatusCompleted"
    by (simp add: view_of_def step_at_def step_keys_def start_keys_def verify_keys_def)
  note late_results_strand_registration [OF seeded_row _ _ this _ _ calm_deliverable calm_up seeded_five,
      of "[MailResult (mail_result_of ''success''), AuthResult (auth_result_of ''success'')]" code_entry
        NATSConfig_default]
  moreover have entry: "vp_SessionID code_entry = ''s1''" "vp_ClientID code_entry = ''c1''"
    by (simp_all add: code_entry_def)
  ultimately show ?thesis
    using trimmed by (simp add: result_of_def entry del: serve_each.simps)
qed

end
