(* ===== verification/Go_Url.thy ===== *)
theory Go_Url
  imports Go_Json_Parse
begin

text \<open>
  What the service uses of \<open>net/url\<close> and \<open>fmt\<close> to build the address of its database:
  \<open>url.QueryEscape\<close> and the \<open>%d\<close> verb; and the inverse a reader of the address applies to its
  query values (\<open>url.QueryUnescape\<close>) and to its user and password (RFC 3986 percent-decoding, as
  \<open>url.Parse\<close> does it, where a plus sign stands for itself).
\<close>

section \<open>Decimal numbers\<close>

fun decimal :: "nat \<Rightarrow> bytes" where
  "decimal n = (if n < 10 then [] else decimal (n div 10)) @ [''0123456789'' ! (n mod 10)]"

declare decimal.simps [simp del]

definition itoa :: "int \<Rightarrow> bytes" where
  "itoa i = (if i < 0 then CHR ''-'' # decimal (nat (- i)) else decimal (nat i))"

definition url_digits :: "char set" where
  "url_digits = set ''0123456789''"

lemma decimal_digits: "set (decimal n) \<subseteq> url_digits"
proof (induction n rule: decimal.induct)
  case (1 n)
  have "n mod 10 \<in> {0, 1, 2, 3, 4, 5, 6, 7, 8, 9}" by simp presburger
  then have "''0123456789'' ! (n mod 10) \<in> url_digits"
    unfolding url_digits_def by (elim insertE emptyE) simp_all
  with 1 show ?case by (subst decimal.simps) auto
qed

lemma itoa_chars: "set (itoa i) \<subseteq> insert (CHR ''-'') url_digits"
  using decimal_digits by (auto simp: itoa_def)

section \<open>Escaping\<close>

definition unreserved :: "char \<Rightarrow> bool" where
  "unreserved c \<longleftrightarrow>
     c \<in> set ''abcdefghijklmnopqrstuvwxyzABCDEFGHIJKLMNOPQRSTUVWXYZ0123456789-_.~''"

definition upper_hex :: "nat \<Rightarrow> char" where
  "upper_hex n = ''0123456789ABCDEF'' ! (n mod 16)"

definition escape_char :: "char \<Rightarrow> bytes" where
  "escape_char c =
     (if unreserved c then [c]
      else if c = CHR '' '' then ''+''
      else [CHR ''%'', upper_hex (of_char c div 16), upper_hex (of_char c)])"

definition QueryEscape :: "bytes \<Rightarrow> bytes" where
  "QueryEscape s = concat (map escape_char s)"

text \<open>\<open>pl\<close> is what a plus sign is read as: a space in a query, itself elsewhere.\<close>

fun percent_decode :: "char \<Rightarrow> bytes \<Rightarrow> bytes option" where
  "percent_decode pl [] = Some []"
| "percent_decode pl (c # s) =
     (if c = CHR ''%'' then
        (case s of
           h # l # rest \<Rightarrow>
             (case (hex_val h, hex_val l) of
                (Some x, Some y) \<Rightarrow> map_option ((#) (char_of (16 * x + y))) (percent_decode pl rest)
              | _ \<Rightarrow> None)
         | _ \<Rightarrow> None)
      else map_option ((#) (if c = CHR ''+'' then pl else c)) (percent_decode pl s))"

lemma hex_val_upper: "hex_val (upper_hex n) = Some (n mod 16)"
proof -
  have "n mod 16 \<in> {0, 1, 2, 3, 4, 5, 6, 7, 8, 9, 10, 11, 12, 13, 14, 15}" by simp presburger
  then show ?thesis unfolding upper_hex_def by (elim insertE emptyE) (simp_all add: hex_val_def)
qed

lemma escaped_chars: "set (QueryEscape s) \<subseteq> {c. unreserved c} \<union> {CHR ''+'', CHR ''%''}"
proof -
  have "unreserved (upper_hex n)" for n
  proof -
    have "n mod 16 \<in> {0, 1, 2, 3, 4, 5, 6, 7, 8, 9, 10, 11, 12, 13, 14, 15}" by simp presburger
    then show ?thesis unfolding upper_hex_def by (elim insertE emptyE) (simp_all add: unreserved_def)
  qed
  then show ?thesis by (auto simp: QueryEscape_def escape_char_def)
qed

lemma decode_escape_char:
  "percent_decode pl (escape_char c @ s) =
     map_option ((#) (if c = CHR '' '' then pl else c)) (percent_decode pl s)"
proof -
  have "char_of (16 * (of_char c div 16) + of_char c mod 16 :: nat) = c" by simp
  moreover have "(of_char c :: nat) div 16 mod 16 = of_char c div 16"
  proof (rule mod_less)
    show "(of_char c :: nat) div 16 < 16" using nat_of_char_less_256 [of c] by (simp add: less_mult_imp_div_less)
  qed
  moreover have "unreserved c \<Longrightarrow> c \<noteq> CHR ''%'' \<and> c \<noteq> CHR ''+'' \<and> c \<noteq> CHR '' ''"
    by (auto simp: unreserved_def)
  ultimately show ?thesis
    by (auto simp: escape_char_def hex_val_upper)
qed

text \<open>Reading back: exactly in a query, with plus signs for the spaces elsewhere.\<close>

lemma decode_QueryEscape:
  "percent_decode pl (QueryEscape s) = Some (map (\<lambda>c. if c = CHR '' '' then pl else c) s)"
  by (induction s) (simp_all add: QueryEscape_def decode_escape_char)

lemma QueryUnescape_QueryEscape: "percent_decode (CHR '' '') (QueryEscape s) = Some s"
  by (simp add: decode_QueryEscape map_idI)

end
