(* ===== verification/Postgres_Pool.thy ===== *)
theory Postgres_Pool
  imports Go_Url Config Domain
begin

text \<open>
  The database pool (pkg/storage/postgres/postgres.go, internal/fx/storage.go): the two addresses
  built from the configuration, the migrations, and the pool opened after them. The migration
  runner and the driver are records of the calls the code makes; \<open>filepath.Abs\<close> reads the working
  directory and is one of them. The last section is a reader's view of the addresses.
\<close>

section \<open>Addresses\<close>

definition pool_address :: "DBConfig \<Rightarrow> bytes" where
  "pool_address c =
     ''postgres://'' @ QueryEscape (db_User c) @ '':'' @ QueryEscape (db_Password c) @ ''@'' @ db_Host c
     @ '':'' @ itoa (db_Port c) @ ''/'' @ QueryEscape (db_Name c)
     @ ''?sslmode='' @ QueryEscape (db_SSLMode c)"

definition migrations_address :: "DBConfig \<Rightarrow> bytes" where
  "migrations_address c =
     ''postgres://'' @ QueryEscape (db_User c) @ '':'' @ QueryEscape (db_Password c) @ ''@'' @ db_Host c
     @ '':'' @ itoa (db_Port c) @ ''/'' @ QueryEscape (db_Name c)
     @ ''?sslmode='' @ QueryEscape (db_SSLMode c)
     @ ''&x-migrations-table='' @ QueryEscape (db_MigrationsTable c)"

section \<open>Migrations\<close>

record ('w, 'm) migrate_lib =
  mg_Abs :: "string \<Rightarrow> ('w, error + string) prog"
  mg_New :: "string \<Rightarrow> string \<Rightarrow> ('w, error + 'm) prog"
  mg_Up :: "'m \<Rightarrow> ('w, error option) prog"
  mg_Close :: "'m \<Rightarrow> ('w, unit) prog"
  mg_ErrNoChange :: error

text \<open>A relative path after \<open>file://\<close> is made absolute; \<open>filepath.IsAbs\<close> looks at the first byte.\<close>

definition migrations_source :: "('w, 'm) migrate_lib \<Rightarrow> string \<Rightarrow> ('w, error + string) prog" where
  "migrations_source l p =
     (if HasPrefix p ''file://'' \<and> \<not> HasPrefix (drop 7 p) ''/''
      then unwrap (mg_Abs l (drop 7 p)) (\<lambda>e. Ret (Inl e)) (\<lambda>a. Ret (Inr (''file://'' @ a)))
      else Ret (Inr p))"

definition RunMigrations :: "('w, 'm) migrate_lib \<Rightarrow> DBConfig \<Rightarrow> ('w, error option) prog" where
  "RunMigrations l c =
     unwrap (migrations_source l (db_MigrationsPath c)) (\<lambda>e. Ret (Some e)) (\<lambda>p.
     unwrap (mg_New l p (migrations_address c)) (\<lambda>e. Ret (Some e)) (\<lambda>m.
     bind (mg_Up l m) (\<lambda>e.
     seq (mg_Close l m)
     (Ret (if e \<noteq> None \<and> e \<noteq> Some (mg_ErrNoChange l) then e else None)))))"

section \<open>The pool\<close>

record ('w, 'd) pool_lib =
  pl_Register :: "string \<Rightarrow> string \<Rightarrow> ('w, error + string) prog"
  pl_Connect :: "string \<Rightarrow> string \<Rightarrow> ('w, error + 'd) prog"
  pl_SetMaxOpenConns :: "'d \<Rightarrow> int \<Rightarrow> ('w, unit) prog"
  pl_SetMaxIdleConns :: "'d \<Rightarrow> int \<Rightarrow> ('w, unit) prog"
  pl_SetConnMaxLifetime :: "'d \<Rightarrow> int \<Rightarrow> ('w, unit) prog"
  pl_SetConnMaxIdleTime :: "'d \<Rightarrow> int \<Rightarrow> ('w, unit) prog"

definition Open :: "('w, 'd) pool_lib \<Rightarrow> DBConfig \<Rightarrow> ('w, error + 'd) prog" where
  "Open l c =
     unwrap (pl_Register l ''pgx'' (db_Name c)) (\<lambda>e. Ret (Inl e)) (\<lambda>d.
     unwrap (pl_Connect l d (pool_address c)) (\<lambda>e. Ret (Inl e)) (\<lambda>db.
     seq (pl_SetMaxOpenConns l db (db_MaxOpenConns c))
     (seq (pl_SetMaxIdleConns l db (db_MaxIdleConns c))
     (seq (pl_SetConnMaxLifetime l db (db_ConnMaxLifetime c))
     (seq (pl_SetConnMaxIdleTime l db (2 * 60 * 1000000000))
     (Ret (Inr db)))))))"

text \<open>\<open>on_stop\<close> registers the closing of the pool with the life cycle of the process.\<close>

definition ProvidePostgresDB ::
  "('w, 'm) migrate_lib \<Rightarrow> ('w, 'd) pool_lib \<Rightarrow> ('d \<Rightarrow> ('w, unit) prog) \<Rightarrow> DBConfig
   \<Rightarrow> ('w, error + 'd) prog" where
  "ProvidePostgresDB ml pl on_stop c =
     on_err (RunMigrations ml c) (\<lambda>err. Ret (Inl err))
     (unwrap (Open pl c) (\<lambda>err. Ret (Inl err)) (\<lambda>db.
      seq (on_stop db) (Ret (Inr db))))"

section \<open>Reading an address\<close>

definition cut :: "char \<Rightarrow> bytes \<Rightarrow> bytes \<times> bytes" where
  "cut c s = (takeWhile (\<lambda>x. x \<noteq> c) s, drop 1 (dropWhile (\<lambda>x. x \<noteq> c) s))"

lemma cut_append [simp]: "c \<notin> set s \<Longrightarrow> cut c (s @ c # t) = (s, t)"
  by (induction s) (auto simp: cut_def)

lemma cut_all: "c \<notin> set s \<Longrightarrow> cut c s = (s, [])"
  by (induction s) (auto simp: cut_def)

text \<open>
  What \<open>url.Parse\<close> and the drivers find: the authority ends at the first slash, question mark or
  hash, the user information at the last at sign of it, the user at the first colon of that; the
  database is the path without its slash; a query value belongs to the first pair with its key.
\<close>

definition url_rest :: "bytes \<Rightarrow> bytes" where
  "url_rest u = drop (length ''postgres://'') u"

definition url_authority :: "bytes \<Rightarrow> bytes" where
  "url_authority u = takeWhile (\<lambda>c. c \<notin> set ''/?#'') (url_rest u)"

definition url_credentials :: "bytes \<Rightarrow> (bytes \<times> bytes) option" where
  "url_credentials u =
     (if CHR ''@'' \<notin> set (url_authority u) then None
      else (case cut (CHR '':'') (rev (snd (cut (CHR ''@'') (rev (url_authority u))))) of (user, password) \<Rightarrow>
        (case (percent_decode (CHR ''+'') user, percent_decode (CHR ''+'') password) of
           (Some x, Some y) \<Rightarrow> Some (x, y)
         | _ \<Rightarrow> None)))"

definition url_database :: "bytes \<Rightarrow> bytes option" where
  "url_database u = percent_decode (CHR ''+'')
     (drop 1 (takeWhile (\<lambda>c. c \<notin> set ''?#'') (drop (length (url_authority u)) (url_rest u))))"

fun split_at :: "char \<Rightarrow> bytes \<Rightarrow> bytes list" where
  "split_at c [] = [[]]"
| "split_at c (x # s) = (if x = c then [] # split_at c s
     else (case split_at c s of t # ts \<Rightarrow> (x # t) # ts | [] \<Rightarrow> [[x]]))"

definition query_value :: "bytes \<Rightarrow> bytes \<Rightarrow> bytes option" where
  "query_value key u =
     (case map_of (map (cut (CHR ''='')) (split_at (CHR ''&'') (snd (cut (CHR ''?'') u)))) key of
        Some v \<Rightarrow> percent_decode (CHR '' '') v
      | None \<Rightarrow> None)"

lemma split_at_none: "c \<notin> set s \<Longrightarrow> split_at c s = [s]"
  by (induction s) auto

lemma split_at_append: "c \<notin> set s \<Longrightarrow> split_at c (s @ c # t) = s # split_at c t"
  by (induction s) auto

lemma escaped_plain:
  "CHR ''@'' \<notin> set (QueryEscape s)" "CHR '':'' \<notin> set (QueryEscape s)" "CHR ''/'' \<notin> set (QueryEscape s)"
  "CHR ''?'' \<notin> set (QueryEscape s)" "CHR ''#'' \<notin> set (QueryEscape s)" "CHR ''&'' \<notin> set (QueryEscape s)"
  "CHR ''='' \<notin> set (QueryEscape s)"
  using escaped_chars [of s] by (auto simp: unreserved_def)

lemma number_plain:
  "CHR ''@'' \<notin> set (itoa i)" "CHR ''/'' \<notin> set (itoa i)" "CHR ''?'' \<notin> set (itoa i)" "CHR ''#'' \<notin> set (itoa i)"
  using itoa_chars [of i] by (auto simp: url_digits_def)

text \<open>Both addresses, up to the query.\<close>

definition address_with :: "DBConfig \<Rightarrow> bytes \<Rightarrow> bytes" where
  "address_with c query =
     ''postgres://'' @ (QueryEscape (db_User c) @ CHR '':'' # QueryEscape (db_Password c) @ CHR ''@'' # db_Host c
     @ CHR '':'' # itoa (db_Port c)) @ CHR ''/'' # QueryEscape (db_Name c) @ CHR ''?'' # query"

lemma addresses:
  "pool_address c = address_with c (''sslmode='' @ QueryEscape (db_SSLMode c))"
  "migrations_address c = address_with c (''sslmode='' @ QueryEscape (db_SSLMode c)
     @ ''&x-migrations-table='' @ QueryEscape (db_MigrationsTable c))"
  by (simp_all add: pool_address_def migrations_address_def address_with_def)

lemma takeWhile_stop: "\<forall>x \<in> set s. P x \<Longrightarrow> \<not> P c \<Longrightarrow> takeWhile P (s @ c # t) = s"
  by (induction s) auto

definition plain_host :: "DBConfig \<Rightarrow> bool" where
  "plain_host c \<longleftrightarrow> (\<forall>x \<in> set (db_Host c). x \<notin> set ''@/?#'')"

lemma authority_with:
  assumes "plain_host c"
  shows "url_authority (address_with c q) = QueryEscape (db_User c) @ CHR '':'' # QueryEscape (db_Password c)
     @ CHR ''@'' # db_Host c @ CHR '':'' # itoa (db_Port c)"
proof -
  have "\<forall>x \<in> set (QueryEscape (db_User c) @ CHR '':'' # QueryEscape (db_Password c)
     @ CHR ''@'' # db_Host c @ CHR '':'' # itoa (db_Port c)). x \<notin> set ''/?#''"
    using assms escaped_plain [of "db_User c"] escaped_plain [of "db_Password c"] number_plain [of "db_Port c"]
    by (auto simp: plain_host_def)
  from takeWhile_stop [OF this, of "CHR ''/''"] show ?thesis
    by (simp add: url_authority_def url_rest_def address_with_def)
qed

definition plus_for_space :: "bytes \<Rightarrow> bytes" where
  "plus_for_space = map (\<lambda>c. if c = CHR '' '' then CHR ''+'' else c)"

lemma credentials_with:
  assumes "plain_host c"
  shows "url_credentials (address_with c q) = Some (plus_for_space (db_User c), plus_for_space (db_Password c))"
proof -
  let ?ui = "QueryEscape (db_User c) @ CHR '':'' # QueryEscape (db_Password c)"
  let ?hp = "db_Host c @ CHR '':'' # itoa (db_Port c)"
  have "CHR ''@'' \<notin> set (rev ?hp)" using assms number_plain by (auto simp: plain_host_def)
  from cut_append [OF this, of "rev ?ui"]
  have "cut (CHR ''@'') (rev (url_authority (address_with c q))) = (rev ?hp, rev ?ui)"
    by (simp add: authority_with [OF assms])
  moreover have "CHR ''@'' \<in> set (url_authority (address_with c q))"
    by (simp add: authority_with [OF assms])
  ultimately show ?thesis
    by (simp add: url_credentials_def escaped_plain decode_QueryEscape plus_for_space_def)
qed

lemma database_with:
  assumes "plain_host c"
  shows "url_database (address_with c q) = Some (plus_for_space (db_Name c))"
proof -
  have "drop (length (url_authority (address_with c q))) (url_rest (address_with c q))
      = CHR ''/'' # QueryEscape (db_Name c) @ CHR ''?'' # q"
  proof -
    have "url_rest (address_with c q) = url_authority (address_with c q)
        @ CHR ''/'' # QueryEscape (db_Name c) @ CHR ''?'' # q"
      unfolding authority_with [OF assms] by (simp add: url_rest_def address_with_def)
    then show ?thesis by (metis append_eq_conv_conj)
  qed
  moreover have "takeWhile (\<lambda>x. x \<notin> set ''?#'') (QueryEscape (db_Name c) @ CHR ''?'' # q) = QueryEscape (db_Name c)"
    using escaped_plain [of "db_Name c"] by (intro takeWhile_stop) auto
  ultimately show ?thesis
    by (simp add: url_database_def decode_QueryEscape plus_for_space_def)
qed

lemma query_with:
  assumes "plain_host c"
  shows "snd (cut (CHR ''?'') (address_with c q)) = q"
proof -
  have "CHR ''?'' \<notin> set (''postgres://'' @ (QueryEscape (db_User c) @ CHR '':'' # QueryEscape (db_Password c)
     @ CHR ''@'' # db_Host c @ CHR '':'' # itoa (db_Port c)) @ CHR ''/'' # QueryEscape (db_Name c))"
    using assms by (simp add: escaped_plain number_plain plain_host_def) blast
  from cut_append [OF this, of q] show ?thesis by (simp add: address_with_def)
qed

text \<open>
  C35: What a reader of the database addresses gets back. The SSL mode and the migrations table,
  which stand in the query, are read exactly; the user, the password and the database name, which
  do not, are escaped with the same \<open>url.QueryEscape\<close>, so each of their spaces is read as a plus
  sign and every other byte as itself. The pool and the migrations agree on all of them.
\<close>

theorem address_read_back:
  assumes "plain_host c" and "u \<in> {pool_address c, migrations_address c}"
  shows "url_credentials u = Some (plus_for_space (db_User c), plus_for_space (db_Password c))
     \<and> url_database u = Some (plus_for_space (db_Name c))
     \<and> query_value ''sslmode'' u = Some (db_SSLMode c)
     \<and> (u = migrations_address c \<longrightarrow> query_value ''x-migrations-table'' u = Some (db_MigrationsTable c))"
proof -
  have pair: "cut (CHR ''='') (k @ CHR ''='' # QueryEscape v) = (k, QueryEscape v)" if "CHR ''='' \<notin> set k" for k v
    using that by simp
  have ssl: "CHR ''&'' \<notin> set (''sslmode='' @ QueryEscape (db_SSLMode c))"
    and table: "CHR ''&'' \<notin> set (''x-migrations-table='' @ QueryEscape (db_MigrationsTable c))"
    by (simp_all add: escaped_plain)
  from assms(2) consider "u = pool_address c" | "u = migrations_address c" by blast
  then show ?thesis
    using split_at_none [OF ssl] split_at_append [OF ssl] split_at_none [OF table]
      pair [of "''sslmode''" "db_SSLMode c"] pair [of "''x-migrations-table''" "db_MigrationsTable c"]
    by cases (auto simp: addresses credentials_with database_with query_with assms(1) query_value_def
        QueryUnescape_QueryEscape)
qed

end
