(* ===== verification/Grpc_Api.thy ===== *)
theory Grpc_Api
  imports Start_Flow Verification_Flow
begin

text \<open>
  The gRPC surface of the saga (internal/presentation/grpc: mapper.go, server.go, error.go): the
  translation between the messages of the API and the application's parameters and results, the
  mapping of application errors to gRPC statuses, and the three RPC methods. A generated message
  is a record of the fields the code reads through its getters or fills; logging is left out, and
  so are the listener and the library server behind \<open>Start\<close> and \<open>Shutdown\<close>.
\<close>

section \<open>Messages\<close>

record StartRegistrationRequest =
  rq_ClientId :: string
  rq_Email :: string
  rq_Username :: string
  rq_Password :: string
  rq_FirstName :: string
  rq_Surname :: string

record StartRegistrationResponse =
  rp_SessionId :: string
  rp_ClientId :: string
  rp_UserId :: string
  rp_Status :: string
  rp_ConflictState :: string
  rp_UsernameTaken :: bool
  rp_EmailTaken :: bool

record VerifyEmailRequest =
  vq_SessionId :: string
  vq_ClientId :: string
  vq_Code :: string

record VerifyEmailResponse =
  vp_resp_SessionId :: string
  vp_resp_ClientId :: string
  vp_resp_Status :: string

record GetRegistrationStatusRequest =
  gq_SessionId :: string
  gq_ClientId :: string

record GetRegistrationStatusResponse =
  gp_SessionId :: string
  gp_ClientId :: string
  gp_UserId :: string
  gp_Status :: string

text \<open>The codes of google.golang.org/grpc/codes the mapper uses, and \<open>status.Error(code, msg)\<close>.\<close>

datatype grpc_code = InvalidArgument | NotFound | PermissionDenied | FailedPrecondition | Internal

record grpc_status =
  gs_code :: grpc_code
  gs_message :: string

definition status_Error :: "grpc_code \<Rightarrow> string \<Rightarrow> grpc_status" where
  "status_Error code msg = \<lparr>gs_code = code, gs_message = msg\<rparr>"

section \<open>The mapper\<close>

definition ToStartParams :: "StartRegistrationRequest \<Rightarrow> StartRegistrationParams" where
  "ToStartParams req =
     \<lparr>sp_SessionID = [], sp_ClientID = rq_ClientId req, sp_UserID = [], sp_Email = rq_Email req,
      sp_Username = rq_Username req, sp_Password = rq_Password req,
      sp_FirstName = rq_FirstName req, sp_Surname = rq_Surname req\<rparr>"

definition ToStartResponse :: "StartRegistrationResult \<Rightarrow> StartRegistrationResponse" where
  "ToStartResponse result =
     \<lparr>rp_SessionId = sr_SessionID result, rp_ClientId = sr_ClientID result,
      rp_UserId = sr_UserID result, rp_Status = sr_Status result,
      rp_ConflictState = sr_ConflictState result, rp_UsernameTaken = sr_UsernameTaken result,
      rp_EmailTaken = sr_EmailTaken result\<rparr>"

definition ToVerifyEmailParams :: "VerifyEmailRequest \<Rightarrow> VerifyEmailParams" where
  "ToVerifyEmailParams req =
     \<lparr>vp_SessionID = vq_SessionId req, vp_ClientID = vq_ClientId req, vp_Code = vq_Code req\<rparr>"

definition ToVerifyEmailResponse :: "VerifyEmailResult \<Rightarrow> VerifyEmailResponse" where
  "ToVerifyEmailResponse result =
     \<lparr>vp_resp_SessionId = vr_SessionID result, vp_resp_ClientId = vr_ClientID result,
      vp_resp_Status = vr_Status result\<rparr>"

definition ToRegistrationStatusResponse :: "RegistrationStatus \<Rightarrow> GetRegistrationStatusResponse" where
  "ToRegistrationStatusResponse result =
     \<lparr>gp_SessionId = rs_SessionID result, gp_ClientId = rs_ClientID result,
      gp_UserId = rs_UserID result, gp_Status = rs_Status result\<rparr>"

definition ToStartError :: "error \<Rightarrow> grpc_status" where
  "ToStartError err =
     (if errors_Is err (DomainErr ErrInvalidSessionID)
        then status_Error InvalidArgument ''invalid session id''
      else if errors_Is err (DomainErr ErrInvalidClientID)
        then status_Error InvalidArgument ''invalid client id''
      else if errors_Is err (DomainErr ErrInvalidVerificationCode)
        then status_Error InvalidArgument ''invalid verification code''
      else if errors_Is err (DomainErr ErrInvalidEmail)
        then status_Error InvalidArgument ''invalid email''
      else if errors_Is err (DomainErr ErrInvalidUsername)
        then status_Error InvalidArgument ''invalid username''
      else if errors_Is err (DomainErr ErrInvalidPassword)
        then status_Error InvalidArgument ''invalid password''
      else if errors_Is err (DomainErr ErrSessionNotFound)
        then status_Error NotFound ''registration session not found''
      else if errors_Is err (DomainErr ErrClientMismatch)
        then status_Error PermissionDenied ''registration client mismatch''
      else if errors_Is err (DomainErr ErrInvalidStatus)
        then status_Error FailedPrecondition ''registration is not ready for this operation''
      else status_Error Internal ''internal server error'')"

section \<open>The server\<close>

datatype server_error = ErrNilRegistrationService | ErrNilServerLogger

record 'w server =
  srv_svc :: "'w registrationService"
  srv_cfg :: GRPCConfig

definition NewServer ::
  "'w registrationService option \<Rightarrow> GRPCConfig \<Rightarrow> bool \<Rightarrow> server_error + 'w server" where
  "NewServer svc cfg log =
     (case svc of
        None \<Rightarrow> Inl ErrNilRegistrationService
      | Some svc' \<Rightarrow> if \<not> log then Inl ErrNilServerLogger
                     else Inr \<lparr>srv_svc = svc', srv_cfg = cfg\<rparr>)"

definition StartRegistration ::
  "'w server \<Rightarrow> StartRegistrationRequest \<Rightarrow> ('w, grpc_status + StartRegistrationResponse) prog" where
  "StartRegistration s req =
     unwrap (Start (srv_svc s) (ToStartParams req)) (\<lambda>err. Ret (Inl (ToStartError err)))
       (\<lambda>result. Ret (Inr (ToStartResponse result)))"

definition VerifyEmail_rpc ::
  "'w server \<Rightarrow> VerifyEmailRequest \<Rightarrow> ('w, grpc_status + VerifyEmailResponse) prog" where
  "VerifyEmail_rpc s req =
     unwrap (VerifyEmail (srv_svc s) (ToVerifyEmailParams req))
       (\<lambda>err. if errors_Is err (DomainErr ErrInvalidStatus) then Ret (Inl (ToStartError err))
              else Ret (Inl (ToStartError err)))
       (\<lambda>result. Ret (Inr (ToVerifyEmailResponse result)))"

definition GetRegistrationStatus_rpc ::
  "'w server \<Rightarrow> GetRegistrationStatusRequest
   \<Rightarrow> ('w, grpc_status + GetRegistrationStatusResponse) prog" where
  "GetRegistrationStatus_rpc s req =
     unwrap (GetRegistrationStatus (srv_svc s) (gq_SessionId req) (gq_ClientId req))
       (\<lambda>err. Ret (Inl (ToStartError err)))
       (\<lambda>result. Ret (Inr (ToRegistrationStatusResponse result)))"

definition saga_server :: "environment \<Rightarrow> NATSConfig \<Rightarrow> GRPCConfig \<Rightarrow> world server" where
  "saga_server env cfg gcfg = \<lparr>srv_svc = saga_service env cfg, srv_cfg = gcfg\<rparr>"

lemma saga_server_New: "NewServer (Some (saga_service env cfg)) gcfg True = Inr (saga_server env cfg gcfg)"
  by (simp add: NewServer_def saga_server_def)

lemma saga_server_simps [simp]:
  "srv_svc (saga_server env cfg gcfg) = saga_service env cfg" "srv_cfg (saga_server env cfg gcfg) = gcfg"
  by (simp_all add: saga_server_def)

section \<open>Statuses\<close>

text \<open>The code a client sees for the errors the use cases refuse requests with.\<close>

fun refusal_code :: "domain_error \<Rightarrow> grpc_code" where
  "refusal_code ErrSessionNotFound = NotFound"
| "refusal_code ErrClientMismatch = PermissionDenied"
| "refusal_code ErrInvalidStatus = FailedPrecondition"
| "refusal_code ErrInvalidUserID = Internal"
| "refusal_code ErrInvalidStepKey = Internal"
| "refusal_code ErrStepNotFound = Internal"
| "refusal_code _ = InvalidArgument"

lemma ToStartError_domain: "gs_code (ToStartError (DomainErr e)) = refusal_code e"
  by (cases e) (simp_all add: ToStartError_def status_Error_def)

definition status_texts :: "string set" where
  "status_texts = {''invalid session id'', ''invalid client id'', ''invalid verification code'',
     ''invalid email'', ''invalid username'', ''invalid password'', ''registration session not found'',
     ''registration client mismatch'', ''registration is not ready for this operation'',
     ''internal server error''}"

lemma ToStartError_text: "gs_message (ToStartError err) \<in> status_texts"
  by (simp add: ToStartError_def status_Error_def status_texts_def)

lemma ToStartError_internal:
  "(\<forall>e. \<not> errors_Is err (DomainErr e)) \<Longrightarrow> ToStartError err = status_Error Internal ''internal server error''"
  by (simp add: ToStartError_def)

lemma ToStartError_Wrapped [simp]: "ToStartError (Wrapped p e) = ToStartError e"
  by (simp add: ToStartError_def)

lemma verify_verdict_code: "verify_verdict d p = Refused e \<Longrightarrow> refusal_code e \<noteq> Internal"
  by (auto simp: verify_verdict_def split: if_splits option.splits)

section \<open>The methods\<close>

text \<open>
  C24: What a verification call is answered while the database answers. The first test that fails
  gives the status: invalid argument for a blank field, not found for an unknown session,
  permission denied for another client, failed precondition for a session that is not ready, where
  a session in progress is judged by what its steps add up to. Such a refusal is never an internal
  error and starts nothing; it writes nothing either, save that a session in progress was
  reconciled first. When every test passes but a verification step of the session exists already,
  the call is an internal error, which starts nothing, leaves the session \<open>code_sent\<close> and the other
  sessions as they were. Otherwise it succeeds.
\<close>

theorem api_refuses_cleanly:
  assumes "db_up env w" and "sound w" and "sid = TrimSpace (vq_SessionId req)"
  shows "\<exists>ans w'. run (VerifyEmail_rpc (saga_server env cfg gcfg) req) w = (ans, w')
     \<and> (case verify_verdict (w_db w) (ToVerifyEmailParams req) of
          Refused e \<Rightarrow> (\<exists>st. ans = Inl st \<and> gs_code st = refusal_code e \<and> gs_code st \<noteq> Internal)
            \<and> w_spawned w' = w_spawned w
            \<and> (if e = ErrInvalidStatus \<and> v_status (view_of sid (w_db w)) = Some SessionStatusInProgress
               then touches_only sid view_reconcile env w w'
               else w_db w' = w_db w \<and> w_trace w' = w_trace w)
        | Blocked \<Rightarrow> (\<exists>st. ans = Inl st \<and> gs_code st = Internal) \<and> w_spawned w' = w_spawned w
            \<and> v_status (view_of sid (w_db w')) = Some SessionStatusCodeSent
            \<and> (\<forall>sid'. sid' \<noteq> sid \<longrightarrow> view_of sid' (w_db w') = view_of sid' (w_db w))
        | Accepted \<Rightarrow> (\<exists>resp. ans = Inr resp
            \<and> vp_resp_Status resp \<in> {SessionStatusVerifyingEmail, SessionStatusCompleted}))"
proof -
  let ?p = "ToVerifyEmailParams req"
  obtain a w' where run: "run (VerifyEmail (saga_service env cfg) ?p) w = (a, w')" by force
  have "verify_answer env ?p w (a, w')" using verify_answered [OF assms(1,2), of ?p cfg] run by simp
  moreover have "vp_SessionID ?p = vq_SessionId req" by (simp add: ToVerifyEmailParams_def)
  moreover have "gs_code (ToStartError (UniqueViolation key)) = Internal" for key
    by (simp add: ToStartError_def status_Error_def)
  ultimately show ?thesis
    using run assms(3) verify_verdict_code [of "w_db w" ?p]
    by (cases "verify_verdict (w_db w) ?p")
      (auto simp: verify_answer_def VerifyEmail_rpc_def run_unwrap ToStartError_domain ToVerifyEmailResponse_def Let_def)
qed

text \<open>
  Whatever the world and whatever fails, the text of an error status of the three methods is
  one of ten fixed sentences: no text of the database or of another service reaches the client.
\<close>

lemma api_hides_internals:
  "(\<forall>st. fst (run (StartRegistration (saga_server env cfg gcfg) sreq) w) = Inl st \<longrightarrow> gs_message st \<in> status_texts)
   \<and> (\<forall>st. fst (run (VerifyEmail_rpc (saga_server env cfg gcfg) vreq) w) = Inl st \<longrightarrow> gs_message st \<in> status_texts)
   \<and> (\<forall>st. fst (run (GetRegistrationStatus_rpc (saga_server env cfg gcfg) greq) w) = Inl st \<longrightarrow> gs_message st \<in> status_texts)"
  by (auto simp: StartRegistration_def VerifyEmail_rpc_def GetRegistrationStatus_rpc_def run_unwrap ToStartError_text
      split: prod.splits sum.splits)

text \<open>
  C25: A valid registration call of a client, whose e-mail and user name are free, is answered with
  the session and user id the server generated, and a session with these ids, the client and the
  trimmed e-mail and user name of the request has been stored.
\<close>

theorem api_start_generates_ids:
  assumes "db_up env w" and "start_error env (ToStartParams req) = None"
    and "TrimSpace (rq_ClientId req) \<noteq> []"
    and "sid = env_uuid env (w_tick w + 4)" and "uid = env_uuid env (w_tick w + 5)"
    and "free_to_start env ((start_input (ToStartParams req))\<lparr>si_sessionID := sid, si_userID := uid\<rparr>) w"
    and "\<And>j. env_bcrypt env j (TrimSpace (rq_Password req)) = Inr hash"
  shows "\<exists>w' r. run (StartRegistration (saga_server env cfg gcfg) req) w =
       (Inr \<lparr>rp_SessionId = sid, rp_ClientId = TrimSpace (rq_ClientId req), rp_UserId = uid,
             rp_Status = SessionStatusStarted, rp_ConflictState = [], rp_UsernameTaken = False,
             rp_EmailTaken = False\<rparr>, w')
     \<and> db_sessions (w_db w') = db_sessions (w_db w) @ [r]
     \<and> s_SessionID r = sid \<and> s_UserID r = uid \<and> s_ClientID r = TrimSpace (rq_ClientId req)
     \<and> s_Email r = TrimSpace (rq_Email req) \<and> s_Username r = TrimSpace (rq_Username req)"
proof -
  let ?p = "ToStartParams req"
  let ?i = "(start_input ?p)\<lparr>si_sessionID := sid, si_userID := uid\<rparr>"
  have p: "sp_SessionID ?p = []" "sp_UserID ?p = []" "sp_ClientID ?p = rq_ClientId req"
    "sp_Password ?p = rq_Password req" "sp_Email ?p = rq_Email req" "sp_Username ?p = rq_Username req"
    by (simp_all add: ToStartParams_def)
  have trim: "TrimSpace [] = []" by code_simp
  have input: "input_of env ?p w = (start_input ?p, w)"
    using assms(3) p by (simp add: input_of_def)
  have ids: "with_ids env (start_input ?p) ((ticked ^^ 4) w) = (?i, (ticked ^^ 6) w)"
    using assms(4,5) p trim by (simp add: with_ids_def Let_def eval_nat_numeral)
  from start_run [OF assms(1,2) input ids assms(6), of hash cfg] assms(7) p
  show ?thesis
    by (auto simp: StartRegistration_def run_unwrap ToStartResponse_def new_session_def)
qed
end
