(* ===== verification/Nats_Config.thy ===== *)
theory Nats_Config
  imports Service_Types
begin

text \<open>
  The configuration side of the NATS adapter (internal/presentation/event_broker/nats: error.go,
  pull_consumer_validator.go, the plan of broker.go, the consumer configurations of
  result_subscriber.go): what is refused before JetStream is touched, and which batch size and
  waiting time a fetch uses for a given backlog. Integers are Go's \<open>int\<close> and durations
  nanoseconds; no arithmetic is done on them here.
\<close>

section \<open>Errors\<close>

text \<open>
  The sentinels of the package, and the wrappers with what they wrap. A failure inside the NATS
  library or an application handler is an \<open>error\<close>.
\<close>

datatype nats_error =
    ErrEmptyNATSURL | ErrNilNatsLogger | ErrNilBroker | ErrNilNatsRegistrationService
  | ErrEmptyStreamName | ErrEmptySubject | ErrEmptyDurableName | ErrInvalidBatchSize
  | ErrInvalidMaxWait | ErrInvalidWorkerCount | ErrInvalidQueueSize | ErrInvalidAckWait
  | ErrInvalidMaxDeliver | ErrInvalidAdaptiveCheckInterval | ErrInvalidAdaptiveThresholds
  | ErrInvalidAdaptivePlan
  | ConnectToNATSError error | PublishToNATSError string error | SubscribeToNATSError string error
  | FlushNATSPublisherError error | InitJetStreamContextError error
  | EnsureConsumerError string string error error | CreatePullSubscriberError string string error
  | UnmarshalUserCreateResultError error | UnmarshalAuthCreatePendingResultError error
  | UnmarshalMailSendResultError error
  | NatsHandlerError error \<comment> \<open>an error of the application, passed on as it is\<close>

text \<open>\<open>err.Error()\<close>; \<open>q\<close> is the \<open>%q\<close> verb, Go's quoting of a string.\<close>

fun nats_error_text :: "(string \<Rightarrow> string) \<Rightarrow> nats_error \<Rightarrow> string" where
  "nats_error_text q ErrEmptyNATSURL = ''nats url is empty''"
| "nats_error_text q ErrNilNatsLogger = ''logger is nil''"
| "nats_error_text q ErrNilBroker = ''event broker is nil''"
| "nats_error_text q ErrNilNatsRegistrationService = ''registration service is nil''"
| "nats_error_text q ErrEmptyStreamName = ''stream name is empty''"
| "nats_error_text q ErrEmptySubject = ''subject is empty''"
| "nats_error_text q ErrEmptyDurableName = ''durable name is empty''"
| "nats_error_text q ErrInvalidBatchSize = ''batch size must be greater than zero''"
| "nats_error_text q ErrInvalidMaxWait = ''max wait must be greater than zero''"
| "nats_error_text q ErrInvalidWorkerCount = ''worker count must be greater than zero''"
| "nats_error_text q ErrInvalidQueueSize = ''queue size must be greater than zero''"
| "nats_error_text q ErrInvalidAckWait = ''ack wait must be greater than zero''"
| "nats_error_text q ErrInvalidMaxDeliver = ''max deliver must be greater than zero''"
| "nats_error_text q ErrInvalidAdaptiveCheckInterval = ''adaptive check interval must be greater than zero''"
| "nats_error_text q ErrInvalidAdaptiveThresholds = ''adaptive thresholds must satisfy: high > medium >= 0''"
| "nats_error_text q ErrInvalidAdaptivePlan = ''adaptive plan batch size and max wait must be greater than zero''"
| "nats_error_text q (ConnectToNATSError e) = ''connect to nats: '' @ Error e"
| "nats_error_text q (PublishToNATSError subject e) = ''publish to nats ('' @ subject @ ''): '' @ Error e"
| "nats_error_text q (SubscribeToNATSError subject e) = ''subscribe to nats ('' @ subject @ ''): '' @ Error e"
| "nats_error_text q (FlushNATSPublisherError e) = ''flush nats publisher: '' @ Error e"
| "nats_error_text q (InitJetStreamContextError e) = ''init jetstream context: '' @ Error e"
| "nats_error_text q (EnsureConsumerError stream durable addErr updateErr) =
     ''ensure consumer '' @ q durable @ '' in stream '' @ q stream @ '': add err='' @ Error addErr
       @ '', update err='' @ Error updateErr"
| "nats_error_text q (CreatePullSubscriberError subject durable e) =
     ''create pull subscriber subject='' @ q subject @ '' durable='' @ q durable @ '': '' @ Error e"
| "nats_error_text q (UnmarshalUserCreateResultError e) = ''unmarshal user create result: '' @ Error e"
| "nats_error_text q (UnmarshalAuthCreatePendingResultError e) =
     ''unmarshal auth create pending registration result: '' @ Error e"
| "nats_error_text q (UnmarshalMailSendResultError e) = ''unmarshal mail send result: '' @ Error e"
| "nats_error_text q (NatsHandlerError e) = Error e"

text \<open>What \<open>%w\<close> exposes to \<open>errors.Is\<close>.\<close>

fun nats_unwrap :: "nats_error \<Rightarrow> error option" where
  "nats_unwrap (ConnectToNATSError e) = Some e"
| "nats_unwrap (PublishToNATSError subject e) = Some e"
| "nats_unwrap (SubscribeToNATSError subject e) = Some e"
| "nats_unwrap (FlushNATSPublisherError e) = Some e"
| "nats_unwrap (InitJetStreamContextError e) = Some e"
| "nats_unwrap (EnsureConsumerError stream durable addErr updateErr) = Some updateErr"
| "nats_unwrap (CreatePullSubscriberError subject durable e) = Some e"
| "nats_unwrap (UnmarshalUserCreateResultError e) = Some e"
| "nats_unwrap (UnmarshalAuthCreatePendingResultError e) = Some e"
| "nats_unwrap (UnmarshalMailSendResultError e) = Some e"
| "nats_unwrap (NatsHandlerError e) = Some e"
| "nats_unwrap _ = None"

section \<open>The validator\<close>

definition Validate :: "PullConsumerConfig \<Rightarrow> nats_error option" where
  "Validate cfg =
     (if pc_Stream cfg = [] then Some ErrEmptyStreamName
      else if pc_Subject cfg = [] then Some ErrEmptySubject
      else if pc_Durable cfg = [] then Some ErrEmptyDurableName
      else if pc_BatchSize cfg \<le> 0 then Some ErrInvalidBatchSize
      else if pc_MaxWait cfg \<le> 0 then Some ErrInvalidMaxWait
      else if pc_Workers cfg \<le> 0 then Some ErrInvalidWorkerCount
      else if pc_QueueSize cfg \<le> 0 then Some ErrInvalidQueueSize
      else if pc_AckWait cfg \<le> 0 then Some ErrInvalidAckWait
      else if pc_MaxDeliver cfg \<le> 0 then Some ErrInvalidMaxDeliver
      else let a = pc_Adaptive cfg in
      if \<not> pa_Enabled a then None
      else if pa_CheckInterval a \<le> 0 then Some ErrInvalidAdaptiveCheckInterval
      else if pa_MediumPending a < 0 \<or> pa_HighPending a \<le> pa_MediumPending a
      then Some ErrInvalidAdaptiveThresholds
      else if pa_LowBatchSize a \<le> 0 \<or> pa_LowMaxWait a \<le> 0 \<or> pa_MediumBatchSize a \<le> 0
              \<or> pa_MediumMaxWait a \<le> 0 \<or> pa_HighBatchSize a \<le> 0 \<or> pa_HighMaxWait a \<le> 0
      then Some ErrInvalidAdaptivePlan
      else None)"

section \<open>The plan\<close>

definition ResolvePullPlan :: "PullConsumerConfig \<Rightarrow> int \<Rightarrow> string \<times> int \<times> int" where
  "ResolvePullPlan cfg pending =
     (let a = pc_Adaptive cfg in
      if \<not> pa_Enabled a then (''base'', pc_BatchSize cfg, pc_MaxWait cfg)
      else if pending \<ge> pa_HighPending a then (''high'', pa_HighBatchSize a, pa_HighMaxWait a)
      else if pending \<ge> pa_MediumPending a
      then (''medium'', pa_MediumBatchSize a, pa_MediumMaxWait a)
      else (''low'', pa_LowBatchSize a, pa_LowMaxWait a))"

section \<open>The consumers of the result subscriber\<close>

definition BuildAdaptiveConfig :: "NATSConfig \<Rightarrow> PullAdaptiveConfig" where
  "BuildAdaptiveConfig cfg =
     \<lparr>pa_Enabled = nc_ResultAdaptiveEnabled cfg,
      pa_CheckInterval = nc_ResultAdaptiveCheckInterval cfg,
      pa_MediumPending = nc_ResultAdaptiveMediumPending cfg,
      pa_HighPending = nc_ResultAdaptiveHighPending cfg,
      pa_LowBatchSize = nc_ResultAdaptiveLowBatchSize cfg,
      pa_LowMaxWait = nc_ResultAdaptiveLowMaxWait cfg,
      pa_MediumBatchSize = nc_ResultAdaptiveMediumBatchSize cfg,
      pa_MediumMaxWait = nc_ResultAdaptiveMediumMaxWait cfg,
      pa_HighBatchSize = nc_ResultAdaptiveHighBatchSize cfg,
      pa_HighMaxWait = nc_ResultAdaptiveHighMaxWait cfg\<rparr>"

definition result_consumer :: "NATSConfig \<Rightarrow> string \<Rightarrow> string \<Rightarrow> string \<Rightarrow> PullConsumerConfig" where
  "result_consumer cfg stream subject durable = PullConsumerConfig_zero
     \<lparr>pc_Stream := stream, pc_Subject := subject, pc_Durable := durable,
      pc_BatchSize := nc_ResultBatchSize cfg, pc_MaxWait := nc_ResultMaxWait cfg,
      pc_Workers := nc_ResultWorkers cfg, pc_QueueSize := nc_ResultQueueSize cfg,
      pc_AckWait := nc_ResultAckWait cfg, pc_MaxDeliver := nc_ResultMaxDeliver cfg,
      pc_Adaptive := BuildAdaptiveConfig cfg\<rparr>"

definition user_result_consumer :: "NATSConfig \<Rightarrow> PullConsumerConfig" where
  "user_result_consumer cfg =
     result_consumer cfg (nc_UserEventsStream cfg) (nc_UserCreateResultSubject cfg)
       (nc_UserCreateResultDurable cfg)"

definition auth_result_consumer :: "NATSConfig \<Rightarrow> PullConsumerConfig" where
  "auth_result_consumer cfg =
     result_consumer cfg (nc_AuthEventsStream cfg) (nc_AuthCreatePendingResultSubject cfg)
       (nc_AuthCreatePendingResultDurable cfg)"

definition mail_result_consumer :: "NATSConfig \<Rightarrow> PullConsumerConfig" where
  "mail_result_consumer cfg =
     result_consumer cfg (nc_MailEventsStream cfg) (nc_MailSendResultSubject cfg)
       (nc_MailSendResultDurable cfg)"

section \<open>What validation gives\<close>

lemma Validate_base:
  assumes "Validate cfg = None"
  shows "pc_BatchSize cfg > 0" "pc_MaxWait cfg > 0" "pc_Workers cfg > 0" "pc_QueueSize cfg > 0"
    "pc_AckWait cfg > 0" "pc_MaxDeliver cfg > 0"
  using assms by (auto simp: Validate_def Let_def split: if_splits)

lemma Validate_adaptive:
  assumes "Validate cfg = None" and "pa_Enabled (pc_Adaptive cfg)"
  shows "pa_CheckInterval (pc_Adaptive cfg) > 0"
    "0 \<le> pa_MediumPending (pc_Adaptive cfg)" "pa_MediumPending (pc_Adaptive cfg) < pa_HighPending (pc_Adaptive cfg)"
    "pa_LowBatchSize (pc_Adaptive cfg) > 0" "pa_LowMaxWait (pc_Adaptive cfg) > 0"
    "pa_MediumBatchSize (pc_Adaptive cfg) > 0" "pa_MediumMaxWait (pc_Adaptive cfg) > 0"
    "pa_HighBatchSize (pc_Adaptive cfg) > 0" "pa_HighMaxWait (pc_Adaptive cfg) > 0"
  using assms by (auto simp: Validate_def Let_def split: if_splits)

text \<open>The tiers of a valid adaptive configuration, by the backlog.\<close>

definition tier_of :: "PullConsumerConfig \<Rightarrow> int \<Rightarrow> string" where
  "tier_of cfg pending = fst (ResolvePullPlan cfg pending)"

lemma plan_positive:
  assumes "Validate cfg = None" and "ResolvePullPlan cfg pending = (tier, batch, wait)"
  shows "batch > 0" and "wait > 0"
  using assms Validate_base [OF assms(1)] Validate_adaptive [OF assms(1)]
  by (auto simp: ResolvePullPlan_def Let_def split: if_splits)

lemma tier_low:
  assumes "Validate cfg = None" and "pa_Enabled (pc_Adaptive cfg)"
  shows "tier_of cfg pending = ''low'' \<longleftrightarrow> pending < pa_MediumPending (pc_Adaptive cfg)"
    "tier_of cfg pending = ''high'' \<longleftrightarrow> pa_HighPending (pc_Adaptive cfg) \<le> pending"
    "tier_of cfg pending = ''medium'' \<longleftrightarrow> pa_MediumPending (pc_Adaptive cfg) \<le> pending
       \<and> pending < pa_HighPending (pc_Adaptive cfg)"
  using Validate_adaptive [OF assms] assms(2) by (auto simp: tier_of_def ResolvePullPlan_def Let_def)

end
