(* ===== verification/Result_Delivery.thy ===== *)
theory Result_Delivery
  imports Saga_Service Nats_Config
begin

text \<open>
  The delivery of step results (internal/presentation/event_broker/kafka/result_subscriber.go and
  nats/result_subscriber.go, nats/commands.go): the payload of a message is decoded into the
  result it carries and given to the handler of that result. Each adapter declares structs of its
  own, with its own tags, and converts a decoded one into the struct of the application. For Kafka
  the decoder and the conversion are one function; for NATS the structs of commands.go are records
  and the conversions are written out. \<open>je\<close> is the error \<open>json.Unmarshal\<close> reports for a payload
  it refuses.
\<close>

section \<open>Payloads\<close>

text \<open>The JSON fields of the three result structs; \<open>omitempty\<close> drops an empty one.\<close>

definition optional :: "bytes \<Rightarrow> bytes \<Rightarrow> (bytes \<times> bytes) list" where
  "optional k v = (if v = [] then [] else [(k, v)])"

definition userCreateResult_fields :: "UserCreateResult \<Rightarrow> (bytes \<times> bytes) list" where
  "userCreateResult_fields r =
     [(''session_id'', ucr_SessionID r), (''user_id'', ucr_UserID r), (''status'', ucr_Status r)]
     @ optional ''error'' (ucr_Error r) @ [(''timestamp'', ucr_Timestamp r)]"

definition authCreateResult_fields :: "AuthCreatePendingResult \<Rightarrow> (bytes \<times> bytes) list" where
  "authCreateResult_fields r =
     [(''session_id'', acr_SessionID r), (''client_id'', acr_ClientID r), (''user_id'', acr_UserID r),
      (''status'', acr_Status r)]
     @ optional ''error'' (acr_Error r) @ [(''timestamp'', acr_Timestamp r)]"

definition mailSendResult_fields :: "MailSendResult \<Rightarrow> (bytes \<times> bytes) list" where
  "mailSendResult_fields r =
     [(''session_id'', msr_SessionID r), (''client_id'', msr_ClientID r), (''user_id'', msr_UserID r)]
     @ optional ''request_id'' (msr_RequestID r) @ optional ''correlation_id'' (msr_CorrelationID r)
     @ [(''message_type'', msr_MessageType r), (''to'', msr_To r), (''status'', msr_Status r)]
     @ optional ''error'' (msr_Error r) @ [(''timestamp'', msr_Timestamp r)]"

definition unmarshal_user :: "bytes \<Rightarrow> UserCreateResult option" where
  "unmarshal_user payload = map_option
     (\<lambda>f. \<lparr>ucr_SessionID = f ''session_id'', ucr_UserID = f ''user_id'', ucr_Status = f ''status'',
           ucr_Error = f ''error'', ucr_Timestamp = f ''timestamp''\<rparr>)
     (unmarshal_struct [''session_id'', ''user_id'', ''status'', ''error'', ''timestamp''] payload)"

definition unmarshal_auth :: "bytes \<Rightarrow> AuthCreatePendingResult option" where
  "unmarshal_auth payload = map_option
     (\<lambda>f. \<lparr>acr_SessionID = f ''session_id'', acr_ClientID = f ''client_id'', acr_UserID = f ''user_id'',
           acr_Status = f ''status'', acr_Error = f ''error'', acr_Timestamp = f ''timestamp''\<rparr>)
     (unmarshal_struct [''session_id'', ''client_id'', ''user_id'', ''status'', ''error'', ''timestamp'']
        payload)"

definition unmarshal_mail :: "bytes \<Rightarrow> MailSendResult option" where
  "unmarshal_mail payload = map_option
     (\<lambda>f. \<lparr>msr_SessionID = f ''session_id'', msr_ClientID = f ''client_id'', msr_UserID = f ''user_id'',
           msr_RequestID = f ''request_id'', msr_CorrelationID = f ''correlation_id'',
           msr_MessageType = f ''message_type'', msr_To = f ''to'', msr_Status = f ''status'',
           msr_Error = f ''error'', msr_Timestamp = f ''timestamp''\<rparr>)
     (unmarshal_struct [''session_id'', ''client_id'', ''user_id'', ''request_id'', ''correlation_id'',
        ''message_type'', ''to'', ''status'', ''error'', ''timestamp''] payload)"

section \<open>The Kafka handlers\<close>

type_synonym 'w MessageHandler = "string \<Rightarrow> bytes \<Rightarrow> ('w, error option) prog"

definition kafka_user ::
  "'w registrationService \<Rightarrow> (bytes \<Rightarrow> error) \<Rightarrow> 'w MessageHandler" where
  "kafka_user s je subject p =
     (case unmarshal_user p of
        None \<Rightarrow> Ret (Some (je p))
      | Some r \<Rightarrow> HandleUserCreateResult s r)"

definition kafka_auth ::
  "'w registrationService \<Rightarrow> (bytes \<Rightarrow> error) \<Rightarrow> 'w MessageHandler" where
  "kafka_auth s je subject p =
     (case unmarshal_auth p of
        None \<Rightarrow> Ret (Some (je p))
      | Some r \<Rightarrow> HandleAuthCreatePendingResult s r)"

definition kafka_mail ::
  "'w registrationService \<Rightarrow> (bytes \<Rightarrow> error) \<Rightarrow> 'w MessageHandler" where
  "kafka_mail s je subject p =
     (case unmarshal_mail p of
        None \<Rightarrow> Ret (Some (je p))
      | Some r \<Rightarrow> HandleMailSendResult s r)"

section \<open>The NATS handlers\<close>

type_synonym 'w nats_handler = "string \<Rightarrow> bytes \<Rightarrow> ('w, nats_error option) prog"

definition passed_on :: "('w, error option) prog \<Rightarrow> ('w, nats_error option) prog" where
  "passed_on p = bind p (\<lambda>r. Ret (map_option NatsHandlerError r))"

text \<open>The structs of nats/commands.go, decoded by their tags, and their conversions.\<close>

record nats_userCreateResult =
  nur_SessionID :: string
  nur_UserID :: string
  nur_Status :: string
  nur_Error :: string
  nur_Timestamp :: string

record nats_authCreatePendingResult =
  nar_SessionID :: string
  nar_ClientID :: string
  nar_UserID :: string
  nar_Status :: string
  nar_Error :: string
  nar_Timestamp :: string

record nats_mailSendResult =
  nmr_SessionID :: string
  nmr_ClientID :: string
  nmr_UserID :: string
  nmr_RequestID :: string
  nmr_CorrelationID :: string
  nmr_MessageType :: string
  nmr_To :: string
  nmr_Status :: string
  nmr_Error :: string
  nmr_Timestamp :: string

definition nats_unmarshal_user :: "bytes \<Rightarrow> nats_userCreateResult option" where
  "nats_unmarshal_user payload = map_option
     (\<lambda>f. \<lparr>nur_SessionID = f ''session_id'', nur_UserID = f ''user_id'', nur_Status = f ''status'',
           nur_Error = f ''error'', nur_Timestamp = f ''timestamp''\<rparr>)
     (unmarshal_struct [''session_id'', ''user_id'', ''status'', ''error'', ''timestamp''] payload)"

definition nats_unmarshal_auth :: "bytes \<Rightarrow> nats_authCreatePendingResult option" where
  "nats_unmarshal_auth payload = map_option
     (\<lambda>f. \<lparr>nar_SessionID = f ''session_id'', nar_ClientID = f ''client_id'', nar_UserID = f ''user_id'',
           nar_Status = f ''status'', nar_Error = f ''error'', nar_Timestamp = f ''timestamp''\<rparr>)
     (unmarshal_struct [''session_id'', ''client_id'', ''user_id'', ''status'', ''error'', ''timestamp'']
        payload)"

definition nats_unmarshal_mail :: "bytes \<Rightarrow> nats_mailSendResult option" where
  "nats_unmarshal_mail payload = map_option
     (\<lambda>f. \<lparr>nmr_SessionID = f ''session_id'', nmr_ClientID = f ''client_id'', nmr_UserID = f ''user_id'',
           nmr_RequestID = f ''request_id'', nmr_CorrelationID = f ''correlation_id'',
           nmr_MessageType = f ''message_type'', nmr_To = f ''to'', nmr_Status = f ''status'',
           nmr_Error = f ''error'', nmr_Timestamp = f ''timestamp''\<rparr>)
     (unmarshal_struct [''session_id'', ''client_id'', ''user_id'', ''request_id'', ''correlation_id'',
        ''message_type'', ''to'', ''status'', ''error'', ''timestamp''] payload)"

definition app_user_result :: "nats_userCreateResult \<Rightarrow> UserCreateResult" where
  "app_user_result r =
     \<lparr>ucr_SessionID = nur_SessionID r, ucr_UserID = nur_UserID r, ucr_Status = nur_Status r,
      ucr_Error = nur_Error r, ucr_Timestamp = nur_Timestamp r\<rparr>"

definition app_auth_result :: "nats_authCreatePendingResult \<Rightarrow> AuthCreatePendingResult" where
  "app_auth_result r =
     \<lparr>acr_SessionID = nar_SessionID r, acr_ClientID = nar_ClientID r, acr_UserID = nar_UserID r,
      acr_Status = nar_Status r, acr_Error = nar_Error r, acr_Timestamp = nar_Timestamp r\<rparr>"

definition app_mail_result :: "nats_mailSendResult \<Rightarrow> MailSendResult" where
  "app_mail_result r =
     \<lparr>msr_SessionID = nmr_SessionID r, msr_ClientID = nmr_ClientID r, msr_UserID = nmr_UserID r,
      msr_RequestID = nmr_RequestID r, msr_CorrelationID = nmr_CorrelationID r,
      msr_MessageType = nmr_MessageType r, msr_To = nmr_To r, msr_Status = nmr_Status r,
      msr_Error = nmr_Error r, msr_Timestamp = nmr_Timestamp r\<rparr>"

definition nats_user :: "'w registrationService \<Rightarrow> (bytes \<Rightarrow> error) \<Rightarrow> 'w nats_handler" where
  "nats_user s je subject p =
     (case nats_unmarshal_user p of
        None \<Rightarrow> Ret (Some (UnmarshalUserCreateResultError (je p)))
      | Some r \<Rightarrow> passed_on (HandleUserCreateResult s (app_user_result r)))"

definition nats_auth :: "'w registrationService \<Rightarrow> (bytes \<Rightarrow> error) \<Rightarrow> 'w nats_handler" where
  "nats_auth s je subject p =
     (case nats_unmarshal_auth p of
        None \<Rightarrow> Ret (Some (UnmarshalAuthCreatePendingResultError (je p)))
      | Some r \<Rightarrow> passed_on (HandleAuthCreatePendingResult s (app_auth_result r)))"

definition nats_mail :: "'w registrationService \<Rightarrow> (bytes \<Rightarrow> error) \<Rightarrow> 'w nats_handler" where
  "nats_mail s je subject p =
     (case nats_unmarshal_mail p of
        None \<Rightarrow> Ret (Some (UnmarshalMailSendResultError (je p)))
      | Some r \<Rightarrow> passed_on (HandleMailSendResult s (app_mail_result r)))"

text \<open>The two sets of structs agree: decoding and converting gives the same result.\<close>

lemma decoders_agree:
  "map_option app_user_result (nats_unmarshal_user p) = unmarshal_user p"
  "map_option app_auth_result (nats_unmarshal_auth p) = unmarshal_auth p"
  "map_option app_mail_result (nats_unmarshal_mail p) = unmarshal_mail p"
  by (simp_all add: nats_unmarshal_user_def nats_unmarshal_auth_def nats_unmarshal_mail_def
      unmarshal_user_def unmarshal_auth_def unmarshal_mail_def app_user_result_def app_auth_result_def
      app_mail_result_def option.map_comp comp_def)

text \<open>So a NATS handler passes on what the Kafka handler would be given.\<close>

lemma nats_handlers:
  "nats_user s je subject p = (case unmarshal_user p of
     None \<Rightarrow> Ret (Some (UnmarshalUserCreateResultError (je p))) | Some r \<Rightarrow> passed_on (HandleUserCreateResult s r))"
  "nats_auth s je subject p = (case unmarshal_auth p of
     None \<Rightarrow> Ret (Some (UnmarshalAuthCreatePendingResultError (je p)))
   | Some r \<Rightarrow> passed_on (HandleAuthCreatePendingResult s r))"
  "nats_mail s je subject p = (case unmarshal_mail p of
     None \<Rightarrow> Ret (Some (UnmarshalMailSendResultError (je p))) | Some r \<Rightarrow> passed_on (HandleMailSendResult s r))"
  unfolding decoders_agree [symmetric] nats_user_def nats_auth_def nats_mail_def
  by (simp_all split: option.split)

section \<open>Marshalled results are read back\<close>

definition utf8_values :: "(bytes \<times> bytes) list \<Rightarrow> bool" where
  "utf8_values fs \<longleftrightarrow> (\<forall>(k, v) \<in> set fs. valid_utf8 v = v)"

text \<open>The field read back under \<open>k\<close>.\<close>

lemma read_fields_simps [simp]:
  "read_fields [] d k = d k"
  "read_fields ((k', v) # fs) d k = (if k = k' then v else read_fields fs d k)"
  "read_fields (optional k' v @ fs) d k =
     (if k = k' \<and> v \<noteq> [] then v else read_fields fs d k)"
  by (auto simp: read_fields_def optional_def)

lemma utf8_values_same: "utf8_values fs \<Longrightarrow> map (\<lambda>(k, v). (k, valid_utf8 v)) fs = fs"
  by (induction fs) (auto simp: utf8_values_def)

lemma optional_keys [simp]: "fst ` set (optional k v) = (if v = [] then {} else {k})"
  "map fst (optional k v) = (if v = [] then [] else [k])"
  by (simp_all add: optional_def)

lemma read_back:
  assumes "distinct (map fst fs)" and "set (map fst fs) \<subseteq> set names" and "\<forall>k \<in> set names. ascii k"
    and "utf8_values fs"
  shows "unmarshal_struct names (render (struct_json fs)) = Some (read_fields fs (\<lambda>_. []))"
  using unmarshal_struct_json [of fs names] assms utf8_values_same [OF assms(4)] by auto

lemma user_read_back:
  "utf8_values (userCreateResult_fields r) \<Longrightarrow>
     unmarshal_user (render (struct_json (userCreateResult_fields r))) = Some r"
  unfolding unmarshal_user_def
  by (subst read_back) (auto simp: userCreateResult_fields_def)

lemma auth_read_back:
  "utf8_values (authCreateResult_fields r) \<Longrightarrow>
     unmarshal_auth (render (struct_json (authCreateResult_fields r))) = Some r"
  unfolding unmarshal_auth_def
  by (subst read_back) (auto simp: authCreateResult_fields_def)

lemma mail_read_back:
  "utf8_values (mailSendResult_fields r) \<Longrightarrow>
     unmarshal_mail (render (struct_json (mailSendResult_fields r))) = Some r"
  unfolding unmarshal_mail_def
  by (subst read_back) (auto simp: mailSendResult_fields_def)

section \<open>What is delivered is what was sent\<close>

text \<open>
  C34: A step result marshalled with the struct tags of the adapters, its strings being valid UTF-8
  and its empty optional fields left out, is decoded to the same result by the Kafka and by the
  NATS handler, whatever the field values: delivering the payload is calling the application's
  handler with the result itself.
\<close>

theorem result_payloads_round_trip:
  assumes "utf8_values (userCreateResult_fields u)" and "utf8_values (authCreateResult_fields a)"
    and "utf8_values (mailSendResult_fields m)"
  shows "kafka_user s je subject (render (struct_json (userCreateResult_fields u))) = HandleUserCreateResult s u
     \<and> kafka_auth s je subject (render (struct_json (authCreateResult_fields a))) = HandleAuthCreatePendingResult s a
     \<and> kafka_mail s je subject (render (struct_json (mailSendResult_fields m))) = HandleMailSendResult s m
     \<and> nats_user s je subject (render (struct_json (userCreateResult_fields u)))
         = passed_on (HandleUserCreateResult s u)
     \<and> nats_auth s je subject (render (struct_json (authCreateResult_fields a)))
         = passed_on (HandleAuthCreatePendingResult s a)
     \<and> nats_mail s je subject (render (struct_json (mailSendResult_fields m)))
         = passed_on (HandleMailSendResult s m)"
  using assms
  by (simp add: kafka_user_def kafka_auth_def kafka_mail_def nats_handlers
      user_read_back auth_read_back mail_read_back)



end
