(* ===== verification/Step_Systems.thy ===== *)
theory Step_Systems
  imports Saga_Prelude
begin

text \<open>
  Two contracts of a step relation, stated as locales and interpreted on the consumers of the
  message brokers: an invariant, and a measure that bounds the number of steps.
\<close>

text \<open>The interface of an invariant: it holds at the start and every step keeps it.\<close>

locale step_invariant =
  fixes step :: "'s \<Rightarrow> 's \<Rightarrow> bool" and start :: 's and inv :: "'s \<Rightarrow> bool"
  assumes start: "inv start"
    and preserved: "inv s \<Longrightarrow> step s t \<Longrightarrow> inv t"
begin

lemma always: "step\<^sup>*\<^sup>* start s \<Longrightarrow> inv s"
  by (induction rule: rtranclp_induct) (auto intro: start preserved)

end

text \<open>A measure that every step within an invariant decreases bounds the number of steps.\<close>

locale step_measure =
  fixes step :: "'s \<Rightarrow> 's \<Rightarrow> bool" and inv :: "'s \<Rightarrow> bool" and \<mu> :: "'s \<Rightarrow> nat"
  assumes kept: "inv s \<Longrightarrow> step s t \<Longrightarrow> inv t"
    and decreases: "inv s \<Longrightarrow> step s t \<Longrightarrow> \<mu> t < \<mu> s"
begin

lemma bounded: "inv s \<Longrightarrow> (step ^^ n) s t \<Longrightarrow> inv t \<and> n + \<mu> t \<le> \<mu> s"
proof (induction n arbitrary: t)
  case (Suc n)
  from Suc.prems obtain u where u: "(step ^^ n) s u" "step u t" by auto
  with Suc.IH Suc.prems have "inv u" "n + \<mu> u \<le> \<mu> s" by auto
  with u(2) kept decreases show ?case by fastforce
qed simp

lemma ends: "inv s \<Longrightarrow> \<exists>t. step\<^sup>*\<^sup>* s t \<and> inv t \<and> (\<forall>u. \<not> step t u)"
proof (induction "\<mu> s" arbitrary: s rule: less_induct)
  case less
  show ?case
  proof (cases "\<exists>u. step s u")
    case True
    then obtain u where u: "step s u" by blast
    with less kept decreases obtain t where "step\<^sup>*\<^sup>* u t" "inv t" "\<forall>v. \<not> step t v" by blast
    with u show ?thesis by (metis converse_rtranclp_into_rtranclp)
  qed (use less.prems in blast)
qed

end

end
