(* ===== verification/Nats_Runtime.thy ===== *)
theory Nats_Runtime
  imports Nats_Config Step_Systems "HOL-Library.Multiset" "HOL-Library.Word"
begin

text \<open>
  The pull-consumer runtime (internal/presentation/event_broker/nats/pull_consumer_runtime.go):
  one fetcher goroutine, \<open>Workers\<close> worker goroutines and the buffered channel \<open>jobs\<close> between
  them. Every goroutine is a small state machine whose transitions are the points at which it
  touches the channel, the subscription, the message or the context; \<open>rt_step\<close> lets any of them
  move, which is every schedule of the Go runtime and, where a \<open>select\<close> has several ready
  cases, every choice it may take. What the handler returns, what \<open>Fetch\<close> delivers and whether
  an acknowledgement reaches the server is the environment's choice; \<open>Fetch(n)\<close> returns at most
  \<open>n\<close> messages. \<open>rt_log\<close> records what the consumer did.
\<close>

section \<open>State\<close>

record pullConsumerFetchState =
  fs_batch :: int
  fs_wait :: int
  fs_tier :: string
  fs_lastAdaptiveCheck :: int

text \<open>
  A worker between its channel operations: waiting in the \<open>select\<close>, in the handler, with the
  handler's result in hand, or returned. The fetcher: at the head of its loop, in \<open>Fetch\<close>,
  sending the messages that are left, in \<open>wg.Wait()\<close>, or returned with \<open>jobs\<close> closed; the
  messages it leaves behind stay in its local variable.
\<close>

datatype 'm worker = Idle | Handling 'm | Replying 'm "error option" | Stopped

datatype 'm fetcher =
    Checking | Fetching | Dispatching "'m list" | Waiting "'m list" | Closed "'m list"

datatype 'm consumer_event =
    Fetched 'm | Handled 'm "error option" | Nak 'm | Ack 'm | AckFailed 'm error

record 'm consumer =
  rt_cancelled :: bool
  rt_fetcher :: "'m fetcher"
  rt_plan :: pullConsumerFetchState
  rt_jobs :: "'m list"
  rt_workers :: "'m worker list"
  rt_log :: "'m consumer_event list"

text \<open>\<open>Start\<close>: the workers and the fetcher are started, the fetcher with the base plan.\<close>

definition runtime_Start :: "PullConsumerConfig \<Rightarrow> int \<Rightarrow> 'm consumer" where
  "runtime_Start cfg now =
     \<lparr>rt_cancelled = False, rt_fetcher = Checking,
      rt_plan = \<lparr>fs_batch = pc_BatchSize cfg, fs_wait = pc_MaxWait cfg, fs_tier = ''base'',
                 fs_lastAdaptiveCheck = now\<rparr>,
      rt_jobs = [], rt_workers = replicate (nat (pc_Workers cfg)) Idle, rt_log = []\<rparr>"

section \<open>The fetcher\<close>

text \<open>
  \<open>info\<close> is the answer of \<open>ConsumerInfo()\<close>: an error or \<open>NumPending\<close>, a \<open>uint64\<close>, which
  \<open>int(...)\<close> reads as a signed number. \<open>now\<close> is the time of \<open>time.Since\<close>, \<open>now'\<close> of the second
  clock reading.
\<close>

definition maybeUpdateAdaptivePlan ::
  "PullConsumerConfig \<Rightarrow> int \<Rightarrow> int \<Rightarrow> error + 64 word \<Rightarrow> pullConsumerFetchState
   \<Rightarrow> pullConsumerFetchState" where
  "maybeUpdateAdaptivePlan cfg now now' info st =
     (if \<not> pa_Enabled (pc_Adaptive cfg)
         \<or> now - fs_lastAdaptiveCheck st < pa_CheckInterval (pc_Adaptive cfg) then st
      else let st = st\<lparr>fs_lastAdaptiveCheck := now'\<rparr> in
        (case info of
           Inl err \<Rightarrow> st
         | Inr pending \<Rightarrow>
             (case ResolvePullPlan cfg (sint pending) of (nextTier, nextBatch, nextWait) \<Rightarrow>
                if nextTier = fs_tier st \<and> nextBatch = fs_batch st \<and> nextWait = fs_wait st then st
                else st\<lparr>fs_tier := nextTier, fs_batch := nextBatch, fs_wait := nextWait\<rparr>)))"

text \<open>Every error of \<open>Fetch\<close>, a time-out or another, sends the fetcher back to the loop head.\<close>

definition handleFetchError :: "error option \<Rightarrow> bool" where
  "handleFetchError err = (err \<noteq> None)"

inductive fetcher_step :: "PullConsumerConfig \<Rightarrow> 'm consumer \<Rightarrow> 'm consumer \<Rightarrow> bool" for cfg where
  shouldStop: "rt_fetcher s = Checking \<Longrightarrow> rt_cancelled s
     \<Longrightarrow> fetcher_step cfg s (s\<lparr>rt_fetcher := Waiting []\<rparr>)"
| plan: "rt_fetcher s = Checking \<Longrightarrow> \<not> rt_cancelled s
     \<Longrightarrow> fetcher_step cfg s (s\<lparr>rt_fetcher := Fetching,
           rt_plan := maybeUpdateAdaptivePlan cfg now now' info (rt_plan s)\<rparr>)"
| fetch_failed: "rt_fetcher s = Fetching \<Longrightarrow> handleFetchError err
     \<Longrightarrow> fetcher_step cfg s (s\<lparr>rt_fetcher := Checking\<rparr>)"
| fetched: "rt_fetcher s = Fetching \<Longrightarrow> int (length msgs) \<le> fs_batch (rt_plan s)
     \<Longrightarrow> fetcher_step cfg s (s\<lparr>rt_fetcher := Dispatching msgs, rt_log := rt_log s @ map Fetched msgs\<rparr>)"
| send: "rt_fetcher s = Dispatching (m # ms) \<Longrightarrow> int (length (rt_jobs s)) < pc_QueueSize cfg
     \<Longrightarrow> fetcher_step cfg s (s\<lparr>rt_fetcher := Dispatching ms, rt_jobs := rt_jobs s @ [m]\<rparr>)"
| abandon: "rt_fetcher s = Dispatching (m # ms) \<Longrightarrow> rt_cancelled s
     \<Longrightarrow> fetcher_step cfg s (s\<lparr>rt_fetcher := Waiting (m # ms)\<rparr>)"
| dispatched: "rt_fetcher s = Dispatching []
     \<Longrightarrow> fetcher_step cfg s (s\<lparr>rt_fetcher := Checking\<rparr>)"
| close: "rt_fetcher s = Waiting ms \<Longrightarrow> (\<forall>x \<in> set (rt_workers s). x = Stopped)
     \<Longrightarrow> fetcher_step cfg s (s\<lparr>rt_fetcher := Closed ms\<rparr>)"

section \<open>The workers\<close>

definition set_worker :: "nat \<Rightarrow> 'm worker \<Rightarrow> 'm consumer \<Rightarrow> 'm consumer" where
  "set_worker i x s = s\<lparr>rt_workers := (rt_workers s)[i := x]\<rparr>"

definition log_event :: "'m consumer_event \<Rightarrow> 'm consumer \<Rightarrow> 'm consumer" where
  "log_event e s = s\<lparr>rt_log := rt_log s @ [e]\<rparr>"

definition jobs_closed :: "'m consumer \<Rightarrow> bool" where
  "jobs_closed s = (case rt_fetcher s of Closed ms \<Rightarrow> True | _ \<Rightarrow> False)"

text \<open>The step of worker \<open>i\<close>, whose state is \<open>x\<close>.\<close>

inductive worker_step :: "nat \<Rightarrow> 'm worker \<Rightarrow> 'm consumer \<Rightarrow> 'm consumer \<Rightarrow> bool" for i where
  leave: "rt_cancelled s \<Longrightarrow> worker_step i Idle s (set_worker i Stopped s)"
| drained: "rt_jobs s = [] \<Longrightarrow> jobs_closed s \<Longrightarrow> worker_step i Idle s (set_worker i Stopped s)"
| take: "rt_jobs s = m # ms
     \<Longrightarrow> worker_step i Idle s (set_worker i (Handling m) (s\<lparr>rt_jobs := ms\<rparr>))"
| handled: "worker_step i (Handling m) s (set_worker i (Replying m r) (log_event (Handled m r) s))"
| nak: "worker_step i (Replying m (Some e)) s (set_worker i Idle (log_event (Nak m) s))"
| ack: "worker_step i (Replying m None) s (set_worker i Idle (log_event (Ack m) s))"
| ack_failed: "worker_step i (Replying m None) s (set_worker i Idle (log_event (AckFailed m e) s))"

inductive rt_step :: "PullConsumerConfig \<Rightarrow> 'm consumer \<Rightarrow> 'm consumer \<Rightarrow> bool" for cfg where
  fetcher: "fetcher_step cfg s t \<Longrightarrow> rt_step cfg s t"
| worker: "i < length (rt_workers s) \<Longrightarrow> worker_step i (rt_workers s ! i) s t \<Longrightarrow> rt_step cfg s t"
| cancel: "\<not> rt_cancelled s \<Longrightarrow> rt_step cfg s (s\<lparr>rt_cancelled := True\<rparr>)"

definition rt_reachable :: "PullConsumerConfig \<Rightarrow> int \<Rightarrow> 'm consumer \<Rightarrow> bool" where
  "rt_reachable cfg now s \<longleftrightarrow> (rt_step cfg)\<^sup>*\<^sup>* (runtime_Start cfg now) s"

inductive_cases fetcher_stepE: "fetcher_step cfg s t"
inductive_cases worker_stepE: "worker_step i x s t"
inductive_cases rt_stepE: "rt_step cfg s t"

lemma set_worker_simps [simp]:
  "rt_cancelled (set_worker i x s) = rt_cancelled s" "rt_fetcher (set_worker i x s) = rt_fetcher s"
  "rt_plan (set_worker i x s) = rt_plan s" "rt_jobs (set_worker i x s) = rt_jobs s"
  "rt_log (set_worker i x s) = rt_log s" "rt_workers (set_worker i x s) = (rt_workers s)[i := x]"
  by (simp_all add: set_worker_def)

lemma log_event_simps [simp]:
  "rt_cancelled (log_event e s) = rt_cancelled s" "rt_fetcher (log_event e s) = rt_fetcher s"
  "rt_plan (log_event e s) = rt_plan s" "rt_jobs (log_event e s) = rt_jobs s"
  "rt_log (log_event e s) = rt_log s @ [e]" "rt_workers (log_event e s) = rt_workers s"
  by (simp_all add: log_event_def)

end
