(* ===== verification/Nats_Broker.thy ===== *)
theory Nats_Broker
  imports Result_Delivery Nats_Runtime
begin

text \<open>
  The NATS broker (internal/presentation/event_broker/nats/broker.go, the consumer creation of
  pull_consumer_runtime.go and the subscriber of result_subscriber.go). The connection is a
  record of the calls the code makes on the client library; starting the goroutines of a consumer
  is \<open>nats_go\<close>. Logging, metrics and the deadline of \<open>Flush\<close> are left out.
\<close>

section \<open>The client library\<close>

record ConsumerConfig =
  cc_Durable :: string
  cc_FilterSubject :: string
  cc_AckExplicit :: bool
  cc_AckWait :: int
  cc_MaxDeliver :: int

record 'w nats_conn =
  nats_PublishMsg :: "string \<Rightarrow> bytes \<Rightarrow> ('w, error option) prog"
  nats_FlushWithContext :: "('w, error option) prog"
  nats_Subscribe :: "string \<Rightarrow> 'w MessageHandler \<Rightarrow> ('w, error option) prog"
  nats_JetStream :: "('w, error option) prog"
  nats_AddConsumer :: "string \<Rightarrow> ConsumerConfig \<Rightarrow> ('w, error option) prog"
  nats_UpdateConsumer :: "string \<Rightarrow> ConsumerConfig \<Rightarrow> ('w, error option) prog"
  nats_PullSubscribe :: "string \<Rightarrow> string \<Rightarrow> string \<Rightarrow> ('w, error option) prog"
  nats_go :: "PullConsumerConfig \<Rightarrow> 'w nats_handler \<Rightarrow> ('w, unit) prog"

section \<open>The broker\<close>

text \<open>
  \<open>NewBroker\<close>: \<open>connect\<close> is \<open>nats.Connect\<close> with the connection name and endless reconnects, given
  the user and password when a user is configured.
\<close>

definition nats_NewBroker ::
  "(string \<Rightarrow> (string \<times> string) option \<Rightarrow> ('w, error + 'w nats_conn) prog) \<Rightarrow> NATSConfig \<Rightarrow> bool
   \<Rightarrow> ('w, nats_error + 'w nats_conn) prog" where
  "nats_NewBroker connect cfg log =
     (if nc_URL cfg = [] then Ret (Inl ErrEmptyNATSURL)
      else if \<not> log then Ret (Inl ErrNilNatsLogger)
      else unwrap (connect (nc_URL cfg)
                     (if nc_User cfg \<noteq> [] then Some (nc_User cfg, nc_Password cfg) else None))
        (\<lambda>err. Ret (Inl (ConnectToNATSError err)))
        (\<lambda>nc. Ret (Inr nc)))"

definition nats_Publish ::
  "'w nats_conn \<Rightarrow> string \<Rightarrow> bytes \<Rightarrow> ('w, nats_error option) prog" where
  "nats_Publish nc subject payload =
     on_err (nats_PublishMsg nc subject payload) (\<lambda>err. Ret (Some (PublishToNATSError subject err)))
     (on_err (nats_FlushWithContext nc) (\<lambda>err. Ret (Some (FlushNATSPublisherError err)))
     (Ret None))"

definition nats_PublishRealtime :: "'w nats_conn \<Rightarrow> bytes \<Rightarrow> ('w, nats_error option) prog" where
  "nats_PublishRealtime nc payload = nats_Publish nc ''realtime'' payload"

definition nats_broker_Subscribe ::
  "'w nats_conn \<Rightarrow> string \<Rightarrow> 'w MessageHandler \<Rightarrow> ('w, nats_error option) prog" where
  "nats_broker_Subscribe nc subject handler =
     on_err (nats_Subscribe nc subject handler) (\<lambda>err. Ret (Some (SubscribeToNATSError subject err)))
     (on_err (nats_FlushWithContext nc) (\<lambda>err. Ret (Some (FlushNATSPublisherError err)))
     (Ret None))"

section \<open>Pull consumers\<close>

definition consumer_config :: "PullConsumerConfig \<Rightarrow> ConsumerConfig" where
  "consumer_config cfg =
     \<lparr>cc_Durable = pc_Durable cfg, cc_FilterSubject = pc_Subject cfg, cc_AckExplicit = True,
      cc_AckWait = pc_AckWait cfg, cc_MaxDeliver = pc_MaxDeliver cfg\<rparr>"

text \<open>\<open>Create\<close>: the durable consumer is added, or updated when adding fails, then subscribed to.\<close>

definition runtime_Create ::
  "'w nats_conn \<Rightarrow> PullConsumerConfig \<Rightarrow> ('w, nats_error option) prog" where
  "runtime_Create nc cfg =
     on_err (nats_JetStream nc) (\<lambda>err. Ret (Some (InitJetStreamContextError err)))
     (let subscribe = on_err (nats_PullSubscribe nc (pc_Subject cfg) (pc_Durable cfg) (pc_Stream cfg))
            (\<lambda>err. Ret (Some (CreatePullSubscriberError (pc_Subject cfg) (pc_Durable cfg) err)))
            (Ret None)
      in on_err (nats_AddConsumer nc (pc_Stream cfg) (consumer_config cfg))
           (\<lambda>err. on_err (nats_UpdateConsumer nc (pc_Stream cfg) (consumer_config cfg))
              (\<lambda>updateErr. Ret (Some (EnsureConsumerError (pc_Stream cfg) (pc_Durable cfg) err updateErr)))
              subscribe)
           subscribe)"

definition nats_RunPullConsumer ::
  "'w nats_conn \<Rightarrow> PullConsumerConfig \<Rightarrow> 'w nats_handler \<Rightarrow> ('w, nats_error option) prog" where
  "nats_RunPullConsumer nc cfg handler =
     (case Validate cfg of
        Some err \<Rightarrow> Ret (Some err)
      | None \<Rightarrow> on_err (runtime_Create nc cfg) (\<lambda>err. Ret (Some err))
                  (seq (nats_go nc cfg handler) (Ret None)))"

section \<open>The result subscriber\<close>

record 'w nats_subscriber =
  ns_broker :: "'w nats_conn"
  ns_service :: "'w registrationService"
  ns_cfg :: NATSConfig

definition nats_NewResultSubscriber ::
  "'w nats_conn option \<Rightarrow> 'w registrationService option \<Rightarrow> NATSConfig \<Rightarrow> bool
   \<Rightarrow> nats_error + 'w nats_subscriber" where
  "nats_NewResultSubscriber broker service cfg log =
     (case broker of None \<Rightarrow> Inl ErrNilBroker | Some b \<Rightarrow>
     (case service of None \<Rightarrow> Inl ErrNilNatsRegistrationService | Some s \<Rightarrow>
      if \<not> log then Inl ErrNilNatsLogger
      else Inr \<lparr>ns_broker = b, ns_service = s, ns_cfg = cfg\<rparr>))"

definition nats_result_Subscribe ::
  "(bytes \<Rightarrow> error) \<Rightarrow> 'w nats_subscriber \<Rightarrow> ('w, nats_error option) prog" where
  "nats_result_Subscribe je s =
     (let run_one = nats_RunPullConsumer (ns_broker s) in
      on_err (run_one (user_result_consumer (ns_cfg s)) (nats_user (ns_service s) je)) (\<lambda>err. Ret (Some err))
      (on_err (run_one (auth_result_consumer (ns_cfg s)) (nats_auth (ns_service s) je)) (\<lambda>err. Ret (Some err))
      (on_err (run_one (mail_result_consumer (ns_cfg s)) (nats_mail (ns_service s) je)) (\<lambda>err. Ret (Some err))
      (Ret None))))"

section \<open>Facts\<close>

text \<open>An invalid configuration is refused before the library is called.\<close>

lemma invalid_consumer_untouched:
  "Validate cfg = Some err \<Longrightarrow> run (nats_RunPullConsumer nc cfg h) w = (Some err, w)"
  by (simp add: nats_RunPullConsumer_def)

text \<open>With the default configuration the three consumers are valid.\<close>

lemma default_consumers_valid:
  "Validate (user_result_consumer NATSConfig_default) = None"
  "Validate (auth_result_consumer NATSConfig_default) = None"
  "Validate (mail_result_consumer NATSConfig_default) = None"
  by (simp_all add: Validate_def user_result_consumer_def auth_result_consumer_def mail_result_consumer_def
      result_consumer_def NATSConfig_default_def PullConsumerConfig_zero_def BuildAdaptiveConfig_def)

end
