(* ===== verification/Nats_Invariants.thy ===== *)
theory Nats_Invariants
  imports Nats_Runtime
begin

text \<open>
  What every schedule of the pull consumer keeps: the bounds of its queue and plans, where each
  fetched message is, and how acknowledgements follow the handler's results; and that a cancelled
  consumer stops.
\<close>

section \<open>Messages\<close>

definition events_of :: "('m consumer_event \<Rightarrow> 'm option) \<Rightarrow> 'm consumer_event list \<Rightarrow> 'm multiset" where
  "events_of f log = mset (List.map_filter f log)"

lemma events_of_simps [simp]:
  "events_of f [] = {#}"
  "events_of f (l @ l') = events_of f l + events_of f l'"
  "events_of f (e # l) = (case f e of None \<Rightarrow> {#} | Some m \<Rightarrow> {#m#}) + events_of f l"
  by (simp_all add: events_of_def List.map_filter_def split: option.split)

fun got :: "'m consumer_event \<Rightarrow> 'm option" where
  "got (Fetched m) = Some m" | "got _ = None"

fun handled_ok :: "'m consumer_event \<Rightarrow> 'm option" where
  "handled_ok (Handled m None) = Some m" | "handled_ok _ = None"

fun handled_err :: "'m consumer_event \<Rightarrow> 'm option" where
  "handled_err (Handled m (Some e)) = Some m" | "handled_err _ = None"

fun acked :: "'m consumer_event \<Rightarrow> 'm option" where
  "acked (Ack m) = Some m" | "acked (AckFailed m e) = Some m" | "acked _ = None"

fun naked :: "'m consumer_event \<Rightarrow> 'm option" where
  "naked (Nak m) = Some m" | "naked _ = None"

lemma events_of_Fetched [simp]:
  "events_of got (map Fetched ms) = mset ms" "events_of handled_ok (map Fetched ms) = {#}"
  "events_of handled_err (map Fetched ms) = {#}" "events_of acked (map Fetched ms) = {#}"
  "events_of naked (map Fetched ms) = {#}"
  by (induction ms) simp_all

fun in_fetcher :: "'m fetcher \<Rightarrow> 'm multiset" where
  "in_fetcher (Dispatching ms) = mset ms"
| "in_fetcher (Waiting ms) = mset ms"
| "in_fetcher (Closed ms) = mset ms"
| "in_fetcher _ = {#}"

fun held :: "'m worker \<Rightarrow> 'm multiset" where
  "held (Handling m) = {#m#}" | "held (Replying m r) = {#m#}" | "held _ = {#}"

fun owing_ack :: "'m worker \<Rightarrow> 'm multiset" where
  "owing_ack (Replying m None) = {#m#}" | "owing_ack _ = {#}"

fun owing_nak :: "'m worker \<Rightarrow> 'm multiset" where
  "owing_nak (Replying m (Some e)) = {#m#}" | "owing_nak _ = {#}"

lemma result_owed:
  "(case handled_ok (Handled m r) of None \<Rightarrow> {#} | Some k \<Rightarrow> {#k#}) = owing_ack (Replying m r)"
  "(case handled_err (Handled m r) of None \<Rightarrow> {#} | Some k \<Rightarrow> {#k#}) = owing_nak (Replying m r)"
  by (cases r; simp)+

definition total :: "('m worker \<Rightarrow> 'a::comm_monoid_add) \<Rightarrow> 'm consumer \<Rightarrow> 'a" where
  "total f s = sum_list (map f (rt_workers s))"

lemma sum_list_update_split:
  fixes f :: "'b \<Rightarrow> 'a::comm_monoid_add"
  shows "i < length xs \<Longrightarrow> sum_list (map f (xs[i := x])) + f (xs ! i) = sum_list (map f xs) + f x"
proof (induction xs arbitrary: i)
  case (Cons y ys)
  then show ?case by (cases i) (simp_all add: ac_simps)
qed simp

lemma total_update:
  "i < length (rt_workers s) \<Longrightarrow>
     total f (set_worker i x s) + f (rt_workers s ! i) = total f s + f x"
  by (simp add: total_def sum_list_update_split)

lemma total_simps [simp]:
  "total f (s\<lparr>rt_jobs := js\<rparr>) = total f s" "total f (s\<lparr>rt_fetcher := x\<rparr>) = total f s"
  "total f (s\<lparr>rt_plan := p\<rparr>) = total f s" "total f (s\<lparr>rt_log := l\<rparr>) = total f s"
  "total f (s\<lparr>rt_cancelled := c\<rparr>) = total f s" "total f (log_event e s) = total f s"
  by (simp_all add: total_def)

text \<open>The step of one worker, from \<open>y\<close> to \<open>x\<close>, changes a sum over the workers by that much.\<close>

lemma total_worker:
  assumes "worker_step i (rt_workers s ! i) s t" and "i < length (rt_workers s)"
  shows "total f t + f (rt_workers s ! i) = total f s + f (rt_workers t ! i)"
proof -
  have "total f (set_worker i x u) + f (rt_workers s ! i) = total f s + f (rt_workers (set_worker i x u) ! i)"
    if "rt_workers u = rt_workers s" "total f u = total f s" for x u
    using that assms(2) total_update [of i u f x] by simp
  from assms(1) this show ?thesis by (cases rule: worker_step.cases) simp_all
qed

section \<open>The invariants\<close>

definition conserved :: "'m consumer \<Rightarrow> bool" where
  "conserved s \<longleftrightarrow> events_of got (rt_log s) =
     in_fetcher (rt_fetcher s) + mset (rt_jobs s) + total held s
     + events_of acked (rt_log s) + events_of naked (rt_log s)"

definition answers_follow :: "'m consumer \<Rightarrow> bool" where
  "answers_follow s \<longleftrightarrow>
     events_of handled_ok (rt_log s) = events_of acked (rt_log s) + total owing_ack s
     \<and> events_of handled_err (rt_log s) = events_of naked (rt_log s) + total owing_nak s"

definition largest_batch :: "PullConsumerConfig \<Rightarrow> int" where
  "largest_batch cfg =
     (if pa_Enabled (pc_Adaptive cfg)
      then max (pc_BatchSize cfg) (max (pa_LowBatchSize (pc_Adaptive cfg))
             (max (pa_MediumBatchSize (pc_Adaptive cfg)) (pa_HighBatchSize (pc_Adaptive cfg))))
      else pc_BatchSize cfg)"

definition within_bounds :: "PullConsumerConfig \<Rightarrow> 'm consumer \<Rightarrow> bool" where
  "within_bounds cfg s \<longleftrightarrow>
     length (rt_workers s) = nat (pc_Workers cfg)
     \<and> int (length (rt_jobs s)) \<le> pc_QueueSize cfg
     \<and> int (size (in_fetcher (rt_fetcher s))) \<le> largest_batch cfg
     \<and> 0 < fs_batch (rt_plan s) \<and> fs_batch (rt_plan s) \<le> largest_batch cfg \<and> 0 < fs_wait (rt_plan s)"

lemma maybeUpdate_bounds:
  assumes "Validate cfg = None" and "0 < fs_batch st \<and> fs_batch st \<le> largest_batch cfg \<and> 0 < fs_wait st"
  shows "let st' = maybeUpdateAdaptivePlan cfg now now' info st in
    0 < fs_batch st' \<and> fs_batch st' \<le> largest_batch cfg \<and> 0 < fs_wait st'"
proof (cases "ResolvePullPlan cfg (sint (case info of Inr p \<Rightarrow> p | Inl _ \<Rightarrow> 0))")
  case (fields tier batch wait)
  then have "0 < batch" "0 < wait" using plan_positive [OF assms(1)] by auto
  moreover have "batch \<le> largest_batch cfg"
    using fields by (auto simp: ResolvePullPlan_def largest_batch_def Let_def split: if_splits)
  ultimately show ?thesis using fields assms(2)
    by (auto simp: maybeUpdateAdaptivePlan_def Let_def split: sum.split)
qed

lemma within_bounds_step:
  assumes "Validate cfg = None" and "within_bounds cfg s" and "rt_step cfg s t"
  shows "within_bounds cfg t"
  using assms(3)
proof (cases rule: rt_step.cases)
  case fetcher
  then show ?thesis
    by (cases rule: fetcher_step.cases)
      (use assms(1,2) maybeUpdate_bounds [OF assms(1), of "rt_plan s"] in \<open>auto simp: within_bounds_def Let_def\<close>)
next
  case (worker i)
  from worker(2) show ?thesis
    by (cases rule: worker_step.cases) (use assms(2) in \<open>auto simp: within_bounds_def\<close>)
qed (use assms(2) in \<open>auto simp: within_bounds_def\<close>)

lemma conserved_step:
  assumes "conserved s" and "rt_step cfg s t"
  shows "conserved t"
  using assms(2)
proof (cases rule: rt_step.cases)
  case fetcher
  then show ?thesis
    by (cases rule: fetcher_step.cases) (use assms(1) in \<open>auto simp: conserved_def\<close>)
next
  case (worker i)
  note w = total_worker [OF worker(2,1), of held]
  from worker(2) show ?thesis
    by (cases rule: worker_step.cases) (use assms(1) worker(1) w in \<open>auto simp: conserved_def\<close>)
qed (use assms(1) in \<open>auto simp: conserved_def\<close>)

lemma answers_step:
  assumes "answers_follow s" and "rt_step cfg s t"
  shows "answers_follow t"
  using assms(2)
proof (cases rule: rt_step.cases)
  case fetcher
  then show ?thesis
    by (cases rule: fetcher_step.cases) (use assms(1) in \<open>auto simp: answers_follow_def\<close>)
next
  case (worker i)
  note w = total_worker [OF worker(2,1), of owing_ack] total_worker [OF worker(2,1), of owing_nak]
  from worker(2) show ?thesis
    by (cases rule: worker_step.cases) (use assms(1) worker(1) w in \<open>simp_all add: answers_follow_def result_owed\<close>)
qed (use assms(1) in \<open>auto simp: answers_follow_def\<close>)

section \<open>The contracts\<close>

definition consumer_inv :: "PullConsumerConfig \<Rightarrow> 'm consumer \<Rightarrow> bool" where
  "consumer_inv cfg s \<longleftrightarrow> conserved s \<and> answers_follow s
     \<and> (Validate cfg = None \<longrightarrow> within_bounds cfg s)"

lemma total_start [simp]: "f Idle = 0 \<Longrightarrow> total f (runtime_Start cfg now) = 0"
proof -
  have "sum_list (replicate n (0 :: 'a)) = 0" for n by (induction n) simp_all
  then show "f Idle = 0 \<Longrightarrow> ?thesis" by (simp add: total_def runtime_Start_def)
qed

interpretation consumer: step_invariant "rt_step cfg" "runtime_Start cfg now" "consumer_inv cfg" for cfg now
proof
  show "consumer_inv cfg (runtime_Start cfg now)"
    using Validate_base [of cfg] Validate_adaptive [of cfg]
    by (simp add: consumer_inv_def conserved_def answers_follow_def)
      (auto simp: runtime_Start_def within_bounds_def largest_batch_def)
next
  fix s t :: "'m consumer" assume "consumer_inv cfg s" and step: "rt_step cfg s t"
  then show "consumer_inv cfg t"
    using conserved_step [OF _ step] answers_step [OF _ step] within_bounds_step [OF _ _ step]
    by (simp add: consumer_inv_def)
qed

fun fetcher_weight :: "int \<Rightarrow> 'm fetcher \<Rightarrow> nat" where
  "fetcher_weight b Checking = 2"
| "fetcher_weight b Fetching = 4 + 5 * nat b"
| "fetcher_weight b (Dispatching ms) = 3 + 5 * length ms"
| "fetcher_weight b (Waiting ms) = 1"
| "fetcher_weight b (Closed ms) = 0"

fun worker_weight :: "'m worker \<Rightarrow> nat" where
  "worker_weight Idle = 1"
| "worker_weight (Handling m) = 3"
| "worker_weight (Replying m r) = 2"
| "worker_weight Stopped = 0"

definition remaining :: "'m consumer \<Rightarrow> nat" where
  "remaining s = fetcher_weight (fs_batch (rt_plan s)) (rt_fetcher s) + 4 * length (rt_jobs s)
     + total worker_weight s"

interpretation shutdown: step_measure "rt_step cfg" rt_cancelled remaining for cfg
proof
  fix s t :: "'m consumer" assume c: "rt_cancelled s" and "rt_step cfg s t"
  from this(2) show "rt_cancelled t"
    by (cases rule: rt_step.cases) (use c in \<open>auto elim: fetcher_step.cases worker_step.cases\<close>)
next
  fix s t :: "'m consumer" assume c: "rt_cancelled s" and "rt_step cfg s t"
  from this(2) show "remaining t < remaining s"
  proof (cases rule: rt_step.cases)
    case fetcher
    then show ?thesis by (cases rule: fetcher_step.cases) (use c in \<open>auto simp: remaining_def\<close>)
  next
    case (worker i)
    note w = total_worker [OF worker(2,1), of worker_weight]
    from worker(2) show ?thesis
      by (cases rule: worker_step.cases) (use worker(1) w in \<open>auto simp: remaining_def\<close>)
  qed (use c in simp)
qed

definition stopped :: "'m consumer \<Rightarrow> bool" where
  "stopped s \<longleftrightarrow> jobs_closed s \<and> (\<forall>x \<in> set (rt_workers s). x = Stopped)"

lemma stuck_stopped:
  assumes "rt_cancelled s" and "\<And>t. \<not> rt_step cfg s t"
  shows "stopped s"
proof -
  have ws: "x = Stopped" if "x \<in> set (rt_workers s)" for x
  proof -
    from that obtain i where i: "i < length (rt_workers s)" "x = rt_workers s ! i" by (auto simp: in_set_conv_nth)
    have no: "\<not> worker_step i (rt_workers s ! i) s t" for t using assms(2) i(1) worker by blast
    show ?thesis
    proof (cases x)
      case (Replying m r)
      with i no show ?thesis by (cases r) (metis worker_step.ack, metis worker_step.nak)
    qed (use no i assms(1) in \<open>metis worker_step.leave worker_step.handled\<close>)+
  qed
  have no: "\<not> fetcher_step cfg s t" for t using assms(2) fetcher by blast
  have "jobs_closed s"
  proof (cases "rt_fetcher s")
    case (Dispatching ms)
    with no assms(1) show ?thesis by (cases ms) (metis dispatched, metis abandon)
  next
    case Fetching
    then have "fetcher_step cfg s (s\<lparr>rt_fetcher := Checking\<rparr>)"
      by (rule fetch_failed [of _ "Some (ExtErr [])"]) (simp add: handleFetchError_def)
    with no show ?thesis by blast
  qed (use no assms(1) ws in \<open>auto simp: jobs_closed_def intro: shouldStop close\<close>)
  with ws show ?thesis by (simp add: stopped_def)
qed

lemma stopped_stuck:
  assumes "stopped s" and "rt_cancelled s"
  shows "\<not> rt_step cfg s t"
proof -
  obtain ms where f: "rt_fetcher s = Closed ms"
    using assms(1) by (auto simp: stopped_def jobs_closed_def split: fetcher.splits)
  have "rt_workers s ! i = Stopped" if "i < length (rt_workers s)" for i
    using assms(1) that by (auto simp: stopped_def)
  then have "\<not> worker_step i (rt_workers s ! i) s t" if "i < length (rt_workers s)" for i t
    using that by (auto elim: worker_stepE)
  with assms(2) f show ?thesis by (auto elim!: rt_stepE fetcher_stepE)
qed

section \<open>The order of the log\<close>

definition answers_ordered :: "'m consumer_event list \<Rightarrow> bool" where
  "answers_ordered log \<longleftrightarrow> (\<forall>k. events_of acked (take k log) \<subseteq># events_of handled_ok (take k log)
     \<and> events_of naked (take k log) \<subseteq># events_of handled_err (take k log))"

lemma log_grows:
  assumes "rt_step cfg s t"
  shows "\<exists>l. rt_log t = rt_log s @ l \<and> (length l \<le> 1 \<or> (\<exists>ms. l = map Fetched ms))"
  using assms
proof (cases rule: rt_step.cases)
  case fetcher
  then show ?thesis by (cases rule: fetcher_step.cases) auto
next
  case (worker i)
  from worker(2) show ?thesis by (cases rule: worker_step.cases) auto
qed simp

lemma answers_ordered_append:
  assumes "answers_ordered l" and "length l' \<le> 1 \<or> (\<exists>ms. l' = map Fetched ms)"
    and "events_of acked (l @ l') \<subseteq># events_of handled_ok (l @ l')"
    and "events_of naked (l @ l') \<subseteq># events_of handled_err (l @ l')"
  shows "answers_ordered (l @ l')"
  unfolding answers_ordered_def
proof
  fix k
  have old: "events_of acked (take j l) \<subseteq># events_of handled_ok (take j l)
      \<and> events_of naked (take j l) \<subseteq># events_of handled_err (take j l)" for j
    using assms(1) by (simp add: answers_ordered_def)
  show "events_of acked (take k (l @ l')) \<subseteq># events_of handled_ok (take k (l @ l'))
     \<and> events_of naked (take k (l @ l')) \<subseteq># events_of handled_err (take k (l @ l'))"
  proof (cases "k \<le> length l")
    case True
    then show ?thesis using old [of k] by simp
  next
    case False
    then have l: "take k (l @ l') = l @ take (k - length l) l'" by simp
    from assms(2) show ?thesis
    proof
      assume "length l' \<le> 1"
      with False have "take k (l @ l') = l @ l'" by simp
      with assms(3,4) show ?thesis by simp
    next
      assume "\<exists>ms. l' = map Fetched ms"
      then obtain ms where "take (k - length l) l' = map Fetched ms" by (auto simp: take_map)
      with l old [of "length l"] show ?thesis by simp
    qed
  qed
qed

interpretation order: step_invariant "rt_step cfg" "runtime_Start cfg now"
  "\<lambda>s. answers_follow s \<and> answers_ordered (rt_log s)" for cfg now
proof
  show "answers_follow (runtime_Start cfg now :: 'm consumer)
      \<and> answers_ordered (rt_log (runtime_Start cfg now :: 'm consumer))"
  proof -
    have "consumer_inv cfg (runtime_Start cfg now :: 'm consumer)" by (rule consumer.start)
    then show ?thesis by (simp add: consumer_inv_def) (simp add: runtime_Start_def answers_ordered_def)
  qed
next
  fix s t :: "'m consumer"
  assume s: "answers_follow s \<and> answers_ordered (rt_log s)" and step: "rt_step cfg s t"
  then have t: "answers_follow t" using answers_step by blast
  obtain l where l: "rt_log t = rt_log s @ l" "length l \<le> 1 \<or> (\<exists>ms. l = map Fetched ms)"
    using log_grows [OF step] by blast
  have "answers_ordered (rt_log t)"
    unfolding l(1) by (rule answers_ordered_append) (use s t l in \<open>simp_all add: answers_follow_def\<close>)
  with t show "answers_follow t \<and> answers_ordered (rt_log t)" by simp
qed

section \<open>Bounds in terms of the configuration\<close>

lemma size_total_held: "size (total held s) \<le> length (rt_workers s)"
proof -
  have "size (sum_list (map held ws)) \<le> length ws" for ws :: "'m worker list"
  proof (induction ws)
    case (Cons w ws)
    then show ?case by (cases w) auto
  qed simp
  then show ?thesis by (simp add: total_def)
qed

lemma total_worker_weight: "total worker_weight s \<le> 3 * length (rt_workers s)"
proof -
  have "sum_list (map worker_weight ws) \<le> 3 * length ws" for ws :: "'m worker list"
  proof (induction ws)
    case (Cons w ws)
    then show ?case by (cases w) auto
  qed simp
  then show ?thesis by (simp add: total_def)
qed

lemma remaining_bound:
  assumes "Validate cfg = None" and "within_bounds cfg s"
  shows "int (remaining s) \<le> 4 * pc_QueueSize cfg + 3 * pc_Workers cfg + 5 * largest_batch cfg + 4"
proof -
  have "int (fetcher_weight (fs_batch (rt_plan s)) (rt_fetcher s)) \<le> 4 + 5 * largest_batch cfg"
    using assms(2) by (cases "rt_fetcher s") (auto simp: within_bounds_def)
  moreover have "int (total worker_weight s) \<le> 3 * pc_Workers cfg"
    using total_worker_weight [of s] assms(2) Validate_base(3) [OF assms(1)] by (simp add: within_bounds_def)
  ultimately show ?thesis using assms(2) by (simp add: remaining_def within_bounds_def)
qed

lemma unsettled_bound:
  assumes "Validate cfg = None" and "consumer_inv cfg s"
  shows "int (size (events_of got (rt_log s))) \<le> int (size (events_of acked (rt_log s)))
     + int (size (events_of naked (rt_log s))) + pc_QueueSize cfg + pc_Workers cfg + largest_batch cfg"
  using assms size_total_held [of s] Validate_base(3) [OF assms(1)]
  by (auto simp: consumer_inv_def conserved_def within_bounds_def)

section \<open>What every execution does\<close>

text \<open>
  C10: In every reachable state of a pull consumer whose configuration passes validation, the queue
  holds at most \<open>QueueSize\<close> messages, the next fetch asks for a positive number of messages, at
  most the largest batch of the configuration, with a positive waiting time, and every message
  ever fetched is, with its multiplicity, still with the fetcher, in the queue, with a worker, or
  was answered by an acknowledgement or a negative one: none is lost or answered twice. So at
  most \<open>QueueSize + Workers\<close> and one batch of messages are unanswered.
\<close>

theorem nats_consumer_conserves:
  assumes "Validate cfg = None" and "rt_reachable cfg now s"
  shows "int (length (rt_jobs s)) \<le> pc_QueueSize cfg
     \<and> 0 < fs_batch (rt_plan s) \<and> fs_batch (rt_plan s) \<le> largest_batch cfg \<and> 0 < fs_wait (rt_plan s)
     \<and> events_of got (rt_log s) = in_fetcher (rt_fetcher s) + mset (rt_jobs s) + total held s
         + events_of acked (rt_log s) + events_of naked (rt_log s)
     \<and> int (size (events_of got (rt_log s))) \<le> int (size (events_of acked (rt_log s)))
         + int (size (events_of naked (rt_log s))) + pc_QueueSize cfg + pc_Workers cfg + largest_batch cfg"
  using consumer.always [of cfg now s] unsettled_bound [of cfg s] assms
  by (simp add: rt_reachable_def consumer_inv_def conserved_def within_bounds_def)

text \<open>
  C19: Under every schedule a message is acknowledged only after the handler has returned without
  error for it, and negatively acknowledged only after it has failed: at every moment the
  acknowledgements sent so far are, with multiplicity, among the successful handlings so far, the
  negative ones among the failed handlings. A handled message whose answer is missing is with a
  worker about to send it.
\<close>

theorem nats_answers_follow_handler:
  assumes "rt_reachable cfg now s"
  shows "(\<forall>k. events_of acked (take k (rt_log s)) \<subseteq># events_of handled_ok (take k (rt_log s))
       \<and> events_of naked (take k (rt_log s)) \<subseteq># events_of handled_err (take k (rt_log s)))
     \<and> events_of handled_ok (rt_log s) = events_of acked (rt_log s) + total owing_ack s
     \<and> events_of handled_err (rt_log s) = events_of naked (rt_log s) + total owing_nak s"
  using order.always [of cfg now s] assms
  by (simp add: rt_reachable_def answers_follow_def answers_ordered_def)

text \<open>
  C13: Once its context is cancelled a pull consumer stops: whatever the schedule, it makes at most
  \<open>4 * QueueSize + 3 * Workers + 5 * batch + 4\<close> further steps, and it can only come to rest with
  every worker returned, the fetcher returned and the queue closed; it does come to rest.
\<close>

theorem nats_shutdown_terminates:
  assumes "Validate cfg = None" and "rt_reachable cfg now s" and "rt_cancelled s"
  shows "(\<forall>n t. (rt_step cfg ^^ n) s t \<longrightarrow>
       int n \<le> 4 * pc_QueueSize cfg + 3 * pc_Workers cfg + 5 * largest_batch cfg + 4)
     \<and> (\<forall>t. (rt_step cfg)\<^sup>*\<^sup>* s t \<and> (\<forall>u. \<not> rt_step cfg t u) \<longrightarrow> stopped t)
     \<and> (\<exists>t. (rt_step cfg)\<^sup>*\<^sup>* s t \<and> stopped t)"
proof -
  have "within_bounds cfg s"
    using consumer.always [of cfg now s] assms(1,2) by (simp add: rt_reachable_def consumer_inv_def)
  note bound = remaining_bound [OF assms(1) this]
  have steps: "int n \<le> 4 * pc_QueueSize cfg + 3 * pc_Workers cfg + 5 * largest_batch cfg + 4"
    if "(rt_step cfg ^^ n) s t" for n t
    using shutdown.bounded [OF assms(3) that] bound by simp
  have rest: "stopped t" if "(rt_step cfg)\<^sup>*\<^sup>* s t" "\<forall>u. \<not> rt_step cfg t u" for t
    using that shutdown.bounded [OF assms(3)] stuck_stopped by (metis rtranclp_power)
  with shutdown.ends [OF assms(3), of cfg] steps show ?thesis by blast
qed

end
