(* ===== verification/Kafka_Broker.thy ===== *)
theory Kafka_Broker
  imports Result_Delivery
begin

text \<open>
  The Kafka broker (internal/presentation/event_broker/kafka/broker.go, migration_mapper.go):
  publishing with the envelope of the platform, the choice of the consumer group, and what a
  consumer worker does with one message. The Kafka client, the retry queue, the dead-letter
  encoding and the envelopes belong to other modules (segmentio/kafka-go, ofm-common); the calls
  the code makes on them are the fields of \<open>kafka_codec\<close> (pure) and \<open>kafka_lib\<close> (effects). Tracing, metrics and logging are left out.
\<close>

section \<open>Messages and libraries\<close>

record kafka_message =
  km_Key :: bytes
  km_Value :: bytes
  km_Headers :: "(string \<times> bytes) list"
  km_Partition :: int
  km_Offset :: int

text \<open>What a receive from a closed channel yields.\<close>

definition zero_message :: kafka_message where
  "zero_message = \<lparr>km_Key = [], km_Value = [], km_Headers = [], km_Partition = 0, km_Offset = 0\<rparr>"

record DLQRecord =
  dlq_OriginalKey :: bytes
  dlq_OriginalValue :: bytes
  dlq_OriginalTopic :: string
  dlq_OriginalPartition :: int
  dlq_OriginalOffset :: int
  dlq_Attempts :: int
  dlq_ErrorClass :: string
  dlq_Error :: string
  dlq_FailedAt :: int

record event_Envelope =
  ev_EventType :: string
  ev_Payload :: bytes
  ev_AggregateType :: string
  ev_AggregateID :: string
  ev_SessionID :: string
  ev_SourceService :: string
  ev_Operation :: string
  ev_CorrelationID :: string
  ev_TestRunID :: string

record request_metadata =
  rm_CorrelationID :: string
  rm_TestRunID :: string
  rm_OutgoingHeaders :: "(string \<times> string) list"

record kafka_codec =
  kl_Wrap :: "string \<Rightarrow> bytes \<Rightarrow> error + bytes"
  kl_Unwrap :: "bytes \<Rightarrow> error + bytes"
  kl_eventsNew :: "string \<Rightarrow> bytes \<Rightarrow> error + event_Envelope"
  kl_eventsMarshal :: "event_Envelope \<Rightarrow> error + bytes"
  kl_unmarshalError :: "bytes \<Rightarrow> error"
  kl_Sum256 :: "bytes \<Rightarrow> bytes"
  kl_isPermanent :: "error \<Rightarrow> bool"
  kl_typeName :: "error \<Rightarrow> string"
  kl_MaxAttempts :: int
  kl_RetryTopic :: "string \<Rightarrow> string"
  kl_MarshalDLQ :: "DLQRecord \<Rightarrow> error + bytes"

record 'w kafka_lib = kafka_codec +
  kl_now :: "('w, int) prog"
  kl_Enqueue :: "string \<Rightarrow> kafka_message \<Rightarrow> string \<Rightarrow> int \<Rightarrow> error \<Rightarrow> ('w, error option) prog"
  kl_WriteMessages :: "string \<Rightarrow> bytes \<Rightarrow> bytes \<Rightarrow> (string \<times> bytes) list \<Rightarrow> ('w, error option) prog"
  kl_CommitMessages :: "kafka_message \<Rightarrow> ('w, error option) prog"

section \<open>The broker\<close>

record broker =
  br_brokers :: "string list"
  br_group :: string
  br_deadLetter :: string

definition kafka_NewBroker :: "KafkaConfig \<Rightarrow> error + broker" where
  "kafka_NewBroker cfg =
     (if kc_Brokers cfg = [] then Inl (ExtErr ''kafka brokers are empty'')
      else Inr \<lparr>br_brokers = kc_Brokers cfg, br_group = kc_GroupID cfg,
                br_deadLetter = kc_GroupID cfg @ ''.dead-letter''\<rparr>)"

text \<open>The mapper of migration events.\<close>

definition migration_Map ::
  "'c kafka_codec_scheme \<Rightarrow> request_metadata \<Rightarrow> string \<Rightarrow> bytes \<Rightarrow> error + bytes" where
  "migration_Map l md subject payload =
     (case unmarshal_struct [''session_id'', ''client_id'', ''user_id''] payload of
        None \<Rightarrow> Inl (Wrapped ''decode registration migration payload: '' (kl_unmarshalError l payload))
      | Some body \<Rightarrow>
          if body ''session_id'' = [] \<or> body ''user_id'' = []
          then Inl (ExtErr ''registration migration payload is missing session_id or user_id'')
          else (case kl_eventsNew l subject payload of
                  Inl err \<Rightarrow> Inl err
                | Inr envelope \<Rightarrow> kl_eventsMarshal l (envelope
                    \<lparr>ev_AggregateType := ''registration'', ev_AggregateID := body ''session_id'',
                     ev_SessionID := body ''session_id'',
                     ev_SourceService := ''registration-saga-service'', ev_Operation := subject,
                     ev_CorrelationID := rm_CorrelationID md, ev_TestRunID := rm_TestRunID md\<rparr>)))"

definition eventKey :: "'c kafka_codec_scheme \<Rightarrow> bytes \<Rightarrow> bytes" where
  "eventKey l payload = kl_Sum256 l payload"

definition kafkaHeaders :: "request_metadata \<Rightarrow> (string \<times> bytes) list" where
  "kafkaHeaders md = map (\<lambda>(key, v). (key, v)) (rm_OutgoingHeaders md)"

definition kafka_Publish ::
  "'w kafka_lib \<Rightarrow> request_metadata \<Rightarrow> string \<Rightarrow> bytes \<Rightarrow> ('w, error option) prog" where
  "kafka_Publish l md subject payload =
     (case kl_Wrap l subject payload of
        Inl err \<Rightarrow> Ret (Some err)
      | Inr wrapped \<Rightarrow>
          (case (if HasPrefix subject ''migration.registration.'' then migration_Map l md subject payload
                 else Inr wrapped) of
             Inl err \<Rightarrow> Ret (Some err)
           | Inr enveloped \<Rightarrow>
               kl_WriteMessages l subject (eventKey l enveloped) enveloped (kafkaHeaders md)))"

definition kafka_PublishRealtime ::
  "'w kafka_lib \<Rightarrow> request_metadata \<Rightarrow> bytes \<Rightarrow> ('w, error option) prog" where
  "kafka_PublishRealtime l md payload = kafka_Publish l md ''realtime'' payload"

section \<open>A consumer worker\<close>

definition recovery_prefix :: string where
  "recovery_prefix = ''migration.recovery.commands.''"

definition consumer_group :: "broker \<Rightarrow> PullConsumerConfig \<Rightarrow> string" where
  "consumer_group b cfg =
     (let group = TrimSpace (br_group b) @ ''-'' @ TrimSpace (pc_Subject cfg);
          group = (if TrimSpace (pc_GroupID cfg) \<noteq> [] then TrimSpace (pc_GroupID cfg) else group)
      in if HasPrefix (pc_Subject cfg) recovery_prefix then ''registration-saga-service-recovery''
         else group)"

text \<open>What the consumer asks of the client: the reader of its topic and the retry queue of its group.\<close>

record ReaderConfig =
  rd_Brokers :: "string list"
  rd_Topic :: string
  rd_GroupID :: string
  rd_MinBytes :: int
  rd_MaxBytes :: int
  rd_MaxWait :: int

definition reader_config :: "broker \<Rightarrow> PullConsumerConfig \<Rightarrow> ReaderConfig" where
  "reader_config b cfg =
     \<lparr>rd_Brokers = br_brokers b, rd_Topic = pc_Subject cfg, rd_GroupID = consumer_group b cfg,
      rd_MinBytes = 1, rd_MaxBytes = 10000000, rd_MaxWait = 50 * 1000000\<rparr>"

definition retry_queue_config ::
  "'c kafka_codec_scheme \<Rightarrow> broker \<Rightarrow> PullConsumerConfig \<Rightarrow> string list \<times> string \<times> int" where
  "retry_queue_config l b cfg = (br_brokers b, consumer_group b cfg, kl_MaxAttempts l)"

text \<open>
  \<open>Subscribe\<close> is a pull consumer of which only the subject is given; \<open>consume\<close> stands for
  \<open>RunPullConsumer\<close>. \<open>Close\<close> closes the readers the consumers have opened.
\<close>

definition kafka_Subscribe ::
  "(PullConsumerConfig \<Rightarrow> 'w MessageHandler \<Rightarrow> ('w, error option) prog) \<Rightarrow> string \<Rightarrow> 'w MessageHandler
   \<Rightarrow> ('w, error option) prog" where
  "kafka_Subscribe consume subject handler = consume (PullConsumerConfig_zero\<lparr>pc_Subject := subject\<rparr>) handler"

fun kafka_Close :: "('r \<Rightarrow> ('w, error option) prog) \<Rightarrow> 'r list \<Rightarrow> ('w, unit) prog" where
  "kafka_Close close_reader [] = Ret ()"
| "kafka_Close close_reader (r # rs) = seq (close_reader r) (kafka_Close close_reader rs)"

fun retryAttempt :: "(string \<times> bytes) list \<Rightarrow> int" where
  "retryAttempt [] = 1"
| "retryAttempt ((key, v) # hs) =
     (if key = ''x-ofm-retry-attempt''
      then (case Atoi v of Some n \<Rightarrow> if n > 0 then n else retryAttempt hs | None \<Rightarrow> retryAttempt hs)
      else retryAttempt hs)"

definition commit_or_stop :: "'w kafka_lib \<Rightarrow> kafka_message \<Rightarrow> ('w, error option) prog" where
  "commit_or_stop l msg = on_err (kl_CommitMessages l msg) (\<lambda>commitErr. Ret (Some commitErr)) (Ret None)"

definition dlq_record ::
  "'c kafka_codec_scheme \<Rightarrow> PullConsumerConfig \<Rightarrow> kafka_message \<Rightarrow> int \<Rightarrow> error \<Rightarrow> int \<Rightarrow> DLQRecord" where
  "dlq_record l cfg msg attempts handlerErr now =
     \<lparr>dlq_OriginalKey = km_Key msg, dlq_OriginalValue = km_Value msg,
      dlq_OriginalTopic = pc_Subject cfg, dlq_OriginalPartition = km_Partition msg,
      dlq_OriginalOffset = km_Offset msg, dlq_Attempts = attempts,
      dlq_ErrorClass = kl_typeName l handlerErr, dlq_Error = Error handlerErr, dlq_FailedAt = now\<rparr>"

text \<open>The payload goes to the handler; a recovery command goes there with its envelope.\<close>

definition handle_message ::
  "'w kafka_lib \<Rightarrow> PullConsumerConfig \<Rightarrow> 'w MessageHandler \<Rightarrow> kafka_message \<Rightarrow> ('w, error option) prog" where
  "handle_message l cfg handler msg =
     (case kl_Unwrap l (km_Value msg) of
        Inl unwrapErr \<Rightarrow> Ret (Some unwrapErr)
      | Inr payload \<Rightarrow> handler (pc_Subject cfg)
          (if HasPrefix (pc_Subject cfg) recovery_prefix then km_Value msg else payload))"

definition dead_letter ::
  "'w kafka_lib \<Rightarrow> broker \<Rightarrow> PullConsumerConfig \<Rightarrow> kafka_message \<Rightarrow> int \<Rightarrow> error
   \<Rightarrow> ('w, error option) prog" where
  "dead_letter l b cfg msg attempts handlerErr = bind (kl_now l) (\<lambda>now.
     case kl_MarshalDLQ l (dlq_record l cfg msg attempts handlerErr now) of
       Inl marshalErr \<Rightarrow> Ret (Some marshalErr)
     | Inr payload \<Rightarrow>
         on_err (kl_WriteMessages l (br_deadLetter b) (km_Key msg) payload (km_Headers msg))
           (\<lambda>dlqErr. Ret (Some dlqErr)) (commit_or_stop l msg))"

text \<open>
  One message: \<open>None\<close> is going on with the next one, \<open>Some e\<close> is reporting \<open>e\<close>, cancelling the
  workers and returning.
\<close>

definition process_message ::
  "'w kafka_lib \<Rightarrow> broker \<Rightarrow> PullConsumerConfig \<Rightarrow> 'w MessageHandler \<Rightarrow> kafka_message
   \<Rightarrow> ('w, error option) prog" where
  "process_message l b cfg handler msg =
     (let attempts = retryAttempt (km_Headers msg) in
      bind (handle_message l cfg handler msg) (\<lambda>handled.
        case handled of
          None \<Rightarrow> commit_or_stop l msg
        | Some handlerErr \<Rightarrow>
            if \<not> kl_isPermanent l handlerErr \<and> attempts < kl_MaxAttempts l
            then on_err (kl_Enqueue l (kl_RetryTopic l (consumer_group b cfg)) msg (pc_Subject cfg)
                           (attempts + 1) handlerErr)
                   (\<lambda>queueErr. Ret (Some queueErr)) (Ret None)
            else dead_letter l b cfg msg attempts handlerErr))"

lemma retryAttempt_pos: "retryAttempt hs > 0"
  by (induction hs rule: retryAttempt.induct) (auto split: option.split)

end
