(* ===== verification/Kafka_Delivery.thy ===== *)
theory Kafka_Delivery
  imports Kafka_Broker
begin

text \<open>
  What a Kafka consumer worker does, seen from outside: the client's calls are recorded in a
  world together with the application's own state, and the outcome of a message is read off the
  record. A call is answered by the environment, which may refuse any of them.
\<close>

section \<open>The recorded client\<close>

datatype kafka_event =
    Enqueued string kafka_message string int bool
  | Written string bytes bytes "(string \<times> bytes) list" bool
  | Committed kafka_message bool

record 'a kafka_world =
  kw_app :: 'a
  kw_calls :: nat
  kw_events :: "kafka_event list"

record kafka_env = kafka_codec +
  ke_now :: "nat \<Rightarrow> int"
  ke_enqueue :: "nat \<Rightarrow> error option"
  ke_write :: "nat \<Rightarrow> error option"
  ke_commit :: "nat \<Rightarrow> error option"

definition kafka_call ::
  "(nat \<Rightarrow> error option) \<Rightarrow> (bool \<Rightarrow> kafka_event) \<Rightarrow> ('a kafka_world, error option) prog" where
  "kafka_call answer event = call (\<lambda>w. let r = answer (kw_calls w) in
     (r, w\<lparr>kw_calls := Suc (kw_calls w), kw_events := kw_events w @ [event (r = None)]\<rparr>))"

definition kafka_client :: "kafka_env \<Rightarrow> 'a kafka_world kafka_lib" where
  "kafka_client env = kafka_codec.extend (kafka_codec.truncate env)
     \<lparr>kl_now = call (\<lambda>w. (ke_now env (kw_calls w), w\<lparr>kw_calls := Suc (kw_calls w)\<rparr>)),
      kl_Enqueue = (\<lambda>topic msg subject attempt err.
        kafka_call (ke_enqueue env) (Enqueued topic msg subject attempt)),
      kl_WriteMessages = (\<lambda>topic key v hs. kafka_call (ke_write env) (Written topic key v hs)),
      kl_CommitMessages = (\<lambda>msg. kafka_call (ke_commit env) (Committed msg))\<rparr>"

lemma kafka_client_codec [simp]:
  "kl_Wrap (kafka_client env) = kl_Wrap env" "kl_Unwrap (kafka_client env) = kl_Unwrap env"
  "kl_isPermanent (kafka_client env) = kl_isPermanent env"
  "kl_MaxAttempts (kafka_client env) = kl_MaxAttempts env"
  "kl_RetryTopic (kafka_client env) = kl_RetryTopic env"
  "kl_MarshalDLQ (kafka_client env) = kl_MarshalDLQ env" "kl_typeName (kafka_client env) = kl_typeName env"
  by (simp_all add: kafka_client_def kafka_codec.extend_def kafka_codec.truncate_def)

lemma dlq_record_client [simp]: "dlq_record (kafka_client env) = dlq_record env"
  by (intro ext) (simp add: dlq_record_def)

definition called :: "'a kafka_world \<Rightarrow> kafka_event list \<Rightarrow> 'a kafka_world" where
  "called w evs = w\<lparr>kw_calls := Suc (kw_calls w), kw_events := kw_events w @ evs\<rparr>"

lemma called_simps [simp]:
  "kw_events (called w evs) = kw_events w @ evs" "kw_calls (called w evs) = Suc (kw_calls w)"
  "kw_app (called w evs) = kw_app w"
  by (simp_all add: called_def)

lemma run_client [simp]:
  "run (kl_now (kafka_client env)) w = (ke_now env (kw_calls w), called w [])"
  "run (kl_Enqueue (kafka_client env) topic msg subject attempt err) w =
     (ke_enqueue env (kw_calls w), called w [Enqueued topic msg subject attempt (ke_enqueue env (kw_calls w) = None)])"
  "run (kl_WriteMessages (kafka_client env) topic key v hs) w =
     (ke_write env (kw_calls w), called w [Written topic key v hs (ke_write env (kw_calls w) = None)])"
  "run (kl_CommitMessages (kafka_client env) msg) w =
     (ke_commit env (kw_calls w), called w [Committed msg (ke_commit env (kw_calls w) = None)])"
  by (simp_all add: kafka_client_def kafka_codec.extend_def kafka_call_def called_def Let_def)

section \<open>The outcome of one message\<close>

text \<open>What the handler returns for a message, an undecodable one counting as failed.\<close>

definition handled_result ::
  "kafka_env \<Rightarrow> PullConsumerConfig \<Rightarrow> 'a kafka_world MessageHandler \<Rightarrow> kafka_message \<Rightarrow> 'a kafka_world
   \<Rightarrow> error option" where
  "handled_result env cfg handler msg w = fst (run (handle_message (kafka_client env) cfg handler msg) w)"

text \<open>A handler that does not use this consumer's reader or its retry and dead-letter writers.\<close>

definition own_business :: "'a kafka_world MessageHandler \<Rightarrow> bool" where
  "own_business handler \<longleftrightarrow> (\<forall>subject p w. kw_events (snd (run (handler subject p) w)) = kw_events w)"

definition is_retried :: "kafka_env \<Rightarrow> kafka_message \<Rightarrow> error \<Rightarrow> bool" where
  "is_retried env msg e \<longleftrightarrow>
     \<not> kl_isPermanent env e \<and> retryAttempt (km_Headers msg) < kl_MaxAttempts env"

definition retry_event :: "kafka_env \<Rightarrow> broker \<Rightarrow> PullConsumerConfig \<Rightarrow> kafka_message \<Rightarrow> bool \<Rightarrow> kafka_event" where
  "retry_event env b cfg msg = Enqueued (kl_RetryTopic env (consumer_group b cfg)) msg (pc_Subject cfg)
     (retryAttempt (km_Headers msg) + 1)"

definition dead_letter_event :: "broker \<Rightarrow> kafka_message \<Rightarrow> bytes \<Rightarrow> bool \<Rightarrow> kafka_event" where
  "dead_letter_event b msg payload = Written (br_deadLetter b) (km_Key msg) payload (km_Headers msg)"

text \<open>The recorded calls and the exit of a worker, for a message with result \<open>r\<close>.\<close>

inductive outcome ::
  "kafka_env \<Rightarrow> broker \<Rightarrow> PullConsumerConfig \<Rightarrow> kafka_message \<Rightarrow> error option \<Rightarrow> kafka_event list
   \<Rightarrow> error option \<Rightarrow> bool" for env b cfg msg where
  succeeded: "outcome env b cfg msg None [Committed msg (x = None)] x"
| retried: "is_retried env msg e \<Longrightarrow> outcome env b cfg msg (Some e) [retry_event env b cfg msg (x = None)] x"
| unmarshalled: "\<not> is_retried env msg e
     \<Longrightarrow> kl_MarshalDLQ env (dlq_record env cfg msg (retryAttempt (km_Headers msg)) e now) = Inl x
     \<Longrightarrow> outcome env b cfg msg (Some e) [] (Some x)"
| dead_letter_failed: "\<not> is_retried env msg e
     \<Longrightarrow> kl_MarshalDLQ env (dlq_record env cfg msg (retryAttempt (km_Headers msg)) e now) = Inr payload
     \<Longrightarrow> outcome env b cfg msg (Some e) [dead_letter_event b msg payload False] (Some x)"
| dead_lettered: "\<not> is_retried env msg e
     \<Longrightarrow> kl_MarshalDLQ env (dlq_record env cfg msg (retryAttempt (km_Headers msg)) e now) = Inr payload
     \<Longrightarrow> outcome env b cfg msg (Some e)
           [dead_letter_event b msg payload True, Committed msg (x = None)] x"

inductive_cases outcomeE: "outcome env b cfg msg r evs x"

text \<open>The client answers every call, and a dead-letter record can be encoded.\<close>

definition kafka_up :: "kafka_env \<Rightarrow> bool" where
  "kafka_up env \<longleftrightarrow> (\<forall>i. ke_enqueue env i = None \<and> ke_write env i = None \<and> ke_commit env i = None)
     \<and> (\<forall>r e. kl_MarshalDLQ env r \<noteq> Inl e)"

lemma run_handle_message:
  assumes "own_business handler"
  obtains v where "run (handle_message (kafka_client env) cfg handler msg) w
      = (handled_result env cfg handler msg w, v)" and "kw_events v = kw_events w"
proof
  let ?p = "handle_message (kafka_client env) cfg handler msg"
  show "run ?p w = (handled_result env cfg handler msg w, snd (run ?p w))"
    by (simp add: handled_result_def)
  show "kw_events (snd (run ?p w)) = kw_events w"
    using assms by (simp add: handle_message_def own_business_def split: sum.split)
qed

lemma run_commit:
  "run (commit_or_stop (kafka_client env) msg) w =
     (ke_commit env (kw_calls w), called w [Committed msg (ke_commit env (kw_calls w) = None)])"
  by (simp add: commit_or_stop_def run_on_err split: option.split)

lemma run_enqueue:
  "run (on_err (kl_Enqueue (kafka_client env) topic msg subject n e) (\<lambda>x. Ret (Some x)) (Ret None)) w =
     (ke_enqueue env (kw_calls w), called w [Enqueued topic msg subject n (ke_enqueue env (kw_calls w) = None)])"
  by (simp add: run_on_err split: option.split)

lemma dead_letter_outcome:
  assumes "\<not> is_retried env msg e"
  obtains evs x w' where
    "run (dead_letter (kafka_client env) b cfg msg (retryAttempt (km_Headers msg)) e) w = (x, w')"
    and "kw_events w' = kw_events w @ evs" and "outcome env b cfg msg (Some e) evs x"
    and "kafka_up env \<longrightarrow> x = None"
proof -
  let ?rec = "dlq_record env cfg msg (retryAttempt (km_Headers msg)) e (ke_now env (kw_calls w))"
  let ?run = "run (dead_letter (kafka_client env) b cfg msg (retryAttempt (km_Headers msg)) e) w"
  show thesis
  proof (cases "kl_MarshalDLQ env ?rec")
    case (Inl x)
    then have "?run = (Some x, called w [])" by (simp add: dead_letter_def run_bind)
    then show ?thesis by (rule that) (use Inl assms in \<open>auto simp: kafka_up_def intro: unmarshalled\<close>)
  next
    case (Inr payload)
    define d where "d = ke_write env (Suc (kw_calls w))"
    let ?u = "called (called w []) [dead_letter_event b msg payload (d = None)]"
    have run: "?run = (case d of Some x \<Rightarrow> (Some x, ?u)
        | None \<Rightarrow> run (commit_or_stop (kafka_client env) msg) ?u)"
      using Inr by (simp add: dead_letter_def run_bind run_on_err d_def dead_letter_event_def split: option.split)
    show ?thesis
    proof (cases d)
      case None
      with run have "?run = (ke_commit env (kw_calls ?u), called ?u [Committed msg (ke_commit env (kw_calls ?u) = None)])"
        by (simp add: run_commit)
      then show ?thesis
        by (rule that) (use None Inr assms in \<open>auto simp: run_commit kafka_up_def intro: dead_lettered\<close>)
    next
      case (Some x)
      with run have "?run = (Some x, ?u)" by simp
      then show ?thesis
        by (rule that) (use Some Inr assms in \<open>auto simp: d_def kafka_up_def intro: dead_letter_failed\<close>)
    qed
  qed
qed

lemma process_outcome:
  assumes "own_business handler"
  obtains evs x w' where "run (process_message (kafka_client env) b cfg handler msg) w = (x, w')"
    and "kw_events w' = kw_events w @ evs"
    and "outcome env b cfg msg (handled_result env cfg handler msg w) evs x"
    and "kafka_up env \<longrightarrow> x = None"
proof -
  obtain v where v: "run (handle_message (kafka_client env) cfg handler msg) w
      = (handled_result env cfg handler msg w, v)" "kw_events v = kw_events w"
    by (rule run_handle_message [OF assms])
  note run = v(1) process_message_def Let_def run_bind
  show thesis
  proof (cases "handled_result env cfg handler msg w")
    case None
    then have "run (process_message (kafka_client env) b cfg handler msg) w
        = (ke_commit env (kw_calls v), called v [Committed msg (ke_commit env (kw_calls v) = None)])"
      by (simp add: run run_commit)
    then show ?thesis by (rule that) (use None v(2) in \<open>auto simp: kafka_up_def intro: succeeded\<close>)
  next
    case (Some e)
    show ?thesis
    proof (cases "is_retried env msg e")
      case True
      with Some have "run (process_message (kafka_client env) b cfg handler msg) w
          = (ke_enqueue env (kw_calls v), called v [retry_event env b cfg msg (ke_enqueue env (kw_calls v) = None)])"
        by (simp add: run run_enqueue is_retried_def retry_event_def)
      then show ?thesis
        by (rule that) (use Some True v(2) in \<open>auto simp: kafka_up_def intro: retried\<close>)
    next
      case False
      obtain evs x w' where d: "run (dead_letter (kafka_client env) b cfg msg (retryAttempt (km_Headers msg)) e) v = (x, w')"
        "kw_events w' = kw_events v @ evs" "outcome env b cfg msg (Some e) evs x"
        "kafka_up env \<longrightarrow> x = None"
        by (rule dead_letter_outcome [OF False])
      from d(1) Some False have "run (process_message (kafka_client env) b cfg handler msg) w = (x, w')"
        by (auto simp: run is_retried_def)
      then show ?thesis by (rule that) (use d Some v(2) in auto)
    qed
  qed
qed

section \<open>Redelivery until the end\<close>

text \<open>
  A message is delivered, and, as long as the worker puts it on the retry topic, delivered again
  by the retry queue as \<open>requeue msg n\<close>, \<open>n\<close> being the attempt it was enqueued with. The result is
  the number of deliveries, or \<open>None\<close> when \<open>fuel\<close> deliveries were not enough, and the exit of
  the last worker.
\<close>

fun requeued :: "kafka_event list \<Rightarrow> int option" where
  "requeued [] = None"
| "requeued evs = (case last evs of Enqueued topic msg subject n True \<Rightarrow> Some n | _ \<Rightarrow> None)"

fun deliver ::
  "nat \<Rightarrow> (kafka_message \<Rightarrow> int \<Rightarrow> kafka_message) \<Rightarrow> kafka_env \<Rightarrow> broker \<Rightarrow> PullConsumerConfig
   \<Rightarrow> 'a kafka_world MessageHandler \<Rightarrow> kafka_message \<Rightarrow> 'a kafka_world
   \<Rightarrow> (nat \<times> error option) option \<times> 'a kafka_world" where
  "deliver 0 requeue env b cfg handler msg w = (None, w)"
| "deliver (Suc fuel) requeue env b cfg handler msg w =
     (case run (process_message (kafka_client env) b cfg handler msg) w of
        (x, w') \<Rightarrow>
          (case (if x = None then requeued (drop (length (kw_events w)) (kw_events w')) else None) of
             None \<Rightarrow> (Some (1, x), w')
           | Some n \<Rightarrow>
               (case deliver fuel requeue env b cfg handler (requeue msg n) w' of
                  (r, w'') \<Rightarrow> (map_option (map_prod Suc id) r, w''))))"

text \<open>The retry queue delivers the value again, with the attempt in the header.\<close>

definition requeues :: "kafka_env \<Rightarrow> (kafka_message \<Rightarrow> int \<Rightarrow> kafka_message) \<Rightarrow> bool" where
  "requeues env requeue \<longleftrightarrow>
     (\<forall>msg n. 0 < n \<and> n \<le> kl_MaxAttempts env \<longrightarrow> retryAttempt (km_Headers (requeue msg n)) = n \<and> km_Value (requeue msg n) = km_Value msg)"

definition always_fails :: "kafka_env \<Rightarrow> PullConsumerConfig \<Rightarrow> 'a kafka_world MessageHandler \<Rightarrow> bytes \<Rightarrow> bool" where
  "always_fails env cfg handler value \<longleftrightarrow> (\<forall>msg w. km_Value msg = value \<longrightarrow>
     (\<exists>e. handled_result env cfg handler msg w = Some e \<and> \<not> kl_isPermanent env e))"

lemma outcome_failed:
  assumes "outcome env b cfg msg (Some e) evs None"
  shows "is_retried env msg e \<and> evs = [retry_event env b cfg msg True]
     \<or> \<not> is_retried env msg e \<and> (\<exists>payload now.
         kl_MarshalDLQ env (dlq_record env cfg msg (retryAttempt (km_Headers msg)) e now) = Inr payload
         \<and> evs = [dead_letter_event b msg payload True, Committed msg True])"
  using assms by (elim outcomeE) auto

text \<open>The worker's step on a failing message while the client answers.\<close>

lemma failing_step:
  assumes "own_business handler" and "kafka_up env" and "always_fails env cfg handler (km_Value msg)"
  obtains (again) w' where "retryAttempt (km_Headers msg) < kl_MaxAttempts env"
      and "run (process_message (kafka_client env) b cfg handler msg) w = (None, w')"
      and "kw_events w' = kw_events w @ [retry_event env b cfg msg True]"
    | (last) w' e payload now where "\<not> retryAttempt (km_Headers msg) < kl_MaxAttempts env"
      and "run (process_message (kafka_client env) b cfg handler msg) w = (None, w')"
      and "kl_MarshalDLQ env (dlq_record env cfg msg (retryAttempt (km_Headers msg)) e now) = Inr payload"
      and "kw_events w' = kw_events w @ [dead_letter_event b msg payload True, Committed msg True]"
proof -
  obtain evs x w' where p: "run (process_message (kafka_client env) b cfg handler msg) w = (x, w')"
    "kw_events w' = kw_events w @ evs" "outcome env b cfg msg (handled_result env cfg handler msg w) evs x"
    "kafka_up env \<longrightarrow> x = None"
    by (rule process_outcome [OF assms(1), of env b cfg msg w])
  have x: "x = None" using p(4) assms(2) by simp
  obtain e where e: "handled_result env cfg handler msg w = Some e" "\<not> kl_isPermanent env e"
    using assms(3) by (auto simp: always_fails_def)
  from p(3) e(1) x have "outcome env b cfg msg (Some e) evs None" by simp
  from outcome_failed [OF this] show thesis
    using p(1,2) x e(2) again last by (auto simp: is_retried_def)
qed

lemma requeued_append [simp]: "requeued (evs @ [Enqueued t m sj n True]) = Some n"
  "requeued (evs @ [Committed m ok]) = None"
  by (cases evs; simp)+

lemma poison_deliveries:
  assumes "own_business handler" and "kafka_up env" and "requeues env requeue"
    and "always_fails env cfg handler (km_Value msg)"
    and "nat (kl_MaxAttempts env - retryAttempt (km_Headers msg)) < fuel"
  shows "\<exists>n w' fin payload evs. deliver fuel requeue env b cfg handler msg w = (Some (n, None), w')
     \<and> int n = max 1 (kl_MaxAttempts env - retryAttempt (km_Headers msg) + 1)
     \<and> kw_events w' = evs @ [dead_letter_event b fin payload True, Committed fin True]
     \<and> km_Value fin = km_Value msg"
  using assms(4,5)
proof (induction fuel arbitrary: msg w)
  case (Suc fuel)
  let ?a = "retryAttempt (km_Headers msg)"
  from assms(1,2) Suc.prems(1) show ?case
  proof (cases rule: failing_step [where w = w and b = b])
    case (again w')
    have nxt: "retryAttempt (km_Headers (requeue msg (?a + 1))) = ?a + 1"
      "km_Value (requeue msg (?a + 1)) = km_Value msg"
      using assms(3) again(1) retryAttempt_pos [of "km_Headers msg"] by (simp_all add: requeues_def)
    moreover have "nat (kl_MaxAttempts env - (?a + 1)) < fuel"
      using again(1) Suc.prems(2) by linarith
    ultimately obtain n v fin payload evs where v: "deliver fuel requeue env b cfg handler (requeue msg (?a + 1)) w' = (Some (n, None), v)"
      "int n = max 1 (kl_MaxAttempts env - (?a + 1) + 1)"
      "kw_events v = evs @ [dead_letter_event b fin payload True, Committed fin True]" "km_Value fin = km_Value msg"
      using Suc.IH [of "requeue msg (?a + 1)" w'] Suc.prems(1) again(1) by auto
    from again(2,3) v(1) have "deliver (Suc fuel) requeue env b cfg handler msg w = (Some (Suc n, None), v)"
      by (simp add: retry_event_def)
    with v(2-4) again(1) show ?thesis by fastforce
  next
    case (last w' e payload now)
    then have "deliver (Suc fuel) requeue env b cfg handler msg w = (Some (1, None), w')" by simp
    with last(1,4) show ?thesis by fastforce
  qed
qed simp

section \<open>Properties\<close>

text \<open>
  C11: Whatever the handler returns and whichever client calls fail, a worker commits a message only
  if its handler succeeded or the message was written to the dead-letter topic before; a worker
  that goes on has committed the message or put it on the retry topic, and one that stops has done
  neither. The retry topic is used only for an error that is not permanent, below the maximum
  number of attempts, and a message put there is not committed.
\<close>

theorem kafka_commit_needs_outcome:
  assumes "own_business handler"
  shows "\<exists>x w' evs. run (process_message (kafka_client env) b cfg handler msg) w = (x, w')
     \<and> kw_events w' = kw_events w @ evs
     \<and> (\<forall>ok. Committed msg ok \<in> set evs \<longrightarrow> handled_result env cfg handler msg w = None
          \<or> (\<exists>payload. evs = [dead_letter_event b msg payload True, Committed msg ok]))
     \<and> (x = None \<longleftrightarrow> Committed msg True \<in> set evs \<or> retry_event env b cfg msg True \<in> set evs)
     \<and> (\<forall>ok. retry_event env b cfg msg ok \<in> set evs \<longrightarrow> evs = [retry_event env b cfg msg ok]
          \<and> (\<exists>e. handled_result env cfg handler msg w = Some e \<and> is_retried env msg e))"
proof -
  obtain evs x w' where p: "run (process_message (kafka_client env) b cfg handler msg) w = (x, w')"
    "kw_events w' = kw_events w @ evs" "outcome env b cfg msg (handled_result env cfg handler msg w) evs x"
    by (rule process_outcome [OF assms, of env b cfg msg w])
  from p(3) have "(\<forall>ok. Committed msg ok \<in> set evs \<longrightarrow> handled_result env cfg handler msg w = None
          \<or> (\<exists>payload. evs = [dead_letter_event b msg payload True, Committed msg ok]))
     \<and> (x = None \<longleftrightarrow> Committed msg True \<in> set evs \<or> retry_event env b cfg msg True \<in> set evs)
     \<and> (\<forall>ok. retry_event env b cfg msg ok \<in> set evs \<longrightarrow> evs = [retry_event env b cfg msg ok]
          \<and> (\<exists>e. handled_result env cfg handler msg w = Some e \<and> is_retried env msg e))"
    by (elim outcomeE) (auto simp: retry_event_def dead_letter_event_def)
  with p(1,2) show ?thesis by blast
qed

text \<open>
  C20: A message whose handling always fails without a permanent error, while the Kafka client
  answers, is delivered exactly as often as the retry policy allows, counting from the attempt in
  its header, and at least once; the last delivery writes it to the dead-letter topic and commits
  it, and the worker goes on: a poison message neither circulates for ever nor stops the consumer.
\<close>

theorem poison_message_dead_lettered:
  assumes "own_business handler" and "kafka_up env" and "requeues env requeue"
    and "always_fails env cfg handler (km_Value msg)"
    and "nat (kl_MaxAttempts env - retryAttempt (km_Headers msg)) < fuel"
  shows "\<exists>n w' fin payload evs. deliver fuel requeue env b cfg handler msg w = (Some (n, None), w')
     \<and> int n = max 1 (kl_MaxAttempts env - retryAttempt (km_Headers msg) + 1)
     \<and> kw_events w' = evs @ [dead_letter_event b fin payload True, Committed fin True]
     \<and> km_Value fin = km_Value msg"
  using assms by (rule poison_deliveries)

end
