(* ===== verification/Kafka_Consumer.thy ===== *)
theory Kafka_Consumer
  imports Step_Systems
begin

text \<open>
  The consumer loop of the Kafka broker (\<open>RunPullConsumer\<close> in kafka/broker.go) on one partition:
  the fetching goroutine with the message it offers, the channel of 32 messages, the eight workers,
  and the offset committed for the group. A message is its offset. A worker either settles a message for good and commits
  it (handled, or dead-lettered), or hands it to the retry topic without a commit, which is what
  \<open>process_message\<close> does with it. As Kafka defines it, committing a message sets the group's
  position to the offset after it, whatever the other workers hold, and a consumer that starts
  again reads from that position. The loop may also end, by a failed call or a crash of the
  process, and be started again, which is the one rule \<open>restart\<close> here; how the loop ends after a
  failed fetch or commit is the subject of \<open>Kafka_Runtime\<close>.
\<close>

section \<open>The loop\<close>

definition jobs_capacity :: nat where
  "jobs_capacity = 32"

definition worker_count :: nat where
  "worker_count = 8"

record partition =
  pt_length :: nat        \<comment> \<open>messages in the partition\<close>
  pt_committed :: nat     \<comment> \<open>the group's committed position\<close>
  pt_base :: nat          \<comment> \<open>where the present run started reading\<close>
  pt_position :: nat      \<comment> \<open>the next offset to fetch\<close>
  pt_hand :: "nat option" \<comment> \<open>fetched, not yet sent to a worker\<close>
  pt_jobs :: "nat list"
  pt_busy :: "nat list"   \<comment> \<open>offsets with a worker\<close>
  pt_settled :: "nat set" \<comment> \<open>handled, dead-lettered or on the retry topic\<close>

inductive pt_step :: "partition \<Rightarrow> partition \<Rightarrow> bool" where
  produce: "pt_step s (s\<lparr>pt_length := Suc (pt_length s)\<rparr>)"
| fetch: "pt_hand s = None \<Longrightarrow> pt_position s < pt_length s
     \<Longrightarrow> pt_step s (s\<lparr>pt_position := Suc (pt_position s), pt_hand := Some (pt_position s)\<rparr>)"
| send: "pt_hand s = Some m \<Longrightarrow> length (pt_jobs s) < jobs_capacity
     \<Longrightarrow> pt_step s (s\<lparr>pt_hand := None, pt_jobs := pt_jobs s @ [m]\<rparr>)"
| receive: "pt_jobs s = m # ms \<Longrightarrow> length (pt_busy s) < worker_count
     \<Longrightarrow> pt_step s (s\<lparr>pt_jobs := ms, pt_busy := m # pt_busy s\<rparr>)"
| commit: "m \<in> set (pt_busy s)
     \<Longrightarrow> pt_step s (s\<lparr>pt_busy := remove1 m (pt_busy s), pt_settled := insert m (pt_settled s),
           pt_committed := Suc m\<rparr>)"
| to_retry: "m \<in> set (pt_busy s)
     \<Longrightarrow> pt_step s (s\<lparr>pt_busy := remove1 m (pt_busy s), pt_settled := insert m (pt_settled s)\<rparr>)"
| restart: "pt_step s (s\<lparr>pt_hand := None, pt_jobs := [], pt_busy := [], pt_base := pt_committed s,
     pt_position := pt_committed s\<rparr>)"

definition fresh_partition :: "nat \<Rightarrow> partition" where
  "fresh_partition n = \<lparr>pt_length = n, pt_committed = 0, pt_base = 0, pt_position = 0, pt_hand = None, pt_jobs = [],
     pt_busy = [], pt_settled = {}\<rparr>"

definition pt_reachable :: "nat \<Rightarrow> partition \<Rightarrow> bool" where
  "pt_reachable n s \<longleftrightarrow> pt_step\<^sup>*\<^sup>* (fresh_partition n) s"

inductive_cases pt_stepE: "pt_step s t"

section \<open>Within one run\<close>

definition in_flight :: "partition \<Rightarrow> nat list" where
  "in_flight s = pt_jobs s @ pt_busy s @ (case pt_hand s of None \<Rightarrow> [] | Some m \<Rightarrow> [m])"

definition run_inv :: "partition \<Rightarrow> bool" where
  "run_inv s \<longleftrightarrow> length (pt_jobs s) \<le> jobs_capacity \<and> length (pt_busy s) \<le> worker_count
     \<and> distinct (in_flight s) \<and> pt_base s \<le> pt_position s
     \<and> set (in_flight s) \<subseteq> {pt_base s..<pt_position s}
     \<and> {pt_base s..<pt_position s} \<subseteq> set (in_flight s) \<union> pt_settled s"

lemma run_inv_step:
  assumes "run_inv s" and "pt_step s t"
  shows "run_inv t"
  using assms(2)
proof (cases rule: pt_step.cases)
  case fetch
  have "pt_position s \<notin> set (in_flight s)" using assms(1) by (auto simp: run_inv_def)
  with fetch assms(1) show ?thesis
    by (auto simp: run_inv_def in_flight_def atLeastLessThanSuc)
next
  case (send m)
  with assms(1) show ?thesis by (auto simp: run_inv_def in_flight_def)
next
  case (receive m ms)
  with assms(1) show ?thesis by (auto simp: run_inv_def in_flight_def)
next
  case (commit m)
  have "length (remove1 m (pt_busy s)) \<le> length (pt_busy s)" by (simp add: length_remove1)
  with commit assms(1) show ?thesis by (auto simp: run_inv_def in_flight_def split: option.splits)
next
  case (to_retry m)
  have "length (remove1 m (pt_busy s)) \<le> length (pt_busy s)" by (simp add: length_remove1)
  with to_retry assms(1) show ?thesis by (auto simp: run_inv_def in_flight_def split: option.splits)
qed (use assms(1) in \<open>auto simp: run_inv_def in_flight_def\<close>)

interpretation partition: step_invariant pt_step "fresh_partition n" run_inv for n
proof
  show "run_inv (fresh_partition n)" by (simp add: run_inv_def in_flight_def fresh_partition_def)
qed (rule run_inv_step)

section \<open>Overtaking\<close>

text \<open>Nothing at or below \<open>m\<close> is left to the consumer, and \<open>m\<close> is not settled.\<close>

definition lost :: "nat \<Rightarrow> partition \<Rightarrow> bool" where
  "lost m s \<longleftrightarrow> m \<notin> pt_settled s \<and> m < pt_committed s \<and> m < pt_position s
     \<and> (\<forall>k \<in> set (in_flight s). m < k)"

lemma lost_step:
  assumes "lost m s" and "pt_step s t"
  shows "lost m t"
  using assms(2)
proof (cases rule: pt_step.cases)
  case (commit k)
  have "m < k" using commit assms(1) by (auto simp: lost_def in_flight_def)
  with commit assms(1) set_remove1_subset [of k "pt_busy s"] show ?thesis
    by (auto simp: lost_def in_flight_def less_Suc_eq split: option.splits)
next
  case (to_retry k)
  have "m < k" using to_retry assms(1) by (auto simp: lost_def in_flight_def)
  with to_retry assms(1) set_remove1_subset [of k "pt_busy s"] show ?thesis
    by (auto simp: lost_def in_flight_def less_Suc_eq split: option.splits)
qed (use assms(1) in \<open>auto simp: lost_def in_flight_def\<close>)

lemma lost_for_good: "pt_step\<^sup>*\<^sup>* s t \<Longrightarrow> lost m s \<Longrightarrow> lost m t"
  by (induction rule: rtranclp_induct) (auto intro: lost_step)

text \<open>
  C14: Commits of one partition overtake each other: whenever a message is still with a worker
  while a later one of the same partition is with another worker, committing the later one and
  restarting the consumer loses the earlier one: it is never delivered again and
  never handled, dead-lettered or retried, however long the consumer goes on. So processing with
  eight workers is not at-least-once.
\<close>

theorem overtaken_message_lost:
  assumes "pt_reachable n s" and "m \<in> set (pt_busy s)" and "k \<in> set (pt_busy s)"
    and "m < k" and "m \<notin> pt_settled s"
  shows "\<exists>t. pt_step\<^sup>*\<^sup>* s t \<and> (\<forall>u. pt_step\<^sup>*\<^sup>* t u \<longrightarrow>
     m \<notin> pt_settled u \<and> (\<forall>j \<in> set (pt_jobs u) \<union> set (pt_busy u). j \<noteq> m) \<and> pt_hand u \<noteq> Some m)"
proof -
  let ?c = "s\<lparr>pt_busy := remove1 k (pt_busy s), pt_settled := insert k (pt_settled s), pt_committed := Suc k\<rparr>"
  let ?t = "?c\<lparr>pt_hand := None, pt_jobs := [], pt_busy := [], pt_base := pt_committed ?c, pt_position := pt_committed ?c\<rparr>"
  have "pt_step s ?c" by (rule commit [OF assms(3)])
  moreover have "pt_step ?c ?t" by (rule restart)
  ultimately have reach: "pt_step\<^sup>*\<^sup>* s ?t" by (rule converse_rtranclp_into_rtranclp [OF _ r_into_rtranclp])
  have "lost m u" if "pt_step\<^sup>*\<^sup>* ?t u" for u
    by (rule lost_for_good [OF that]) (use assms(4,5) in \<open>simp add: lost_def in_flight_def\<close>)
  then have "m \<notin> pt_settled u \<and> (\<forall>j \<in> set (pt_jobs u) \<union> set (pt_busy u). j \<noteq> m) \<and> pt_hand u \<noteq> Some m"
    if "pt_step\<^sup>*\<^sup>* ?t u" for u
    using that unfolding lost_def in_flight_def by fastforce
  with reach show ?thesis by (intro exI [of _ ?t] conjI allI impI) simp_all
qed

end
