(* ===== verification/Kafka_Runtime.thy ===== *)
theory Kafka_Runtime
  imports Kafka_Delivery Kafka_Consumer
begin

text \<open>
  \<open>RunPullConsumer\<close> of kafka/broker.go as a running system: the fetching goroutine with its deferred
  calls, the eight workers, the channel of jobs, the channel of one error, and the two contexts.
  A worker holds what is left of \<open>process_message\<close> and does one action of it at a time, so the
  workers' calls interleave. \<open>FetchMessage\<close> answers as the cluster likes. The retry queue the function
  starts beside the workers belongs to another module.
\<close>

section \<open>The state\<close>

text \<open>
  The calls of the \<open>defer\<close> statements, in the order in which the statements are executed; on return
  the statements run last first.
\<close>

datatype deferred_call = CloseReader | CancelWorkers | CloseJobs | WaitWorkers

definition deferred :: "deferred_call list list" where
  "deferred = [[CloseReader], [CancelWorkers], [CloseJobs, WaitWorkers]]"

definition unwinding :: "deferred_call list" where
  "unwinding = concat (rev deferred)"

text \<open>The goroutine of the call itself: \<open>Unwinding ds e\<close> is returning \<open>e\<close>, the calls \<open>ds\<close> being due.\<close>

datatype fetch_loop =
    Reading
  | Offering kafka_message
  | Unwinding "deferred_call list" error
  | Returned error

datatype 'w kafka_worker = Selecting | Working "('w, error option) prog" | Gone

text \<open>
  \<open>cr_ctx\<close> is \<open>ctx.Err()\<close> of the caller's context, \<open>cr_cancelled\<close> says that \<open>cancel()\<close> was called:
  the workers' context is done when either is. \<open>cr_errs\<close> is the channel of one error.
\<close>

record 'w consumer_run =
  cr_loop :: fetch_loop
  cr_ctx :: "error option"
  cr_cancelled :: bool
  cr_jobs :: "kafka_message list"
  cr_closed :: bool
  cr_errs :: "error option"
  cr_reader_closed :: bool
  cr_workers :: "'w kafka_worker list"
  cr_world :: 'w

definition consumer_start :: "'w \<Rightarrow> 'w consumer_run" where
  "consumer_start w =
     \<lparr>cr_loop = Reading, cr_ctx = None, cr_cancelled = False, cr_jobs = [], cr_closed = False,
      cr_errs = None, cr_reader_closed = False, cr_workers = replicate worker_count Selecting,
      cr_world = w\<rparr>"

section \<open>The steps\<close>

inductive loop_step :: "'w consumer_run \<Rightarrow> 'w consumer_run \<Rightarrow> bool" where
  fetched: "cr_loop s = Reading \<Longrightarrow> loop_step s (s\<lparr>cr_loop := Offering msg\<rparr>)"
| fetch_context: "cr_loop s = Reading \<Longrightarrow> cr_ctx s = Some e
     \<Longrightarrow> loop_step s (s\<lparr>cr_loop := Unwinding unwinding e\<rparr>)"
| fetch_worker: "cr_loop s = Reading \<Longrightarrow> cr_ctx s = None \<Longrightarrow> cr_errs s = Some e
     \<Longrightarrow> loop_step s (s\<lparr>cr_loop := Unwinding unwinding e, cr_errs := None\<rparr>)"
| fetch_failed: "cr_loop s = Reading \<Longrightarrow> cr_ctx s = None \<Longrightarrow> cr_errs s = None
     \<Longrightarrow> loop_step s (s\<lparr>cr_loop := Unwinding unwinding err\<rparr>)"
| send: "cr_loop s = Offering msg \<Longrightarrow> length (cr_jobs s) < jobs_capacity
     \<Longrightarrow> loop_step s (s\<lparr>cr_loop := Reading, cr_jobs := cr_jobs s @ [msg]\<rparr>)"
| send_worker: "cr_loop s = Offering msg \<Longrightarrow> cr_errs s = Some e
     \<Longrightarrow> loop_step s (s\<lparr>cr_loop := Unwinding unwinding e, cr_errs := None\<rparr>)"
| send_context: "cr_loop s = Offering msg \<Longrightarrow> cr_ctx s = Some e
     \<Longrightarrow> loop_step s (s\<lparr>cr_loop := Unwinding unwinding e\<rparr>)"
| close_jobs: "cr_loop s = Unwinding (CloseJobs # ds) e
     \<Longrightarrow> loop_step s (s\<lparr>cr_loop := Unwinding ds e, cr_closed := True\<rparr>)"
| wait_workers: "cr_loop s = Unwinding (WaitWorkers # ds) e \<Longrightarrow> \<forall>x \<in> set (cr_workers s). x = Gone
     \<Longrightarrow> loop_step s (s\<lparr>cr_loop := Unwinding ds e\<rparr>)"
| cancel_workers: "cr_loop s = Unwinding (CancelWorkers # ds) e
     \<Longrightarrow> loop_step s (s\<lparr>cr_loop := Unwinding ds e, cr_cancelled := True\<rparr>)"
| close_reader: "cr_loop s = Unwinding (CloseReader # ds) e
     \<Longrightarrow> loop_step s (s\<lparr>cr_loop := Unwinding ds e, cr_reader_closed := True\<rparr>)"
| return_error: "cr_loop s = Unwinding [] e \<Longrightarrow> loop_step s (s\<lparr>cr_loop := Returned e\<rparr>)"

definition worker_context_done :: "'w consumer_run \<Rightarrow> bool" where
  "worker_context_done s \<longleftrightarrow> cr_ctx s \<noteq> None \<or> cr_cancelled s"

definition put_worker :: "nat \<Rightarrow> 'w kafka_worker \<Rightarrow> 'w consumer_run \<Rightarrow> 'w consumer_run" where
  "put_worker i x s = s\<lparr>cr_workers := (cr_workers s)[i := x]\<rparr>"

text \<open>
  The step of worker \<open>i\<close>, whose state is \<open>x\<close>. The receive does not ask whether the channel is open:
  from a closed and empty one it gets the zero message. A worker that stops offers its error to the
  channel of errors, which takes one, and cancels the workers' context.
\<close>

inductive kafka_worker_step ::
  "'w kafka_lib \<Rightarrow> broker \<Rightarrow> PullConsumerConfig \<Rightarrow> 'w MessageHandler \<Rightarrow> nat
   \<Rightarrow> 'w kafka_worker \<Rightarrow> 'w consumer_run \<Rightarrow> 'w consumer_run \<Rightarrow> bool" for l b cfg handler i where
  leave: "worker_context_done s \<Longrightarrow> kafka_worker_step l b cfg handler i Selecting s (put_worker i Gone s)"
| receive: "cr_jobs s = m # ms \<Longrightarrow> kafka_worker_step l b cfg handler i Selecting s
     (put_worker i (Working (process_message l b cfg handler m)) (s\<lparr>cr_jobs := ms\<rparr>))"
| receive_closed: "cr_jobs s = [] \<Longrightarrow> cr_closed s \<Longrightarrow> kafka_worker_step l b cfg handler i Selecting s
     (put_worker i (Working (process_message l b cfg handler zero_message)) s)"
| act: "f (cr_world s) = (p, w) \<Longrightarrow> kafka_worker_step l b cfg handler i (Working (Act f)) s
     (put_worker i (Working p) (s\<lparr>cr_world := w\<rparr>))"
| carry_on: "kafka_worker_step l b cfg handler i (Working (Ret None)) s (put_worker i Selecting s)"
| stop: "kafka_worker_step l b cfg handler i (Working (Ret (Some e))) s (put_worker i Gone
     (s\<lparr>cr_errs := (case cr_errs s of None \<Rightarrow> Some e | Some x \<Rightarrow> Some x), cr_cancelled := True\<rparr>))"

inductive consumer_step ::
  "'w kafka_lib \<Rightarrow> broker \<Rightarrow> PullConsumerConfig \<Rightarrow> 'w MessageHandler
   \<Rightarrow> 'w consumer_run \<Rightarrow> 'w consumer_run \<Rightarrow> bool" for l b cfg handler where
  loop: "loop_step s t \<Longrightarrow> consumer_step l b cfg handler s t"
| worker: "i < length (cr_workers s) \<Longrightarrow> kafka_worker_step l b cfg handler i (cr_workers s ! i) s t
     \<Longrightarrow> consumer_step l b cfg handler s t"
| context_done: "cr_ctx s = None \<Longrightarrow> consumer_step l b cfg handler s (s\<lparr>cr_ctx := Some e\<rparr>)"

inductive_cases loop_stepE: "loop_step s t"
inductive_cases kafka_worker_stepE: "kafka_worker_step l b cfg handler i x s t"
inductive_cases consumer_stepE: "consumer_step l b cfg handler s t"

lemma unwinding_calls: "unwinding = [CloseJobs, WaitWorkers, CancelWorkers, CloseReader]"
  by (simp add: unwinding_def deferred_def)

lemma put_worker_simps [simp]:
  "cr_loop (put_worker i x s) = cr_loop s" "cr_ctx (put_worker i x s) = cr_ctx s"
  "cr_cancelled (put_worker i x s) = cr_cancelled s" "cr_jobs (put_worker i x s) = cr_jobs s"
  "cr_closed (put_worker i x s) = cr_closed s" "cr_errs (put_worker i x s) = cr_errs s"
  "cr_world (put_worker i x s) = cr_world s" "cr_workers (put_worker i x s) = (cr_workers s)[i := x]"
  by (simp_all add: put_worker_def)

section \<open>What a program can end with\<close>

text \<open>Every leaf of the program that some answers of the world lead to satisfies \<open>Q\<close>.\<close>

inductive ends_in :: "('a \<Rightarrow> bool) \<Rightarrow> ('w, 'a) prog \<Rightarrow> bool" for Q where
  ends_Ret: "Q x \<Longrightarrow> ends_in Q (Ret x)"
| ends_Act: "(\<And>w. ends_in Q (fst (f w))) \<Longrightarrow> ends_in Q (Act f)"

inductive_simps ends_in_Ret [simp]: "ends_in Q (Ret x)"
inductive_simps ends_in_Act: "ends_in Q (Act f)"

lemma ends_in_call: "ends_in Q (call f) \<longleftrightarrow> (\<forall>w. Q (fst (f w)))"
  by (simp add: call_def ends_in_Act)

lemma ends_in_any: "ends_in (\<lambda>_. True) p"
proof (induction p)
  case (Act f)
  have "ends_in (\<lambda>_. True) (fst (f w))" for w
    by (rule Act.IH [of "f w"]) (auto simp: prod_set_defs)
  then show ?case by (rule ends_Act)
qed simp

lemma ends_in_bind:
  "ends_in P p \<Longrightarrow> (\<And>x. P x \<Longrightarrow> ends_in Q (k x)) \<Longrightarrow> ends_in Q (bind p k)"
  by (induction rule: ends_in.induct) (auto intro: ends_Act)

text \<open>With a client that answers, no message makes a worker stop.\<close>

lemma process_goes_on:
  fixes handler :: "'a kafka_world MessageHandler"
  assumes "kafka_up env"
  shows "ends_in (\<lambda>r. r = None) (process_message (kafka_client env) b cfg handler msg)"
proof -
  let ?l = "kafka_client env :: 'a kafka_world kafka_lib" and ?ok = "\<lambda>r. r = (None :: error option)"
  have up: "ke_enqueue env i = None" "ke_write env i = None" "ke_commit env i = None"
    "kl_MarshalDLQ env x \<noteq> Inl e" for i x e
    using assms by (auto simp: kafka_up_def)
  have calls: "ends_in ?ok (kl_CommitMessages ?l m)" "ends_in ?ok (kl_Enqueue ?l t m sj n e)"
    "ends_in ?ok (kl_WriteMessages ?l t k v hs)" for m t sj n e k v hs
    using up(1-3) by (simp_all add: kafka_client_def kafka_codec.extend_def kafka_call_def ends_in_call Let_def)
  have on_ok: "ends_in ?ok (on_err p h k)" if "ends_in ?ok p" "ends_in ?ok k" for p :: "('a kafka_world, error option) prog" and h k
    unfolding on_err_def by (rule ends_in_bind [OF that(1)]) (simp add: that(2))
  have commit: "ends_in ?ok (commit_or_stop ?l msg)"
    unfolding commit_or_stop_def by (intro on_ok calls) simp
  have dead: "ends_in ?ok (dead_letter ?l b cfg msg n e)" for n e
    unfolding dead_letter_def by (rule ends_in_bind [OF ends_in_any])
      (use up(4) in \<open>auto split: sum.split intro!: on_ok calls commit\<close>)
  show ?thesis
    unfolding process_message_def Let_def by (rule ends_in_bind [OF ends_in_any])
      (auto split: option.split intro!: on_ok calls commit dead)
qed

section \<open>After a failed fetch\<close>

definition live_worker :: "'w kafka_worker \<Rightarrow> bool" where
  "live_worker x = (case x of Selecting \<Rightarrow> True | Working p \<Rightarrow> ends_in (\<lambda>r. r = None) p | Gone \<Rightarrow> False)"

text \<open>
  While the client answers and the caller's context is alive, no worker leaves or reports an error;
  the channel of jobs is open until the loop returns, and the return gets as far as the wait.
\<close>

definition consumer_inv :: "kafka_env \<Rightarrow> 'w consumer_run \<Rightarrow> bool" where
  "consumer_inv env s \<longleftrightarrow> (kafka_up env \<and> cr_ctx s = None \<longrightarrow>
     \<not> cr_cancelled s \<and> cr_errs s = None \<and> length (cr_workers s) = worker_count
     \<and> (\<forall>x \<in> set (cr_workers s). live_worker x)
     \<and> (case cr_loop s of Unwinding ds e \<Rightarrow> ds = unwinding \<or> ds = tl unwinding \<and> cr_closed s
         | Returned e \<Rightarrow> False | _ \<Rightarrow> True))"

lemma live_worker_simps [simp]:
  "live_worker Selecting" "\<not> live_worker Gone" "live_worker (Working p) \<longleftrightarrow> ends_in (\<lambda>r. r = None) p"
  by (simp_all add: live_worker_def)

lemma consumer_inv_start: "consumer_inv env (consumer_start w)"
  by (simp add: consumer_inv_def consumer_start_def)

lemma step_context: "consumer_step l b cfg handler s t \<Longrightarrow> cr_ctx t = None \<Longrightarrow> cr_ctx s = None"
  by (auto elim!: consumer_stepE loop_stepE kafka_worker_stepE)

lemma not_all_gone:
  "length ws = worker_count \<Longrightarrow> \<forall>x \<in> set ws. live_worker x \<Longrightarrow> \<exists>x \<in> set ws. x \<noteq> Gone"
  by (cases ws) (auto simp: worker_count_def)

lemma consumer_inv_loop:
  assumes "consumer_inv env s" and "loop_step s t"
  shows "consumer_inv env t"
  using assms(2)
proof (cases rule: loop_step.cases)
  case (wait_workers ds e)
  with assms(1) not_all_gone [of "cr_workers s"] show ?thesis by (auto simp: consumer_inv_def)
qed (use assms(1) in \<open>auto simp: consumer_inv_def unwinding_calls\<close>)

lemma consumer_inv_worker:
  assumes "consumer_inv env s" and "i < length (cr_workers s)"
    and "kafka_worker_step (kafka_client env) b cfg handler i (cr_workers s ! i) s t"
  shows "consumer_inv env t"
proof (cases "kafka_up env \<and> cr_ctx t = None")
  case True
  then have up: "kafka_up env" and ctx: "cr_ctx s = None"
    using assms(3) by (auto elim!: kafka_worker_stepE)
  have live: "live_worker (cr_workers s ! i)" using assms(1,2) up ctx by (simp add: consumer_inv_def)
  have kept: "consumer_inv env (put_worker i x s)" "consumer_inv env (put_worker i x (s\<lparr>cr_jobs := ms\<rparr>))"
    "consumer_inv env (put_worker i x (s\<lparr>cr_world := v\<rparr>))" if "live_worker x" for x ms v
    using that assms(1) set_update_subset_insert [of "cr_workers s" i x]
    by (auto simp: consumer_inv_def split: fetch_loop.split)
  from assms(3) show ?thesis
  proof (cases rule: kafka_worker_step.cases)
    case leave
    with assms(1) up ctx show ?thesis by (simp add: consumer_inv_def worker_context_done_def)
  next
    case (receive m ms)
    then show ?thesis by (simp add: kept(2) process_goes_on [OF up])
  next
    case receive_closed
    then show ?thesis by (simp add: kept(1) process_goes_on [OF up])
  next
    case (act f p v)
    have "ends_in (\<lambda>r. r = None) (fst (f (cr_world s)))" using live act(1) by (simp add: ends_in_Act)
    with act(2,3) show ?thesis by (auto intro: kept)
  next
    case carry_on
    then show ?thesis by (auto intro: kept)
  next
    case (stop e)
    with live show ?thesis by simp
  qed
qed (unfold consumer_inv_def, blast)

interpretation runtime: step_invariant "consumer_step (kafka_client env) b cfg handler" "consumer_start w"
  "consumer_inv env" for env b cfg handler w
proof
  fix s t :: "'a kafka_world consumer_run"
  assume inv: "consumer_inv env s" and "consumer_step (kafka_client env) b cfg handler s t"
  from this(2) show "consumer_inv env t"
  proof cases
    case loop
    with inv show ?thesis by (rule consumer_inv_loop)
  next
    case (worker i)
    with inv show ?thesis by (rule consumer_inv_worker)
  next
    case (context_done e)
    then show ?thesis by (simp add: consumer_inv_def)
  qed
qed (rule consumer_inv_start)

text \<open>Once the return has begun it keeps its error, and does not get past the wait.\<close>

definition stuck :: "error \<Rightarrow> fetch_loop \<Rightarrow> bool" where
  "stuck e x \<longleftrightarrow> x = Unwinding unwinding e \<or> x = Unwinding (tl unwinding) e"

lemma stuck_step:
  assumes "consumer_step l b cfg handler s t" and "stuck e (cr_loop s)"
    and "\<exists>x \<in> set (cr_workers s). x \<noteq> Gone"
  shows "stuck e (cr_loop t)"
  using assms(1)
proof (cases rule: consumer_step.cases)
  case loop
  then show ?thesis
    by (cases rule: loop_step.cases) (use assms(2,3) in \<open>auto simp: stuck_def unwinding_calls\<close>)
next
  case (worker i)
  from worker(2) show ?thesis
    by (cases rule: kafka_worker_step.cases) (use assms(2) in auto)
next
  case (context_done x)
  then show ?thesis using assms(2) by simp
qed

lemma stuck_for_good:
  assumes "(consumer_step (kafka_client env) b cfg handler)\<^sup>*\<^sup>* s t" and "kafka_up env"
    and "consumer_inv env s" and "stuck e (cr_loop s)" and "cr_ctx t = None"
  shows "consumer_inv env t \<and> stuck e (cr_loop t)"
  using assms(1,5)
proof (induction rule: rtranclp_induct)
  case base
  show ?case using assms(3,4) by simp
next
  case (step u t)
  have ctx: "cr_ctx u = None" using step.hyps(2) step.prems by (rule step_context)
  with step.IH have u: "consumer_inv env u" "stuck e (cr_loop u)" by auto
  then have "\<exists>x \<in> set (cr_workers u). x \<noteq> Gone"
    using ctx assms(2) not_all_gone by (auto simp: consumer_inv_def)
  with step.hyps(2) u show ?case by (blast intro: stuck_step runtime.preserved)
qed

section \<open>The workers spin\<close>

text \<open>A worker that alone moves finishes its message.\<close>

lemma worker_finishes:
  assumes "ends_in (\<lambda>r. r = None) p" and "i < length (cr_workers s)" and "cr_workers s ! i = Working p"
  shows "(consumer_step l b cfg handler)\<^sup>*\<^sup>* s
    (put_worker i Selecting (s\<lparr>cr_world := snd (run p (cr_world s))\<rparr>))"
  using assms
proof (induction arbitrary: s rule: ends_in.induct)
  case (ends_Ret x)
  then have "consumer_step l b cfg handler s (put_worker i Selecting s)"
    by (intro consumer_step.worker [of i]) (auto intro: carry_on)
  with ends_Ret show ?case by auto
next
  case (ends_Act f)
  obtain p v where p: "f (cr_world s) = (p, v)" by force
  let ?t = "put_worker i (Working p) (s\<lparr>cr_world := v\<rparr>)"
  have "consumer_step l b cfg handler s ?t"
    using ends_Act.prems p by (intro consumer_step.worker [of i]) (auto intro: act)
  also have "(consumer_step l b cfg handler)\<^sup>*\<^sup>* ?t
      (put_worker i Selecting (?t\<lparr>cr_world := snd (run p (cr_world ?t))\<rparr>))"
    using ends_Act.IH [where w = "cr_world s" and s = ?t] ends_Act.prems p by simp
  finally show ?case using p by (simp add: put_worker_def run_Act)
qed

lemma worker_takes:
  assumes "kafka_up env" and "i < length (cr_workers s)" and "cr_workers s ! i = Selecting"
    and "cr_jobs s = m # ms \<or> cr_jobs s = [] \<and> cr_closed s \<and> m = zero_message \<and> ms = []"
  shows "(consumer_step (kafka_client env) b cfg handler)\<^sup>*\<^sup>* s (s\<lparr>cr_jobs := ms,
    cr_world := snd (run (process_message (kafka_client env) b cfg handler m) (cr_world s))\<rparr>)"
proof -
  let ?p = "process_message (kafka_client env) b cfg handler m"
  let ?t = "put_worker i (Working ?p) (s\<lparr>cr_jobs := ms\<rparr>)"
  have "kafka_worker_step (kafka_client env) b cfg handler i Selecting s ?t"
    using assms(4)
  proof (elim disjE conjE)
    assume "cr_jobs s = m # ms"
    then show ?thesis by (rule receive)
  next
    assume closed: "cr_jobs s = []" "cr_closed s" "m = zero_message" "ms = []"
    then have same: "s\<lparr>cr_jobs := ms\<rparr> = s" by (cases s) simp
    show ?thesis unfolding same closed(3) by (rule receive_closed [OF closed(1,2)])
  qed
  then have "consumer_step (kafka_client env) b cfg handler s ?t"
    using assms(2,3) by (intro consumer_step.worker [of i]) auto
  also have "(consumer_step (kafka_client env) b cfg handler)\<^sup>*\<^sup>* ?t
      (put_worker i Selecting (?t\<lparr>cr_world := snd (run ?p (cr_world ?t))\<rparr>))"
    using process_goes_on [OF assms(1)] assms(2) by (intro worker_finishes) auto
  also have "put_worker i Selecting (?t\<lparr>cr_world := snd (run ?p (cr_world ?t))\<rparr>)
      = s\<lparr>cr_jobs := ms, cr_world := snd (run ?p (cr_world s))\<rparr>"
  proof -
    have "(cr_workers s)[i := Selecting] = cr_workers s" using assms(3) by (metis list_update_id)
    then show ?thesis by (cases s) (simp add: put_worker_def)
  qed
  finally show ?thesis .
qed

lemma queue_drains:
  assumes "kafka_up env" and "i < length (cr_workers s)" and "cr_workers s ! i = Selecting"
  shows "\<exists>v. (consumer_step (kafka_client env) b cfg handler)\<^sup>*\<^sup>* s (s\<lparr>cr_jobs := [], cr_world := v\<rparr>)"
  using assms(2,3)
proof (induction "cr_jobs s" arbitrary: s)
  case Nil
  then have "s\<lparr>cr_jobs := [], cr_world := cr_world s\<rparr> = s" by (cases s) simp
  then show ?case by (intro exI [of _ "cr_world s"]) simp
next
  case (Cons m ms)
  let ?t = "s\<lparr>cr_jobs := ms, cr_world := snd (run (process_message (kafka_client env) b cfg handler m) (cr_world s))\<rparr>"
  have "(consumer_step (kafka_client env) b cfg handler)\<^sup>*\<^sup>* s ?t"
    using Cons.prems Cons.hyps(2) by (intro worker_takes [OF assms(1)]) auto
  moreover obtain v where "(consumer_step (kafka_client env) b cfg handler)\<^sup>*\<^sup>* ?t (?t\<lparr>cr_jobs := [], cr_world := v\<rparr>)"
    using Cons.hyps(1) [of ?t] Cons.prems by auto
  ultimately show ?case by (intro exI [of _ v]) simp
qed

text \<open>What a zero message comes to: its empty payload is no envelope, so it goes to the retry topic.\<close>

lemma zero_message_retried:
  assumes "kafka_up env" and "kl_Unwrap env [] = Inl e" and "\<not> kl_isPermanent env e" and "1 < kl_MaxAttempts env"
  shows "kw_events (snd (run (process_message (kafka_client env) b cfg handler zero_message) w))
     = kw_events w @ [retry_event env b cfg zero_message True]"
proof -
  have "ke_enqueue env i = None" for i using assms(1) by (simp add: kafka_up_def)
  then show ?thesis
    using assms(2-4)
    by (simp add: process_message_def handle_message_def zero_message_def run_bind run_enqueue retry_event_def Let_def)
qed

lemma zero_messages_retried:
  assumes "kafka_up env" and "kl_Unwrap env [] = Inl e" and "\<not> kl_isPermanent env e" and "1 < kl_MaxAttempts env"
    and "i < length (cr_workers s)" and "cr_workers s ! i = Selecting" and "cr_jobs s = []" and "cr_closed s"
  shows "\<exists>v. (consumer_step (kafka_client env) b cfg handler)\<^sup>*\<^sup>* s (s\<lparr>cr_world := v\<rparr>)
     \<and> kw_events v = kw_events (cr_world s) @ replicate n (retry_event env b cfg zero_message True)"
proof (induction n)
  case 0
  show ?case by (intro exI [of _ "cr_world s"]) simp
next
  case (Suc n)
  then obtain v where v: "(consumer_step (kafka_client env) b cfg handler)\<^sup>*\<^sup>* s (s\<lparr>cr_world := v\<rparr>)"
    "kw_events v = kw_events (cr_world s) @ replicate n (retry_event env b cfg zero_message True)" by blast
  let ?v = "snd (run (process_message (kafka_client env) b cfg handler zero_message) v)"
  have "(consumer_step (kafka_client env) b cfg handler)\<^sup>*\<^sup>* (s\<lparr>cr_world := v\<rparr>) (s\<lparr>cr_jobs := [], cr_world := ?v\<rparr>)"
    using worker_takes [OF assms(1), of i "s\<lparr>cr_world := v\<rparr>" zero_message "[]" b cfg handler] assms(5-8) by simp
  also have "s\<lparr>cr_jobs := [], cr_world := ?v\<rparr> = s\<lparr>cr_world := ?v\<rparr>" using assms(7) by (cases s) simp
  finally have "(consumer_step (kafka_client env) b cfg handler)\<^sup>*\<^sup>* (s\<lparr>cr_world := v\<rparr>) (s\<lparr>cr_world := ?v\<rparr>)" .
  with v zero_message_retried [OF assms(1-4), of b cfg handler v] show ?case
    by (intro exI [of _ ?v]) (auto simp: replicate_append_same)
qed

lemma stuck_spins:
  assumes "kafka_up env" and "kl_Unwrap env [] = Inl e" and "\<not> kl_isPermanent env e" and "1 < kl_MaxAttempts env"
    and "consumer_inv env s" and "cr_ctx s = None" and "stuck err (cr_loop s)"
  shows "\<exists>t evs. (consumer_step (kafka_client env) b cfg handler)\<^sup>*\<^sup>* s t \<and> cr_ctx t = None
     \<and> kw_events (cr_world t) = evs @ replicate n (retry_event env b cfg zero_message True)"
proof -
  let ?step = "consumer_step (kafka_client env) b cfg handler"
  obtain s1 where s1: "?step\<^sup>*\<^sup>* s s1" "consumer_inv env s1" "cr_ctx s1 = None" "cr_closed s1"
  proof (cases "cr_closed s")
    case True
    with assms(5,6) show thesis by (intro that [of s]) auto
  next
    case False
    with assms(1,5-7) have "cr_loop s = Unwinding unwinding err"
      by (auto simp: stuck_def consumer_inv_def unwinding_calls)
    then have step: "?step s (s\<lparr>cr_loop := Unwinding (tl unwinding) err, cr_closed := True\<rparr>)"
      by (intro consumer_step.loop) (auto simp: unwinding_calls intro: close_jobs)
    then have "?step\<^sup>*\<^sup>* s (s\<lparr>cr_loop := Unwinding (tl unwinding) err, cr_closed := True\<rparr>)"
      by (rule r_into_rtranclp)
    with runtime.preserved [OF assms(5) step] assms(6) show thesis
      by (intro that [of "s\<lparr>cr_loop := Unwinding (tl unwinding) err, cr_closed := True\<rparr>"]) auto
  qed
  then have workers: "0 < length (cr_workers s1)" "live_worker (cr_workers s1 ! 0)"
    using assms(1) by (auto simp: consumer_inv_def worker_count_def)
  obtain w where w: "?step\<^sup>*\<^sup>* s1 (put_worker 0 Selecting (s1\<lparr>cr_world := w\<rparr>))"
  proof (cases "cr_workers s1 ! 0")
    case Selecting
    then have "(cr_workers s1)[0 := Selecting] = cr_workers s1" by (metis list_update_id)
    then have "put_worker 0 Selecting (s1\<lparr>cr_world := cr_world s1\<rparr>) = s1" by (cases s1) (simp add: put_worker_def)
    then show thesis by (intro that [of "cr_world s1"]) simp
  next
    case (Working p)
    with workers show thesis by (intro that [OF worker_finishes [of p 0 s1]]) auto
  qed (use workers in simp)
  let ?s2 = "put_worker 0 Selecting (s1\<lparr>cr_world := w\<rparr>)"
  obtain v where v: "?step\<^sup>*\<^sup>* ?s2 (?s2\<lparr>cr_jobs := [], cr_world := v\<rparr>)"
    using queue_drains [OF assms(1), of 0 ?s2 b cfg handler] workers(1) by auto
  let ?s3 = "?s2\<lparr>cr_jobs := [], cr_world := v\<rparr>"
  obtain u where u: "?step\<^sup>*\<^sup>* ?s3 (?s3\<lparr>cr_world := u\<rparr>)"
    "kw_events u = kw_events v @ replicate n (retry_event env b cfg zero_message True)"
    using zero_messages_retried [OF assms(1-4), of 0 ?s3 b cfg handler n] workers(1) s1(4) by auto
  from s1(1) w have "?step\<^sup>*\<^sup>* s ?s2" by (rule rtranclp_trans)
  also note v
  also note u(1)
  finally show ?thesis using u(2) s1(3)
    by (intro exI [of _ "?s3\<lparr>cr_world := u\<rparr>"] exI [of _ "kw_events v"]) simp
qed

text \<open>
  C21: After a failed fetch the consumer hangs and its workers spin. When \<open>FetchMessage\<close> fails in a
  running consumer whose context is alive, while the Kafka client answers the workers, then
  \<open>RunPullConsumer\<close> does not return as long as the context lives, whatever is scheduled: it is held
  up before or at \<open>workers.Wait()\<close>, with \<open>cancel()\<close> still due behind it, and no worker ever leaves.
  And when the empty payload of a zero message is no envelope, which is an error that may be
  retried, the workers, receiving from the closed channel, put any number of zero messages on the
  retry topic.
\<close>

theorem fetch_error_hangs_consumer:
  fixes env :: kafka_env and b :: broker and cfg :: PullConsumerConfig and handler :: "'a kafka_world MessageHandler"
  defines "step \<equiv> consumer_step (kafka_client env) b cfg handler"
  assumes "kafka_up env" and "step\<^sup>*\<^sup>* (consumer_start w) s" and "cr_ctx s = None" and "cr_loop s = Reading"
  shows "\<exists>u. step s u \<and> cr_loop u = Unwinding unwinding err
     \<and> (\<forall>t. step\<^sup>*\<^sup>* u t \<and> cr_ctx t = None \<longrightarrow>
          (\<exists>ds. cr_loop t = Unwinding ds err \<and> {WaitWorkers, CancelWorkers} \<subseteq> set ds)
          \<and> \<not> cr_cancelled t \<and> length (cr_workers t) = worker_count \<and> Gone \<notin> set (cr_workers t)
          \<and> (kl_Unwrap env [] = Inl e \<and> \<not> kl_isPermanent env e \<and> 1 < kl_MaxAttempts env \<longrightarrow>
               (\<forall>n. \<exists>v evs. step\<^sup>*\<^sup>* t v \<and> cr_ctx v = None
                  \<and> kw_events (cr_world v) = evs @ replicate n (retry_event env b cfg zero_message True))))"
    (is "\<exists>u. _ \<and> _ \<and> (\<forall>t. ?later u t \<longrightarrow> ?stays t)")
proof -
  let ?u = "s\<lparr>cr_loop := Unwinding unwinding err\<rparr>"
  have inv: "consumer_inv env s" using assms(3) unfolding step_def by (rule runtime.always)
  then have step: "step s ?u"
    using assms(2,4,5) unfolding step_def consumer_inv_def by (intro consumer_step.loop fetch_failed) auto
  have u: "consumer_inv env ?u" "stuck err (cr_loop ?u)"
    using runtime.preserved [OF inv step [unfolded step_def]] by (simp_all add: stuck_def)
  have later: "consumer_inv env t \<and> stuck err (cr_loop t)" if "step\<^sup>*\<^sup>* ?u t" and "cr_ctx t = None" for t
    using stuck_for_good [OF that(1) [unfolded step_def] assms(2) u that(2)] .
  have held: "\<exists>ds. x = Unwinding ds err \<and> {WaitWorkers, CancelWorkers} \<subseteq> set ds" if "stuck err x" for x
    using that by (auto simp: stuck_def unwinding_calls)
  have present: "\<not> cr_cancelled t \<and> length (cr_workers t) = worker_count \<and> Gone \<notin> set (cr_workers t)"
    if "consumer_inv env t" and "cr_ctx t = None" for t :: "'a kafka_world consumer_run"
    using that assms(2) by (auto simp: consumer_inv_def)
  have spins: "\<forall>n. \<exists>v evs. step\<^sup>*\<^sup>* t v \<and> cr_ctx v = None
      \<and> kw_events (cr_world v) = evs @ replicate n (retry_event env b cfg zero_message True)"
    if "kl_Unwrap env [] = Inl e \<and> \<not> kl_isPermanent env e \<and> 1 < kl_MaxAttempts env"
      and "consumer_inv env t \<and> stuck err (cr_loop t)" and "cr_ctx t = None" for t
    using stuck_spins [OF assms(2), of e t err b cfg handler] that unfolding step_def by blast
  have "?stays t" if t: "?later ?u t" for t
  proof -
    have i: "consumer_inv env t" "stuck err (cr_loop t)" "cr_ctx t = None" using later t by auto
    show ?thesis using held [OF i(2)] present [OF i(1,3)] spins [of t] i by blast
  qed
  with step show ?thesis by (intro exI [of _ ?u]) simp
qed

end
