(* ===== verification/Kafka_Subscribers.thy ===== *)
theory Kafka_Subscribers
  imports Kafka_Broker Start_Flow
begin

text \<open>
  The Kafka subscribers (internal/presentation/event_broker/kafka/result_subscriber.go and
  recovery_subscriber.go): the loop that keeps one consumer per result topic running, with its
  growing pause, and the handler that starts a registration from a recovery command and reports
  it. The recovery envelope is a type of another module; its codec is a parameter.
\<close>

section \<open>The result subscriber\<close>

record 'w kafka_subscriber =
  ks_service :: "'w registrationService"
  ks_cfg :: KafkaConfig

definition kafka_NewResultSubscriber ::
  "bool \<Rightarrow> 'w registrationService option \<Rightarrow> KafkaConfig \<Rightarrow> bool \<Rightarrow> error + 'w kafka_subscriber" where
  "kafka_NewResultSubscriber b s c l =
     (case s of
        Some svc \<Rightarrow> if b \<and> l then Inr \<lparr>ks_service = svc, ks_cfg = c\<rparr>
                    else Inl (ExtErr ''invalid result subscriber dependency'')
      | None \<Rightarrow> Inl (ExtErr ''invalid result subscriber dependency''))"

definition kafka_topics ::
  "(bytes \<Rightarrow> error) \<Rightarrow> 'w kafka_subscriber \<Rightarrow> (string \<times> 'w MessageHandler) list" where
  "kafka_topics je s =
     [(kc_UserResultTopic (ks_cfg s), kafka_user (ks_service s) je),
      (kc_AuthResultTopic (ks_cfg s), kafka_auth (ks_service s) je),
      (kc_MailResultTopic (ks_cfg s), kafka_mail (ks_service s) je)]"

definition second :: int where
  "second = 1000000000"

definition next_backoff :: "int \<Rightarrow> int" where
  "next_backoff backoff =
     (if backoff < 30 * second
      then (let doubled = backoff * 2 in if doubled > 30 * second then 30 * second else doubled)
      else backoff)"

text \<open>
  What the loop of a topic calls: \<open>ctx.Err() != nil\<close>, the consumer, and a pause, which says
  whether the context ended it. The loop ends with the context only, so it has fuel: \<open>None\<close> is
  still running after that many rounds.
\<close>

record 'w loop_env =
  le_done :: "('w, bool) prog"
  le_RunPullConsumer :: "PullConsumerConfig \<Rightarrow> 'w MessageHandler \<Rightarrow> ('w, error option) prog"
  le_sleep :: "int \<Rightarrow> ('w, bool) prog"

fun consumer_loop ::
  "nat \<Rightarrow> 'w loop_env \<Rightarrow> string \<Rightarrow> 'w MessageHandler \<Rightarrow> int \<Rightarrow> ('w, unit option) prog" where
  "consumer_loop 0 e topic handler backoff = Ret None"
| "consumer_loop (Suc fuel) e topic handler backoff =
     bind (le_done e) (\<lambda>over. if over then Ret (Some ()) else
     bind (le_RunPullConsumer e (PullConsumerConfig_zero\<lparr>pc_Subject := topic\<rparr>) handler) (\<lambda>err.
     bind (le_done e) (\<lambda>over. if over then Ret (Some ()) else
     bind (le_sleep e backoff) (\<lambda>over. if over then Ret (Some ()) else
     consumer_loop fuel e topic handler (next_backoff backoff)))))"

definition topic_loop :: "nat \<Rightarrow> 'w loop_env \<Rightarrow> string \<times> 'w MessageHandler \<Rightarrow> ('w, unit option) prog" where
  "topic_loop fuel e t = consumer_loop fuel e (fst t) (snd t) second"

section \<open>The recovery subscriber\<close>

record migration_Envelope =
  me_EventID :: string
  me_CommandID :: string
  me_CorrelationID :: string
  me_CausationID :: string
  me_IdempotencyKey :: string
  me_TestRunID :: string
  me_EventType :: string
  me_Operation :: string
  me_SchemaVersion :: int
  me_AggregateType :: string
  me_AggregateID :: string
  me_SourceService :: string
  me_OccurredAt :: int
  me_Payload :: bytes

text \<open>
  \<open>rl_fields\<close> is the order in which the run-time goes through the map of the required fields,
  \<open>rl_Quote\<close> the \<open>%q\<close> verb, \<open>rl_Publish\<close> the broker.
\<close>

record recovery_codec =
  rl_decode :: "bytes \<Rightarrow> error + migration_Envelope"
  rl_encode :: "migration_Envelope \<Rightarrow> error + bytes"
  rl_unmarshalError :: "bytes \<Rightarrow> error"
  rl_Permanent :: "error \<Rightarrow> error"
  rl_Quote :: "string \<Rightarrow> string"
  rl_fields :: "string list"

record 'w recovery_lib = recovery_codec +
  rl_now :: "('w, int) prog"
  rl_Publish :: "string \<Rightarrow> bytes \<Rightarrow> ('w, error option) prog"

definition kafka_NewRecoverySubscriber ::
  "bool \<Rightarrow> 'w registrationService option \<Rightarrow> KafkaConfig \<Rightarrow> bool \<Rightarrow> error + 'w kafka_subscriber" where
  "kafka_NewRecoverySubscriber b svc cfg log =
     (case svc of
        Some s \<Rightarrow> if b \<and> log then Inr \<lparr>ks_service = s, ks_cfg = cfg\<rparr>
                  else Inl (ExtErr ''invalid registration recovery subscriber dependency'')
      | None \<Rightarrow> Inl (ExtErr ''invalid registration recovery subscriber dependency''))"

definition recovery_consumer :: "KafkaConfig \<Rightarrow> PullConsumerConfig" where
  "recovery_consumer cfg = PullConsumerConfig_zero
     \<lparr>pc_Subject := kc_RecoveryTopic cfg, pc_GroupID := kc_RecoveryGroup cfg\<rparr>"

text \<open>The JSON of a start result, whose fields have no tags.\<close>

definition start_result_json :: "StartRegistrationResult \<Rightarrow> json" where
  "start_result_json r = JObj
     [(''SessionID'', JStr (sr_SessionID r)), (''ClientID'', JStr (sr_ClientID r)),
      (''UserID'', JStr (sr_UserID r)), (''Status'', JStr (sr_Status r)),
      (''ConflictState'', JStr (sr_ConflictState r)), (''UsernameTaken'', JBool (sr_UsernameTaken r)),
      (''EmailTaken'', JBool (sr_EmailTaken r))]"

definition recovery_params :: "migration_Envelope \<Rightarrow> (bytes \<Rightarrow> bytes) \<Rightarrow> StartRegistrationParams" where
  "recovery_params cmd p =
     \<lparr>sp_SessionID = p ''session_id'',
      sp_ClientID = (if p ''client_id'' = [] then me_AggregateID cmd else p ''client_id''),
      sp_UserID = p ''user_id'', sp_Email = p ''email'', sp_Username = p ''username'',
      sp_Password = p ''password'', sp_FirstName = p ''first_name'', sp_Surname = p ''surname''\<rparr>"

definition required_field :: "StartRegistrationParams \<Rightarrow> string \<Rightarrow> string" where
  "required_field p field =
     (if field = ''session_id'' then sp_SessionID p
      else if field = ''client_id'' then sp_ClientID p else sp_UserID p)"

definition completed_envelope ::
  "migration_Envelope \<Rightarrow> StartRegistrationResult \<Rightarrow> int \<Rightarrow> migration_Envelope" where
  "completed_envelope cmd result now =
     \<lparr>me_EventID = me_EventID cmd @ ''.completed'', me_CommandID = me_CommandID cmd,
      me_CorrelationID = me_CorrelationID cmd, me_CausationID = me_EventID cmd,
      me_IdempotencyKey = me_IdempotencyKey cmd, me_TestRunID = me_TestRunID cmd,
      me_EventType = ''migration.recovery.completed'', me_Operation = me_Operation cmd,
      me_SchemaVersion = 1, me_AggregateType = ''registration'', me_AggregateID = sr_SessionID result,
      me_SourceService = ''registration-saga-service-recovery'', me_OccurredAt = now,
      me_Payload = render (start_result_json result)\<rparr>"

definition recovery_fields :: "string list" where
  "recovery_fields = [''session_id'', ''client_id'', ''user_id'', ''email'', ''username'', ''password'',
     ''first_name'', ''surname'']"

definition recovery_handle ::
  "'w recovery_lib \<Rightarrow> 'w kafka_subscriber \<Rightarrow> 'w MessageHandler" where
  "recovery_handle l s subject raw =
     (case rl_decode l raw of
        Inl err \<Rightarrow> Ret (Some (Wrapped ''decode registration recovery command: '' err))
      | Inr cmd \<Rightarrow>
          if \<not> EqualFold (me_AggregateType cmd) ''registration''
          then Ret (Some (ExtErr (''unsupported registration recovery aggregate_type=''
                 @ rl_Quote l (me_AggregateType cmd))))
          else (case unmarshal_struct recovery_fields (me_Payload cmd) of
             None \<Rightarrow> Ret (Some (rl_unmarshalError l (me_Payload cmd)))
           | Some f \<Rightarrow>
               let p = recovery_params cmd f in
               (case find (\<lambda>field. TrimSpace (required_field p field) = []) (rl_fields l) of
                  Some field \<Rightarrow> Ret (Some (rl_Permanent l (ExtErr (''registration recovery command ''
                      @ me_CommandID cmd @ '' is missing '' @ field))))
                | None \<Rightarrow> unwrap (Start (ks_service s) p) (\<lambda>err. Ret (Some err)) (\<lambda>result.
                    bind (rl_now l) (\<lambda>now.
                      case rl_encode l (completed_envelope cmd result now) of
                        Inl e \<Rightarrow> Ret (Some e)
                      | Inr body \<Rightarrow> rl_Publish l (kc_RecoveryCompletedTopic (ks_cfg s)) body)))))"

section \<open>The pauses\<close>

definition pause :: "nat \<Rightarrow> int" where
  "pause i = min (2 ^ i * second) (30 * second)"

lemma next_pause: "next_backoff (pause i) = pause (Suc i)"
  by (auto simp: next_backoff_def pause_def second_def Let_def min_def)

record 'a loop_world =
  lw_app :: 'a
  lw_pauses :: "int list"

text \<open>The context is never done, and consumers and pauses end.\<close>

definition loop_alive :: "'a loop_world loop_env \<Rightarrow> bool" where
  "loop_alive e \<longleftrightarrow> (\<forall>w. run (le_done e) w = (False, w))
     \<and> (\<forall>cfg h w. lw_pauses (snd (run (le_RunPullConsumer e cfg h) w)) = lw_pauses w)
     \<and> (\<forall>d w. run (le_sleep e d) w = (False, w\<lparr>lw_pauses := lw_pauses w @ [d]\<rparr>))"

lemma loop_pauses:
  assumes "loop_alive e"
  shows "\<exists>w'. run (consumer_loop n e topic h (pause i)) w = (None, w')
     \<and> lw_pauses w' = lw_pauses w @ map pause [i..<i + n]"
proof (induction n arbitrary: i w)
  case (Suc n)
  obtain r v where v: "run (le_RunPullConsumer e (PullConsumerConfig_zero\<lparr>pc_Subject := topic\<rparr>) h) w = (r, v)"
    by (cases "run (le_RunPullConsumer e (PullConsumerConfig_zero\<lparr>pc_Subject := topic\<rparr>) h) w")
  then have "lw_pauses v = lw_pauses w" using assms by (metis loop_alive_def snd_conv)
  moreover obtain w' where
    "run (consumer_loop n e topic h (pause (Suc i))) (v\<lparr>lw_pauses := lw_pauses v @ [pause i]\<rparr>) = (None, w')"
    "lw_pauses w' = lw_pauses v @ pause i # map pause [Suc i..<Suc i + n]"
    using Suc.IH [of "Suc i" "v\<lparr>lw_pauses := lw_pauses v @ [pause i]\<rparr>"] by auto
  moreover have "map pause [i..<i + Suc n] = pause i # map pause [Suc i..<Suc i + n]"
    by (subst upt_conv_Cons) simp_all
  ultimately show ?case using v assms by (simp add: loop_alive_def run_bind next_pause del: upt_Suc)
qed simp

text \<open>
  As long as the process is not shut down, the loop of a result topic starts its consumer
  again after every end, and pauses one, two, four, eight and sixteen seconds before the first
  restarts and thirty seconds before each later one: every pause lies between one and thirty
  seconds, and none is shorter than the one before, however long the consumer ran in between.
\<close>

lemma restart_pauses_bounded:
  assumes "loop_alive e"
  shows "\<exists>w' ps. run (topic_loop n e t) w = (None, w') \<and> lw_pauses w' = lw_pauses w @ ps
     \<and> length ps = n
     \<and> (\<forall>i < n. ps ! i = min (2 ^ i * second) (30 * second))
     \<and> (\<forall>d \<in> set ps. second \<le> d \<and> d \<le> 30 * second) \<and> sorted ps"
proof -
  have zero: "pause 0 = second" by (simp add: pause_def second_def)
  have "pause i \<le> pause j" if "i \<le> j" for i j
    using power_increasing [OF that, of "2 :: int"] unfolding pause_def second_def
    by (intro min.mono) simp_all
  then have "sorted (map pause [0..<n])" by (auto simp: sorted_iff_nth_mono)
  moreover have "\<forall>d \<in> set (map pause [0..<n]). second \<le> d \<and> d \<le> 30 * second"
    by (auto simp: pause_def second_def)
  ultimately show ?thesis
    using loop_pauses [OF assms, of n "fst t" "snd t" 0 w] zero
    by (intro exI [of _ "snd (run (topic_loop n e t) w)"] exI [of _ "map pause [0..<n]"])
      (auto simp: topic_loop_def pause_def)
qed

section \<open>A recovery command\<close>

definition saga_recovery :: "environment \<Rightarrow> recovery_codec \<Rightarrow> world recovery_lib" where
  "saga_recovery env c = recovery_codec.extend c
     \<lparr>rl_now = ask (env_now env), rl_Publish = eb_Publish (saga_broker env)\<rparr>"

lemma saga_recovery_simps [simp]:
  "rl_decode (saga_recovery env c) = rl_decode c" "rl_encode (saga_recovery env c) = rl_encode c"
  "rl_unmarshalError (saga_recovery env c) = rl_unmarshalError c"
  "rl_Permanent (saga_recovery env c) = rl_Permanent c" "rl_Quote (saga_recovery env c) = rl_Quote c"
  "rl_fields (saga_recovery env c) = rl_fields c" "rl_now (saga_recovery env c) = ask (env_now env)"
  "rl_Publish (saga_recovery env c) = eb_Publish (saga_broker env)"
  by (simp_all add: saga_recovery_def recovery_codec.extend_def)

definition recovery_service :: "environment \<Rightarrow> NATSConfig \<Rightarrow> KafkaConfig \<Rightarrow> world kafka_subscriber" where
  "recovery_service env cfg kcfg = \<lparr>ks_service = saga_service env cfg, ks_cfg = kcfg\<rparr>"

text \<open>A command the subscriber passes on to \<open>Start\<close>, with these parameters.\<close>

definition well_formed_command ::
  "recovery_codec \<Rightarrow> bytes \<Rightarrow> migration_Envelope \<Rightarrow> StartRegistrationParams \<Rightarrow> bool" where
  "well_formed_command c raw cmd p \<longleftrightarrow> rl_decode c raw = Inr cmd
     \<and> EqualFold (me_AggregateType cmd) ''registration''
     \<and> (\<exists>f. unmarshal_struct recovery_fields (me_Payload cmd) = Some f \<and> p = recovery_params cmd f)
     \<and> TrimSpace (sp_SessionID p) \<noteq> [] \<and> TrimSpace (sp_ClientID p) \<noteq> [] \<and> TrimSpace (sp_UserID p) \<noteq> []"

lemma recovery_run:
  assumes "well_formed_command c raw cmd p"
    and "run (Start (saga_service env cfg) p) w = (Inr r, w1)"
    and "rl_encode c (completed_envelope cmd r (env_now env (w_tick w1))) = Inr body"
  shows "run (recovery_handle (saga_recovery env c) (recovery_service env cfg kcfg) subject raw) w
     = (env_publish env (Suc (w_tick w1)) (kc_RecoveryCompletedTopic kcfg) body,
        traced (Published (kc_RecoveryCompletedTopic kcfg) body
          (env_publish env (Suc (w_tick w1)) (kc_RecoveryCompletedTopic kcfg) body = None)) (ticked (ticked w1)))"
proof -
  obtain f where f: "rl_decode c raw = Inr cmd" "EqualFold (me_AggregateType cmd) ''registration''"
    "unmarshal_struct recovery_fields (me_Payload cmd) = Some f" "p = recovery_params cmd f"
    using assms(1) by (auto simp: well_formed_command_def)
  have "TrimSpace (required_field p field) \<noteq> []" for field
    using assms(1) by (simp add: well_formed_command_def required_field_def)
  then have "find (\<lambda>field. TrimSpace (required_field p field) = []) (rl_fields c) = None"
    by (simp add: find_None_iff)
  with f assms(2,3) show ?thesis
    by (simp add: recovery_handle_def recovery_service_def Let_def run_unwrap run_bind saga_broker_def run_notify)
qed

text \<open>The handler reports the conflict \<open>r\<close> as a completed recovery, and nothing else happens.\<close>

definition conflict_reported ::
  "environment \<Rightarrow> recovery_codec \<Rightarrow> NATSConfig \<Rightarrow> KafkaConfig \<Rightarrow> string \<Rightarrow> bytes \<Rightarrow> migration_Envelope
   \<Rightarrow> (StartRegistrationResult \<Rightarrow> int \<Rightarrow> bytes) \<Rightarrow> world \<Rightarrow> StartRegistrationResult \<Rightarrow> bool" where
  "conflict_reported env c cfg kcfg subject raw cmd body w r \<longleftrightarrow>
     (\<exists>w' t. run (recovery_handle (saga_recovery env c) (recovery_service env cfg kcfg) subject raw) w = (None, w')
        \<and> w_db w' = w_db w \<and> w_spawned w' = w_spawned w
        \<and> last (w_trace w') = Published (kc_RecoveryCompletedTopic kcfg) (body r t) True
        \<and> me_AggregateID (completed_envelope cmd r t) = []
        \<and> me_EventType (completed_envelope cmd r t) = ''migration.recovery.completed'')"

lemma conflict_run_reported:
  assumes "well_formed_command c raw cmd p"
    and "run (Start (saga_service env cfg) p) w = (Inr (conflict_result state u e), w1)"
    and "w_db w1 = w_db w" and "w_spawned w1 = w_spawned w"
    and "\<And>r t. rl_encode c (completed_envelope cmd r t) = Inr (body r t)"
    and "\<And>i b. env_publish env i (kc_RecoveryCompletedTopic kcfg) b = None"
  shows "conflict_reported env c cfg kcfg subject raw cmd body w (conflict_result state u e)"
  using recovery_run [OF assms(1,2,5), of kcfg subject] assms(3,4,6)
  by (auto simp: conflict_reported_def completed_envelope_def conflict_result_def)

lemma started_run:
  assumes "db_up env w" and "well_formed_command c raw cmd p" and "start_error env p = None"
    and "free_to_start env (start_input p) w"
    and "\<And>j. env_bcrypt env j (TrimSpace (sp_Password p)) = Inr hash"
  obtains w1 r session where "run (Start (saga_service env cfg) p) w = (Inr r, w1)"
    and "session = new_session (start_input p) (env_now env (w_tick w + 4))"
    and "sr_SessionID r = s_SessionID session"
    and "db_sessions (w_db w1) = db_sessions (w_db w) @ [session]"
    and "db_steps (w_db w1) = db_steps (w_db w)
         @ [stored_step (s_SessionID session) (env_now env (w_tick w + 5)) StepKeyUserCreateProfile,
            stored_step (s_SessionID session) (env_now env (w_tick w + 6)) StepKeyAuthCreatePending,
            stored_step (s_SessionID session) (env_now env (w_tick w + 7)) StepKeyMailSendVerificationCode]"
    and "w_spawned w1 = w_spawned w @ [DispatchStartCommands session (start_input p) hash]"
    and "db_up env w1"
proof -
  have "input_of env p w = (start_input p, w)"
    and "with_ids env (start_input p) ((ticked ^^ 4) w) = (start_input p, (ticked ^^ 4) w)"
    using assms(2) by (simp_all add: well_formed_command_def input_of_def with_ids_def)
  from start_run [OF assms(1,3) this assms(4,5), of cfg] that show thesis
    by (auto simp: add.commute [of _ "w_tick w"] new_session_def)
qed

text \<open>The row a start has stored is the holder of its e-mail.\<close>

lemma started_holder:
  assumes "free_to_start env i w" and "db_sessions d = db_sessions (w_db w) @ [new_session i now]"
  shows "email_holder d (si_email i) = Some (new_session i now)"
  using assms by (auto simp: email_holder_def free_to_start_def new_session_def filter_empty_conv [THEN iffD2])

lemma recovery_started:
  assumes "db_up env w" and "well_formed_command c raw cmd p" and "start_error env p = None"
    and "\<And>r t. rl_encode c (completed_envelope cmd r t) = Inr (body r t)"
    and "\<And>i b. env_publish env i (kc_RecoveryCompletedTopic kcfg) b = None"
    and "\<And>j. env_bcrypt env j (TrimSpace (sp_Password p)) = Inr hash"
    and "free_to_start env (start_input p) w"
  shows "\<exists>w' session r t. run (recovery_handle (saga_recovery env c) (recovery_service env cfg kcfg) subject raw) w = (None, w')
          \<and> session = new_session (start_input p) (env_now env (w_tick w + 4))
          \<and> db_sessions (w_db w') = db_sessions (w_db w) @ [session]
          \<and> db_steps (w_db w') = db_steps (w_db w)
              @ [stored_step (s_SessionID session) (env_now env (w_tick w + 5)) StepKeyUserCreateProfile,
                 stored_step (s_SessionID session) (env_now env (w_tick w + 6)) StepKeyAuthCreatePending,
                 stored_step (s_SessionID session) (env_now env (w_tick w + 7)) StepKeyMailSendVerificationCode]
          \<and> w_spawned w' = w_spawned w @ [DispatchStartCommands session (start_input p) hash]
          \<and> last (w_trace w') = Published (kc_RecoveryCompletedTopic kcfg) (body r t) True
          \<and> me_AggregateID (completed_envelope cmd r t) = s_SessionID session
          \<and> (\<exists>u'. conflict_reported env c cfg kcfg subject raw cmd body w'
                (conflict_result AvailabilityStateIncomplete u' True))"
proof -
  have client: "TrimSpace (sp_ClientID p) \<noteq> []" using assms(2) by (simp add: well_formed_command_def)
  obtain w1 r session where w1: "run (Start (saga_service env cfg) p) w = (Inr r, w1)"
    and session: "session = new_session (start_input p) (env_now env (w_tick w + 4))"
    and r: "sr_SessionID r = s_SessionID session"
    and rows: "db_sessions (w_db w1) = db_sessions (w_db w) @ [session]"
      "db_steps (w_db w1) = db_steps (w_db w)
         @ [stored_step (s_SessionID session) (env_now env (w_tick w + 5)) StepKeyUserCreateProfile,
            stored_step (s_SessionID session) (env_now env (w_tick w + 6)) StepKeyAuthCreatePending,
            stored_step (s_SessionID session) (env_now env (w_tick w + 7)) StepKeyMailSendVerificationCode]"
      "w_spawned w1 = w_spawned w @ [DispatchStartCommands session (start_input p) hash]"
    and up: "db_up env w1"
    by (rule started_run [OF assms(1-3,7,6)])
  obtain w' t where w': "run (recovery_handle (saga_recovery env c) (recovery_service env cfg kcfg) subject raw) w = (None, w')"
    "w_db w' = w_db w1" "w_spawned w' = w_spawned w1" "db_up env w'"
    "last (w_trace w') = Published (kc_RecoveryCompletedTopic kcfg) (body r t) True"
    using recovery_run [OF assms(2) w1 assms(4), of kcfg subject] assms(5) up by simp
  have "email_holder (w_db w') (TrimSpace (sp_Email p)) = Some session"
    using started_holder [OF assms(7), of "w_db w1"] rows(1) w'(2) session by simp
  then have "True = taken (email_holder (w_db w') (TrimSpace (sp_Email p)))"
    by (simp add: taken_def session new_session_def)
  note again = start_conflict_incomplete_run [OF w'(4) assms(3) client this refl, of cfg]
  have "conflict_reported env c cfg kcfg subject raw cmd body w' (conflict_result AvailabilityStateIncomplete
      (taken (username_holder (w_db w') (TrimSpace (sp_Username p)))) True)"
    by (rule conflict_run_reported [OF assms(2) again _ _ assms(4,5)]) simp_all
  moreover have "me_AggregateID (completed_envelope cmd r t) = s_SessionID session"
    using r by (simp add: completed_envelope_def)
  ultimately show ?thesis
    using w'(1-3,5) rows session by (intro exI [of _ w'] exI [of _ session] exI [of _ r] exI [of _ t]) auto
qed

text \<open>
  C32: A recovery command with its three ids and valid parameters, whose e-mail and user name are
  free, stores a session with exactly these ids and its three pending steps, starts the goroutine
  that dispatches the commands of the registration, and then publishes one completed event, whose
  aggregate is that session. But on every conflict, a session holding the e-mail or the user name
  that is neither failed nor completed, or one of them known to the auth or the user service,
  nothing is stored or started and the completed event is published all the same, with an empty
  aggregate id and the conflict as its payload. The redelivery of a command right after it was
  obeyed is such a conflict.
\<close>

theorem recovery_command_outcome:
  assumes "db_up env w" and "well_formed_command c raw cmd p" and "start_error env p = None"
    and "\<And>r t. rl_encode c (completed_envelope cmd r t) = Inr (body r t)"
    and "\<And>i b. env_publish env i (kc_RecoveryCompletedTopic kcfg) b = None"
    and "\<And>j. env_bcrypt env j (TrimSpace (sp_Password p)) = Inr hash"
    and "e \<longleftrightarrow> (\<exists>r. email_holder (w_db w) (TrimSpace (sp_Email p)) = Some r
             \<and> s_Status r \<noteq> SessionStatusFailed \<and> s_Status r \<noteq> SessionStatusCompleted)"
    and "u \<longleftrightarrow> (\<exists>r. username_holder (w_db w) (TrimSpace (sp_Username p)) = Some r
             \<and> s_Status r \<noteq> SessionStatusFailed \<and> s_Status r \<noteq> SessionStatusCompleted)"
  shows "(free_to_start env (start_input p) w \<longrightarrow>
       (\<exists>w' session r t. run (recovery_handle (saga_recovery env c) (recovery_service env cfg kcfg) subject raw) w = (None, w')
          \<and> session = new_session (start_input p) (env_now env (w_tick w + 4))
          \<and> db_sessions (w_db w') = db_sessions (w_db w) @ [session]
          \<and> db_steps (w_db w') = db_steps (w_db w)
              @ [stored_step (s_SessionID session) (env_now env (w_tick w + 5)) StepKeyUserCreateProfile,
                 stored_step (s_SessionID session) (env_now env (w_tick w + 6)) StepKeyAuthCreatePending,
                 stored_step (s_SessionID session) (env_now env (w_tick w + 7)) StepKeyMailSendVerificationCode]
          \<and> w_spawned w' = w_spawned w @ [DispatchStartCommands session (start_input p) hash]
          \<and> last (w_trace w') = Published (kc_RecoveryCompletedTopic kcfg) (body r t) True
          \<and> me_AggregateID (completed_envelope cmd r t) = s_SessionID session
          \<and> (\<exists>u'. conflict_reported env c cfg kcfg subject raw cmd body w'
                (conflict_result AvailabilityStateIncomplete u' True))))
     \<and> (e \<or> u \<longrightarrow> conflict_reported env c cfg kcfg subject raw cmd body w
          (conflict_result AvailabilityStateIncomplete u e))
     \<and> (\<not> e \<and> \<not> u
         \<and> env_ExistsByEmail env (w_tick w + 2) (TrimSpace (sp_Email p)) = Inr known_e
         \<and> env_ExistsByUsername env (w_tick w + 3) (TrimSpace (sp_Username p)) = Inr known_u
         \<and> (known_e \<or> known_u) \<longrightarrow>
        conflict_reported env c cfg kcfg subject raw cmd body w
          (conflict_result AvailabilityStateCompleted known_u known_e))"
proof (intro conjI impI)
  have client: "TrimSpace (sp_ClientID p) \<noteq> []" using assms(2) by (simp add: well_formed_command_def)
  note reported = conflict_run_reported [OF assms(2) _ _ _ assms(4,5)]
  note held = assms(7,8) [folded taken_iff]
  show "conflict_reported env c cfg kcfg subject raw cmd body w (conflict_result AvailabilityStateIncomplete u e)"
    if "e \<or> u"
    by (rule reported [OF start_conflict_incomplete_run [OF assms(1,3) client held that]]) simp_all
  show "conflict_reported env c cfg kcfg subject raw cmd body w (conflict_result AvailabilityStateCompleted known_u known_e)"
    if k: "\<not> e \<and> \<not> u
         \<and> env_ExistsByEmail env (w_tick w + 2) (TrimSpace (sp_Email p)) = Inr known_e
         \<and> env_ExistsByUsername env (w_tick w + 3) (TrimSpace (sp_Username p)) = Inr known_u
         \<and> (known_e \<or> known_u)"
    by (rule reported [OF start_conflict_completed_run [OF assms(1,3) client]]) (use k held in simp_all)
qed (rule recovery_started [OF assms(1-6)])

end
