(* ===== verification/Kafka_Wiring.thy ===== *)
theory Kafka_Wiring
  imports Kafka_Broker
begin

text \<open>
  The wiring of the messaging (internal/fx/messaging.go, internal/fx/service.go): the adapter that
  puts the broker behind the application's interface and guards every handler with an event
  claim, and the configuration handed to the application service. The claim store and the
  identification of an event belong to another module and are parameters.
\<close>

section \<open>The adapter\<close>

record 'w event_store =
  es_Claim :: "string \<Rightarrow> ('w, error + bool) prog"
  es_Release :: "string \<Rightarrow> ('w, error option) prog"

text \<open>
  \<open>wrap\<close>: \<open>eventID\<close> is the id of \<open>DecodeOrFingerprint(subject, payload)\<close>; without a store the
  handler is called as it is.
\<close>

definition adapter_wrap ::
  "'w event_store option \<Rightarrow> (string \<Rightarrow> bytes \<Rightarrow> string) \<Rightarrow> 'w MessageHandler \<Rightarrow> 'w MessageHandler" where
  "adapter_wrap store eventID handler subject payload =
     (case store of
        None \<Rightarrow> handler subject payload
      | Some s \<Rightarrow>
          (let event = eventID subject payload in
           unwrap (es_Claim s event) (\<lambda>err. Ret (Some err)) (\<lambda>claimed.
             if \<not> claimed then Ret None
             else on_err (handler subject payload)
                    (\<lambda>err. seq (es_Release s event) (Ret (Some err)))
                    (Ret None))))"

definition adapter_RunPullConsumer ::
  "(PullConsumerConfig \<Rightarrow> 'w MessageHandler \<Rightarrow> ('w, error option) prog) \<Rightarrow> 'w event_store option
   \<Rightarrow> (string \<Rightarrow> bytes \<Rightarrow> string) \<Rightarrow> PullConsumerConfig \<Rightarrow> 'w MessageHandler \<Rightarrow> ('w, error option) prog" where
  "adapter_RunPullConsumer consume store eventID cfg handler = consume cfg (adapter_wrap store eventID handler)"

definition adapter_Subscribe ::
  "(string \<Rightarrow> 'w MessageHandler \<Rightarrow> ('w, error option) prog) \<Rightarrow> 'w event_store option
   \<Rightarrow> (string \<Rightarrow> bytes \<Rightarrow> string) \<Rightarrow> string \<Rightarrow> 'w MessageHandler \<Rightarrow> ('w, error option) prog" where
  "adapter_Subscribe subscribe store eventID subject handler =
     subscribe subject (adapter_wrap store eventID handler)"

text \<open>The claim store of the running service: both calls go to the module's functions on the pool.\<close>

definition sqlEventStore ::
  "('d \<Rightarrow> string \<Rightarrow> ('w, error + bool) prog) \<Rightarrow> ('d \<Rightarrow> string \<Rightarrow> ('w, error option) prog) \<Rightarrow> 'd
   \<Rightarrow> 'w event_store" where
  "sqlEventStore ClaimDB Release db = \<lparr>es_Claim = ClaimDB db, es_Release = Release db\<rparr>"

definition adapter_Publish ::
  "'w kafka_lib \<Rightarrow> request_metadata \<Rightarrow> string \<Rightarrow> bytes \<Rightarrow> ('w, error option) prog" where
  "adapter_Publish l md subject payload = kafka_Publish l md subject payload"

definition adapter_PublishRealtime ::
  "(bytes \<Rightarrow> ('w, error option) prog) option \<Rightarrow> bytes \<Rightarrow> ('w, error option) prog" where
  "adapter_PublishRealtime realtime payload =
     (case realtime of
        None \<Rightarrow> Ret (Some (ExtErr ''realtime publisher is not configured''))
      | Some publish \<Rightarrow> publish payload)"

definition provideEventBroker ::
  "'w kafka_lib \<Rightarrow> request_metadata \<Rightarrow> KafkaConfig \<Rightarrow> error + 'w EventBroker" where
  "provideEventBroker l md cfg =
     (case kafka_NewBroker cfg of
        Inl err \<Rightarrow> Inl err
      | Inr b \<Rightarrow> Inr \<lparr>eb_Publish = adapter_Publish l md,
                     eb_PublishRealtime = Some (adapter_PublishRealtime (Some (kafka_PublishRealtime l md)))\<rparr>)"

section \<open>The application service\<close>

text \<open>The zero value of the struct literal with the five subjects of the Kafka configuration.\<close>

definition legacyCfg :: "KafkaConfig \<Rightarrow> NATSConfig" where
  "legacyCfg kafka = \<lparr>
     nc_URL = [], nc_User = [], nc_Password = [], nc_RegistrationEventsStream = [],
     nc_UserEventsStream = [], nc_AuthEventsStream = [], nc_MailEventsStream = [],
     nc_RegistrationCodeSentSubject = kc_RegistrationCodeSentSubject kafka,
     nc_RegistrationCompletedSubject = kc_RegistrationCompletedSubject kafka,
     nc_RegistrationFailedSubject = kc_RegistrationFailedSubject kafka,
     nc_UserCreateSubject = kc_UserCreateSubject kafka, nc_UserCreateResultSubject = [],
     nc_AuthCreatePendingSubject = kc_AuthCreatePendingSubject kafka,
     nc_AuthCreatePendingResultSubject = [], nc_MailSendResultSubject = [],
     nc_UserCreateResultDurable = [], nc_AuthCreatePendingResultDurable = [],
     nc_MailSendResultDurable = [], nc_ResultBatchSize = 0, nc_ResultMaxWait = 0,
     nc_ResultWorkers = 0, nc_ResultQueueSize = 0, nc_ResultAckWait = 0, nc_ResultMaxDeliver = 0,
     nc_ResultAdaptiveEnabled = False, nc_ResultAdaptiveCheckInterval = 0,
     nc_ResultAdaptiveMediumPending = 0, nc_ResultAdaptiveHighPending = 0,
     nc_ResultAdaptiveLowBatchSize = 0, nc_ResultAdaptiveLowMaxWait = 0,
     nc_ResultAdaptiveMediumBatchSize = 0, nc_ResultAdaptiveMediumMaxWait = 0,
     nc_ResultAdaptiveHighBatchSize = 0, nc_ResultAdaptiveHighMaxWait = 0\<rparr>"

definition ProvideRegistrationService ::
  "'w SessionRepository option \<Rightarrow> 'w StepRepository option \<Rightarrow> 'w EventBroker option
   \<Rightarrow> 'w EmailAvailabilityChecker option \<Rightarrow> 'w UsernameAvailabilityChecker option
   \<Rightarrow> KafkaConfig \<Rightarrow> bool \<Rightarrow> 'w Runtime \<Rightarrow> app_error + 'w registrationService" where
  "ProvideRegistrationService sessions steps broker emailChecker usernameChecker kafka log rt =
     New sessions steps broker emailChecker usernameChecker (legacyCfg kafka) log rt"

section \<open>The saga's events reach Kafka\<close>

text \<open>The event topics of the default configuration are migration topics.\<close>

lemma default_event_topics:
  "HasPrefix (nc_RegistrationCodeSentSubject (legacyCfg KafkaConfig_default)) ''migration.registration.''"
  "HasPrefix (nc_RegistrationCompletedSubject (legacyCfg KafkaConfig_default)) ''migration.registration.''"
  "HasPrefix (nc_RegistrationFailedSubject (legacyCfg KafkaConfig_default)) ''migration.registration.''"
  by (simp_all add: legacyCfg_def KafkaConfig_default_def HasPrefix_def)

text \<open>The envelope the mapper makes of an event of a session.\<close>

definition migration_envelope ::
  "request_metadata \<Rightarrow> string \<Rightarrow> string \<Rightarrow> event_Envelope \<Rightarrow> event_Envelope" where
  "migration_envelope md subject sid envelope = envelope
     \<lparr>ev_AggregateType := ''registration'', ev_AggregateID := sid, ev_SessionID := sid,
      ev_SourceService := ''registration-saga-service'', ev_Operation := subject,
      ev_CorrelationID := rm_CorrelationID md, ev_TestRunID := rm_TestRunID md\<rparr>"

lemma map_payload:
  assumes "unmarshal_struct [''session_id'', ''client_id'', ''user_id''] payload = Some f"
  shows "migration_Map l md subject payload =
     (if f ''session_id'' = [] \<or> f ''user_id'' = []
      then Inl (ExtErr ''registration migration payload is missing session_id or user_id'')
      else case kl_eventsNew l subject payload of Inl err \<Rightarrow> Inl err
         | Inr envelope \<Rightarrow> kl_eventsMarshal l (migration_envelope md subject (f ''session_id'') envelope))"
  using assms by (simp add: migration_Map_def migration_envelope_def cong: sum.case_cong)

lemma valid_utf8_Nil_iff: "valid_utf8 s = [] \<longleftrightarrow> s = []"
  by (simp add: valid_utf8.simps [of s] replacement_def)

lemma set_members_skip:
  "\<forall>(k, v) \<in> set kvs. resolve names k = None \<Longrightarrow> set_members names vals kvs = Some vals"
  by (induction kvs) auto

text \<open>The three ids at the head of an event's payload are what the mapper reads.\<close>

lemma event_ids_read:
  fixes names :: "bytes list"
  defines "names \<equiv> [''session_id'', ''client_id'', ''user_id'']"
  assumes "\<And>x. x \<in> set rest \<Longrightarrow> ascii (fst x) \<and> resolve names (fst x) = None"
  shows "\<exists>f. unmarshal_struct names (render (struct_json
       ((''session_id'', sid) # (''client_id'', cid) # (''user_id'', uid) # rest))) = Some f
     \<and> f ''session_id'' = valid_utf8 sid \<and> f ''user_id'' = valid_utf8 uid"
proof -
  let ?fs = "(''session_id'', sid) # (''client_id'', cid) # (''user_id'', uid) # rest"
  have "json_parse (render (struct_json ?fs)) = Some (norm (struct_json ?fs))"
    by (rule parse_render) simp
  moreover have "norm (struct_json ?fs) = JObj (map (\<lambda>(k, v). (k, JStr (valid_utf8 v))) ?fs)"
    by (auto simp: struct_json_def valid_utf8_ascii dest: assms(2))
  moreover have "set_members names vals (map (\<lambda>(k, v). (k, JStr (valid_utf8 v))) rest) = Some vals" for vals
    by (rule set_members_skip) (auto dest: assms(2))
  moreover have "resolve names ''session_id'' = Some ''session_id''" "resolve names ''client_id'' = Some ''client_id''"
    "resolve names ''user_id'' = Some ''user_id''"
    by (simp_all add: resolve_def names_def)
  ultimately show ?thesis by (simp add: unmarshal_struct_def)
qed

definition event_keys :: "string list" where
  "event_keys = [''status'', ''timestamp'', ''error'']"

lemma other_keys:
  "\<forall>k \<in> set event_keys. ascii k \<and> resolve [''session_id'', ''client_id'', ''user_id''] k = None"
  unfolding event_keys_def by code_simp

definition event_of :: "string \<Rightarrow> string \<Rightarrow> bytes \<Rightarrow> bool" where
  "event_of sid uid p \<longleftrightarrow> (\<exists>cid rest. p = render (struct_json
     ((''session_id'', sid) # (''client_id'', cid) # (''user_id'', uid) # rest))
     \<and> fst ` set rest \<subseteq> set event_keys)"

lemma event_ofI:
  "fst ` set rest \<subseteq> set event_keys \<Longrightarrow>
     event_of sid uid (render (struct_json ((''session_id'', sid) # (''client_id'', cid) # (''user_id'', uid) # rest)))"
  unfolding event_of_def by blast

lemma saga_events:
  "ToCodeSentEventPayload json_Marshal now r = Inr p \<Longrightarrow> event_of (msr_SessionID r) (msr_UserID r) p"
  "ToRegistrationCompletedEventPayload json_Marshal now s = Inr p \<Longrightarrow> event_of (s_SessionID s) (s_UserID s) p"
  "ToRegistrationFailedEventPayload json_Marshal now s reason = Inr p \<Longrightarrow> event_of (s_SessionID s) (s_UserID s) p"
  by (auto simp: ToCodeSentEventPayload_def ToRegistrationCompletedEventPayload_def
      ToRegistrationFailedEventPayload_def event_keys_def intro!: event_ofI)

lemma event_payload_ids:
  assumes "event_of sid uid p"
  shows "\<exists>f. unmarshal_struct [''session_id'', ''client_id'', ''user_id''] p = Some f
     \<and> f ''session_id'' = valid_utf8 sid \<and> f ''user_id'' = valid_utf8 uid"
proof -
  obtain cid rest where p: "p = render (struct_json ((''session_id'', sid) # (''client_id'', cid) # (''user_id'', uid) # rest))"
    and keys: "fst ` set rest \<subseteq> set event_keys"
    using assms unfolding event_of_def by blast
  have "ascii (fst x) \<and> resolve [''session_id'', ''client_id'', ''user_id''] (fst x) = None" if "x \<in> set rest" for x
    by (rule bspec [OF other_keys]) (use that keys in blast)
  then show ?thesis unfolding p by (rule event_ids_read)
qed

text \<open>
  C33: An event of the saga (code sent, registration completed, registration failed) is published to
  a migration topic, which the event topics of the default configuration are. The payload the
  application marshals is one the migration mapper can read: given that the event library wraps it
  and makes an envelope for it, publishing with an empty session id or user id fails without a
  write, and otherwise writes, under the hash of its bytes, the envelope whose aggregate and
  session are the session of the event. Publishing then fails only with the error of encoding that
  envelope, without a write, or with the error of the write.
\<close>

theorem registration_events_reach_kafka:
  assumes "ToCodeSentEventPayload json_Marshal now r = Inr p \<and> sid = msr_SessionID r \<and> uid = msr_UserID r
     \<or> ToRegistrationCompletedEventPayload json_Marshal now s = Inr p \<and> sid = s_SessionID s \<and> uid = s_UserID s
     \<or> ToRegistrationFailedEventPayload json_Marshal now s reason = Inr p \<and> sid = s_SessionID s \<and> uid = s_UserID s"
    and "HasPrefix subject ''migration.registration.''"
    and "kl_Wrap l subject p = Inr wrapped" and "kl_eventsNew l subject p = Inr envelope"
  shows "kafka_Publish l md subject p =
     (if sid = [] \<or> uid = []
      then Ret (Some (ExtErr ''registration migration payload is missing session_id or user_id''))
      else case kl_eventsMarshal l (migration_envelope md subject (valid_utf8 sid) envelope) of
             Inl err \<Rightarrow> Ret (Some err)
           | Inr v \<Rightarrow> kl_WriteMessages l subject (kl_Sum256 l v) v (kafkaHeaders md))"
proof -
  obtain f where f: "unmarshal_struct [''session_id'', ''client_id'', ''user_id''] p = Some f"
    "f ''session_id'' = valid_utf8 sid" "f ''user_id'' = valid_utf8 uid"
    using event_payload_ids [of sid uid p] saga_events [of now] assms(1) by blast
  show ?thesis
    unfolding kafka_Publish_def map_payload [OF f(1)] f(2,3)
    using assms(2-4) by (simp add: valid_utf8_Nil_iff eventKey_def cong: sum.case_cong)
qed

end
