(* ===== verification/Event_Claims.thy ===== *)
theory Event_Claims
  imports Kafka_Wiring
begin

text \<open>
  What the event claims of the messaging adapter (\<open>wrap\<close> in internal/fx/messaging.go) achieve: the
  deliveries of one event through the adapter against calling the handler until it succeeds. The
  handler works on the application's state, the claim store on its own table, of which only the
  documented behaviour is used: claiming an unclaimed event succeeds and records it, claiming a
  claimed one is refused, releasing removes it.
\<close>

section \<open>The two states\<close>

primrec lift_fst :: "('a, 'r) prog \<Rightarrow> ('a \<times> 'c, 'r) prog" where
  "lift_fst (Ret x) = Ret x"
| "lift_fst (Act f) = Act (\<lambda>w. map_prod id (\<lambda>a. (a, snd w)) (map_prod lift_fst id (f (fst w))))"

lemma run_lift_fst: "run (lift_fst p) (a, c) = (case run p a of (r, a') \<Rightarrow> (r, (a', c)))"
proof (induction p arbitrary: a)
  case (Act f)
  obtain q a' where f: "f a = (q, a')" by (cases "f a")
  then have "run (lift_fst q) (a', c) = (case run q a' of (r, a'') \<Rightarrow> (r, (a'', c)))"
    by (intro Act.IH [of "f a" q]) (auto simp: image_iff intro: exI [of _ a])
  with f show ?case by (simp add: run_Act)
qed simp

record 'c claim_table =
  ct_Claim :: "string \<Rightarrow> 'c \<Rightarrow> (error + bool) \<times> 'c"
  ct_Release :: "string \<Rightarrow> 'c \<Rightarrow> error option \<times> 'c"

definition table_store :: "'c claim_table \<Rightarrow> ('a \<times> 'c) event_store" where
  "table_store t =
     \<lparr>es_Claim = (\<lambda>event. call (\<lambda>(a, c). case ct_Claim t event c of (r, c') \<Rightarrow> (r, (a, c')))),
      es_Release = (\<lambda>event. call (\<lambda>(a, c). case ct_Release t event c of (r, c') \<Rightarrow> (r, (a, c'))))\<rparr>"

definition keeps_claims :: "'c claim_table \<Rightarrow> ('c \<Rightarrow> string set) \<Rightarrow> bool" where
  "keeps_claims t claims \<longleftrightarrow>
     (\<forall>c event. event \<notin> claims c \<longrightarrow>
        (\<exists>c'. ct_Claim t event c = (Inr True, c') \<and> claims c' = insert event (claims c)))
     \<and> (\<forall>c event. event \<in> claims c \<longrightarrow>
        (\<exists>c'. ct_Claim t event c = (Inr False, c') \<and> claims c' = claims c))
     \<and> (\<forall>c event. \<exists>c'. ct_Release t event c = (None, c') \<and> claims c' = claims c - {event})"

section \<open>Deliveries\<close>

text \<open>A message delivered \<open>n\<close> times, and the handler called until it succeeds, at most \<open>n\<close> times.\<close>

fun deliveries :: "nat \<Rightarrow> ('w, error option) prog \<Rightarrow> 'w \<Rightarrow> error option list \<times> 'w" where
  "deliveries 0 p w = ([], w)"
| "deliveries (Suc n) p w =
     (case run p w of (r, w') \<Rightarrow> (case deliveries n p w' of (rs, w'') \<Rightarrow> (r # rs, w'')))"

fun until_success :: "nat \<Rightarrow> ('a, error option) prog \<Rightarrow> 'a \<Rightarrow> bool \<times> 'a" where
  "until_success 0 p a = (False, a)"
| "until_success (Suc n) p a =
     (case run p a of (None, a') \<Rightarrow> (True, a') | (Some e, a') \<Rightarrow> until_success n p a')"

abbreviation claimed_handler ::
  "'c claim_table \<Rightarrow> (string \<Rightarrow> bytes \<Rightarrow> string) \<Rightarrow> 'a MessageHandler \<Rightarrow> ('a \<times> 'c) MessageHandler" where
  "claimed_handler t eventID h \<equiv> adapter_wrap (Some (table_store t)) eventID (\<lambda>s p. lift_fst (h s p))"

lemma wrapped_claimed:
  assumes "keeps_claims t claims" and "eventID subject payload \<in> claims c"
  shows "\<exists>c'. run (claimed_handler t eventID h subject payload) (a, c) = (None, (a, c')) \<and> claims c' = claims c"
proof -
  obtain c' where "ct_Claim t (eventID subject payload) c = (Inr False, c')" "claims c' = claims c"
    using assms unfolding keeps_claims_def by blast
  then show ?thesis by (simp add: adapter_wrap_def table_store_def Let_def run_unwrap)
qed

lemma wrapped_fresh:
  assumes "keeps_claims t claims" and "eventID subject payload \<notin> claims c"
    and "run (h subject payload) a = (r, a')"
  shows "\<exists>c'. run (claimed_handler t eventID h subject payload) (a, c) = (r, (a', c'))
     \<and> claims c' = (if r = None then insert (eventID subject payload) (claims c) else claims c)"
proof -
  let ?e = "eventID subject payload"
  obtain c1 where c1: "ct_Claim t ?e c = (Inr True, c1)" "claims c1 = insert ?e (claims c)"
    using assms(2) conjunct1 [OF assms(1) [unfolded keeps_claims_def]] by metis
  obtain c2 where c2: "ct_Release t ?e c1 = (None, c2)" "claims c2 = claims c1 - {?e}"
    using conjunct2 [OF conjunct2 [OF assms(1) [unfolded keeps_claims_def]]] by metis
  have "run (claimed_handler t eventID h subject payload) (a, c) = (r, (a', if r = None then c1 else c2))"
    using c1(1) c2(1) assms(3)
    by (cases r) (simp_all add: adapter_wrap_def table_store_def Let_def run_unwrap run_on_err run_seq run_lift_fst)
  then show ?thesis using c1(2) c2(2) assms(2) by (cases r) simp_all
qed

lemma deliveries_claimed:
  assumes "keeps_claims t claims" and "eventID subject payload \<in> claims c"
  shows "\<exists>c'. deliveries n (claimed_handler t eventID h subject payload) (a, c) = (replicate n None, (a, c'))
     \<and> claims c' = claims c"
  using assms(2)
proof (induction n arbitrary: c)
  case (Suc n)
  obtain c1 where c1: "run (claimed_handler t eventID h subject payload) (a, c) = (None, (a, c1))" "claims c1 = claims c"
    using wrapped_claimed [of t claims eventID subject payload c h a] assms(1) Suc.prems by blast
  with Suc.prems Suc.IH [of c1] show ?case by auto
qed simp

lemma deliveries_fresh:
  assumes "keeps_claims t claims" and "eventID subject payload \<notin> claims c"
    and "until_success n (h subject payload) a = (ok, a')"
  shows "\<exists>rs c'. deliveries n (claimed_handler t eventID h subject payload) (a, c) = (rs, (a', c'))
     \<and> (None \<in> set rs \<longleftrightarrow> ok)
     \<and> claims c' = (if ok then insert (eventID subject payload) (claims c) else claims c)"
  using assms(2,3)
proof (induction n arbitrary: a c)
  case (Suc n)
  obtain r a1 where r: "run (h subject payload) a = (r, a1)" by (cases "run (h subject payload) a")
  obtain c1 where c1: "run (claimed_handler t eventID h subject payload) (a, c) = (r, (a1, c1))"
    "claims c1 = (if r = None then insert (eventID subject payload) (claims c) else claims c)"
    using wrapped_fresh [of t claims eventID subject payload c h a r a1] assms(1) Suc.prems(1) r by blast
  show ?case
  proof (cases r)
    case None
    with Suc.prems(2) r have "ok" "a' = a1" by simp_all
    moreover obtain c2 where
      "deliveries n (claimed_handler t eventID h subject payload) (a1, c1) = (replicate n None, (a1, c2))"
      "claims c2 = claims c1"
      using deliveries_claimed [of t claims eventID subject payload c1 n h a1] assms(1) c1(2) None by auto
    ultimately show ?thesis using c1 None by simp
  next
    case (Some e)
    with Suc.prems r c1 obtain rs c2 where
      "deliveries n (claimed_handler t eventID h subject payload) (a1, c1) = (rs, (a', c2))"
      "None \<in> set rs \<longleftrightarrow> ok"
      "claims c2 = (if ok then insert (eventID subject payload) (claims c1) else claims c1)"
      using Suc.IH [of c1 a1] by auto
    with c1 Some show ?thesis by simp
  qed
qed simp

text \<open>
  C12: Delivering a message any number of times through the adapter is, for the application's
  state, the same as calling the handler until it succeeds for the first time and never again: a
  redelivery after a success changes nothing and is answered with success, one after an error runs
  the handler again; the event stays claimed exactly if a delivery succeeded. But an event that is
  claimed while its handler has not succeeded, as a process leaves it that dies between the claim
  and the end of the handler, is lost: every later delivery is answered with success without the
  handler being run.
\<close>

theorem deliveries_equal_one_success:
  assumes "keeps_claims t claims"
  shows "(eventID subject payload \<notin> claims c \<longrightarrow>
       (\<exists>rs c'. deliveries n (claimed_handler t eventID h subject payload) (a, c)
            = (rs, (snd (until_success n (h subject payload) a), c'))
          \<and> (None \<in> set rs \<longleftrightarrow> fst (until_success n (h subject payload) a))
          \<and> (eventID subject payload \<in> claims c' \<longleftrightarrow> fst (until_success n (h subject payload) a))))
     \<and> (eventID subject payload \<in> claims c \<longrightarrow>
       (\<exists>c'. deliveries n (claimed_handler t eventID h subject payload) (a, c) = (replicate n None, (a, c'))))"
proof (intro conjI impI)
  assume new: "eventID subject payload \<notin> claims c"
  obtain ok a' where u: "until_success n (h subject payload) a = (ok, a')"
    by (cases "until_success n (h subject payload) a")
  show "\<exists>rs c'. deliveries n (claimed_handler t eventID h subject payload) (a, c)
            = (rs, (snd (until_success n (h subject payload) a), c'))
          \<and> (None \<in> set rs \<longleftrightarrow> fst (until_success n (h subject payload) a))
          \<and> (eventID subject payload \<in> claims c' \<longleftrightarrow> fst (until_success n (h subject payload) a))"
    using deliveries_fresh [of t claims eventID subject payload c n h a ok a'] assms u new by auto
next
  assume "eventID subject payload \<in> claims c"
  then show "\<exists>c'. deliveries n (claimed_handler t eventID h subject payload) (a, c) = (replicate n None, (a, c'))"
    using deliveries_claimed [of t claims eventID subject payload c n h a] assms by blast
qed

end
