(* ===== verification/Stream_Bootstrap.thy ===== *)
theory Stream_Bootstrap
  imports Service_Types
begin

text \<open>
  The JetStream bootstrap (pkg/messaging/nats/bootstrap.go, error.go): the connection and the four
  streams the saga needs, each added or, when that fails, updated. The client library is a
  parameter, and so is the \<open>%q\<close> verb of the error texts; logging is left out.
\<close>

datatype bootstrap_error =
    BootstrapNilLogger | BootstrapConnectError error | BootstrapJetStreamError error
  | EnsureStreamError string error error

fun bootstrap_error_text :: "(string \<Rightarrow> string) \<Rightarrow> bootstrap_error \<Rightarrow> string" where
  "bootstrap_error_text q BootstrapNilLogger = ''logger is nil''"
| "bootstrap_error_text q (BootstrapConnectError e) = ''connect to nats: '' @ Error e"
| "bootstrap_error_text q (BootstrapJetStreamError e) = ''init jetstream context: '' @ Error e"
| "bootstrap_error_text q (EnsureStreamError name addErr updateErr) =
     ''ensure stream '' @ q name @ '': add err='' @ Error addErr @ '', update err='' @ Error updateErr"

record StreamConfig =
  sc_Name :: string
  sc_Subjects :: "string list"
  sc_FileStorage :: bool
  sc_LimitsPolicy :: bool
  sc_Replicas :: int
  sc_MaxAge :: int

record 'w stream_conn =
  jsc_JetStream :: "('w, error option) prog"
  jsc_AddStream :: "StreamConfig \<Rightarrow> ('w, error option) prog"
  jsc_UpdateStream :: "StreamConfig \<Rightarrow> ('w, error option) prog"
  jsc_Close :: "('w, unit) prog"

type_synonym 'w nats_connect = "string \<Rightarrow> (string \<times> string) option \<Rightarrow> ('w, error + 'w stream_conn) prog"

text \<open>\<open>Connect\<close>: the user and password are passed when a user is configured.\<close>

definition bootstrap_Connect ::
  "'w nats_connect \<Rightarrow> NATSConfig \<Rightarrow> ('w, bootstrap_error + 'w stream_conn) prog" where
  "bootstrap_Connect connect cfg =
     unwrap (connect (nc_URL cfg) (if nc_User cfg \<noteq> [] then Some (nc_User cfg, nc_Password cfg) else None))
       (\<lambda>err. Ret (Inl (BootstrapConnectError err)))
       (\<lambda>nc. Ret (Inr nc))"

definition stream_config :: "string \<Rightarrow> string list \<Rightarrow> StreamConfig" where
  "stream_config name subjects =
     \<lparr>sc_Name = name, sc_Subjects = subjects, sc_FileStorage = True, sc_LimitsPolicy = True,
      sc_Replicas = 1, sc_MaxAge = 7 * 24 * 3600 * 1000000000\<rparr>"

definition saga_streams :: "NATSConfig \<Rightarrow> StreamConfig list" where
  "saga_streams cfg =
     [stream_config (nc_RegistrationEventsStream cfg)
        [nc_RegistrationCodeSentSubject cfg, nc_RegistrationCompletedSubject cfg,
         nc_RegistrationFailedSubject cfg],
      stream_config (nc_UserEventsStream cfg) [nc_UserCreateResultSubject cfg],
      stream_config (nc_AuthEventsStream cfg) [nc_AuthCreatePendingResultSubject cfg],
      stream_config (nc_MailEventsStream cfg) [nc_MailSendResultSubject cfg]]"

fun ensure_streams :: "'w stream_conn \<Rightarrow> StreamConfig list \<Rightarrow> ('w, bootstrap_error option) prog" where
  "ensure_streams nc [] = Ret None"
| "ensure_streams nc (s # ss) =
     on_err (jsc_AddStream nc s)
       (\<lambda>err. on_err (jsc_UpdateStream nc s)
          (\<lambda>updateErr. Ret (Some (EnsureStreamError (sc_Name s) err updateErr)))
          (ensure_streams nc ss))
       (ensure_streams nc ss)"

text \<open>\<open>EnsureStream\<close>; the connection is closed on every way out after it was made.\<close>

definition EnsureStream ::
  "'w nats_connect \<Rightarrow> NATSConfig \<Rightarrow> bool \<Rightarrow> ('w, bootstrap_error option) prog" where
  "EnsureStream connect cfg log =
     (if \<not> log then Ret (Some BootstrapNilLogger)
      else unwrap (bootstrap_Connect connect cfg) (\<lambda>err. Ret (Some err)) (\<lambda>nc.
        bind (on_err (jsc_JetStream nc) (\<lambda>err. Ret (Some (BootstrapJetStreamError err)))
                (ensure_streams nc (saga_streams cfg)))
          (\<lambda>result. seq (jsc_Close nc) (Ret result))))"

text \<open>
  Every stream is added or updated unless an error names the first for which both failed: with a
  library that records what it is asked, a successful bootstrap has ensured the streams in order.
\<close>

definition recording_conn :: "(StreamConfig \<Rightarrow> error option) \<Rightarrow> StreamConfig list stream_conn" where
  "recording_conn add =
     \<lparr>jsc_JetStream = Ret None, jsc_AddStream = (\<lambda>s. call (\<lambda>w. (add s, if add s = None then w @ [s] else w))),
      jsc_UpdateStream = (\<lambda>s. call (\<lambda>w. (None, w @ [s]))), jsc_Close = Ret ()\<rparr>"

lemma bootstrap_ensures_streams:
  "run (EnsureStream (\<lambda>_ _. Ret (Inr (recording_conn add))) cfg True) w = (None, w @ saga_streams cfg)"
proof -
  have "run (ensure_streams (recording_conn add) ss) w = (None, w @ ss)" for ss w
    by (induction ss arbitrary: w) (auto simp: recording_conn_def run_on_err split: option.split)
  then show ?thesis
    by (simp add: EnsureStream_def bootstrap_Connect_def run_unwrap run_bind run_on_err run_seq)
      (simp add: recording_conn_def)
qed

end
