(* ===== verification/Adapter_Witnesses.thy ===== *)
theory Adapter_Witnesses
  imports Witnesses Postgres_Pool Grpc_Api Nats_Broker Nats_Invariants Kafka_Runtime Kafka_Subscribers
    Event_Claims Stream_Bootstrap
begin

text \<open>
  The theorems of the transport adapters applied to the scenario's environment and to small
  messages and configurations.
\<close>

section \<open>The gRPC methods\<close>

abbreviation calm_server :: "world server" where
  "calm_server \<equiv> saga_server calm NATSConfig_default GRPCConfig_default"

definition code_request :: VerifyEmailRequest where
  "code_request = \<lparr>vq_SessionId = ''s1'', vq_ClientId = ''c1'', vq_Code = ''123456''\<rparr>"

lemma code_request_params: "ToVerifyEmailParams code_request = code_entry"
  by (simp add: ToVerifyEmailParams_def code_request_def code_entry_def)

text \<open>
  A session whose user step is still in progress is not ready, and one in \<open>code_sent\<close> with all five
  steps cannot be verified again.
\<close>

abbreviation user_pending :: world where
  "user_pending \<equiv> seeded SessionStatusInProgress [(StepKeyUserCreateProfile, StepStatusInProgress)]"

lemma user_pending_view: "view_aggregate (view_of ''s1'' (w_db user_pending)) = SessionStatusInProgress"
  by (simp add: view_aggregate_def aggregate_def view_of_def step_at_def step_keys_def start_keys_def verify_keys_def)

lemma code_request_verdicts:
  "verify_verdict (w_db user_pending) code_entry = Refused ErrInvalidStatus"
  "verify_verdict (w_db (seeded SessionStatusCodeSent five_steps)) code_entry = Blocked"
proof -
  have "s_SessionID (kim SessionStatusInProgress) = ''s1''" by simp
  with user_pending_view show "verify_verdict (w_db user_pending) code_entry = Refused ErrInvalidStatus"
    by (simp add: verify_verdict_def guarded_status_def)
  show "verify_verdict (w_db (seeded SessionStatusCodeSent five_steps)) code_entry = Blocked"
    by (simp add: verify_verdict_def guarded_status_def step_at_def)
qed

theorem api_refuses_cleanly_witness:
  "(\<exists>st w'. run (VerifyEmail_rpc calm_server code_request) user_pending = (Inl st, w')
       \<and> gs_code st = FailedPrecondition \<and> v_status (view_of ''s1'' (w_db w')) = Some SessionStatusInProgress)
   \<and> (\<exists>st w'. run (VerifyEmail_rpc calm_server code_request) (seeded SessionStatusCodeSent five_steps) = (Inl st, w')
       \<and> gs_code st = Internal \<and> w_spawned w' = [])"
proof
  have sid: "''s1'' = TrimSpace (vq_SessionId code_request)" using trimmed by (simp add: code_request_def code_entry_def)
  note verdict = api_refuses_cleanly [OF calm_up _ sid, of _ NATSConfig_default GRPCConfig_default,
      unfolded code_request_params]
  have "sound user_pending" by (rule seeded_sound) (simp_all add: step_keys_def start_keys_def step_statuses_def)
  from verdict [OF this] show "\<exists>st w'. run (VerifyEmail_rpc calm_server code_request) user_pending = (Inl st, w')
       \<and> gs_code st = FailedPrecondition \<and> v_status (view_of ''s1'' (w_db w')) = Some SessionStatusInProgress"
    using user_pending_view code_request_verdicts(1)
    by (auto simp: touches_only_def view_reconcile_def view_write_def view_of_def [of _ "w_db user_pending"] split: if_splits)
  have "sound (seeded SessionStatusCodeSent five_steps)" by (rule seeded_sound) (auto simp: step_keys_def start_keys_def verify_keys_def step_statuses_def)
  from verdict [OF this] show "\<exists>st w'. run (VerifyEmail_rpc calm_server code_request) (seeded SessionStatusCodeSent five_steps) = (Inl st, w')
       \<and> gs_code st = Internal \<and> w_spawned w' = []"
    using code_request_verdicts(2) by auto
qed

definition ada_request :: StartRegistrationRequest where
  "ada_request = \<lparr>rq_ClientId = ''c1'', rq_Email = '' a@b'', rq_Username = ''ada'', rq_Password = ''password'',
     rq_FirstName = [], rq_Surname = []\<rparr>"

lemma ada_request_params: "ToStartParams ada_request = ada\<lparr>sp_SessionID := [], sp_UserID := []\<rparr>"
  by (simp add: ToStartParams_def ada_request_def ada_def)

lemma ada_request_trimmed [simp]:
  "TrimSpace (rq_ClientId ada_request) = ''c1''" "TrimSpace (rq_Email ada_request) = ''a@b''"
  "TrimSpace (rq_Username ada_request) = ''ada''" "TrimSpace (rq_Password ada_request) = ''password''"
  by code_simp+

theorem api_start_generates_ids_witness:
  "\<exists>w' r. run (StartRegistration calm_server ada_request) start_world =
       (Inr \<lparr>rp_SessionId = ''e'', rp_ClientId = ''c1'', rp_UserId = ''f'',
             rp_Status = SessionStatusStarted, rp_ConflictState = [], rp_UsernameTaken = False,
             rp_EmailTaken = False\<rparr>, w')
     \<and> db_sessions (w_db w') = [r] \<and> s_Email r = ''a@b''"
proof -
  have letters: "char_of (101 :: nat) = CHR ''e''" "char_of (102 :: nat) = CHR ''f''" by code_simp+
  let ?i = "(start_input (ToStartParams ada_request))\<lparr>si_sessionID := ''e'', si_userID := ''f''\<rparr>"
  have "start_error calm (ToStartParams ada_request) = None"
    by (simp add: start_error_def ada_request_params)
  moreover have "free_to_start calm ?i start_world"
    by (simp add: free_to_start_def start_world_def empty_db_def)
  moreover have "env_uuid calm (w_tick start_world + 4) = ''e''" "env_uuid calm (w_tick start_world + 5) = ''f''"
    using letters by (simp_all add: calm_def start_world_def)
  ultimately show ?thesis
    using api_start_generates_ids [OF calm_up, of ada_request "''e''" start_world "''f''" "''#password''"
        NATSConfig_default GRPCConfig_default]
    by (auto simp: start_world_def empty_db_def)
qed

section \<open>Result payloads\<close>

lemma short_ascii [simp]:
  "valid_utf8 ''s1'' = ''s1''" "valid_utf8 ''c1'' = ''c1''" "valid_utf8 ''u1'' = ''u1''"
  "valid_utf8 ''success'' = ''success''"
  by (rule valid_utf8_ascii, simp)+

theorem result_payloads_round_trip_witness:
  "\<forall>je subject. kafka_user calm_service je subject (render (struct_json
       [(''session_id'', ''s1''), (''user_id'', ''u1''), (''status'', ''success''), (''timestamp'', [])]))
   = HandleUserCreateResult calm_service (user_result_of ''success'')"
proof -
  have "utf8_values (userCreateResult_fields (user_result_of ''success''))"
    "utf8_values (authCreateResult_fields (auth_result_of ''success''))"
    "utf8_values (mailSendResult_fields (mail_result_of ''success''))"
    by (simp_all add: utf8_values_def userCreateResult_fields_def authCreateResult_fields_def
        mailSendResult_fields_def user_result_of_def auth_result_of_def mail_result_of_def optional_def)
  from result_payloads_round_trip [OF this, of calm_service]
  show ?thesis by (simp add: userCreateResult_fields_def user_result_of_def optional_def)
qed

section \<open>The NATS consumer\<close>

definition nats_cfg :: PullConsumerConfig where
  "nats_cfg = user_result_consumer NATSConfig_default"

lemma nats_cfg_valid: "Validate nats_cfg = None"
  by (simp add: nats_cfg_def default_consumers_valid)

lemma nats_cfg_simps [simp]:
  "pc_QueueSize nats_cfg = 500" "pc_Workers nats_cfg = 8" "pc_BatchSize nats_cfg = 32"
  "largest_batch nats_cfg = 32" "pa_Enabled (pc_Adaptive nats_cfg) = False"
  by (simp_all add: nats_cfg_def user_result_consumer_def result_consumer_def NATSConfig_default_def
      PullConsumerConfig_zero_def BuildAdaptiveConfig_def largest_batch_def)

lemma rt_reach_step: "rt_reachable cfg now s \<Longrightarrow> rt_step cfg s t \<Longrightarrow> rt_reachable cfg now t"
  by (simp add: rt_reachable_def)

text \<open>One message fetched, queued, and handled by the first worker, which has not answered yet.\<close>

definition one_handled :: "string consumer" where
  "one_handled = set_worker 0 (Replying ''m1'' None) ((runtime_Start nats_cfg 0)
     \<lparr>rt_fetcher := Checking, rt_jobs := [], rt_log := [Fetched ''m1'', Handled ''m1'' None]\<rparr>)"

lemma one_handled_reachable: "rt_reachable nats_cfg 0 one_handled"
proof -
  let ?s0 = "runtime_Start nats_cfg 0 :: string consumer"
  let ?s1 = "?s0\<lparr>rt_fetcher := Fetching\<rparr>"
  let ?s2 = "?s1\<lparr>rt_fetcher := Dispatching [''m1''], rt_log := [Fetched ''m1'']\<rparr>"
  let ?s3 = "?s2\<lparr>rt_fetcher := Dispatching [], rt_jobs := [''m1'']\<rparr>"
  let ?s4 = "?s3\<lparr>rt_fetcher := Checking\<rparr>"
  let ?s5 = "set_worker 0 (Handling ''m1'') (?s4\<lparr>rt_jobs := []\<rparr>)"
  have workers: "0 < length (rt_workers ?s4)" "rt_workers ?s4 ! 0 = Idle" "0 < length (rt_workers ?s5)"
    "rt_workers ?s5 ! 0 = Handling ''m1''"
    by (simp_all add: runtime_Start_def)
  have "rt_reachable nats_cfg 0 ?s0" by (simp add: rt_reachable_def)
  moreover have "rt_step nats_cfg ?s0 ?s1"
    using fetcher [OF plan [of ?s0 nats_cfg 0 0 "Inr 0"]]
    by (simp add: maybeUpdateAdaptivePlan_def runtime_Start_def)
  ultimately have "rt_reachable nats_cfg 0 ?s1" by (rule rt_reach_step)
  moreover have "rt_step nats_cfg ?s1 ?s2"
    using fetcher [OF fetcher_step.fetched [of ?s1 "[''m1'']" nats_cfg]] by (simp add: runtime_Start_def)
  ultimately have "rt_reachable nats_cfg 0 ?s2" by (rule rt_reach_step)
  moreover have "rt_step nats_cfg ?s2 ?s3"
    using fetcher [OF fetcher_step.send [of ?s2 "''m1''" "[]" nats_cfg]] by (simp add: runtime_Start_def)
  ultimately have "rt_reachable nats_cfg 0 ?s3" by (rule rt_reach_step)
  moreover have "rt_step nats_cfg ?s3 ?s4"
    using fetcher [OF dispatched [of ?s3 nats_cfg]] by simp
  ultimately have "rt_reachable nats_cfg 0 ?s4" by (rule rt_reach_step)
  moreover have "rt_step nats_cfg ?s4 ?s5"
    by (rule rt_step.worker [OF workers(1)]) (use workers(2) take [of ?s4 "''m1''" "[]" 0] in simp)
  ultimately have "rt_reachable nats_cfg 0 ?s5" by (rule rt_reach_step)
  moreover have "rt_step nats_cfg ?s5 (set_worker 0 (Replying ''m1'' None) (log_event (Handled ''m1'' None) ?s5))"
    by (rule rt_step.worker [OF workers(3)]) (use workers(4) handled [of 0 "''m1''" ?s5 None] in simp)
  ultimately have "rt_reachable nats_cfg 0 (set_worker 0 (Replying ''m1'' None) (log_event (Handled ''m1'' None) ?s5))"
    by (rule rt_reach_step)
  then show ?thesis by (simp add: one_handled_def set_worker_def log_event_def runtime_Start_def)
qed

theorem nats_consumer_conserves_witness:
  "events_of got (rt_log one_handled) = total held one_handled \<and> events_of got (rt_log one_handled) = {#''m1''#}"
  using nats_consumer_conserves [OF nats_cfg_valid one_handled_reachable]
  by (simp add: one_handled_def runtime_Start_def set_worker_def)

theorem nats_answers_follow_handler_witness:
  "events_of handled_ok (rt_log one_handled) = {#''m1''#} \<and> total owing_ack one_handled = {#''m1''#}"
  using nats_answers_follow_handler [OF one_handled_reachable]
  by (simp add: one_handled_def runtime_Start_def set_worker_def)

theorem nats_shutdown_terminates_witness:
  "\<exists>t. (rt_step nats_cfg)\<^sup>*\<^sup>* (one_handled\<lparr>rt_cancelled := True\<rparr>) t \<and> stopped t"
proof -
  have "\<not> rt_cancelled one_handled" by (simp add: one_handled_def runtime_Start_def)
  from rt_reach_step [OF one_handled_reachable rt_step.cancel [OF this]]
  have "rt_reachable nats_cfg 0 (one_handled\<lparr>rt_cancelled := True\<rparr>)" .
  from nats_shutdown_terminates [OF nats_cfg_valid this] show ?thesis by simp
qed

section \<open>The Kafka consumer\<close>

definition quiet_codec :: kafka_codec where
  "quiet_codec = \<lparr>kl_Wrap = (\<lambda>subject p. Inr p), kl_Unwrap = Inr,
     kl_eventsNew = (\<lambda>subject p. Inr \<lparr>ev_EventType = subject, ev_Payload = p, ev_AggregateType = [],
       ev_AggregateID = [], ev_SessionID = [], ev_SourceService = [], ev_Operation = [],
       ev_CorrelationID = [], ev_TestRunID = []\<rparr>),
     kl_eventsMarshal = (\<lambda>e. Inr (ev_AggregateID e)), kl_unmarshalError = (\<lambda>p. ExtErr p), kl_Sum256 = (\<lambda>p. p),
     kl_isPermanent = (\<lambda>e. e = ExtErr ''permanent''), kl_typeName = (\<lambda>e. []), kl_MaxAttempts = 3,
     kl_RetryTopic = (\<lambda>g. g @ ''.retry''), kl_MarshalDLQ = (\<lambda>r. Inr (dlq_OriginalValue r))\<rparr>"

definition quiet_kafka :: kafka_env where
  "quiet_kafka = kafka_codec.extend quiet_codec
     \<lparr>ke_now = int, ke_enqueue = (\<lambda>_. None), ke_write = (\<lambda>_. None), ke_commit = (\<lambda>_. None)\<rparr>"

lemma quiet_kafka_simps [simp]:
  "kl_Unwrap quiet_kafka v = Inr v" "kl_isPermanent quiet_kafka e \<longleftrightarrow> e = ExtErr ''permanent''"
  "kl_MaxAttempts quiet_kafka = 3" "kl_MarshalDLQ quiet_kafka r = Inr (dlq_OriginalValue r)"
  by (simp_all add: quiet_kafka_def quiet_codec_def kafka_codec.extend_def)

lemma quiet_kafka_up [simp]: "kafka_up quiet_kafka"
  by (simp add: kafka_up_def) (simp add: quiet_kafka_def kafka_codec.extend_def)

definition quiet_broker :: broker where
  "quiet_broker = \<lparr>br_brokers = [''k1''], br_group = ''g'', br_deadLetter = ''g.dead-letter''\<rparr>"

definition quiet_cfg :: PullConsumerConfig where
  "quiet_cfg = PullConsumerConfig_zero\<lparr>pc_Subject := ''t''\<rparr>"

definition refusing_handler :: "unit kafka_world MessageHandler" where
  "refusing_handler subject p = Ret (Some (ExtErr ''refused''))"

lemma refusing_handler_business [simp]: "own_business refusing_handler"
  by (simp add: own_business_def refusing_handler_def)

lemma refusing_handler_fails [simp]: "always_fails quiet_kafka quiet_cfg refusing_handler v"
  by (simp add: always_fails_def handled_result_def handle_message_def refusing_handler_def)

definition kafka_world0 :: "unit kafka_world" where
  "kafka_world0 = \<lparr>kw_app = (), kw_calls = 0, kw_events = []\<rparr>"

definition header_attempt :: "kafka_message \<Rightarrow> int \<Rightarrow> kafka_message" where
  "header_attempt msg n = msg\<lparr>km_Headers := [(''x-ofm-retry-attempt'',
     if n = 1 then ''1'' else if n = 2 then ''2'' else ''3'')]\<rparr>"

lemma header_attempt_requeues [simp]: "requeues quiet_kafka header_attempt"
proof -
  have "Atoi ''1'' = Some 1" "Atoi ''2'' = Some 2" "Atoi ''3'' = Some 3" by code_simp+
  then show ?thesis by (auto simp: requeues_def header_attempt_def)
qed

definition poison :: kafka_message where
  "poison = \<lparr>km_Key = [], km_Value = ''poison'', km_Headers = [], km_Partition = 0, km_Offset = 0\<rparr>"

theorem kafka_commit_needs_outcome_witness:
  "\<exists>x w' evs. run (process_message (kafka_client quiet_kafka) quiet_broker quiet_cfg refusing_handler poison)
       kafka_world0 = (x, w') \<and> kw_events w' = evs \<and> (\<forall>ok. Committed poison ok \<in> set evs \<longrightarrow>
         (\<exists>payload. evs = [dead_letter_event quiet_broker poison payload True, Committed poison ok]))"
  using kafka_commit_needs_outcome [OF refusing_handler_business, of quiet_kafka quiet_broker quiet_cfg poison kafka_world0]
  by (auto simp: kafka_world0_def handled_result_def handle_message_def refusing_handler_def)

theorem poison_message_dead_lettered_witness:
  "\<exists>w'. deliver 3 header_attempt quiet_kafka quiet_broker quiet_cfg refusing_handler poison kafka_world0
     = (Some (3, None), w')"
proof -
  have "nat (kl_MaxAttempts quiet_kafka - retryAttempt (km_Headers poison)) < 3" by (simp add: poison_def)
  from poison_message_dead_lettered [OF refusing_handler_business quiet_kafka_up header_attempt_requeues
      refusing_handler_fails this, of quiet_broker kafka_world0]
  show ?thesis by (auto simp: poison_def)
qed

text \<open>A cluster whose empty payloads are no envelopes.\<close>

definition strict_kafka :: kafka_env where
  "strict_kafka = quiet_kafka\<lparr>kl_Unwrap := (\<lambda>v. if v = [] then Inl (ExtErr ''empty'') else Inr v)\<rparr>"

theorem fetch_error_hangs_consumer_witness:
  "\<exists>u. consumer_step (kafka_client strict_kafka) quiet_broker quiet_cfg refusing_handler (consumer_start kafka_world0) u
     \<and> (\<exists>v evs. (consumer_step (kafka_client strict_kafka) quiet_broker quiet_cfg refusing_handler)\<^sup>*\<^sup>* u v
          \<and> cr_ctx v = None
          \<and> kw_events (cr_world v) = evs @ replicate 100 (retry_event strict_kafka quiet_broker quiet_cfg zero_message True))"
proof -
  let ?s = "consumer_start kafka_world0"
  have "kafka_up strict_kafka" using quiet_kafka_up by (simp add: kafka_up_def strict_kafka_def)
  note hangs = fetch_error_hangs_consumer [OF this rtranclp.rtrancl_refl, where w = kafka_world0 and err = "ExtErr ''eof''"
      and e = "ExtErr ''empty''" and b = quiet_broker and cfg = quiet_cfg and handler = refusing_handler]
  have "cr_ctx ?s = None" "cr_loop ?s = Reading" by (simp_all add: consumer_start_def)
  from hangs [OF this] obtain u where
    u: "consumer_step (kafka_client strict_kafka) quiet_broker quiet_cfg refusing_handler ?s u" "cr_loop u = Unwinding unwinding (ExtErr ''eof'')"
    and later: "(consumer_step (kafka_client strict_kafka) quiet_broker quiet_cfg refusing_handler)\<^sup>*\<^sup>* u u \<and> cr_ctx u = None \<Longrightarrow>
      kl_Unwrap strict_kafka [] = Inl (ExtErr ''empty'') \<and> \<not> kl_isPermanent strict_kafka (ExtErr ''empty'')
        \<and> 1 < kl_MaxAttempts strict_kafka \<longrightarrow>
      (\<forall>n. \<exists>v evs. (consumer_step (kafka_client strict_kafka) quiet_broker quiet_cfg refusing_handler)\<^sup>*\<^sup>* u v \<and> cr_ctx v = None
         \<and> kw_events (cr_world v) = evs @ replicate n (retry_event strict_kafka quiet_broker quiet_cfg zero_message True))"
    by blast
  have "cr_ctx u = None"
    using u by (auto elim!: consumer_stepE loop_stepE kafka_worker_stepE simp: consumer_start_def)
  moreover have "kl_Unwrap strict_kafka [] = Inl (ExtErr ''empty'') \<and> \<not> kl_isPermanent strict_kafka (ExtErr ''empty'')
        \<and> 1 < kl_MaxAttempts strict_kafka"
    by (simp add: strict_kafka_def)
  ultimately show ?thesis using u(1) later by blast
qed

section \<open>Overtaking\<close>

definition two_busy :: partition where
  "two_busy = (fresh_partition 2)\<lparr>pt_position := 2, pt_busy := [1, 0]\<rparr>"

lemma two_busy_reachable: "pt_reachable 2 two_busy"
proof -
  let ?s0 = "fresh_partition 2"
  let ?h1 = "?s0\<lparr>pt_position := 1, pt_hand := Some 0\<rparr>"
  let ?s1 = "?h1\<lparr>pt_hand := None, pt_jobs := [0]\<rparr>"
  let ?h2 = "?s1\<lparr>pt_position := 2, pt_hand := Some 1\<rparr>"
  let ?s2 = "?h2\<lparr>pt_hand := None, pt_jobs := [0, 1]\<rparr>"
  let ?s3 = "?s2\<lparr>pt_jobs := [1], pt_busy := [0]\<rparr>"
  let ?s4 = "?s3\<lparr>pt_jobs := [], pt_busy := [1, 0]\<rparr>"
  have "pt_step ?s0 ?h1" using fetch [of ?s0] by (simp add: fresh_partition_def)
  moreover have "pt_step ?h1 ?s1" using pt_step.send [of ?h1 0] by (simp add: fresh_partition_def jobs_capacity_def)
  moreover have "pt_step ?s1 ?h2" using fetch [of ?s1] by (simp add: fresh_partition_def numeral_2_eq_2)
  moreover have "pt_step ?h2 ?s2" using pt_step.send [of ?h2 1] by (simp add: fresh_partition_def jobs_capacity_def)
  moreover have "pt_step ?s2 ?s3" using pt_step.receive [of ?s2 0 "[1]"] by (simp add: fresh_partition_def worker_count_def)
  moreover have "pt_step ?s3 ?s4" using pt_step.receive [of ?s3 1 "[]"] by (simp add: worker_count_def)
  moreover have "?s4 = two_busy" by (simp add: two_busy_def fresh_partition_def)
  ultimately show ?thesis
    unfolding pt_reachable_def by (auto intro: converse_rtranclp_into_rtranclp)
qed

theorem overtaken_message_lost_witness:
  "\<exists>t. pt_step\<^sup>*\<^sup>* two_busy t \<and> (\<forall>u. pt_step\<^sup>*\<^sup>* t u \<longrightarrow> 0 \<notin> pt_settled u)"
  using overtaken_message_lost [OF two_busy_reachable, of 0 1]
  by (auto simp: two_busy_def fresh_partition_def)

section \<open>The subscribers\<close>

definition registrations_command :: migration_Envelope where
  "registrations_command = \<lparr>me_EventID = ''e1'', me_CommandID = ''k1'', me_CorrelationID = [], me_CausationID = [],
     me_IdempotencyKey = [], me_TestRunID = [], me_EventType = [], me_Operation = [], me_SchemaVersion = 1,
     me_AggregateType = ''Registration'', me_AggregateID = ''c1'', me_SourceService = [], me_OccurredAt = 0,
     me_Payload = render (struct_json [(''session_id'', ''s1''), (''user_id'', ''u1''), (''email'', ''a@b''),
       (''username'', ''ada''), (''password'', ''password'')])\<rparr>"

definition recovery_test_codec :: recovery_codec where
  "recovery_test_codec = \<lparr>rl_decode = (\<lambda>_. Inr registrations_command), rl_encode = (\<lambda>e. Inr (me_AggregateID e)),
     rl_unmarshalError = ExtErr, rl_Permanent = (\<lambda>e. e), rl_Quote = (\<lambda>s. s),
     rl_fields = [''user_id'', ''session_id'', ''client_id'']\<rparr>"

definition recovered :: StartRegistrationParams where
  "recovered = ada\<lparr>sp_Email := ''a@b''\<rparr>"

lemma recovered_command: "well_formed_command recovery_test_codec raw registrations_command recovered"
proof -
  let ?fs = "[(''session_id'', ''s1''), (''user_id'', ''u1''), (''email'', ''a@b''),
       (''username'', ''ada''), (''password'', ''password'')] :: (string \<times> string) list"
  have "valid_utf8 ''a@b'' = ''a@b''" "valid_utf8 ''ada'' = ''ada''" "valid_utf8 ''password'' = ''password''"
    by (rule valid_utf8_ascii, simp)+
  then have "unmarshal_struct recovery_fields (render (struct_json ?fs)) = Some (read_fields ?fs (\<lambda>_. []))"
    by (intro read_back) (auto simp: recovery_fields_def utf8_values_def)
  moreover have "recovery_params registrations_command (read_fields ?fs (\<lambda>_. [])) = recovered"
    by (simp add: recovery_params_def registrations_command_def recovered_def ada_def)
  moreover have "EqualFold ''Registration'' ''registration''" by code_simp
  ultimately show ?thesis
    by (auto simp: well_formed_command_def recovery_test_codec_def registrations_command_def recovered_def)
qed

lemma recovered_email [simp]: "TrimSpace (sp_Email recovered) = ''a@b''"
  unfolding recovered_def by simp code_simp

lemma recovered_valid: "start_error calm recovered = None"
  by (simp add: start_error_def) (simp add: recovered_def)

lemma recovery_encodes: "rl_encode recovery_test_codec (completed_envelope cmd r t) = Inr (sr_SessionID r)"
  by (simp add: recovery_test_codec_def completed_envelope_def)

theorem recovery_command_outcome_witness:
  "(\<exists>w' session. run (recovery_handle (saga_recovery calm recovery_test_codec)
         (recovery_service calm NATSConfig_default KafkaConfig_default) ''t'' ''k1'') start_world = (None, w')
       \<and> db_sessions (w_db w') = [session] \<and> s_SessionID session = ''s1'' \<and> s_ClientID session = ''c1''
       \<and> length (w_spawned w') = 1)
   \<and> (\<exists>w'. run (recovery_handle (saga_recovery calm recovery_test_codec)
         (recovery_service calm NATSConfig_default KafkaConfig_default) ''t'' ''k1'')
         (seeded SessionStatusCodeSent three_steps) = (None, w')
       \<and> w_db w' = w_db (seeded SessionStatusCodeSent three_steps))"
proof -
  have pub: "env_publish calm i (kc_RecoveryCompletedTopic KafkaConfig_default) b = None" for i b by simp
  have crypt: "env_bcrypt calm j (TrimSpace (sp_Password recovered)) = Inr (''#'' @ ''password'')" for j
    by (simp add: recovered_def)
  note outcome = recovery_command_outcome [OF calm_up recovered_command recovered_valid recovery_encodes pub crypt,
      of _ _ _ NATSConfig_default "''t''" "''k1''" False False]
  have free: "free_to_start calm (start_input recovered) start_world"
    by (simp add: free_to_start_def start_world_def empty_db_def)
  have nobody: "email_holder (w_db start_world) v = None" "username_holder (w_db start_world) v = None" for v
    by (simp_all add: email_holder_def username_holder_def start_world_def empty_db_def)
  have empty: "db_sessions (w_db start_world) = []" "w_spawned start_world = []"
    by (simp_all add: start_world_def empty_db_def)
  have ids: "s_SessionID (new_session (start_input recovered) now) = ''s1''"
    "s_ClientID (new_session (start_input recovered) now) = ''c1''" for now
    by (simp_all add: new_session_def recovered_def)
  from outcome [of False start_world False] free nobody empty have "\<exists>w' session. run (recovery_handle (saga_recovery calm recovery_test_codec)
         (recovery_service calm NATSConfig_default KafkaConfig_default) ''t'' ''k1'') start_world = (None, w')
       \<and> db_sessions (w_db w') = [session] \<and> s_SessionID session = ''s1'' \<and> s_ClientID session = ''c1''
       \<and> length (w_spawned w') = 1"
    using ids by auto
  moreover have "conflict_reported calm recovery_test_codec NATSConfig_default KafkaConfig_default ''t'' ''k1''
      registrations_command (\<lambda>r t. sr_SessionID r) (seeded SessionStatusCodeSent three_steps)
      (conflict_result AvailabilityStateIncomplete True True)"
  proof -
    have "TrimSpace (sp_Username recovered) = ''ada''" by (simp add: recovered_def)
    with outcome [of True "seeded SessionStatusCodeSent three_steps" True] show ?thesis by simp
  qed
  then have "\<exists>w'. run (recovery_handle (saga_recovery calm recovery_test_codec)
         (recovery_service calm NATSConfig_default KafkaConfig_default) ''t'' ''k1'')
         (seeded SessionStatusCodeSent three_steps) = (None, w')
       \<and> w_db w' = w_db (seeded SessionStatusCodeSent three_steps)"
    unfolding conflict_reported_def by blast
  ultimately show ?thesis by blast
qed

section \<open>Events and claims\<close>

theorem registration_events_reach_kafka_witness:
  "\<exists>p w'. ToRegistrationCompletedEventPayload json_Marshal 0 (kim SessionStatusCompleted) = Inr p
     \<and> run (kafka_Publish (kafka_client quiet_kafka) \<lparr>rm_CorrelationID = [], rm_TestRunID = [], rm_OutgoingHeaders = []\<rparr>
         ''migration.registration.completed'' p) kafka_world0 = (None, w')
     \<and> kw_events w' = [Written ''migration.registration.completed'' ''s1'' ''s1'' [] True]"
proof -
  let ?l = "kafka_client quiet_kafka :: unit kafka_world kafka_lib"
  let ?t = "''migration.registration.completed''"
  obtain p where p: "ToRegistrationCompletedEventPayload json_Marshal 0 (kim SessionStatusCompleted) = Inr p"
    by (simp add: ToRegistrationCompletedEventPayload_def)
  have codec: "kl_Wrap ?l ?t p = Inr p" "\<exists>e. kl_eventsNew ?l ?t p = Inr e"
    "kl_eventsMarshal ?l e = Inr (ev_AggregateID e)" "kl_Sum256 ?l v = v" for e v
    by (simp_all add: kafka_client_def quiet_kafka_def quiet_codec_def kafka_codec.extend_def
        kafka_codec.truncate_def)
  then obtain e where e: "kl_eventsNew ?l ?t p = Inr e" by blast
  have "HasPrefix ?t ''migration.registration.''" by (simp add: HasPrefix_def)
  from registration_events_reach_kafka [OF _ this codec(1) e, of 0 undefined "s_SessionID (kim SessionStatusCompleted)"
      "s_UserID (kim SessionStatusCompleted)" "kim SessionStatusCompleted" "[]"] p
  show ?thesis
    by (auto simp: codec migration_envelope_def kafkaHeaders_def kafka_world0_def)
      (simp add: quiet_kafka_def kafka_codec.extend_def)
qed

definition claim_list :: "string list claim_table" where
  "claim_list = \<lparr>ct_Claim = (\<lambda>e c. if e \<in> set c then (Inr False, c) else (Inr True, e # c)),
     ct_Release = (\<lambda>e c. (None, filter (\<lambda>x. x \<noteq> e) c))\<rparr>"

lemma claim_list_keeps: "keeps_claims claim_list set"
  by (auto simp: keeps_claims_def claim_list_def)

text \<open>A handler that counts its runs and succeeds in the second one.\<close>

definition second_time :: "nat MessageHandler" where
  "second_time subject p = call (\<lambda>n. (if n = 1 then None else Some (ExtErr ''not yet''), Suc n))"

theorem deliveries_equal_one_success_witness:
  "(\<exists>rs c'. deliveries 5 (claimed_handler claim_list (\<lambda>s p. p) second_time ''t'' ''m'') (0, []) = (rs, (2, c')))
   \<and> (\<exists>c'. deliveries 5 (claimed_handler claim_list (\<lambda>s p. p) second_time ''t'' ''m'') (0, [''m''])
        = (replicate 5 None, (0, c')))"
proof -
  have "until_success 5 (second_time ''t'' ''m'') 0 = (True, 2)"
    by (simp add: eval_nat_numeral second_time_def)
  then show ?thesis
    using deliveries_equal_one_success [OF claim_list_keeps, of "\<lambda>s p. p" "''t''" "''m''" "[]" 5 second_time 0]
      deliveries_equal_one_success [OF claim_list_keeps, of "\<lambda>s p. p" "''t''" "''m''" "[''m'']" 5 second_time 0]
    by auto
qed

section \<open>The database\<close>

definition spaced_password :: DBConfig where
  "spaced_password = DBConfig_default\<lparr>db_Password := ''a b+c''\<rparr>"

theorem address_read_back_witness:
  "url_credentials (pool_address spaced_password) = Some (''admin'', ''a+b+c'')
   \<and> url_database (migrations_address spaced_password) = Some ''registration_saga''
   \<and> query_value ''x-migrations-table'' (migrations_address spaced_password)
       = Some ''schema_migrations_registration_saga''"
  using address_read_back [of spaced_password "pool_address spaced_password"]
    address_read_back [of spaced_password "migrations_address spaced_password"]
  by (simp add: plain_host_def spaced_password_def DBConfig_default_def plus_for_space_def)

end
