(* ===== verification/Config_Load.thy ===== *)
theory Config_Load
  imports Domain Config
begin

text \<open>
  The root configuration (config/config.go, tracing.go, error.go). The environment parser is
  another module: what it answers, the structs filled from the environment or an error, is an
  argument of \<open>Load\<close>, and so is \<open>os.Getenv\<close>. The sampling ratio is a \<open>float64\<close> the service only
  copies; its representation is the type parameter.
\<close>

record 'f TracingConfig =
  trc_Enabled :: bool
  trc_Endpoint :: string
  trc_Protocol :: string
  trc_SampleRatio :: 'f
  trc_ServiceVersion :: string

definition TracingConfig_default :: "'f::one TracingConfig" where
  "TracingConfig_default = \<lparr>
     trc_Enabled = True,
     trc_Endpoint = ''http://127.0.0.1:9099'',
     trc_Protocol = ''http/protobuf'',
     trc_SampleRatio = 1,
     trc_ServiceVersion = ''dev''\<rparr>"

record 'f Config =
  cf_App :: AppConfig
  cf_GRPC :: GRPCConfig
  cf_Metrics :: MetricsConfig
  cf_Tracing :: "'f TracingConfig"
  cf_NATS :: NATSConfig
  cf_Kafka :: KafkaConfig
  cf_DB :: DBConfig
  cf_AuthService :: AuthServiceConfig
  cf_UserService :: UserServiceConfig

text \<open>An environment in which no variable is set.\<close>

definition Config_default :: "'f::one Config" where
  "Config_default = \<lparr>
     cf_App = AppConfig_default, cf_GRPC = GRPCConfig_default, cf_Metrics = MetricsConfig_default,
     cf_Tracing = TracingConfig_default, cf_NATS = NATSConfig_default, cf_Kafka = KafkaConfig_default,
     cf_DB = DBConfig_default, cf_AuthService = AuthServiceConfig_default,
     cf_UserService = UserServiceConfig_default\<rparr>"

definition WrapParseEnvConfigError :: "error \<Rightarrow> error" where
  "WrapParseEnvConfigError err = Wrapped ''parse env config: '' err"

text \<open>\<open>DB_HOST\<close>, when set, overrides the host of the database.\<close>

definition Load :: "error + 'f Config \<Rightarrow> (string \<Rightarrow> string) \<Rightarrow> error + 'f Config" where
  "Load parsed getenv =
     (case parsed of
        Inl err \<Rightarrow> Inl (WrapParseEnvConfigError err)
      | Inr cfg \<Rightarrow>
          (let host = getenv ''DB_HOST'' in
           Inr (if host \<noteq> [] then cfg\<lparr>cf_DB := (cf_DB cfg)\<lparr>db_Host := host\<rparr>\<rparr> else cfg)))"

lemma Load_host:
  "Load (Inr cfg) getenv = Inr cfg' \<Longrightarrow>
     db_Host (cf_DB cfg') = (if getenv ''DB_HOST'' = [] then db_Host (cf_DB cfg) else getenv ''DB_HOST'')
     \<and> cf_DB cfg' = (cf_DB cfg)\<lparr>db_Host := db_Host (cf_DB cfg')\<rparr> \<and> cf_Kafka cfg' = cf_Kafka cfg"
  by (auto simp: Load_def Let_def)

end
