(* ===== verification/Process_Wiring.thy ===== *)
theory Process_Wiring
  imports Config_Load Postgres_Pool Kafka_Wiring Kafka_Subscribers Grpc_Api
begin

text \<open>
  The process around the service (internal/fx, the connections of internal/presentation/grpc): the
  outbound clients, the listener, the life-cycle hooks that start and stop the consumers and the
  server, and the metrics and tracing settings. The life cycle itself, the gRPC library, the
  metrics and the tracing modules are not part of the repository: a hook is the pair of programs
  the code registers, and what it calls of a library is an argument.
\<close>

section \<open>Outbound clients\<close>

record 'c grpc_client =
  gcl_conn :: "'c option"

definition NewAuthClient ::
  "(string \<Rightarrow> ('w, error + 'c) prog) \<Rightarrow> string \<Rightarrow> ('w, error + 'c grpc_client) prog" where
  "NewAuthClient new_client address =
     unwrap (new_client address) (\<lambda>err. Ret (Inl err)) (\<lambda>conn. Ret (Inr \<lparr>gcl_conn = Some conn\<rparr>))"

definition NewUserClient ::
  "(string \<Rightarrow> ('w, error + 'c) prog) \<Rightarrow> string \<Rightarrow> ('w, error + 'c grpc_client) prog" where
  "NewUserClient new_client address =
     unwrap (new_client address) (\<lambda>err. Ret (Inl err)) (\<lambda>conn. Ret (Inr \<lparr>gcl_conn = Some conn\<rparr>))"

definition authClient_Close ::
  "('c \<Rightarrow> ('w, error option) prog) \<Rightarrow> 'c grpc_client option \<Rightarrow> ('w, error option) prog" where
  "authClient_Close close_conn c =
     (case c of
        None \<Rightarrow> Ret None
      | Some cl \<Rightarrow> (case gcl_conn cl of None \<Rightarrow> Ret None | Some conn \<Rightarrow> close_conn conn))"

definition userClient_Close ::
  "('c \<Rightarrow> ('w, error option) prog) \<Rightarrow> 'c grpc_client option \<Rightarrow> ('w, error option) prog" where
  "userClient_Close close_conn c =
     (case c of
        None \<Rightarrow> Ret None
      | Some cl \<Rightarrow> (case gcl_conn cl of None \<Rightarrow> Ret None | Some conn \<Rightarrow> close_conn conn))"

section \<open>The listener\<close>

text \<open>\<open>keep\<close> stores the listener in the server, where \<open>Shutdown\<close> finds it.\<close>

definition server_Start ::
  "(string \<Rightarrow> string \<Rightarrow> ('w, error + 'l) prog) \<Rightarrow> ('l \<Rightarrow> ('w, unit) prog) \<Rightarrow> ('l \<Rightarrow> ('w, error option) prog)
   \<Rightarrow> GRPCConfig \<Rightarrow> ('w, error option) prog" where
  "server_Start listen keep serve_on cfg =
     unwrap (listen ''tcp'' (grpc_Host cfg @ '':'' @ itoa (grpc_Port cfg))) (\<lambda>err. Ret (Some err)) (\<lambda>lis.
     seq (keep lis) (serve_on lis))"

definition server_Shutdown ::
  "('w, unit) prog option \<Rightarrow> ('l \<Rightarrow> ('w, error option) prog) \<Rightarrow> 'l option \<Rightarrow> ('w, error option) prog" where
  "server_Shutdown graceful_stop close_listener listener =
     seq (case graceful_stop of Some p \<Rightarrow> p | None \<Rightarrow> Ret ())
     (case listener of Some lis \<Rightarrow> close_listener lis | None \<Rightarrow> Ret None)"

section \<open>Hooks\<close>

record 'w hook =
  hk_OnStart :: "('w, error option) prog"
  hk_OnStop :: "('w, error option) prog"

text \<open>
  The context of a consumer: \<open>cx_new\<close> makes one and stores its \<open>cancel\<close>, \<open>cx_cancel\<close> calls the
  stored one and does nothing when there is none, \<open>cx_done\<close> is \<open>ctx.Err() != nil\<close>, \<open>cx_wait d\<close> waits
  for \<open>d\<close> and says whether the context ended the wait. \<open>cx_go\<close> starts a goroutine.
\<close>

record 'w run_context =
  cx_new :: "('w, unit) prog"
  cx_cancel :: "('w, unit) prog"
  cx_done :: "('w, bool) prog"
  cx_wait :: "int \<Rightarrow> ('w, bool) prog"
  cx_go :: "('w, unit option) prog \<Rightarrow> ('w, unit) prog"

text \<open>
  The loop around the recovery consumer; \<open>None\<close> is still running after that many rounds. A
  consumer that ends without an error is started again at once.
\<close>

fun recovery_loop ::
  "nat \<Rightarrow> 'w run_context \<Rightarrow> ('w, error option) prog \<Rightarrow> ('w, unit option) prog" where
  "recovery_loop 0 c subscribe = Ret None"
| "recovery_loop (Suc fuel) c subscribe =
     bind (cx_done c) (\<lambda>over. if over then Ret (Some ()) else
     on_err subscribe
       (\<lambda>err. bind (cx_done c) (\<lambda>over. if over then recovery_loop fuel c subscribe else
          bind (cx_wait c second) (\<lambda>over. if over then Ret (Some ()) else
          recovery_loop fuel c subscribe)))
       (recovery_loop fuel c subscribe))"

definition InvokeSubscribeRecovery ::
  "nat \<Rightarrow> 'w run_context \<Rightarrow> ('w, error option) prog \<Rightarrow> 'w hook" where
  "InvokeSubscribeRecovery fuel c subscribe =
     \<lparr>hk_OnStart = seq (cx_new c) (seq (cx_go c (recovery_loop fuel c subscribe)) (Ret None)),
      hk_OnStop = seq (cx_cancel c) (Ret None)\<rparr>"

definition InvokeSubscribeResults :: "'w run_context \<Rightarrow> ('w, error option) prog \<Rightarrow> 'w hook" where
  "InvokeSubscribeResults c subscribe =
     \<lparr>hk_OnStart = seq (cx_new c)
        (on_err subscribe (\<lambda>err. seq (cx_cancel c) (Ret (Some err))) (Ret None)),
      hk_OnStop = seq (cx_cancel c) (Ret None)\<rparr>"

text \<open>\<open>serve\<close> runs the server; its error is a panic of the goroutine, hence of the process.\<close>

definition InvokeRunGRPCServer ::
  "(('w, error option) prog \<Rightarrow> ('w, unit) prog) \<Rightarrow> ('w, error option) prog \<Rightarrow> ('w, error option) prog
   \<Rightarrow> 'w hook" where
  "InvokeRunGRPCServer go_or_panic start shutdown =
     \<lparr>hk_OnStart = seq (go_or_panic start) (Ret None), hk_OnStop = shutdown\<rparr>"

text \<open>The two clients, each with the hook that closes it.\<close>

definition ProvideAuthAvailabilityChecker ::
  "(string \<Rightarrow> ('w, error + 'c) prog) \<Rightarrow> ('c \<Rightarrow> ('w, error option) prog) \<Rightarrow> 'f Config
   \<Rightarrow> ('w, error + 'c grpc_client \<times> 'w hook) prog" where
  "ProvideAuthAvailabilityChecker new_client close_conn cfg =
     unwrap (NewAuthClient new_client (asvc_Address (cf_AuthService cfg))) (\<lambda>err. Ret (Inl err)) (\<lambda>client.
     Ret (Inr (client, \<lparr>hk_OnStart = Ret None, hk_OnStop = authClient_Close close_conn (Some client)\<rparr>)))"

definition ProvideUserAvailabilityChecker ::
  "(string \<Rightarrow> ('w, error + 'c) prog) \<Rightarrow> ('c \<Rightarrow> ('w, error option) prog) \<Rightarrow> 'f Config
   \<Rightarrow> ('w, error + 'c grpc_client \<times> 'w hook) prog" where
  "ProvideUserAvailabilityChecker new_client close_conn cfg =
     unwrap (NewUserClient new_client (usvc_Address (cf_UserService cfg))) (\<lambda>err. Ret (Inl err)) (\<lambda>client.
     Ret (Inr (client, \<lparr>hk_OnStart = Ret None, hk_OnStop = userClient_Close close_conn (Some client)\<rparr>)))"

text \<open>The subscribers and the server get their part of the configuration.\<close>

definition ProvideResultSubscriber ::
  "bool \<Rightarrow> 'w registrationService option \<Rightarrow> 'f Config \<Rightarrow> bool \<Rightarrow> error + 'w kafka_subscriber" where
  "ProvideResultSubscriber b svc cfg lg = kafka_NewResultSubscriber b svc (cf_Kafka cfg) lg"

definition ProvideRecoverySubscriber ::
  "bool \<Rightarrow> 'w registrationService option \<Rightarrow> 'f Config \<Rightarrow> bool \<Rightarrow> error + 'w kafka_subscriber" where
  "ProvideRecoverySubscriber b svc cfg lg = kafka_NewRecoverySubscriber b svc (cf_Kafka cfg) lg"

section \<open>Metrics and tracing\<close>

datatype meter = NoopMeter | Meter string string

definition ProvideMetrics :: "(meter \<Rightarrow> ('w, unit) prog) \<Rightarrow> 'f Config \<Rightarrow> ('w, meter) prog" where
  "ProvideMetrics set_global cfg =
     (let m = (if \<not> met_Enabled (cf_Metrics cfg) then NoopMeter
               else Meter ''registration-saga-service'' (app_Env (cf_App cfg)))
      in seq (set_global m) (Ret m))"

text \<open>The fields of the tracing module's configuration that the code sets.\<close>

record 'f tracing_settings =
  ts_Enabled :: bool
  ts_Endpoint :: string
  ts_Protocol :: string
  ts_SampleRatio :: 'f
  ts_ServiceVersion :: string

definition ProvideTracingConfig ::
  "(string \<Rightarrow> string \<Rightarrow> ('f, 'm) tracing_settings_scheme) \<Rightarrow> 'f Config \<Rightarrow> ('f, 'm) tracing_settings_scheme" where
  "ProvideTracingConfig DefaultConfig cfg =
     (DefaultConfig ''registration-saga-service'' (app_Env (cf_App cfg)))
     \<lparr>ts_Enabled := trc_Enabled (cf_Tracing cfg), ts_Endpoint := trc_Endpoint (cf_Tracing cfg),
      ts_Protocol := trc_Protocol (cf_Tracing cfg), ts_SampleRatio := trc_SampleRatio (cf_Tracing cfg),
      ts_ServiceVersion := trc_ServiceVersion (cf_Tracing cfg)\<rparr>"

text \<open>Installing: without a configuration nothing, an error is logged only, else the provider is set
  and shut down at the end.\<close>

definition InvokeInstallTracing ::
  "('t \<Rightarrow> ('w, error + 'p) prog) \<Rightarrow> ('p \<Rightarrow> ('w, unit) prog) \<Rightarrow> ('p \<Rightarrow> ('w, error option) prog)
   \<Rightarrow> 't option \<Rightarrow> ('w, 'w hook option) prog" where
  "InvokeInstallTracing NewTracerProvider SetGlobal shutdown cfg =
     (case cfg of
        None \<Rightarrow> Ret None
      | Some c \<Rightarrow>
          unwrap (NewTracerProvider c) (\<lambda>err. Ret None) (\<lambda>tp.
          seq (SetGlobal tp) (Ret (Some \<lparr>hk_OnStart = Ret None, hk_OnStop = shutdown tp\<rparr>))))"

definition InvokeRunMetricsServer ::
  "'w run_context \<Rightarrow> (MetricsConfig \<Rightarrow> ('w, error option) prog) \<Rightarrow> 'f Config \<Rightarrow> 'w hook" where
  "InvokeRunMetricsServer c StartServer cfg =
     \<lparr>hk_OnStart = seq (cx_new c)
        (seq (cx_go c (bind (StartServer (cf_Metrics cfg)) (\<lambda>_. Ret (Some ())))) (Ret None)),
      hk_OnStop = seq (cx_cancel c) (Ret None)\<rparr>"

section \<open>The service that is built\<close>

text \<open>
  With the repositories over a pool, a broker and the two clients, the wiring builds the service the
  theorems on the registration are about, with the subjects of the Kafka configuration.
\<close>

lemma wiring_builds_service:
  assumes "NewSessionRepository True True env = Inr sessions"
    and "NewStepRepository True True env = Inr steps"
  shows "ProvideRegistrationService (Some sessions) (Some steps) (Some (saga_broker env))
     (Some (auth_client env)) (Some (user_client env)) kafka True (saga_runtime env)
     = Inr (saga_service env (legacyCfg kafka))"
  using assms
  by (auto simp: NewSessionRepository_def NewStepRepository_def ProvideRegistrationService_def New_def
      saga_service_def saga_broker_def)

text \<open>The recovery loop leaves only when the context has ended.\<close>

lemma recovery_loop_goes_on:
  assumes "\<And>w. fst (run (cx_done c) w) = False" and "\<And>d w. fst (run (cx_wait c d) w) = False"
  shows "fst (run (recovery_loop fuel c subscribe) w) = None"
proof (induction fuel arbitrary: w)
  case (Suc fuel)
  have "run (cx_done c) w = (False, snd (run (cx_done c) w))" "run (cx_wait c d) w = (False, snd (run (cx_wait c d) w))"
    for d w using assms by (metis prod.collapse)+
  with Suc show ?case
    by (auto simp: run_bind run_on_err split: prod.split option.split)
      (metis assms fst_conv)+
qed simp

end
