(* ===== verification/Spec2Isabelle.thy ===== *)
theory Spec2Isabelle
  imports Adapter_Witnesses Event_Claims Stream_Bootstrap Process_Wiring
begin

text \<open>
  The registration saga service, modelled and verified.

  \<^bold>\<open>The program.\<close> A client starts a registration over gRPC (internal/presentation/grpc). The
  application service (internal/application) stores a session and five steps in PostgreSQL
  (internal/infra/postgres; row triggers copy every change to an outbox table) and starts a
  goroutine that publishes one command for the user service and one for the auth service. Their
  results, and that of the mail service, come back through message consumers
  (internal/presentation/event_broker) to three handlers, which record the step, recompute the
  session's status, announce \<open>registration.code_sent\<close> when the three steps are done, and compensate
  when one failed. The client then sends the e-mail code; another goroutine asks the auth service
  to check it, asks both services to activate the user and completes the session. The status query
  answers \<open>completed\<close> once, and on that answer the API layer issues tokens. The running service
  uses the Kafka adapter, behind a guard that claims each event (internal/fx/messaging.go); the NATS
  adapter and the JetStream bootstrap are in the repository but nothing in internal/fx wires them.

  \<^bold>\<open>How code becomes definitions.\<close> A function that reaches outside is a value of \<open>('w, 'a) prog\<close>
  (\<open>Effects\<close>): a tree of atomic actions on a world \<open>'w\<close>, so that one definition is both executed
  (\<open>run\<close>) and interleaved with others (\<open>Interleaving\<close>). A Go result \<open>(T, error)\<close> is a sum with the
  error on the left; every early return is a branch. An interface value is a record of programs, a
  struct a record with the source's field names, a Go string the list of its bytes. Constants keep
  the source's names; a name that several packages use carries a prefix (\<open>sessions_Create\<close>,
  \<open>kafka_Publish\<close>), and a method of a struct takes the struct first.

  \<^bold>\<open>Theories and sources.\<close>
    \<^item> \<open>Saga_Prelude\<close>, \<open>Effects\<close>: shared lemmas; programs, \<open>run\<close> and the predicate \<open>safe\<close>.
    \<^item> \<open>Go_Strings\<close>, \<open>Go_Time\<close>, \<open>Go_Json\<close>, \<open>Go_Json_Parse\<close>, \<open>Go_Json_Decode\<close>, \<open>Go_Url\<close>: what the code
      uses of \<open>strings\<close>, \<open>strconv\<close>, \<open>time\<close>, \<open>encoding/json\<close> and \<open>net/url\<close>.
    \<^item> \<open>Config\<close>, \<open>Config_Load\<close> (config/*.go), \<open>Domain\<close> (internal/domain, application/error.go), \<open>Messages\<close>
      (application/type.go and mapper.go), \<open>Service_Types\<close> (the interfaces, \<open>New\<close>).
    \<^item> \<open>Saga_Service\<close> (application/service.go, start.go, start_dispatch.go, realtime.go) and
      \<open>Email_Verification\<close> (application/verify_email.go).
    \<^item> \<open>Saga_World\<close> (the tables, the recorded calls, auth_client.go and user_client.go),
      \<open>Postgres_Repository\<close> and \<open>Outbox\<close> (infra/postgres/repository.go and the migrations).
    \<^item> \<open>Grpc_Api\<close> (grpc/mapper.go, server.go, error.go).
    \<^item> \<open>Nats_Config\<close>, \<open>Nats_Runtime\<close>, \<open>Nats_Invariants\<close>, \<open>Nats_Broker\<close> (event_broker/nats),
      \<open>Result_Delivery\<close> (the result subscribers of both adapters).
    \<^item> \<open>Kafka_Broker\<close>, \<open>Kafka_Delivery\<close>, \<open>Kafka_Consumer\<close>, \<open>Kafka_Runtime\<close>, \<open>Kafka_Subscribers\<close>
      (event_broker/kafka),
      \<open>Kafka_Wiring\<close> and \<open>Event_Claims\<close> (internal/fx/messaging.go, service.go).
    \<^item> \<open>Stream_Bootstrap\<close> (pkg/messaging/nats), \<open>Postgres_Pool\<close> (pkg/storage/postgres, fx/storage.go),
      \<open>Process_Wiring\<close> (fx/presentation.go, metrics.go, tracing.go, the constructors of the gRPC
      clients, the listener); \<open>wiring_builds_service\<close> shows that the wiring builds the service the
      theorems are about.

  \<^bold>\<open>The running system.\<close> \<open>Interleaving\<close> has the process as a step relation \<open>sys_step\<close>: a request of
  any kind arrives, a thread does one action, a started goroutine is picked up, the process
  crashes. The environment (\<open>environment\<close>) decides, call by call, what a library, another service or
  the network answers, failures included; the world counts its calls so that two equal calls may be
  answered differently. \<open>decide\<close> and \<open>schedule\<close> are its executable scheduler.

  \<^bold>\<open>Lemma groups.\<close>
    \<^item> \<open>Service_Contract\<close>, \<open>Table_Relations\<close>, \<open>Invariants\<close>: locales ask of each dependency that it
      moves the world along a relation and prove every use case does; they are interpreted for each
      relation on the tables (keys and unique indexes, domain constants, a completed step stays,
      rows only grow), which gives the invariants of all reachable states.
    \<^item> \<open>Credit\<close>, \<open>Accounting\<close>, \<open>At_Most_Once\<close>: counting over interleavings. A thread holds a credit
      for what it may still do; a balance over tables, threads and trace bounds completions,
      claims and notifications per session.
    \<^item> \<open>Knowledge\<close>, \<open>Causality\<close>, \<open>Entitlement\<close>, \<open>Ownership\<close>: what a thread knows of the past and nobody
      can take away, up to: a completed session's user had its code accepted, and every step belongs
      to a stored session.
    \<^item> \<open>Saga_View\<close>, \<open>Result_Handling\<close>: a session seen as its status and step statuses, abstract
      operations on it, and the handlers as refinements of them; orders and failures of results. \<open>Reconciliation\<close>
      compares the two ways to compute a status and shows what a late result does.
    \<^item> \<open>Start_Flow\<close>, \<open>Verification_Flow\<close>: each use case branch by branch; \<open>Registration_Run\<close> chains them
      into a whole registration.
    \<^item> \<open>Step_Systems\<close>: contracts for step relations (invariant; measure), interpreted for the pull
      consumer of NATS (\<open>consumer\<close>, \<open>order\<close>, \<open>shutdown\<close>), a Kafka partition (\<open>partition\<close>) and a
      running Kafka consumer (\<open>runtime\<close>): its deferred calls, the closed channel and both contexts, and
      why it hangs after a failed fetch.
    \<^item> \<open>Scenario\<close>, \<open>Witnesses\<close>, \<open>Adapter_Witnesses\<close>: a concrete environment and registration, failing
      variants of them, small messages and configurations, on which the theorems are applied.

  \<^bold>\<open>Bounds and fuel.\<close> \<open>json_parse\<close> gives its parser \<open>2 n + 2\<close> units for \<open>n\<close> bytes, and
  \<open>parse_value_enough\<close> shows that it never runs out. \<open>deliver\<close> counts deliveries of one message; more
  fuel than the retry budget left is enough. \<open>consumer_loop\<close> and \<open>recovery_loop\<close>
  are loops without an exit of their own: their argument is the number of rounds watched, and their
  theorems hold for every number. The Kafka consumer is a step relation and needs no fuel. A cancelled pull consumer stops within
  \<open>4 q + 3 w + 5 b + 4\<close> steps, for a queue of \<open>q\<close> messages, \<open>w\<close> workers and a batch \<open>b\<close>.

  \<^bold>\<open>Parameters.\<close> Fields of \<open>environment\<close>: \<open>net/mail.ParseAddress\<close>, bcrypt, UUID generation, the frame
  of a realtime notification, \<open>jsonMarshal\<close> (a package variable), the answers of other services.
  Arguments of the adapters: kafka-go and ofm-common (\<open>kafka_codec\<close>, \<open>kafka_lib\<close>), the NATS client
  (\<open>nats_conn\<close>, \<open>stream_conn\<close>), the driver and the migration runner (\<open>pool_lib\<close>, \<open>migrate_lib\<close>), the
  environment parser (an argument of \<open>Load\<close>), the claim store (\<open>event_store\<close>), the recovery envelope
  (\<open>recovery_codec\<close>) and the \<open>%q\<close> verb. Generated protobuf messages are records of the fields the
  code reads or fills.

  \<^bold>\<open>Reading the model.\<close> A statement or transaction of the database is atomic, \<open>ReconcileStatus\<close> (under an
  advisory lock and a row lock) included; one that reports an error has not been applied.
  \<open>time.Sleep\<close> is no action. A crash loses threads, goroutines not yet started and the map of
  notified sessions, and keeps the tables. In the NATS runtime the handler's outcome is the
  environment's choice and \<open>Fetch(n)\<close> returns at most \<open>n\<close> messages. Committing a Kafka message sets
  the group's position to the offset after it; in \<open>Kafka_Consumer\<close> every end of the loop is the one rule
  \<open>restart\<close>, in \<open>Kafka_Runtime\<close> the ends are the code's. The step rows \<open>ReconcileStatus\<close> reads are
  not locked by the code and the isolation level is the default one, so a step written between its
  statements could be missed; the model does not show that. An entry of the outbox is the event's
  name with its row; its place in the list stands for the order of the events.

  \<^bold>\<open>Not modelled.\<close> Logging, tracing and the adapters' metrics; contexts, except that a call may fail
  and a consumer may be cancelled (the frame of a realtime notification does not see its context);
  the columns of the outbox besides event and row (ids, versions, time) and the table
  \<open>processed_events\<close>, which belongs to the claim store; the methods of the \<open>EventBroker\<close> interface
  the application does not call; the panic of \<open>uuid.Must\<close> and the nesting limit of
  \<open>encoding/json\<close>; the lists of fx modules, their one-line forwarders, \<open>main\<close> and the logger
  set-up, which have no logic of their own; the life cycle that calls the hooks, and the order in
  which the dependency-injection library builds the components; tests.
\<close>

end
